(* ===== verification/Prelude.thy ===== *)
theory Prelude
  imports Main "HOL-Library.Char_ord" "HOL-Library.List_Lexorder" "HOL-Library.Product_Lexorder"
begin

text \<open>
  Shared vocabulary of the development: byte strings, results with an error side, sequencing
  of fallible operations over a state that survives the error (as a Go method that has already
  written to the database when a later call fails), rows of keyed tables with the effect of the
  SQL statements the store issues, and runs of operation lists with the invariants they keep.
\<close>

section \<open>Types and collections of facts\<close>

type_synonym bytes = string
type_synonym ('e, 'a, 's) outcome = "('e + 'a) \<times> 's"

named_theorems row_simps \<open>effect of row operations on lookups and keys\<close>
named_theorems state_eqs \<open>the state an operation leaves, as a record update\<close>
named_theorems wf_intros \<open>operations that keep the keys of the database unique\<close>

section \<open>Sequencing fallible operations\<close>

text \<open>
  \<open>and_then r k\<close> is the Go idiom \<^verbatim>\<open>x, err := f(); if err != nil { return err }; ...\<close>: the
  continuation runs only when the first operation returned a value, and the state reached by the
  first operation is kept in both cases.
\<close>

definition and_then :: "('e, 'a, 's) outcome \<Rightarrow> ('a \<Rightarrow> 's \<Rightarrow> ('e, 'b, 's) outcome) \<Rightarrow> ('e, 'b, 's) outcome" where
  "and_then r k = (case r of (Inl e, s) \<Rightarrow> (Inl e, s) | (Inr x, s) \<Rightarrow> k x s)"

lemma and_then_Inr [simp]: "and_then (Inr x, s) k = k x s"
  by (simp add: and_then_def)

lemma and_then_Inl [simp]: "and_then (Inl e, s) k = (Inl e, s)"
  by (simp add: and_then_def)

lemma and_then_returns:
  "and_then r k = (Inr y, t) \<longleftrightarrow> (\<exists>x s. r = (Inr x, s) \<and> k x s = (Inr y, t))"
  by (auto simp: and_then_def split: prod.splits sum.splits)

lemma and_then_snd:
  "snd (and_then r k) = (case fst r of Inl e \<Rightarrow> snd r | Inr x \<Rightarrow> snd (k x (snd r)))"
  by (auto simp: and_then_def split: prod.splits sum.splits)

lemma and_then_state_inv:
  assumes "P (snd r)" and "\<And>x s. P s \<Longrightarrow> P (snd (k x s))"
  shows "P (snd (and_then r k))"
  using assms by (cases r; cases "fst r") (auto simp: and_then_def)

definition ok :: "'e + 'a \<Rightarrow> bool" where
  "ok r = (case r of Inl _ \<Rightarrow> False | Inr _ \<Rightarrow> True)"

lemma ok_simps [simp]: "ok (Inr x)" "\<not> ok (Inl e)"
  by (simp_all add: ok_def)

lemma ok_iff: "ok r \<longleftrightarrow> (\<exists>x. r = Inr x)"
  by (cases r) auto

section \<open>Rows of keyed tables\<close>

text \<open>
  A table is the list of its rows in insertion (rowid) order. \<open>key\<close> is the primary key.
\<close>

definition unique_key :: "('r \<Rightarrow> 'k) \<Rightarrow> 'r list \<Rightarrow> bool" where
  "unique_key key rows = distinct (map key rows)"

definition insert_row :: "('r \<Rightarrow> 'k) \<Rightarrow> 'r \<Rightarrow> 'r list \<Rightarrow> 'r list option" where
  \<comment> \<open>INSERT: fails on a primary key conflict\<close>
  "insert_row key r rows = (if key r \<in> set (map key rows) then None else Some (rows @ [r]))"

definition insert_ignore :: "('r \<Rightarrow> 'k) \<Rightarrow> 'r \<Rightarrow> 'r list \<Rightarrow> 'r list \<times> nat" where
  \<comment> \<open>INSERT OR IGNORE, with the number of affected rows\<close>
  "insert_ignore key r rows =
     (if key r \<in> set (map key rows) then (rows, 0) else (rows @ [r], 1))"

definition update_rows :: "('r \<Rightarrow> bool) \<Rightarrow> ('r \<Rightarrow> 'r) \<Rightarrow> 'r list \<Rightarrow> 'r list \<times> nat" where
  \<comment> \<open>UPDATE ... WHERE, with the number of affected rows\<close>
  "update_rows P f rows = (map (\<lambda>r. if P r then f r else r) rows, length (filter P rows))"

definition delete_rows :: "('r \<Rightarrow> bool) \<Rightarrow> 'r list \<Rightarrow> 'r list" where
  \<comment> \<open>DELETE ... WHERE\<close>
  "delete_rows P rows = filter (\<lambda>r. \<not> P r) rows"

definition upsert_row ::
  "('r \<Rightarrow> 'k) \<Rightarrow> ('r \<Rightarrow> 'r \<Rightarrow> bool) \<Rightarrow> ('r \<Rightarrow> 'r \<Rightarrow> 'r) \<Rightarrow> 'r \<Rightarrow> 'r list \<Rightarrow> 'r list \<times> nat" where
  \<comment> \<open>INSERT ... ON CONFLICT(key) DO UPDATE SET merge WHERE guard\<close>
  "upsert_row key guard merge r rows =
     (if key r \<in> set (map key rows)
      then update_rows (\<lambda>old. key old = key r \<and> guard old r) (\<lambda>old. merge old r) rows
      else (rows @ [r], 1))"

definition by_key :: "('r \<Rightarrow> 'k) \<Rightarrow> 'k \<Rightarrow> 'r list \<Rightarrow> 'r option" where
  \<comment> \<open>SELECT ... WHERE key = ?\<close>
  "by_key key k rows = find (\<lambda>r. key r = k) rows"

lemma by_key_Nil [simp]: "by_key key k [] = None"
  by (simp add: by_key_def)

lemma by_key_Cons [simp]:
  "by_key key k (r # rows) = (if key r = k then Some r else by_key key k rows)"
  by (simp add: by_key_def)

lemma by_key_append [row_simps]:
  "by_key key k (xs @ ys) = (case by_key key k xs of None \<Rightarrow> by_key key k ys | Some r \<Rightarrow> Some r)"
  by (induction xs) auto

lemma by_key_None_iff: "by_key key k rows = None \<longleftrightarrow> k \<notin> set (map key rows)"
  by (induction rows) auto

lemma by_key_SomeD: "by_key key k rows = Some r \<Longrightarrow> r \<in> set rows \<and> key r = k"
  by (induction rows) (auto split: if_splits)

lemma by_key_Some_in: "by_key key k rows = Some r \<Longrightarrow> k \<in> set (map key rows)"
  by (induction rows) (auto split: if_splits)

lemma by_key_unique:
  "unique_key key rows \<Longrightarrow> r \<in> set rows \<Longrightarrow> by_key key (key r) rows = Some r"
  by (induction rows) (auto simp: unique_key_def rev_image_eqI)

lemma by_key_update:
  assumes "\<And>r. key (f r) = key r"
  shows "by_key key k (fst (update_rows P f rows)) =
    map_option (\<lambda>r. if P r then f r else r) (by_key key k rows)"
  using assms by (induction rows) (auto simp: update_rows_def)

lemma set_update_rows: "set (fst (update_rows P f rows)) = (\<lambda>r. if P r then f r else r) ` set rows"
  by (simp add: update_rows_def)

lemma in_update_rows:
  "r \<in> set (fst (update_rows P f rows)) \<Longrightarrow> \<exists>q\<in>set rows. r = (if P q then f q else q)"
  by (auto simp: update_rows_def)

lemma unique_key_Nil [simp]: "unique_key key []"
  by (simp add: unique_key_def)

lemma unique_key_insert_row:
  "unique_key key rows \<Longrightarrow> insert_row key r rows = Some rows' \<Longrightarrow> unique_key key rows'"
  by (auto simp: unique_key_def insert_row_def split: if_splits)

lemma unique_key_insert_ignore:
  "unique_key key rows \<Longrightarrow> unique_key key (fst (insert_ignore key r rows))"
  by (auto simp: unique_key_def insert_ignore_def)

lemma map_key_update_rows:
  assumes "\<And>r. key (f r) = key r"
  shows "map key (fst (update_rows P f rows)) = map key rows"
  using assms by (auto simp: update_rows_def)

lemma unique_key_update_rows:
  assumes "\<And>r. key (f r) = key r" and "unique_key key rows"
  shows "unique_key key (fst (update_rows P f rows))"
  using assms by (simp add: unique_key_def map_key_update_rows)

lemma unique_key_delete_rows: "unique_key key rows \<Longrightarrow> unique_key key (delete_rows P rows)"
  by (simp add: unique_key_def delete_rows_def distinct_map_filter)

lemma update_count_by_key:
  assumes "unique_key key rows"
  shows "length (filter (\<lambda>r. key r = k \<and> P r) rows) =
    (case by_key key k rows of None \<Rightarrow> 0 | Some r \<Rightarrow> if P r then 1 else 0)"
proof -
  have absent: "filter (\<lambda>r. key r = j \<and> P r) xs = [] \<and> by_key key j xs = None"
    if "j \<notin> key ` set xs" for j xs
    using that by (induction xs) auto
  show ?thesis
    using assms by (induction rows) (auto simp: unique_key_def absent)
qed

lemma update_count_pos_iff: "length (filter P rows) = 0 \<longleftrightarrow> (\<forall>r\<in>set rows. \<not> P r)"
  by (auto simp: filter_empty_conv)

lemma insert_row_Some_iff:
  "insert_row key r rows = Some rows' \<longleftrightarrow> by_key key (key r) rows = None \<and> rows' = rows @ [r]"
  by (auto simp: insert_row_def by_key_None_iff)

lemma insert_row_None_iff: "insert_row key r rows = None \<longleftrightarrow> by_key key (key r) rows \<noteq> None"
  by (auto simp: insert_row_def by_key_None_iff)

lemma insert_ignore_eq:
  "insert_ignore key r rows =
     (case by_key key (key r) rows of None \<Rightarrow> (rows @ [r], 1) | Some _ \<Rightarrow> (rows, 0))"
proof (cases "by_key key (key r) rows")
  case None
  then have "key r \<notin> set (map key rows)" by (rule iffD1[OF by_key_None_iff])
  with None show ?thesis by (simp add: insert_ignore_def)
next
  case (Some q)
  then have "key r \<in> set (map key rows)" by (rule by_key_Some_in)
  with Some show ?thesis by (simp add: insert_ignore_def)
qed

lemma upsert_row_eq:
  assumes "unique_key key rows"
  shows "upsert_row key guard merge r rows =
    (case by_key key (key r) rows of
       None \<Rightarrow> (rows @ [r], 1)
     | Some old \<Rightarrow> (map (\<lambda>q. if key q = key r \<and> guard q r then merge q r else q) rows,
                   if guard old r then 1 else 0))"
proof (cases "by_key key (key r) rows")
  case None
  then have "key r \<notin> set (map key rows)" by (rule iffD1[OF by_key_None_iff])
  with None show ?thesis by (simp add: upsert_row_def)
next
  case (Some old)
  then have "key r \<in> set (map key rows)" by (rule by_key_Some_in)
  with Some show ?thesis
    using update_count_by_key[OF assms, of "key r" "\<lambda>q. guard q r"]
    by (simp add: upsert_row_def update_rows_def)
qed

lemma by_key_upsert:
  assumes "unique_key key rows" and "\<And>old. key (merge old r) = key old"
  shows "by_key key k (fst (upsert_row key guard merge r rows)) =
    (if k = key r
     then (case by_key key k rows of None \<Rightarrow> Some r
           | Some old \<Rightarrow> Some (if guard old r then merge old r else old))
     else by_key key k rows)"
proof (cases "by_key key (key r) rows")
  case None
  then show ?thesis
    using assms(1) by (auto simp: upsert_row_eq by_key_append split: option.splits)
next
  case (Some old)
  have "by_key key k (map (\<lambda>q. if key q = key r \<and> guard q r then merge q r else q) rows) =
    map_option (\<lambda>q. if key q = key r \<and> guard q r then merge q r else q) (by_key key k rows)"
    using by_key_update[where P="\<lambda>q. key q = key r \<and> guard q r" and f="\<lambda>q. merge q r"
        and key=key and k=k and rows=rows] assms(2)
    by (simp add: update_rows_def)
  then show ?thesis
    using assms(1) Some by_key_SomeD[of key k rows]
    by (cases "by_key key k rows") (auto simp: upsert_row_eq)
qed

lemma unique_key_upsert_row:
  assumes "\<And>old. key (merge old r) = key old" and "unique_key key rows"
  shows "unique_key key (fst (upsert_row key guard merge r rows))"
proof (cases "key r \<in> set (map key rows)")
  case True
  then show ?thesis
    using assms unique_key_update_rows[where f="\<lambda>old. merge old r"]
    by (auto simp: upsert_row_def)
next
  case False
  with assms(2) show ?thesis by (auto simp: upsert_row_def unique_key_def)
qed

lemmas by_key_rules = by_key_SomeD by_key_unique by_key_update by_key_upsert

section \<open>Tables that only grow\<close>

text \<open>
  Every row stays, under its key, and moves along the relation \<open>R\<close>.
\<close>

definition keeps :: "('r \<Rightarrow> 'k) \<Rightarrow> ('r \<Rightarrow> 'r \<Rightarrow> bool) \<Rightarrow> 'r list \<Rightarrow> 'r list \<Rightarrow> bool" where
  "keeps key R rows rows' =
     (\<forall>k r. by_key key k rows = Some r \<longrightarrow> (\<exists>r'. by_key key k rows' = Some r' \<and> R r r'))"

lemma keepsD: "keeps key R rows rows' \<Longrightarrow> by_key key k rows = Some r \<Longrightarrow>
    \<exists>r'. by_key key k rows' = Some r' \<and> R r r'"
  by (simp add: keeps_def)

lemma keeps_refl: "(\<And>r. R r r) \<Longrightarrow> keeps key R rows rows"
  by (simp add: keeps_def)

lemma keeps_trans:
  assumes "keeps key R xs ys" and "keeps key R ys zs" and "\<And>a b c. R a b \<Longrightarrow> R b c \<Longrightarrow> R a c"
  shows "keeps key R xs zs"
  using assms unfolding keeps_def by meson

lemma keeps_append: "(\<And>r. R r r) \<Longrightarrow> keeps key R rows (rows @ xs)"
  by (auto simp: keeps_def by_key_append)

lemma keeps_update:
  assumes "\<And>r. key (f r) = key r" and "\<And>r. R r r" and "\<And>r. Q r \<Longrightarrow> R r (f r)"
  shows "keeps key R rows (fst (update_rows Q f rows))"
  using assms by (auto simp: keeps_def by_key_update)

lemma keeps_insert_ignore: "(\<And>r. R r r) \<Longrightarrow> keeps key R rows (fst (insert_ignore key x rows))"
  by (auto simp: insert_ignore_def intro: keeps_append keeps_refl)

lemma keeps_insert_row:
  "insert_row key x rows = Some rows' \<Longrightarrow> (\<And>r. R r r) \<Longrightarrow> keeps key R rows rows'"
  by (auto simp: insert_row_def intro: keeps_append split: if_splits)

lemma keeps_upsert:
  assumes "\<And>old. key (merge old x) = key old" and "\<And>r. R r r" and "\<And>r. guard r x \<Longrightarrow> R r (merge r x)"
  shows "keeps key R rows (fst (upsert_row key guard merge x rows))"
  using assms by (auto simp: upsert_row_def intro: keeps_append keeps_update)

lemmas keeps_intros = keeps_refl keeps_append keeps_update keeps_insert_ignore keeps_insert_row keeps_upsert

section \<open>Runs of operations\<close>

fun run :: "('o \<Rightarrow> 's \<Rightarrow> 's) \<Rightarrow> 'o list \<Rightarrow> 's \<Rightarrow> 's" where
  "run step [] s = s"
| "run step (x # xs) s = run step xs (step x s)"

lemma run_append: "run step (xs @ ys) s = run step ys (run step xs s)"
  by (induction xs arbitrary: s) auto

text \<open>
  The contract of a family of operations that keeps an invariant, and what follows for every
  sequence of them. \<open>now\<close>-dependence is part of the operation.
\<close>

locale invariant_steps =
  fixes step :: "'o \<Rightarrow> 's \<Rightarrow> 's"
    and inv :: "'s \<Rightarrow> bool"
  assumes inv_step: "inv s \<Longrightarrow> inv (step x s)"
begin

lemma inv_run: "inv s \<Longrightarrow> inv (run step xs s)"
  by (induction xs arbitrary: s) (auto intro: inv_step)

end

text \<open>
  Operations under which an observation only ever moves along a preorder (a message that is
  delivered stays delivered, a consumed invite stays consumed).
\<close>

locale monotone_steps = invariant_steps +
  fixes ord :: "'b \<Rightarrow> 's \<Rightarrow> 's \<Rightarrow> bool"
  assumes ord_refl: "ord b s s"
    and ord_trans: "ord b s t \<Longrightarrow> ord b t u \<Longrightarrow> ord b s u"
    and ord_step: "inv s \<Longrightarrow> ord b s (step x s)"
begin

lemma ord_run: "inv s \<Longrightarrow> ord b s (run step xs s)"
proof (induction xs arbitrary: s)
  case Nil
  show ?case by (simp add: ord_refl)
next
  case (Cons x xs)
  have "ord b s (step x s)" using Cons.prems by (rule ord_step)
  moreover have "ord b (step x s) (run step xs (step x s))"
    by (rule Cons.IH) (rule inv_step[OF Cons.prems])
  ultimately show ?case by (simp add: ord_trans)
qed

end

end
