(* ===== verification/GoBase.thy ===== *)
theory GoBase
  imports Prelude
begin

text \<open>
  The part of Go and its standard library that the components share: instants and durations
  (\<open>time\<close>), trimming (\<open>strings\<close>), and the text encodings of bytes (\<open>encoding/hex\<close>,
  \<open>encoding/base64\<close>, \<open>encoding/base32\<close>). A Go string and a Go byte slice are both a list of bytes;
  \<open>char\<close> is a byte. An instant is the number of nanoseconds since the Unix epoch.
\<close>

section \<open>Time\<close>

type_synonym gotime = int
type_synonym duration = int

definition Nanosecond :: duration where "Nanosecond = 1"
definition Millisecond :: duration where "Millisecond = 1000000"
definition Second :: duration where "Second = 1000000000"
definition Minute :: duration where "Minute = 60000000000"
definition Hour :: duration where "Hour = 3600000000000"

lemmas duration_defs = Nanosecond_def Millisecond_def Second_def Minute_def Hour_def

text \<open>The zero value of \<open>time.Time\<close>: January 1, year 1, 00:00:00 UTC.\<close>

definition zero_time :: gotime where "zero_time = - 62135596800000000000"

definition IsZero :: "gotime \<Rightarrow> bool" where "IsZero t = (t = zero_time)"

definition millis :: "gotime \<Rightarrow> int" where
  "millis t = t div 1000000"

definition fromMillis :: "int \<Rightarrow> gotime" where
  "fromMillis m = m * 1000000"

text \<open>What a time column gives back: the instant cut to the millisecond below it.\<close>

definition trunc_ms :: "gotime \<Rightarrow> gotime" where
  "trunc_ms t = fromMillis (millis t)"

definition Unix :: "gotime \<Rightarrow> int" where "Unix t = t div 1000000000"

definition fromUnix :: "int \<Rightarrow> gotime" where "fromUnix s = s * 1000000000"

lemma millis_fromMillis [simp]: "millis (fromMillis m) = m"
  by (simp add: millis_def fromMillis_def)

lemma trunc_ms_idem [simp]: "trunc_ms (trunc_ms t) = trunc_ms t"
  by (simp add: trunc_ms_def)

lemma millis_trunc_ms [simp]: "millis (trunc_ms t) = millis t"
  by (simp add: trunc_ms_def)

lemma trunc_ms_bounds: "trunc_ms t \<le> t" "t < trunc_ms t + 1000000"
proof -
  have "t = 1000000 * (t div 1000000) + t mod 1000000" "0 \<le> t mod 1000000" "t mod 1000000 < 1000000"
    by simp_all
  then show "trunc_ms t \<le> t" "t < trunc_ms t + 1000000"
    unfolding trunc_ms_def fromMillis_def millis_def by linarith+
qed

lemma millis_mono: "s \<le> t \<Longrightarrow> millis s \<le> millis t"
  by (simp add: millis_def zdiv_mono1)

lemma millis_le_trunc_iff: "millis t \<le> millis s \<longleftrightarrow> trunc_ms t \<le> s"
proof -
  have "s = 1000000 * (s div 1000000) + s mod 1000000" "0 \<le> s mod 1000000" "s mod 1000000 < 1000000"
    by simp_all
  then show ?thesis
    unfolding trunc_ms_def fromMillis_def millis_def by linarith
qed

text \<open>The readings of the clock during one operation: \<open>clk i\<close> is the value of its i-th reading.\<close>

type_synonym clock = "nat \<Rightarrow> gotime"

section \<open>Trimming\<close>

text \<open>The UTF-8 encodings of the code points that \<open>unicode.IsSpace\<close> accepts.\<close>

definition space_seqs :: "string list" where
  "space_seqs =
     [[CHR 0x09], [CHR 0x0A], [CHR 0x0B], [CHR 0x0C], [CHR 0x0D], [CHR 0x20],
      [CHR 0xC2, CHR 0x85], [CHR 0xC2, CHR 0xA0], [CHR 0xE1, CHR 0x9A, CHR 0x80],
      [CHR 0xE2, CHR 0x80, CHR 0x80], [CHR 0xE2, CHR 0x80, CHR 0x81], [CHR 0xE2, CHR 0x80, CHR 0x82],
      [CHR 0xE2, CHR 0x80, CHR 0x83], [CHR 0xE2, CHR 0x80, CHR 0x84], [CHR 0xE2, CHR 0x80, CHR 0x85],
      [CHR 0xE2, CHR 0x80, CHR 0x86], [CHR 0xE2, CHR 0x80, CHR 0x87], [CHR 0xE2, CHR 0x80, CHR 0x88],
      [CHR 0xE2, CHR 0x80, CHR 0x89], [CHR 0xE2, CHR 0x80, CHR 0x8A], [CHR 0xE2, CHR 0x80, CHR 0xA8],
      [CHR 0xE2, CHR 0x80, CHR 0xA9], [CHR 0xE2, CHR 0x80, CHR 0xAF], [CHR 0xE2, CHR 0x81, CHR 0x9F],
      [CHR 0xE3, CHR 0x80, CHR 0x80]]"

fun strip_one :: "string list \<Rightarrow> string \<Rightarrow> string option" where
  "strip_one [] s = None"
| "strip_one (p # ps) s =
     (if p \<noteq> [] \<and> take (length p) s = p then Some (drop (length p) s) else strip_one ps s)"

lemma strip_one_shorter: "strip_one ps s = Some t \<Longrightarrow> length t < length s"
proof (induction ps)
  case (Cons p ps)
  show ?case
  proof (cases "p \<noteq> [] \<and> take (length p) s = p")
    case True
    then have "length p \<le> length s" by (metis length_take min.absorb_iff2 min.commute)
    moreover have "0 < length p" using True by simp
    moreover have "t = drop (length p) s" using Cons.prems True by auto
    ultimately show ?thesis by (simp only: length_drop)
  next
    case False
    with Cons show ?thesis by auto
  qed
qed simp

function trim_left :: "string list \<Rightarrow> string \<Rightarrow> string" where
  "trim_left ps s = (case strip_one ps s of None \<Rightarrow> s | Some t \<Rightarrow> trim_left ps t)"
  by pat_completeness auto
termination
  by (relation "measure (\<lambda>(ps, s). length s)") (auto dest: strip_one_shorter)

declare trim_left.simps [simp del]

definition TrimSpace :: "string \<Rightarrow> string" where
  "TrimSpace s = rev (trim_left (map rev space_seqs) (rev (trim_left space_seqs s)))"

lemma trim_left_Nil [simp]: "trim_left ps [] = []"
proof -
  have "strip_one ps [] = None" by (induction ps) auto
  then show ?thesis by (simp add: trim_left.simps)
qed

lemma TrimSpace_Nil [simp]: "TrimSpace [] = []"
  by (simp add: TrimSpace_def)

section \<open>Text encodings of bytes\<close>

definition byte :: "char \<Rightarrow> nat" where "byte c = of_char c"

definition unbyte :: "nat \<Rightarrow> char" where "unbyte n = char_of n"

lemma unbyte_byte [simp]: "unbyte (byte c) = c"
  by (simp add: unbyte_def byte_def)

lemma byte_less [simp]: "byte c < 256"
  by (simp add: byte_def)

lemma byte_unbyte: "n < 256 \<Longrightarrow> byte (unbyte n) = n"
  by (simp add: unbyte_def byte_def)

fun index_of :: "char \<Rightarrow> string \<Rightarrow> nat option" where
  "index_of c [] = None"
| "index_of c (x # xs) = (if c = x then Some 0 else map_option Suc (index_of c xs))"

lemma index_of_nth: "distinct xs \<Longrightarrow> n < length xs \<Longrightarrow> index_of (xs ! n) xs = Some n"
proof (induction xs arbitrary: n)
  case (Cons x xs)
  then show ?case by (cases n) auto
qed simp

subsection \<open>Hexadecimal\<close>

definition hex_digits :: string where "hex_digits = ''0123456789abcdef''"

definition hex_EncodeToString :: "bytes \<Rightarrow> string" where
  "hex_EncodeToString bs =
     concat (map (\<lambda>c. [hex_digits ! (byte c div 16), hex_digits ! (byte c mod 16)]) bs)"

definition hex_value :: "char \<Rightarrow> nat option" where
  "hex_value c = (case index_of c hex_digits of Some n \<Rightarrow> Some n
     | None \<Rightarrow> (case index_of c ''ABCDEF'' of Some n \<Rightarrow> Some (n + 10) | None \<Rightarrow> None))"

fun hex_DecodeString :: "string \<Rightarrow> bytes option" where
  "hex_DecodeString [] = Some []"
| "hex_DecodeString [c] = None"
| "hex_DecodeString (a # b # cs) =
     (case (hex_value a, hex_value b, hex_DecodeString cs) of
        (Some h, Some l, Some r) \<Rightarrow> Some (unbyte (16 * h + l) # r) | _ \<Rightarrow> None)"

lemma hex_value_digit: "n < 16 \<Longrightarrow> hex_value (hex_digits ! n) = Some n"
proof -
  assume "n < 16"
  moreover have "distinct hex_digits" "length hex_digits = 16" by (simp_all add: hex_digits_def)
  ultimately show ?thesis by (simp add: hex_value_def index_of_nth)
qed

lemma length_hex: "length (hex_EncodeToString bs) = 2 * length bs"
  by (induction bs) (auto simp: hex_EncodeToString_def)

lemma hex_roundtrip: "hex_DecodeString (hex_EncodeToString bs) = Some bs"
proof (induction bs)
  case Nil
  show ?case by (simp add: hex_EncodeToString_def)
next
  case (Cons c bs)
  have "byte c div 16 < 16" using byte_less[of c] by (simp add: less_mult_imp_div_less)
  then show ?case
    using Cons by (simp add: hex_EncodeToString_def hex_value_digit)
qed

lemma hex_inject: "hex_EncodeToString x = hex_EncodeToString y \<Longrightarrow> x = y"
  by (metis hex_roundtrip option.inject)

subsection \<open>Base64\<close>

definition b64_url :: string where
  "b64_url = ''ABCDEFGHIJKLMNOPQRSTUVWXYZabcdefghijklmnopqrstuvwxyz0123456789-_''"

definition b64_std :: string where
  "b64_std = ''ABCDEFGHIJKLMNOPQRSTUVWXYZabcdefghijklmnopqrstuvwxyz0123456789+/''"

fun sextets :: "nat list \<Rightarrow> nat list" where
  "sextets [] = []"
| "sextets [a] = [a div 4, (a mod 4) * 16]"
| "sextets [a, b] = [a div 4, (a mod 4) * 16 + b div 16, (b mod 16) * 4]"
| "sextets (a # b # c # xs) =
     [a div 4, (a mod 4) * 16 + b div 16, (b mod 16) * 4 + c div 64, c mod 64] @ sextets xs"

text \<open>Decoding is not strict: the spare low bits of the last digit are ignored.\<close>

fun unsextets :: "nat list \<Rightarrow> nat list option" where
  "unsextets [] = Some []"
| "unsextets [p] = None"
| "unsextets [p, q] = Some [p * 4 + q div 16]"
| "unsextets [p, q, r] = Some [p * 4 + q div 16, (q mod 16) * 16 + r div 4]"
| "unsextets (p # q # r # t # xs) =
     (case unsextets xs of None \<Rightarrow> None
      | Some ys \<Rightarrow> Some ([p * 4 + q div 16, (q mod 16) * 16 + r div 4, (r mod 4) * 64 + t] @ ys))"

fun all_some :: "'a option list \<Rightarrow> 'a list option" where
  "all_some [] = Some []"
| "all_some (x # xs) =
     (case x of None \<Rightarrow> None
      | Some a \<Rightarrow> (case all_some xs of None \<Rightarrow> None | Some as \<Rightarrow> Some (a # as)))"

definition b64_raw_encode :: "string \<Rightarrow> bytes \<Rightarrow> string" where
  "b64_raw_encode alphabet bs = map (\<lambda>n. alphabet ! n) (sextets (map byte bs))"

definition b64_raw_decode :: "string \<Rightarrow> string \<Rightarrow> bytes option" where
  \<comment> \<open>the decoder skips carriage returns and newlines\<close>
  "b64_raw_decode alphabet s =
     (case all_some (map (\<lambda>c. index_of c alphabet) (filter (\<lambda>c. c \<noteq> CHR 0x0D \<and> c \<noteq> CHR 0x0A) s)) of
        None \<Rightarrow> None
      | Some ns \<Rightarrow> (case unsextets ns of None \<Rightarrow> None | Some bs \<Rightarrow> Some (map unbyte bs)))"

definition RawURL_EncodeToString :: "bytes \<Rightarrow> string" where
  "RawURL_EncodeToString = b64_raw_encode b64_url"

definition RawURL_DecodeString :: "string \<Rightarrow> bytes option" where
  "RawURL_DecodeString = b64_raw_decode b64_url"

definition Std_EncodeToString :: "bytes \<Rightarrow> string" where
  "Std_EncodeToString bs =
     (let s = b64_raw_encode b64_std bs in s @ replicate ((3 - length bs mod 3) mod 3) (CHR ''=''))"

lemma sextets_less: "\<forall>n\<in>set ns. n < 256 \<Longrightarrow> m \<in> set (sextets ns) \<Longrightarrow> m < 64"
proof (induction ns rule: sextets.induct)
  case (4 a b c xs)
  then have "a div 4 < 64" "(a mod 4) * 16 + b div 16 < 64" "(b mod 16) * 4 + c div 64 < 64"
    by auto
  with 4 show ?case by auto
qed auto

lemma unsextets_sextets: "\<forall>n\<in>set ns. n < 256 \<Longrightarrow> unsextets (sextets ns) = Some ns"
proof (induction ns rule: sextets.induct)
  case (3 a b)
  have "a div 4 * 4 + (a mod 4 * 16 + b div 16) div 16 = a" using 3 by auto
  moreover have "(a mod 4 * 16 + b div 16) mod 16 * 16 + b mod 16 * 4 div 4 = b" using 3 by auto
  ultimately show ?case by simp
next
  case (4 a b c xs)
  have "a div 4 * 4 + (a mod 4 * 16 + b div 16) div 16 = a"
    "(a mod 4 * 16 + b div 16) mod 16 * 16 + (b mod 16 * 4 + c div 64) div 4 = b"
    "(b mod 16 * 4 + c div 64) mod 4 * 64 + c mod 64 = c"
    using 4 by auto
  with 4 show ?case by simp
qed auto

lemma all_some_index:
  "distinct al \<Longrightarrow> \<forall>n\<in>set ns. n < length al \<Longrightarrow>
     all_some (map (\<lambda>c. index_of c al) (map (\<lambda>n. al ! n) ns)) = Some ns"
  by (induction ns) (auto simp: index_of_nth)

lemma b64_raw_roundtrip:
  assumes "distinct al" and "length al = 64" and "CHR 0x0D \<notin> set al" and "CHR 0x0A \<notin> set al"
  shows "b64_raw_decode al (b64_raw_encode al bs) = Some bs"
proof -
  let ?ns = "sextets (map byte bs)"
  have lt: "\<forall>n\<in>set (map byte bs). n < 256" by simp
  then have small: "\<forall>n\<in>set ?ns. n < length al" using assms(2) sextets_less[OF lt] by auto
  have "filter (\<lambda>c. c \<noteq> CHR 0x0D \<and> c \<noteq> CHR 0x0A) (map (\<lambda>n. al ! n) ?ns) = map (\<lambda>n. al ! n) ?ns"
    using assms(3,4) small by (auto simp: filter_id_conv) (metis nth_mem)+
  moreover have "all_some (map (\<lambda>c. index_of c al) (map (\<lambda>n. al ! n) ?ns)) = Some ?ns"
    using assms(1) small by (rule all_some_index)
  ultimately show ?thesis
    by (simp only: b64_raw_decode_def b64_raw_encode_def unsextets_sextets[OF lt] option.case)
      (simp add: map_idI)
qed

lemma RawURL_roundtrip: "RawURL_DecodeString (RawURL_EncodeToString bs) = Some bs"
  unfolding RawURL_DecodeString_def RawURL_EncodeToString_def
  by (rule b64_raw_roundtrip) (simp_all add: b64_url_def)

lemma RawURL_inject: "RawURL_EncodeToString x = RawURL_EncodeToString y \<Longrightarrow> x = y"
  by (metis RawURL_roundtrip option.inject)

subsection \<open>Base32 without padding, lower case\<close>

definition b32_lower :: string where "b32_lower = ''abcdefghijklmnopqrstuvwxyz234567''"

fun quintets :: "nat list \<Rightarrow> nat list" where
  "quintets (a # b # c # d # e # xs) =
     [a div 8, (a mod 8) * 4 + b div 64, (b div 2) mod 32, (b mod 2) * 16 + c div 16,
      (c mod 16) * 2 + d div 128, (d div 4) mod 32, (d mod 4) * 8 + e div 32, e mod 32] @ quintets xs"
| "quintets [] = []"
| "quintets [a] = [a div 8, (a mod 8) * 4]"
| "quintets [a, b] = [a div 8, (a mod 8) * 4 + b div 64, (b div 2) mod 32, (b mod 2) * 16]"
| "quintets [a, b, c] =
     [a div 8, (a mod 8) * 4 + b div 64, (b div 2) mod 32, (b mod 2) * 16 + c div 16, (c mod 16) * 2]"
| "quintets [a, b, c, d] =
     [a div 8, (a mod 8) * 4 + b div 64, (b div 2) mod 32, (b mod 2) * 16 + c div 16,
      (c mod 16) * 2 + d div 128, (d div 4) mod 32, (d mod 4) * 8]"

definition base32_lower_nopad :: "bytes \<Rightarrow> string" where
  "base32_lower_nopad bs = map (\<lambda>n. b32_lower ! n) (quintets (map byte bs))"

end
