(* ===== verification/Model.thy ===== *)
theory Model
  imports GoBase
begin

text \<open>
  The data model of \<^verbatim>\<open>internal/model/types.go\<close>: one record per struct, one constructor per named
  state. Field names carry a prefix of the struct they belong to, since several structs share the
  same field name. A pointer field that may be nil is an option. The second part lists the sentinel
  errors of all packages; an error that wraps a sentinel (\<^verbatim>\<open>fmt.Errorf("...: %w", ErrX)\<close>) is that
  sentinel, since callers only ask \<^verbatim>\<open>errors.Is\<close>, and an error without a sentinel is its text.
\<close>

section \<open>Structs\<close>

datatype ContactState =
    ContactStateUnknown
  | ContactStatePendingOutbound
  | ContactStatePendingInbound
  | ContactStateAwaitingConfirmation
  | ContactStateActive
  | ContactStateRevoked
  | ContactStateBlocked

record AgentRegistration =
  arAgentID :: string
  arDisplayName :: string
  arLocalEndpoint :: string
  arAgentCardJSON :: bytes
  arIdentityPublicKey :: bytes
  arCapabilityPublicKey :: bytes
  arCapabilityGeneration :: int
  arRegistrationTokenHash :: bytes
  arCreatedAt :: gotime
  arUpdatedAt :: gotime

record Contact =
  cLocalAgentID :: string
  cRemoteAgentID :: string
  cRemoteNodeID :: string
  cRemoteEndpoint :: string
  cRemoteBinding :: string
  cRemoteHostFingerprint :: string
  cRemoteAgentFingerprint :: string
  cState :: ContactState
  cCreatedAt :: gotime
  cUpdatedAt :: gotime

record PairingRequest =
  prID :: string
  prLocalAgentID :: string
  prRemoteAgentID :: string
  prRemoteHostFingerprint :: string
  prRemoteAgentFingerprint :: string
  prSecretHash :: bytes
  prExpiresAt :: gotime
  prConsumedAt :: "gotime option"
  prCreatedAt :: gotime

record PairingSession =
  psInviteID :: string
  psLocalAgentID :: string
  psRemoteAgentID :: string
  psRole :: string
  psLocalHostFingerprint :: string
  psRemoteHostFingerprint :: string
  psRemoteAgentPublicKey :: bytes
  psInviteDigest :: string
  psAcceptanceDigest :: string
  psConfirmationDigest :: string
  psExpiresAt :: gotime
  psCreatedAt :: gotime
  psUpdatedAt :: gotime

record SignedEnvelope =
  seAgentID :: string
  seKeyFingerprint :: string
  seKind :: string
  sePayload :: bytes
  seIssuedAt :: int
  seNonce :: string
  seSignature :: bytes

datatype OutboxState = OutboxStatePending | OutboxStateDelivered | OutboxStateCancelled

record OutboxMessage =
  omMessageID :: string
  omIdempotencyKey :: string
  omSourceAgentID :: string
  omTargetAgentID :: string
  omContextID :: string
  omPayload :: bytes
  omState :: OutboxState
  omAttemptCount :: int
  omNextAttemptAt :: gotime
  omCreatedAt :: gotime
  omUpdatedAt :: gotime

record DeduplicationRecord =
  ddSourceAgentID :: string
  ddTargetAgentID :: string
  ddAgentKeyEpoch :: int
  ddMessageID :: string
  ddTaskID :: string
  ddResponseStatus :: int
  ddResponseType :: string
  ddResponseBody :: bytes
  ddCreatedAt :: gotime

record DeliveryReceipt =
  drMessageID :: string
  drTargetAgentID :: string
  drRemoteReceiptID :: string
  drDeliveredAt :: gotime

record AttachmentGrant =
  agGrantID :: string
  agBlobID :: string
  agBlobURI :: string
  agOwnerAgentID :: string
  agTargetAgentID :: string
  agContextID :: string
  agDigest :: string
  agSize :: int
  agExpiresAt :: gotime
  agRevokedAt :: "gotime option"
  agCreatedAt :: gotime
  agUpdatedAt :: gotime

record InboxMessage =
  imMessageID :: string
  imTargetAgentID :: string
  imSourceAgentID :: string
  imContextID :: string
  imBody :: string
  imState :: string
  imReceivedAt :: gotime

record TaskIndex =
  tiTaskID :: string
  tiContextID :: string
  tiLocalAgentID :: string
  tiRemoteAgentID :: string
  tiState :: string
  tiCursor :: string
  tiUpdatedAt :: gotime

record AuditEntry =
  aeID :: string
  aeActorAgentID :: string
  aeRemoteAgentID :: string
  aeAction :: string
  aeOutcome :: string
  aeRequestID :: string
  aeCreatedAt :: gotime

section \<open>Errors\<close>

datatype go_error =
  \<comment> \<open>internal/store\<close>
    ErrNotFound
  | ErrInvalidState
  | ErrIdentityConflict
  | ErrGrantDenied
  | ErrGrantExpired
  | ErrGrantRevoked
  | ErrConstraint \<comment> \<open>a primary key or UNIQUE violation reported by the database\<close>
  \<comment> \<open>internal/secure\<close>
  | ErrKeyLength
  | ErrCiphertext
  \<comment> \<open>internal/identity\<close>
  | ErrAgentIDMismatch
  | ErrKeyMismatch
  | ErrInvalidSignature
  | ErrMarshal \<comment> \<open>an error of json.Marshal\<close>
  \<comment> \<open>internal/pairing\<close>
  | ErrInviteConsumed
  | ErrInviteExpired
  | ErrInvalidSecret
  | ErrIdentityMismatch
  | ErrInvalidTransition
  | ErrContactBlocked
  | ErrInvalidEnvelope
  | ErrInvalidPublicKey
  \<comment> \<open>internal/admission\<close>
  | ErrContactNotActive
  | ErrHostFingerprintMismatch
  | ErrAgentFingerprintMismatch
  | ErrEnvelopeOutsideTimeWindow
  | ErrReplayDetected
  \<comment> \<open>internal/registration, internal/identitystore\<close>
  | ErrInvalidRegistrationToken
  | ErrIdentityNotFound
  \<comment> \<open>internal/capability\<close>
  | ErrCapabilitySignature \<comment> \<open>its ErrInvalidSignature\<close>
  | ErrExpired
  | ErrGeneration
  | ErrAgent
  | ErrMethod
  \<comment> \<open>internal/transport\<close>
  | ErrMissingSignature
  | ErrHTTPSignature \<comment> \<open>its ErrInvalidSignature\<close>
  | ErrDigestMismatch
  | ErrInvalidSSEEvent
  | ErrInvalidSSECursor
  | ErrSSESignature
  | ErrSSEHashChain
  \<comment> \<open>internal/attachment\<close>
  | ErrAttachmentNotFound \<comment> \<open>its ErrNotFound\<close>
  | ErrAttachmentState \<comment> \<open>its ErrInvalidState\<close>
  | ErrOwnerMismatch
  | ErrInvalidOffset
  | ErrQuotaExceeded
  | ErrChecksum
  | ErrBlobSignature
  | ErrBlobDigest
  | ErrRange
  \<comment> \<open>internal/tailscale\<close>
  | ErrInvalidAddress
  | ErrNotTailscaleAddress
  | ErrPeerIdentityMismatch
  \<comment> \<open>internal/ipc\<close>
  | ErrInvalidRequest
  | ErrMethodNotFound
  \<comment> \<open>any other error, by its text\<close>
  | ErrMsg string

end
