(* ===== verification/Secure.thy ===== *)
theory Secure
  imports Model
begin

text \<open>
  \<^verbatim>\<open>internal/secure/aead.go\<close>: the AES-256-GCM wrapper the store encrypts columns with, and the
  record of cryptographic primitives and encoders that stand for \<^verbatim>\<open>crypto/*\<close> and \<^verbatim>\<open>encoding/json\<close>.
  The primitives are arguments of every definition that uses them; what a theorem needs of them is
  one of the named hypotheses below.
\<close>

section \<open>Primitives\<close>

record primitives =
  sha256 :: "bytes \<Rightarrow> bytes"
  ed25519_Sign :: "bytes \<Rightarrow> bytes \<Rightarrow> bytes"            \<comment> \<open>private key, message\<close>
  ed25519_Verify :: "bytes \<Rightarrow> bytes \<Rightarrow> bytes \<Rightarrow> bool"   \<comment> \<open>public key, message, signature\<close>
  gcm_Seal :: "bytes \<Rightarrow> bytes \<Rightarrow> bytes \<Rightarrow> bytes \<Rightarrow> bytes"          \<comment> \<open>key, nonce, plaintext, associated data\<close>
  gcm_Open :: "bytes \<Rightarrow> bytes \<Rightarrow> bytes \<Rightarrow> bytes \<Rightarrow> bytes option"   \<comment> \<open>key, nonce, ciphertext, associated data\<close>
  json_unsigned :: "SignedEnvelope \<Rightarrow> bytes"           \<comment> \<open>json.Marshal of all fields but the signature\<close>
  json_envelope :: "SignedEnvelope \<Rightarrow> bytes"           \<comment> \<open>json.Marshal of the envelope\<close>

text \<open>An Ed25519 private key is the seed followed by the public key.\<close>

definition PublicKeySize :: nat where "PublicKeySize = 32"
definition PrivateKeySize :: nat where "PrivateKeySize = 64"
definition SignatureSize :: nat where "SignatureSize = 64"

definition ed25519_Public :: "bytes \<Rightarrow> bytes" where
  "ed25519_Public private = drop 32 private"

text \<open>A signature made with a private key verifies under its public key.\<close>

definition sign_verifies :: "primitives \<Rightarrow> bytes \<Rightarrow> bool" where
  "sign_verifies P private =
     (\<forall>m. ed25519_Verify P (ed25519_Public private) m (ed25519_Sign P private m))"

text \<open>A digest has 32 bytes.\<close>

definition sha256_size :: "primitives \<Rightarrow> bool" where
  "sha256_size P = (\<forall>m. length (sha256 P m) = 32)"

text \<open>A sealed plaintext opens under the same key, nonce and associated data.\<close>

definition seal_opens :: "primitives \<Rightarrow> bool" where
  "seal_opens P = (\<forall>k n p a. gcm_Open P k n (gcm_Seal P k n p a) a = Some p)"

section \<open>AEAD\<close>

definition NonceSize :: nat where "NonceSize = 12"

text \<open>
  The key provider of the daemon is the static one: it refuses a key that has not 32 bytes.
  \<open>aes.NewCipher\<close> and \<open>cipher.NewGCM\<close> accept every 32-byte key.
\<close>

definition StaticKeyProvider_Key :: "bytes \<Rightarrow> go_error + bytes" where
  "StaticKeyProvider_Key provider = (if length provider \<noteq> 32 then Inl ErrKeyLength else Inr provider)"

definition Encrypt :: "primitives \<Rightarrow> bytes \<Rightarrow> bytes \<Rightarrow> bytes \<Rightarrow> bytes \<Rightarrow> go_error + bytes" where
  \<comment> \<open>arguments: the provider, the nonce read from the random source, plaintext, associated data\<close>
  "Encrypt P provider nonce plaintext associatedData =
     (case StaticKeyProvider_Key provider of
        Inl e \<Rightarrow> Inl e
      | Inr key \<Rightarrow> Inr (nonce @ gcm_Seal P key nonce plaintext associatedData))"

definition Decrypt :: "primitives \<Rightarrow> bytes \<Rightarrow> bytes \<Rightarrow> bytes \<Rightarrow> go_error + bytes" where
  "Decrypt P provider ciphertext associatedData =
     (case StaticKeyProvider_Key provider of
        Inl e \<Rightarrow> Inl e
      | Inr key \<Rightarrow>
          if length ciphertext < NonceSize then Inl ErrCiphertext
          else (case gcm_Open P key (take NonceSize ciphertext) (drop NonceSize ciphertext) associatedData of
                  None \<Rightarrow> Inl ErrCiphertext
                | Some plaintext \<Rightarrow> Inr plaintext))"

lemma Decrypt_Encrypt:
  assumes "seal_opens P" and "length nonce = NonceSize" and "Encrypt P key nonce p ad = Inr c"
  shows "Decrypt P key c ad = Inr p"
  using assms by (auto simp: Encrypt_def Decrypt_def seal_opens_def split: sum.splits)

lemma Encrypt_ok_iff: "ok (Encrypt P key nonce p ad) \<longleftrightarrow> length key = 32"
  by (auto simp: Encrypt_def StaticKeyProvider_Key_def split: sum.splits)

lemma Decrypt_key_length: "Decrypt P key c ad = Inr p \<Longrightarrow> length key = 32"
  by (auto simp: Decrypt_def StaticKeyProvider_Key_def split: sum.splits if_splits)

section \<open>An instance of the primitives\<close>

text \<open>
  Transparent primitives, on which the hypotheses above hold, for evaluating the model on concrete
  inputs: the hash is a padded prefix, a signature is the public key followed by the message, and sealing
  leaves the plaintext readable.
\<close>

definition clear_primitives :: primitives where
  "clear_primitives =
     \<lparr>sha256 = (\<lambda>m. take 32 (m @ replicate 32 (CHR ''.''))), ed25519_Sign = (\<lambda>k m. ed25519_Public k @ m),
      ed25519_Verify = (\<lambda>k m sg. sg = k @ m), gcm_Seal = (\<lambda>k n p a. p), gcm_Open = (\<lambda>k n c a. Some c),
      json_unsigned = (\<lambda>e. seAgentID e @ seKind e @ sePayload e),
      json_envelope = (\<lambda>e. seAgentID e @ seKind e @ sePayload e)\<rparr>"

lemma clear_primitives_laws:
  "sign_verifies clear_primitives k" "seal_opens clear_primitives" "sha256_size clear_primitives"
  by (auto simp: sign_verifies_def seal_opens_def sha256_size_def clear_primitives_def min_def)

end
