(* ===== verification/Identity.thy ===== *)
theory Identity
  imports Secure
begin

text \<open>
  \<^verbatim>\<open>internal/identity/identity.go\<close>: an agent identity, its signed envelopes and their verification.
\<close>

record Identity =
  idAgentID :: string
  idPublicKey :: bytes
  idPrivateKey :: bytes

definition Fingerprint :: "primitives \<Rightarrow> bytes \<Rightarrow> string" where
  "Fingerprint P publicKey = RawURL_EncodeToString (sha256 P publicKey)"

definition StableAgentID :: "primitives \<Rightarrow> bytes \<Rightarrow> string" where
  "StableAgentID P publicKey =
     ''snw-agent:v1:'' @
     base32_lower_nopad (sha256 P (''snw-agent-id-v1'' @ [CHR 0x00] @ publicKey))"

definition Generate :: "primitives \<Rightarrow> bytes \<Rightarrow> string \<Rightarrow> Identity" where
  \<comment> \<open>the private key comes from ed25519.GenerateKey, which cannot fail on the system's random source\<close>
  "Generate P privateKey agentID =
     (let publicKey = ed25519_Public privateKey;
          agentID = (if agentID = [] then StableAgentID P publicKey else agentID)
      in \<lparr>idAgentID = agentID, idPublicKey = publicKey, idPrivateKey = privateKey\<rparr>)"

definition FromPrivateKey :: "string \<Rightarrow> bytes \<Rightarrow> go_error + Identity" where
  "FromPrivateKey agentID privateKey =
     (if agentID = [] then Inl (ErrMsg ''agent id is required'')
      else if length privateKey \<noteq> PrivateKeySize then Inl (ErrMsg ''invalid ed25519 private key'')
      else Inr \<lparr>idAgentID = agentID, idPublicKey = ed25519_Public privateKey, idPrivateKey = privateKey\<rparr>)"

text \<open>
  The constructors keep the two keys of an identity together.
\<close>

definition wf_identity :: "Identity \<Rightarrow> bool" where
  "wf_identity i = (idPublicKey i = ed25519_Public (idPrivateKey i) \<and>
     length (idPrivateKey i) = PrivateKeySize \<and> idAgentID i \<noteq> [])"

definition signingBytes :: "primitives \<Rightarrow> SignedEnvelope \<Rightarrow> bytes" where
  "signingBytes P envelope = json_unsigned P (envelope\<lparr>seSignature := []\<rparr>)"

definition Sign :: "primitives \<Rightarrow> gotime \<Rightarrow> string \<Rightarrow> Identity \<Rightarrow> string \<Rightarrow> string \<Rightarrow> bytes \<Rightarrow> SignedEnvelope" where
  \<comment> \<open>now is the reading of time.Now and uuid the fresh nonce\<close>
  "Sign P now uuid i claimedAgentID kind payload =
     (let envelope = \<lparr>seAgentID = claimedAgentID, seKeyFingerprint = Fingerprint P (idPublicKey i),
            seKind = kind, sePayload = payload, seIssuedAt = millis now, seNonce = uuid, seSignature = []\<rparr>
      in envelope\<lparr>seSignature := ed25519_Sign P (idPrivateKey i) (signingBytes P envelope)\<rparr>)"

definition VerifyEnvelope :: "primitives \<Rightarrow> SignedEnvelope \<Rightarrow> bytes \<Rightarrow> go_error + unit" where
  "VerifyEnvelope P envelope expectedPublicKey =
     (if seKeyFingerprint envelope \<noteq> Fingerprint P expectedPublicKey then Inl ErrKeyMismatch
      else if \<not> ed25519_Verify P expectedPublicKey (signingBytes P envelope) (seSignature envelope)
      then Inl ErrInvalidSignature
      else Inr ())"

definition VerifyEnvelopeForAgent ::
  "primitives \<Rightarrow> SignedEnvelope \<Rightarrow> string \<Rightarrow> bytes \<Rightarrow> go_error + unit" where
  "VerifyEnvelopeForAgent P envelope expectedAgentID expectedPublicKey =
     (if seAgentID envelope \<noteq> expectedAgentID then Inl ErrAgentIDMismatch
      else VerifyEnvelope P envelope expectedPublicKey)"

lemma wf_Generate: "length k = PrivateKeySize \<Longrightarrow> wf_identity (Generate P k a)"
  by (auto simp: wf_identity_def Generate_def Let_def StableAgentID_def)

lemma wf_FromPrivateKey: "FromPrivateKey a k = Inr i \<Longrightarrow> wf_identity i"
  by (auto simp: wf_identity_def FromPrivateKey_def split: if_splits)

lemma Fingerprint_sha256: "Fingerprint P x = Fingerprint P y \<Longrightarrow> sha256 P x = sha256 P y"
  by (auto simp: Fingerprint_def dest: RawURL_inject)

lemma length_public_key: "wf_identity i \<Longrightarrow> length (idPublicKey i) = PublicKeySize"
  by (simp add: wf_identity_def ed25519_Public_def PrivateKeySize_def PublicKeySize_def)

lemma Sign_fields [simp]:
  "seAgentID (Sign P now u i a k p) = a"
  "seKeyFingerprint (Sign P now u i a k p) = Fingerprint P (idPublicKey i)"
  "seKind (Sign P now u i a k p) = k"
  "sePayload (Sign P now u i a k p) = p"
  "seIssuedAt (Sign P now u i a k p) = millis now"
  "seNonce (Sign P now u i a k p) = u"
  by (simp_all add: Sign_def Let_def)

lemma VerifyEnvelopeForAgent_ok_iff:
  "VerifyEnvelopeForAgent P env a pk = Inr () \<longleftrightarrow>
     seAgentID env = a \<and> seKeyFingerprint env = Fingerprint P pk \<and>
     ed25519_Verify P pk (signingBytes P env) (seSignature env)"
  by (auto simp: VerifyEnvelopeForAgent_def VerifyEnvelope_def)

lemma Verify_Sign:
  assumes "wf_identity i" and "sign_verifies P (idPrivateKey i)"
  shows "VerifyEnvelopeForAgent P (Sign P now u i a k p) a (idPublicKey i) = Inr ()"
  using assms
  by (simp add: VerifyEnvelopeForAgent_def VerifyEnvelope_def wf_identity_def sign_verifies_def)
    (simp add: Sign_def signingBytes_def Let_def)

end
