(* ===== verification/Store.thy ===== *)
theory Store
  imports Identity
begin

text \<open>
  \<^verbatim>\<open>internal/store/store.go\<close>, first part: the database as a record of tables, and the operations on
  contacts, agent registrations, pairing requests and pairing sessions. A table is the list of its
  rows in rowid order; a row holds what a SELECT scans back, so every instant in it has been cut to
  the millisecond. Statements have their SQL effect, including primary key and UNIQUE conflicts;
  a failing disk, a closed database and a cancelled context are not part of the model. Each
  \<^verbatim>\<open>time.Now()\<close> is an argument.
\<close>

section \<open>The database\<close>

record ReplayNonce =
  rnLocalAgentID :: string
  rnRemoteAgentID :: string
  rnNonce :: string
  rnExpiresAt :: gotime
  rnCreatedAt :: gotime

record InboxRow = InboxMessage +
  irReadAt :: "gotime option"

record store =
  contacts :: "Contact list"
  agent_registrations :: "AgentRegistration list"
  pairing_requests :: "PairingRequest list"
  pairing_sessions :: "PairingSession list"
  outbox_messages :: "OutboxMessage list"
  deduplication_records :: "DeduplicationRecord list"
  scoped_deduplication_records :: "DeduplicationRecord list"
  delivery_receipts :: "DeliveryReceipt list"
  task_index :: "TaskIndex list"
  inbox_messages :: "InboxRow list"
  audit_entries :: "AuditEntry list"
  replay_nonces :: "ReplayNonce list"
  attachment_grants :: "AttachmentGrant list"
  aead :: "bytes option" \<comment> \<open>the key of the static provider, None when the store was opened without one\<close>

definition empty_store :: "bytes option \<Rightarrow> store" where
  "empty_store key =
     \<lparr>contacts = [], agent_registrations = [], pairing_requests = [], pairing_sessions = [],
      outbox_messages = [], deduplication_records = [], scoped_deduplication_records = [],
      delivery_receipts = [], task_index = [], inbox_messages = [], audit_entries = [],
      replay_nonces = [], attachment_grants = [], aead = key\<rparr>"

type_synonym 'a op = "store \<Rightarrow> (go_error, 'a, store) outcome"

definition contact_key :: "Contact \<Rightarrow> string \<times> string" where
  "contact_key c = (cLocalAgentID c, cRemoteAgentID c)"

definition request_key :: "PairingRequest \<Rightarrow> string \<times> string" where
  "request_key r = (prID r, prLocalAgentID r)"

definition session_key :: "PairingSession \<Rightarrow> string \<times> string" where
  "session_key p = (psInviteID p, psLocalAgentID p)"

definition dedup_key :: "DeduplicationRecord \<Rightarrow> string \<times> string" where
  "dedup_key d = (ddTargetAgentID d, ddMessageID d)"

definition scoped_key :: "DeduplicationRecord \<Rightarrow> string \<times> string \<times> int \<times> string" where
  "scoped_key d = (ddSourceAgentID d, ddTargetAgentID d, ddAgentKeyEpoch d, ddMessageID d)"

definition receipt_key :: "DeliveryReceipt \<Rightarrow> string \<times> string" where
  "receipt_key r = (drMessageID r, drTargetAgentID r)"

definition inbox_key :: "('a) InboxMessage_scheme \<Rightarrow> string \<times> string \<times> string" where
  "inbox_key m = (imTargetAgentID m, imSourceAgentID m, imMessageID m)"

definition nonce_key :: "ReplayNonce \<Rightarrow> string \<times> string \<times> string" where
  "nonce_key r = (rnLocalAgentID r, rnRemoteAgentID r, rnNonce r)"

lemmas key_defs = contact_key_def request_key_def session_key_def dedup_key_def scoped_key_def
  receipt_key_def inbox_key_def nonce_key_def

text \<open>The primary keys and the UNIQUE column of the schema.\<close>

definition wf_store :: "store \<Rightarrow> bool" where
  "wf_store s =
     (unique_key contact_key (contacts s) \<and> unique_key arAgentID (agent_registrations s) \<and>
      unique_key request_key (pairing_requests s) \<and> unique_key session_key (pairing_sessions s) \<and>
      unique_key omMessageID (outbox_messages s) \<and> unique_key omIdempotencyKey (outbox_messages s) \<and>
      unique_key dedup_key (deduplication_records s) \<and>
      unique_key scoped_key (scoped_deduplication_records s) \<and>
      unique_key receipt_key (delivery_receipts s) \<and> unique_key tiTaskID (task_index s) \<and>
      unique_key inbox_key (inbox_messages s) \<and> unique_key aeID (audit_entries s) \<and>
      unique_key nonce_key (replay_nonces s) \<and> unique_key agGrantID (attachment_grants s))"

lemma wf_store_empty: "wf_store (empty_store key)"
  by (simp add: wf_store_def empty_store_def)

definition requireOneRow :: "nat \<Rightarrow> go_error + unit" where
  "requireOneRow rows = (if rows \<noteq> 1 then Inl ErrNotFound else Inr ())"

section \<open>Contacts\<close>

definition pinned :: "ContactState \<Rightarrow> bool" where
  \<comment> \<open>state IN ('active', 'awaiting_confirmation')\<close>
  "pinned st = (st = ContactStateActive \<or> st = ContactStateAwaitingConfirmation)"

definition contact_guard :: "Contact \<Rightarrow> Contact \<Rightarrow> bool" where
  "contact_guard old new =
     (\<not> pinned (cState old) \<or>
      (cRemoteHostFingerprint old = cRemoteHostFingerprint new \<and>
       cRemoteAgentFingerprint old = cRemoteAgentFingerprint new))"

definition contact_merge :: "Contact \<Rightarrow> Contact \<Rightarrow> Contact" where
  "contact_merge old new =
     old\<lparr>cRemoteNodeID := cRemoteNodeID new, cRemoteEndpoint := cRemoteEndpoint new,
         cRemoteBinding := cRemoteBinding new, cRemoteHostFingerprint := cRemoteHostFingerprint new,
         cRemoteAgentFingerprint := cRemoteAgentFingerprint new, cState := cState new,
         cUpdatedAt := cUpdatedAt new\<rparr>"

definition contact_row :: "gotime \<Rightarrow> Contact \<Rightarrow> Contact" where
  "contact_row now contact =
     contact\<lparr>cCreatedAt := trunc_ms (if IsZero (cCreatedAt contact) then now else cCreatedAt contact),
             cUpdatedAt := trunc_ms now\<rparr>"

definition UpsertContact :: "gotime \<Rightarrow> Contact \<Rightarrow> unit op" where
  "UpsertContact now contact s =
     (let (rows, n) = upsert_row contact_key contact_guard contact_merge (contact_row now contact) (contacts s);
          s' = s\<lparr>contacts := rows\<rparr>
      in if n \<noteq> 1 then (Inl ErrIdentityConflict, s') else (Inr (), s'))"

definition ListContacts :: "string \<Rightarrow> store \<Rightarrow> go_error + Contact list" where
  "ListContacts localAgentID s =
     Inr (sort_key cRemoteAgentID (filter (\<lambda>c. cLocalAgentID c = localAgentID) (contacts s)))"

definition GetContact :: "string \<Rightarrow> string \<Rightarrow> store \<Rightarrow> go_error + Contact" where
  "GetContact localAgentID remoteAgentID s =
     (case by_key contact_key (localAgentID, remoteAgentID) (contacts s) of
        None \<Rightarrow> Inl ErrNotFound
      | Some contact \<Rightarrow> Inr contact)"

section \<open>Agent registrations\<close>

definition RegisterAgent :: "gotime \<Rightarrow> AgentRegistration \<Rightarrow> unit op" where
  "RegisterAgent now registration s =
     (let row = registration\<lparr>
            arCreatedAt := trunc_ms (if IsZero (arCreatedAt registration) then now else arCreatedAt registration),
            arUpdatedAt := trunc_ms now\<rparr>
      in case insert_row arAgentID row (agent_registrations s) of
           None \<Rightarrow> (Inl ErrConstraint, s)
         | Some rows \<Rightarrow> (Inr (), s\<lparr>agent_registrations := rows\<rparr>))"

definition GetAgentRegistration :: "string \<Rightarrow> store \<Rightarrow> go_error + AgentRegistration" where
  "GetAgentRegistration agentID s =
     (case by_key arAgentID agentID (agent_registrations s) of
        None \<Rightarrow> Inl ErrNotFound
      | Some registration \<Rightarrow> Inr registration)"

definition ListAgentRegistrations :: "store \<Rightarrow> go_error + AgentRegistration list" where
  "ListAgentRegistrations s = Inr (sort_key arAgentID (agent_registrations s))"

definition UpdateAgentCapability :: "gotime \<Rightarrow> string \<Rightarrow> bytes \<Rightarrow> int \<Rightarrow> unit op" where
  "UpdateAgentCapability now agentID publicKey generation s =
     (let (rows, n) = update_rows (\<lambda>r. arAgentID r = agentID)
            (\<lambda>r. r\<lparr>arCapabilityPublicKey := publicKey, arCapabilityGeneration := generation,
                   arUpdatedAt := trunc_ms now\<rparr>) (agent_registrations s)
      in (requireOneRow n, s\<lparr>agent_registrations := rows\<rparr>))"

section \<open>Pairing requests\<close>

definition request_row :: "PairingRequest \<Rightarrow> PairingRequest" where
  "request_row request =
     request\<lparr>prExpiresAt := trunc_ms (prExpiresAt request), prConsumedAt := None,
             prCreatedAt := trunc_ms (prCreatedAt request)\<rparr>"

definition CreatePairingRequest :: "PairingRequest \<Rightarrow> unit op" where
  "CreatePairingRequest request s =
     (case insert_row request_key (request_row request) (pairing_requests s) of
        None \<Rightarrow> (Inl ErrConstraint, s)
      | Some rows \<Rightarrow> (Inr (), s\<lparr>pairing_requests := rows\<rparr>))"

definition GetPairingRequest :: "string \<Rightarrow> store \<Rightarrow> go_error + PairingRequest" where
  "GetPairingRequest inviteID s =
     (case sort_key prCreatedAt (filter (\<lambda>r. prID r = inviteID) (pairing_requests s)) of
        [] \<Rightarrow> Inl ErrNotFound
      | request # _ \<Rightarrow> Inr request)"

definition GetPairingRequestForAgent :: "string \<Rightarrow> string \<Rightarrow> store \<Rightarrow> go_error + PairingRequest" where
  "GetPairingRequestForAgent inviteID localAgentID s =
     (case by_key request_key (inviteID, localAgentID) (pairing_requests s) of
        None \<Rightarrow> Inl ErrNotFound
      | Some request \<Rightarrow> Inr request)"

type_synonym PairingRequestValidator = "PairingRequest \<Rightarrow> go_error option"

text \<open>
  The two consuming operations run in a transaction that is rolled back on every return but the
  last, so the update is visible only when exactly one row was changed.
\<close>

definition ValidateAndConsumePairingRequest ::
  "string \<Rightarrow> gotime \<Rightarrow> PairingRequestValidator \<Rightarrow> (PairingRequest \<times> bool) op" where
  "ValidateAndConsumePairingRequest inviteID consumedAt validate s =
     (case GetPairingRequest inviteID s of
        Inl e \<Rightarrow> (Inl e, s)
      | Inr request \<Rightarrow>
          if prConsumedAt request \<noteq> None then (Inr (request, False), s)
          else (case validate request of
                  Some e \<Rightarrow> (Inl e, s)
                | None \<Rightarrow>
                    (let (rows, n) = update_rows (\<lambda>r. prID r = inviteID \<and> prConsumedAt r = None)
                           (\<lambda>r. r\<lparr>prConsumedAt := Some (trunc_ms consumedAt)\<rparr>) (pairing_requests s)
                     in if n \<noteq> 1 then (Inr (request, False), s)
                        else (Inr (request\<lparr>prConsumedAt := Some consumedAt\<rparr>, True),
                              s\<lparr>pairing_requests := rows\<rparr>))))"

definition ValidateAndConsumePairingRequestForAgent ::
  "string \<Rightarrow> string \<Rightarrow> gotime \<Rightarrow> PairingRequestValidator \<Rightarrow> (PairingRequest \<times> bool) op" where
  "ValidateAndConsumePairingRequestForAgent inviteID localAgentID consumedAt validate s =
     (case GetPairingRequestForAgent inviteID localAgentID s of
        Inl e \<Rightarrow> (Inl e, s)
      | Inr request \<Rightarrow>
          if prConsumedAt request \<noteq> None then (Inr (request, False), s)
          else (case validate request of
                  Some e \<Rightarrow> (Inl e, s)
                | None \<Rightarrow>
                    (let (rows, n) = update_rows
                           (\<lambda>r. prID r = inviteID \<and> prLocalAgentID r = localAgentID \<and> prConsumedAt r = None)
                           (\<lambda>r. r\<lparr>prConsumedAt := Some (trunc_ms consumedAt)\<rparr>) (pairing_requests s)
                     in if n \<noteq> 1 then (Inr (request, False), s)
                        else (Inr (request\<lparr>prConsumedAt := Some consumedAt\<rparr>, True),
                              s\<lparr>pairing_requests := rows\<rparr>))))"

section \<open>Pairing sessions\<close>

definition session_merge :: "PairingSession \<Rightarrow> PairingSession \<Rightarrow> PairingSession" where
  "session_merge old new = new\<lparr>psInviteID := psInviteID old, psLocalAgentID := psLocalAgentID old,
     psCreatedAt := psCreatedAt old\<rparr>"

definition session_row :: "gotime \<Rightarrow> PairingSession \<Rightarrow> PairingSession" where
  "session_row now session =
     session\<lparr>psExpiresAt := trunc_ms (psExpiresAt session),
             psCreatedAt := trunc_ms (if IsZero (psCreatedAt session) then now else psCreatedAt session),
             psUpdatedAt := trunc_ms now\<rparr>"

definition UpsertPairingSession :: "gotime \<Rightarrow> PairingSession \<Rightarrow> unit op" where
  "UpsertPairingSession now session s =
     (Inr (), s\<lparr>pairing_sessions :=
        fst (upsert_row session_key (\<lambda>_ _. True) session_merge (session_row now session) (pairing_sessions s))\<rparr>)"

definition GetPairingSession :: "string \<Rightarrow> string \<Rightarrow> store \<Rightarrow> go_error + PairingSession" where
  "GetPairingSession inviteID localAgentID s =
     (case by_key session_key (inviteID, localAgentID) (pairing_sessions s) of
        None \<Rightarrow> Inl ErrNotFound
      | Some session \<Rightarrow> Inr session)"

definition FindPairingSession :: "string \<Rightarrow> string \<Rightarrow> store \<Rightarrow> go_error + PairingSession" where
  \<comment> \<open>ORDER BY updated_at DESC LIMIT 1; rows with equal instants come in rowid order\<close>
  "FindPairingSession localAgentID remoteAgentID s =
     (case sort_key (\<lambda>p. - psUpdatedAt p)
             (filter (\<lambda>p. psLocalAgentID p = localAgentID \<and> psRemoteAgentID p = remoteAgentID)
               (pairing_sessions s)) of
        [] \<Rightarrow> Inl ErrNotFound
      | session # _ \<Rightarrow> Inr session)"

section \<open>What the operations leave\<close>

lemma UpsertContact_state [state_eqs]:
  "snd (UpsertContact now c s) =
     s\<lparr>contacts := fst (upsert_row contact_key contact_guard contact_merge (contact_row now c) (contacts s))\<rparr>"
  by (simp add: UpsertContact_def Let_def split: prod.splits)

lemma RegisterAgent_state [state_eqs]:
  "snd (RegisterAgent now r s) =
     (case GetAgentRegistration (arAgentID r) s of
        Inr _ \<Rightarrow> s
      | Inl _ \<Rightarrow> s\<lparr>agent_registrations := agent_registrations s @ [r\<lparr>
            arCreatedAt := trunc_ms (if IsZero (arCreatedAt r) then now else arCreatedAt r),
            arUpdatedAt := trunc_ms now\<rparr>]\<rparr>)"
  by (auto simp: RegisterAgent_def GetAgentRegistration_def Let_def insert_row_Some_iff insert_row_None_iff
      split: option.splits)

lemma UpdateAgentCapability_state [state_eqs]:
  "snd (UpdateAgentCapability now a k g s) =
     s\<lparr>agent_registrations := fst (update_rows (\<lambda>r. arAgentID r = a)
        (\<lambda>r. r\<lparr>arCapabilityPublicKey := k, arCapabilityGeneration := g, arUpdatedAt := trunc_ms now\<rparr>)
        (agent_registrations s))\<rparr>"
  by (simp add: UpdateAgentCapability_def Let_def split: prod.splits)

lemma UpsertPairingSession_state [state_eqs]:
  "snd (UpsertPairingSession now p s) =
     s\<lparr>pairing_sessions := fst (upsert_row session_key (\<lambda>_ _. True) session_merge (session_row now p)
        (pairing_sessions s))\<rparr>"
  by (simp add: UpsertPairingSession_def)

lemma CreatePairingRequest_eq:
  "CreatePairingRequest r s =
     (case GetPairingRequestForAgent (prID r) (prLocalAgentID r) s of
        Inr _ \<Rightarrow> (Inl ErrConstraint, s)
      | Inl _ \<Rightarrow> (Inr (), s\<lparr>pairing_requests := pairing_requests s @ [request_row r]\<rparr>))"
  by (auto simp: CreatePairingRequest_def GetPairingRequestForAgent_def insert_row_Some_iff insert_row_None_iff
      request_row_def request_key_def split: option.splits)

section \<open>Keys stay unique\<close>

lemma wf_UpsertContact [wf_intros]: "wf_store s \<Longrightarrow> wf_store (snd (UpsertContact now c s))"
  by (simp add: state_eqs wf_store_def unique_key_upsert_row contact_merge_def contact_key_def)

lemma wf_registration_inserted:
  "wf_store s \<Longrightarrow> insert_row arAgentID r (agent_registrations s) = Some rows \<Longrightarrow> wf_store (s\<lparr>agent_registrations := rows\<rparr>)"
  by (auto simp: wf_store_def intro: unique_key_insert_row)

lemma wf_RegisterAgent [wf_intros]: "wf_store s \<Longrightarrow> wf_store (snd (RegisterAgent now r s))"
  by (simp add: RegisterAgent_def Let_def wf_registration_inserted split: option.split)

lemma wf_UpdateAgentCapability [wf_intros]: "wf_store s \<Longrightarrow> wf_store (snd (UpdateAgentCapability now a k g s))"
  by (simp add: state_eqs wf_store_def unique_key_update_rows)

lemma wf_CreatePairingRequest [wf_intros]: "wf_store s \<Longrightarrow> wf_store (snd (CreatePairingRequest r s))"
  by (auto simp: CreatePairingRequest_def wf_store_def unique_key_insert_row split: option.splits)

lemma wf_UpsertPairingSession [wf_intros]: "wf_store s \<Longrightarrow> wf_store (snd (UpsertPairingSession now p s))"
  by (simp add: state_eqs wf_store_def unique_key_upsert_row session_merge_def session_key_def)

lemma wf_store_requests:
  "wf_store s \<Longrightarrow> unique_key request_key rows \<Longrightarrow> wf_store (s\<lparr>pairing_requests := rows\<rparr>)"
  by (simp add: wf_store_def)

lemma unique_consumed:
  assumes "wf_store s"
  shows "unique_key request_key (fst (update_rows Q (\<lambda>r. r\<lparr>prConsumedAt := t\<rparr>) (pairing_requests s)))"
  using assms by (intro unique_key_update_rows) (simp_all add: wf_store_def request_key_def)

lemma wf_Consume [wf_intros]: "wf_store s \<Longrightarrow> wf_store (snd (ValidateAndConsumePairingRequest i t v s))"
  using unique_consumed[of s "\<lambda>r. prID r = i \<and> prConsumedAt r = None" "Some (trunc_ms t)"]
  by (auto simp: ValidateAndConsumePairingRequest_def Let_def wf_store_requests
      split: sum.splits option.splits prod.splits)

lemma wf_ConsumeForAgent [wf_intros]:
  "wf_store s \<Longrightarrow> wf_store (snd (ValidateAndConsumePairingRequestForAgent i a t v s))"
  using unique_consumed[of s "\<lambda>r. prID r = i \<and> prLocalAgentID r = a \<and> prConsumedAt r = None" "Some (trunc_ms t)"]
  by (auto simp: ValidateAndConsumePairingRequestForAgent_def Let_def wf_store_requests
      split: sum.splits option.splits prod.splits)

section \<open>Contacts: lookups after an upsert\<close>

lemma contact_row_fields [simp]:
  "contact_key (contact_row now c) = contact_key c"
  "cState (contact_row now c) = cState c"
  "cRemoteHostFingerprint (contact_row now c) = cRemoteHostFingerprint c"
  "cRemoteAgentFingerprint (contact_row now c) = cRemoteAgentFingerprint c"
  "cLocalAgentID (contact_row now c) = cLocalAgentID c"
  "cRemoteAgentID (contact_row now c) = cRemoteAgentID c"
  "cRemoteNodeID (contact_row now c) = cRemoteNodeID c"
  "cRemoteEndpoint (contact_row now c) = cRemoteEndpoint c"
  "contact_guard old (contact_row now c) = contact_guard old c"
  by (simp_all add: contact_row_def contact_key_def contact_guard_def)

lemma contact_merge_fields [simp]:
  "contact_key (contact_merge old new) = contact_key old"
  "cState (contact_merge old new) = cState new"
  "cRemoteHostFingerprint (contact_merge old new) = cRemoteHostFingerprint new"
  "cRemoteAgentFingerprint (contact_merge old new) = cRemoteAgentFingerprint new"
  "cLocalAgentID (contact_merge old new) = cLocalAgentID old"
  "cRemoteAgentID (contact_merge old new) = cRemoteAgentID old"
  "cRemoteNodeID (contact_merge old new) = cRemoteNodeID new"
  "cRemoteEndpoint (contact_merge old new) = cRemoteEndpoint new"
  by (simp_all add: contact_merge_def contact_key_def)

lemma GetContact_key: "GetContact a b s = Inr c \<Longrightarrow> cLocalAgentID c = a \<and> cRemoteAgentID c = b"
  by (auto simp: GetContact_def contact_key_def dest: by_key_SomeD split: option.splits)

lemma GetContact_error: "GetContact a b s = Inl e \<Longrightarrow> e = ErrNotFound"
  by (auto simp: GetContact_def split: option.splits)

lemma GetContact_UpsertContact:
  assumes "wf_store s"
  shows "GetContact a b (snd (UpsertContact now c s)) =
    (if (a, b) = contact_key c
     then (case GetContact a b s of Inl _ \<Rightarrow> Inr (contact_row now c)
           | Inr old \<Rightarrow> Inr (if contact_guard old c then contact_merge old (contact_row now c) else old))
     else GetContact a b s)"
proof -
  have u: "unique_key contact_key (contacts s)" using assms by (simp add: wf_store_def)
  show ?thesis
    by (auto simp: GetContact_def state_eqs by_key_upsert[OF u] split: option.splits)
qed

lemma UpsertContact_result:
  assumes "wf_store s"
  shows "fst (UpsertContact now c s) =
    (case GetContact (cLocalAgentID c) (cRemoteAgentID c) s of
       Inl _ \<Rightarrow> Inr () | Inr old \<Rightarrow> if contact_guard old c then Inr () else Inl ErrIdentityConflict)"
proof -
  have u: "unique_key contact_key (contacts s)" using assms by (simp add: wf_store_def)
  show ?thesis
    by (auto simp: UpsertContact_def GetContact_def upsert_row_eq[OF u] Let_def contact_key_def
        split: option.splits)
qed

section \<open>Requests and sessions: lookups after a write\<close>

lemma GetPairingRequest_key:
  "GetPairingRequestForAgent i a s = Inr r \<Longrightarrow> prID r = i \<and> prLocalAgentID r = a"
  by (auto simp: GetPairingRequestForAgent_def request_key_def dest: by_key_SomeD split: option.splits)

lemma GetPairingRequest_error: "GetPairingRequestForAgent i a s = Inl e \<Longrightarrow> e = ErrNotFound"
  by (auto simp: GetPairingRequestForAgent_def split: option.splits)

lemma session_row_fields [simp]:
  "session_key (session_row now p) = session_key p"
  "psRole (session_row now p) = psRole p"
  "psRemoteAgentID (session_row now p) = psRemoteAgentID p"
  "psLocalAgentID (session_row now p) = psLocalAgentID p"
  "psInviteID (session_row now p) = psInviteID p"
  "psInviteDigest (session_row now p) = psInviteDigest p"
  "psAcceptanceDigest (session_row now p) = psAcceptanceDigest p"
  "psConfirmationDigest (session_row now p) = psConfirmationDigest p"
  "psLocalHostFingerprint (session_row now p) = psLocalHostFingerprint p"
  "psRemoteHostFingerprint (session_row now p) = psRemoteHostFingerprint p"
  "psRemoteAgentPublicKey (session_row now p) = psRemoteAgentPublicKey p"
  "psUpdatedAt (session_row now p) = trunc_ms now"
  by (simp_all add: session_row_def session_key_def)

lemma session_merge_fields [simp]:
  "session_key (session_merge old new) = session_key old"
  "psRole (session_merge old new) = psRole new"
  "psRemoteAgentID (session_merge old new) = psRemoteAgentID new"
  "psLocalAgentID (session_merge old new) = psLocalAgentID old"
  "psInviteID (session_merge old new) = psInviteID old"
  "psInviteDigest (session_merge old new) = psInviteDigest new"
  "psAcceptanceDigest (session_merge old new) = psAcceptanceDigest new"
  "psConfirmationDigest (session_merge old new) = psConfirmationDigest new"
  "psLocalHostFingerprint (session_merge old new) = psLocalHostFingerprint new"
  "psRemoteHostFingerprint (session_merge old new) = psRemoteHostFingerprint new"
  "psRemoteAgentPublicKey (session_merge old new) = psRemoteAgentPublicKey new"
  "psUpdatedAt (session_merge old new) = psUpdatedAt new"
  by (simp_all add: session_merge_def session_key_def)

lemma GetPairingSession_key:
  "GetPairingSession i a s = Inr p \<Longrightarrow> psInviteID p = i \<and> psLocalAgentID p = a"
  by (auto simp: GetPairingSession_def session_key_def dest: by_key_SomeD split: option.splits)

lemma GetPairingSession_Upsert:
  assumes "wf_store s"
  shows "GetPairingSession i a (snd (UpsertPairingSession now p s)) =
    (if (i, a) = session_key p
     then (case GetPairingSession i a s of Inl _ \<Rightarrow> Inr (session_row now p)
           | Inr old \<Rightarrow> Inr (session_merge old (session_row now p)))
     else GetPairingSession i a s)"
proof -
  have u: "unique_key session_key (pairing_sessions s)" using assms by (simp add: wf_store_def)
  show ?thesis
    by (auto simp: GetPairingSession_def state_eqs by_key_upsert[OF u] split: option.splits)
qed

lemma FindPairingSession_mem:
  "FindPairingSession a b s = Inr p \<Longrightarrow>
     p \<in> set (pairing_sessions s) \<and> psLocalAgentID p = a \<and> psRemoteAgentID p = b"
proof -
  assume "FindPairingSession a b s = Inr p"
  then obtain rest where "sort_key (\<lambda>p. - psUpdatedAt p)
      (filter (\<lambda>p. psLocalAgentID p = a \<and> psRemoteAgentID p = b) (pairing_sessions s)) = p # rest"
    by (auto simp: FindPairingSession_def split: list.splits)
  then have "p \<in> set (sort_key (\<lambda>p. - psUpdatedAt p)
      (filter (\<lambda>p. psLocalAgentID p = a \<and> psRemoteAgentID p = b) (pairing_sessions s)))" by simp
  then show ?thesis by simp
qed

lemma FindPairingSession_single:
  assumes "filter (\<lambda>p. psLocalAgentID p = a \<and> psRemoteAgentID p = b) (pairing_sessions s) = [p]"
  shows "FindPairingSession a b s = Inr p"
  using assms by (simp add: FindPairingSession_def)

text \<open>
  Consuming succeeds exactly on an unconsumed request the validator accepts.
\<close>

lemma ConsumeForAgent_eq:
  assumes "wf_store s"
  shows "ValidateAndConsumePairingRequestForAgent i a t v s =
    (case GetPairingRequestForAgent i a s of
       Inl e \<Rightarrow> (Inl e, s)
     | Inr r \<Rightarrow>
         if prConsumedAt r \<noteq> None then (Inr (r, False), s)
         else case v r of Some e \<Rightarrow> (Inl e, s)
              | None \<Rightarrow> (Inr (r\<lparr>prConsumedAt := Some t\<rparr>, True),
                  s\<lparr>pairing_requests := fst (update_rows
                      (\<lambda>r. prID r = i \<and> prLocalAgentID r = a \<and> prConsumedAt r = None)
                      (\<lambda>r. r\<lparr>prConsumedAt := Some (trunc_ms t)\<rparr>) (pairing_requests s))\<rparr>))"
proof (cases "GetPairingRequestForAgent i a s")
  case (Inl e)
  then show ?thesis by (simp add: ValidateAndConsumePairingRequestForAgent_def)
next
  case (Inr r)
  have "unique_key request_key (pairing_requests s)" using assms by (simp add: wf_store_def)
  from update_count_by_key[OF this, of "(i, a)" "\<lambda>r. prConsumedAt r = None"] Inr
  have "length (filter (\<lambda>r. prID r = i \<and> prLocalAgentID r = a \<and> prConsumedAt r = None) (pairing_requests s)) =
      (if prConsumedAt r = None then 1 else 0)"
    by (auto simp: GetPairingRequestForAgent_def request_key_def split: option.splits)
  with Inr show ?thesis
    by (simp add: ValidateAndConsumePairingRequestForAgent_def update_rows_def Let_def split: option.splits)
qed

lemma GetPairingRequest_consumed:
  "GetPairingRequestForAgent j b
     (s\<lparr>pairing_requests := fst (update_rows
        (\<lambda>r. prID r = i \<and> prLocalAgentID r = a \<and> prConsumedAt r = None)
        (\<lambda>r. r\<lparr>prConsumedAt := Some t\<rparr>) (pairing_requests s))\<rparr>) =
   (case GetPairingRequestForAgent j b s of Inl e \<Rightarrow> Inl e
    | Inr r \<Rightarrow> Inr (if j = i \<and> b = a \<and> prConsumedAt r = None then r\<lparr>prConsumedAt := Some t\<rparr> else r))"
proof -
  have "by_key request_key (j, b) (fst (update_rows
        (\<lambda>r. prID r = i \<and> prLocalAgentID r = a \<and> prConsumedAt r = None)
        (\<lambda>r. r\<lparr>prConsumedAt := Some t\<rparr>) (pairing_requests s))) =
      map_option (\<lambda>r. if prID r = i \<and> prLocalAgentID r = a \<and> prConsumedAt r = None
        then r\<lparr>prConsumedAt := Some t\<rparr> else r) (by_key request_key (j, b) (pairing_requests s))"
    by (rule by_key_update) (simp add: request_key_def)
  then show ?thesis
    by (auto simp: GetPairingRequestForAgent_def request_key_def dest: by_key_SomeD split: option.splits)
qed

end
