(* ===== verification/StoreOutbox.thy ===== *)
theory StoreOutbox
  imports Store
begin

text \<open>
  \<^verbatim>\<open>internal/store/store.go\<close>, second part: the encrypted outbox with its receipts, and the task index.
\<close>

section \<open>Outbox\<close>

definition outboxAssociatedData :: "OutboxMessage \<Rightarrow> bytes" where
  "outboxAssociatedData message =
     ''snw-agent-link:outbox:'' @ omSourceAgentID message @ '':'' @ omTargetAgentID message @ '':'' @
     omMessageID message"

definition EnqueueOutbox :: "primitives \<Rightarrow> gotime \<Rightarrow> bytes \<Rightarrow> OutboxMessage \<Rightarrow> unit op" where
  \<comment> \<open>nonce is what the cipher reads from the random source\<close>
  "EnqueueOutbox P now nonce message s =
     (case (case aead s of None \<Rightarrow> Inr (omPayload message)
            | Some key \<Rightarrow> Encrypt P key nonce (omPayload message) (outboxAssociatedData message)) of
        Inl e \<Rightarrow> (Inl e, s)
      | Inr payload \<Rightarrow>
          (let row = message\<lparr>omPayload := payload, omNextAttemptAt := trunc_ms (omNextAttemptAt message),
                 omCreatedAt := trunc_ms (if IsZero (omCreatedAt message) then now else omCreatedAt message),
                 omUpdatedAt := trunc_ms now\<rparr>
           in if omIdempotencyKey row \<in> set (map omIdempotencyKey (outbox_messages s)) then (Inl ErrConstraint, s)
              else (case insert_row omMessageID row (outbox_messages s) of
                      None \<Rightarrow> (Inl ErrConstraint, s)
                    | Some rows \<Rightarrow> (Inr (), s\<lparr>outbox_messages := rows\<rparr>))))"

definition restoreOutbox :: "primitives \<Rightarrow> OutboxMessage \<Rightarrow> store \<Rightarrow> go_error + OutboxMessage" where
  "restoreOutbox P message s =
     (case aead s of
        None \<Rightarrow> Inr message
      | Some key \<Rightarrow>
          (case Decrypt P key (omPayload message) (outboxAssociatedData message) of
             Inl e \<Rightarrow> Inl e
           | Inr payload \<Rightarrow> Inr (message\<lparr>omPayload := payload\<rparr>)))"

definition GetOutbox :: "primitives \<Rightarrow> string \<Rightarrow> store \<Rightarrow> go_error + OutboxMessage" where
  "GetOutbox P messageID s =
     (case by_key omMessageID messageID (outbox_messages s) of
        None \<Rightarrow> Inl ErrNotFound
      | Some message \<Rightarrow> restoreOutbox P message s)"

fun restore_each :: "primitives \<Rightarrow> OutboxMessage list \<Rightarrow> store \<Rightarrow> go_error + OutboxMessage list" where
  \<comment> \<open>the loop over the rows: the first row that cannot be decrypted fails the whole listing\<close>
  "restore_each P [] s = Inr []"
| "restore_each P (m # ms) s =
     (case restoreOutbox P m s of
        Inl e \<Rightarrow> Inl e
      | Inr m' \<Rightarrow> (case restore_each P ms s of Inl e \<Rightarrow> Inl e | Inr ms' \<Rightarrow> Inr (m' # ms')))"

definition due_rows :: "gotime \<Rightarrow> int \<Rightarrow> store \<Rightarrow> OutboxMessage list" where
  \<comment> \<open>WHERE state = 'pending' AND next\_attempt\_at <= ? ORDER BY next\_attempt\_at, created\_at LIMIT ?\<close>
  "due_rows now limit s =
     take (nat (if limit \<le> 0 then 100 else limit))
       (sort_key (\<lambda>m. (omNextAttemptAt m, omCreatedAt m))
         (filter (\<lambda>m. omState m = OutboxStatePending \<and> millis (omNextAttemptAt m) \<le> millis now)
           (outbox_messages s)))"

definition ListDueOutbox :: "primitives \<Rightarrow> gotime \<Rightarrow> int \<Rightarrow> store \<Rightarrow> go_error + OutboxMessage list" where
  "ListDueOutbox P now limit s = restore_each P (due_rows now limit s) s"

definition ScheduleOutboxRetry :: "gotime \<Rightarrow> string \<Rightarrow> gotime \<Rightarrow> unit op" where
  "ScheduleOutboxRetry now messageID nextAttemptAt s =
     (let (rows, n) = update_rows (\<lambda>m. omMessageID m = messageID \<and> omState m = OutboxStatePending)
            (\<lambda>m. m\<lparr>omAttemptCount := omAttemptCount m + 1, omNextAttemptAt := trunc_ms nextAttemptAt,
                   omUpdatedAt := trunc_ms now\<rparr>) (outbox_messages s)
      in (requireOneRow n, s\<lparr>outbox_messages := rows\<rparr>))"

definition GetDeliveryReceipt :: "string \<Rightarrow> string \<Rightarrow> store \<Rightarrow> go_error + DeliveryReceipt" where
  "GetDeliveryReceipt messageID targetAgentID s =
     (case by_key receipt_key (messageID, targetAgentID) (delivery_receipts s) of
        None \<Rightarrow> Inl ErrNotFound
      | Some receipt \<Rightarrow> Inr receipt)"

definition outbox_row :: "string \<Rightarrow> string \<Rightarrow> store \<Rightarrow> OutboxMessage option" where
  \<comment> \<open>SELECT state ... WHERE message\_id = ? AND target\_agent\_id = ?\<close>
  "outbox_row messageID targetAgentID s =
     find (\<lambda>m. omMessageID m = messageID \<and> omTargetAgentID m = targetAgentID) (outbox_messages s)"

definition MarkOutboxDelivered :: "DeliveryReceipt \<Rightarrow> unit op" where
  "MarkOutboxDelivered receipt s =
     (case outbox_row (drMessageID receipt) (drTargetAgentID receipt) s of
        None \<Rightarrow> (Inl ErrNotFound, s)
      | Some m \<Rightarrow>
          if omState m = OutboxStateDelivered
          then (case GetDeliveryReceipt (drMessageID receipt) (drTargetAgentID receipt) s of
                  Inl e \<Rightarrow> (Inl e, s)
                | Inr existing \<Rightarrow>
                    if drRemoteReceiptID existing \<noteq> drRemoteReceiptID receipt \<or>
                       drDeliveredAt existing \<noteq> drDeliveredAt receipt
                    then (Inl ErrInvalidState, s) else (Inr (), s))
          else if omState m \<noteq> OutboxStatePending then (Inl ErrInvalidState, s)
          else (let (rows, n) = update_rows
                      (\<lambda>m. omMessageID m = drMessageID receipt \<and> omTargetAgentID m = drTargetAgentID receipt \<and>
                           omState m = OutboxStatePending)
                      (\<lambda>m. m\<lparr>omState := OutboxStateDelivered, omUpdatedAt := trunc_ms (drDeliveredAt receipt)\<rparr>)
                      (outbox_messages s)
                in case requireOneRow n of
                     Inl e \<Rightarrow> (Inl e, s)
                   | Inr _ \<Rightarrow>
                       (Inr (), s\<lparr>outbox_messages := rows,
                          delivery_receipts := fst (insert_ignore receipt_key
                            (receipt\<lparr>drDeliveredAt := trunc_ms (drDeliveredAt receipt)\<rparr>)
                            (delivery_receipts s))\<rparr>)))"

definition CancelOutbox :: "gotime \<Rightarrow> string \<Rightarrow> unit op" where
  "CancelOutbox now messageID s =
     (case by_key omMessageID messageID (outbox_messages s) of
        None \<Rightarrow> (Inl ErrNotFound, s)
      | Some m \<Rightarrow>
          if omState m = OutboxStateCancelled then (Inr (), s)
          else if omState m \<noteq> OutboxStatePending then (Inl ErrInvalidState, s)
          else (let (rows, n) = update_rows (\<lambda>m. omMessageID m = messageID \<and> omState m = OutboxStatePending)
                      (\<lambda>m. m\<lparr>omState := OutboxStateCancelled, omUpdatedAt := trunc_ms now\<rparr>) (outbox_messages s)
                in (requireOneRow n, s\<lparr>outbox_messages := rows\<rparr>)))"

definition CancelOutboxForContact :: "gotime \<Rightarrow> string \<Rightarrow> string \<Rightarrow> unit op" where
  "CancelOutboxForContact now sourceAgentID targetAgentID s =
     (Inr (), s\<lparr>outbox_messages := fst (update_rows
        (\<lambda>m. omSourceAgentID m = sourceAgentID \<and> omTargetAgentID m = targetAgentID \<and>
             omState m = OutboxStatePending)
        (\<lambda>m. m\<lparr>omState := OutboxStateCancelled, omUpdatedAt := trunc_ms now\<rparr>) (outbox_messages s))\<rparr>)"

section \<open>Task index\<close>

definition task_merge :: "TaskIndex \<Rightarrow> TaskIndex \<Rightarrow> TaskIndex" where
  "task_merge old new = new\<lparr>tiTaskID := tiTaskID old\<rparr>"

definition UpsertTaskIndex :: "gotime \<Rightarrow> TaskIndex \<Rightarrow> unit op" where
  "UpsertTaskIndex now task s =
     (Inr (), s\<lparr>task_index := fst (upsert_row tiTaskID (\<lambda>_ _. True) task_merge
        (task\<lparr>tiUpdatedAt := trunc_ms (if IsZero (tiUpdatedAt task) then now else tiUpdatedAt task)\<rparr>)
        (task_index s))\<rparr>)"

definition GetTaskIndex :: "string \<Rightarrow> store \<Rightarrow> go_error + TaskIndex" where
  "GetTaskIndex taskID s =
     (case by_key tiTaskID taskID (task_index s) of None \<Rightarrow> Inl ErrNotFound | Some task \<Rightarrow> Inr task)"

definition ListTaskIndexesByContext :: "string \<Rightarrow> string \<Rightarrow> store \<Rightarrow> go_error + TaskIndex list" where
  "ListTaskIndexesByContext localAgentID contextID s =
     Inr (sort_key (\<lambda>t. (tiUpdatedAt t, tiTaskID t))
       (filter (\<lambda>t. tiLocalAgentID t = localAgentID \<and> tiContextID t = contextID) (task_index s)))"

section \<open>The state each operation leaves\<close>

lemma ScheduleOutboxRetry_state [state_eqs]:
  "snd (ScheduleOutboxRetry now i t s) = s\<lparr>outbox_messages := fst (update_rows
      (\<lambda>m. omMessageID m = i \<and> omState m = OutboxStatePending)
      (\<lambda>m. m\<lparr>omAttemptCount := omAttemptCount m + 1, omNextAttemptAt := trunc_ms t, omUpdatedAt := trunc_ms now\<rparr>)
      (outbox_messages s))\<rparr>"
  by (simp add: ScheduleOutboxRetry_def split: prod.splits)

lemma CancelOutboxForContact_state [state_eqs]:
  "snd (CancelOutboxForContact now a b s) = s\<lparr>outbox_messages := fst (update_rows
      (\<lambda>m. omSourceAgentID m = a \<and> omTargetAgentID m = b \<and> omState m = OutboxStatePending)
      (\<lambda>m. m\<lparr>omState := OutboxStateCancelled, omUpdatedAt := trunc_ms now\<rparr>) (outbox_messages s))\<rparr>"
  by (simp add: CancelOutboxForContact_def)

lemma UpsertTaskIndex_state [state_eqs]:
  "snd (UpsertTaskIndex now t s) = s\<lparr>task_index := fst (upsert_row tiTaskID (\<lambda>_ _. True) task_merge
      (t\<lparr>tiUpdatedAt := trunc_ms (if IsZero (tiUpdatedAt t) then now else tiUpdatedAt t)\<rparr>) (task_index s))\<rparr>"
  by (simp add: UpsertTaskIndex_def)

section \<open>Keys stay unique\<close>

lemma wf_store_outbox:
  "wf_store s \<Longrightarrow> unique_key omMessageID rows \<Longrightarrow> unique_key omIdempotencyKey rows \<Longrightarrow>
     wf_store (s\<lparr>outbox_messages := rows\<rparr>)"
  by (simp add: wf_store_def)

lemma wf_store_outbox_update:
  assumes "wf_store s" and "\<And>m. omMessageID (f m) = omMessageID m"
    and "\<And>m. omIdempotencyKey (f m) = omIdempotencyKey m"
  shows "wf_store (s\<lparr>outbox_messages := fst (update_rows Q f (outbox_messages s))\<rparr>)"
  using assms by (intro wf_store_outbox unique_key_update_rows) (simp_all add: wf_store_def)

lemma wf_ScheduleOutboxRetry [wf_intros]: "wf_store s \<Longrightarrow> wf_store (snd (ScheduleOutboxRetry now i t s))"
  by (simp add: state_eqs wf_store_outbox_update)

lemma wf_CancelOutboxForContact [wf_intros]: "wf_store s \<Longrightarrow> wf_store (snd (CancelOutboxForContact now a b s))"
  by (simp add: state_eqs wf_store_outbox_update)

lemma wf_CancelOutbox [wf_intros]: "wf_store s \<Longrightarrow> wf_store (snd (CancelOutbox now i s))"
  by (auto simp: CancelOutbox_def Let_def case_prod_beta wf_store_outbox_update split: option.splits)

lemma wf_MarkOutboxDelivered [wf_intros]: 
  assumes "wf_store s"
  shows "wf_store (snd (MarkOutboxDelivered r s))"
proof -
  have "wf_store (s\<lparr>outbox_messages := fst (update_rows Q
      (\<lambda>m. m\<lparr>omState := OutboxStateDelivered, omUpdatedAt := t\<rparr>) (outbox_messages s)),
      delivery_receipts := fst (insert_ignore receipt_key q (delivery_receipts s))\<rparr>)" for Q t q
    using wf_store_outbox_update[OF assms, of "\<lambda>m. m\<lparr>omState := OutboxStateDelivered, omUpdatedAt := t\<rparr>" Q]
    by (simp add: wf_store_def unique_key_insert_ignore)
  with assms show ?thesis
    by (auto simp: MarkOutboxDelivered_def Let_def case_prod_beta split: option.splits sum.splits)
qed

lemma wf_EnqueueOutbox [wf_intros]: 
  assumes "wf_store s"
  shows "wf_store (snd (EnqueueOutbox P now n m s))"
  using assms
  by (auto simp: EnqueueOutbox_def Let_def wf_store_def unique_key_def insert_row_def
      split: option.splits sum.splits if_splits)

lemma wf_UpsertTaskIndex [wf_intros]: "wf_store s \<Longrightarrow> wf_store (snd (UpsertTaskIndex now t s))"
  by (simp add: state_eqs wf_store_def unique_key_upsert_row task_merge_def)

section \<open>Listing what is due\<close>

lemma restore_each_eq:
  "restore_each P rows s = Inr ms \<longleftrightarrow> list_all2 (\<lambda>row m. restoreOutbox P row s = Inr m) rows ms"
proof (induction rows arbitrary: ms)
  case (Cons row rows)
  show ?case by (auto simp: list_all2_Cons1 simp flip: Cons.IH split: sum.splits)
qed auto

definition is_due :: "gotime \<Rightarrow> OutboxMessage \<Rightarrow> bool" where
  "is_due now m = (omState m = OutboxStatePending \<and> trunc_ms (omNextAttemptAt m) \<le> now)"

definition due_order :: "OutboxMessage \<Rightarrow> gotime \<times> gotime" where
  "due_order m = (omNextAttemptAt m, omCreatedAt m)"

lemma due_rows_eq:
  "due_rows now limit s = take (nat (if limit \<le> 0 then 100 else limit))
     (sort_key due_order (filter (is_due now) (outbox_messages s)))"
  by (simp add: due_rows_def is_due_def[abs_def] due_order_def[abs_def] millis_le_trunc_iff)

lemma take_sorted_rest:
  assumes "sorted (map f xs)" and "x \<in> set xs" and "x \<notin> set (take n xs)" and "y \<in> set (take n xs)"
  shows "f y \<le> f x"
proof -
  have "x \<in> set (drop n xs)" using assms(2,3) by (metis Un_iff append_take_drop_id set_append)
  moreover have "sorted (map f (take n xs) @ map f (drop n xs))"
    using assms(1) by (simp flip: map_append)
  ultimately show ?thesis using assms(4) by (auto simp: sorted_append)
qed

lemma due_rows_first:
  assumes "m \<in> set (outbox_messages s)" and "is_due now m" and "m \<notin> set (due_rows now limit s)"
  shows "length (due_rows now limit s) = nat (if limit \<le> 0 then 100 else limit) \<and>
    (\<forall>d\<in>set (due_rows now limit s). due_order d \<le> due_order m)"
proof -
  let ?q = "sort_key due_order (filter (is_due now) (outbox_messages s))"
  let ?n = "nat (if limit \<le> 0 then 100 else limit)"
  have m: "m \<in> set ?q" "m \<notin> set (take ?n ?q)" using assms by (simp_all add: due_rows_eq)
  then have "?n < length ?q" by (metis linorder_not_le take_all)
  then show ?thesis
    using m take_sorted_rest[OF sorted_sort_key m] by (simp add: due_rows_eq)
qed

text \<open>
  C26. A listing of due messages returns decrypted pending messages whose time has come, in the order
  of their next attempt and then of their creation, at most as many as asked for (100 by default);
  a due message that is left out is no earlier than those returned, which then fill the limit.
\<close>

theorem ListDueOutbox_spec:
  assumes "ListDueOutbox P now limit s = Inr ms"
  shows "\<exists>rows. list_all2 (\<lambda>row m. restoreOutbox P row s = Inr m) rows ms \<and>
    set rows \<subseteq> {m \<in> set (outbox_messages s). is_due now m} \<and> sorted (map due_order rows) \<and>
    length rows \<le> nat (if limit \<le> 0 then 100 else limit) \<and>
    (\<forall>m \<in> set (outbox_messages s). is_due now m \<and> m \<notin> set rows \<longrightarrow>
       length rows = nat (if limit \<le> 0 then 100 else limit) \<and> (\<forall>d\<in>set rows. due_order d \<le> due_order m))"
proof (intro exI conjI)
  show "list_all2 (\<lambda>row m. restoreOutbox P row s = Inr m) (due_rows now limit s) ms"
    using assms by (simp add: ListDueOutbox_def restore_each_eq)
  show "set (due_rows now limit s) \<subseteq> {m \<in> set (outbox_messages s). is_due now m}"
    by (auto simp: due_rows_eq dest: in_set_takeD)
  show "sorted (map due_order (due_rows now limit s))"
    by (simp add: due_rows_eq take_map[symmetric] sorted_wrt_take)
  show "length (due_rows now limit s) \<le> nat (if limit \<le> 0 then 100 else limit)"
    by (simp add: due_rows_eq)
qed (use due_rows_first in blast)

section \<open>Enqueue and read back\<close>

definition enqueued :: "gotime \<Rightarrow> OutboxMessage \<Rightarrow> OutboxMessage" where
  \<comment> \<open>the message as the database holds it, before encryption\<close>
  "enqueued now m = m\<lparr>omNextAttemptAt := trunc_ms (omNextAttemptAt m),
     omCreatedAt := trunc_ms (if IsZero (omCreatedAt m) then now else omCreatedAt m), omUpdatedAt := trunc_ms now\<rparr>"

lemma enqueued_ids [simp]:
  "omMessageID (enqueued now m) = omMessageID m" "omIdempotencyKey (enqueued now m) = omIdempotencyKey m"
  "omTargetAgentID (enqueued now m) = omTargetAgentID m" "omSourceAgentID (enqueued now m) = omSourceAgentID m"
  "omState (enqueued now m) = omState m" "omPayload (enqueued now m) = omPayload m"
  by (simp_all add: enqueued_def)

lemma EnqueueOutbox_returns:
  "EnqueueOutbox P now nonce m s = (Inr (), t) \<longleftrightarrow>
     (\<exists>payload. (case aead s of None \<Rightarrow> payload = omPayload m
        | Some key \<Rightarrow> Encrypt P key nonce (omPayload m) (outboxAssociatedData m) = Inr payload) \<and>
       by_key omMessageID (omMessageID m) (outbox_messages s) = None \<and>
       omIdempotencyKey m \<notin> set (map omIdempotencyKey (outbox_messages s)) \<and>
       t = s\<lparr>outbox_messages := outbox_messages s @ [(enqueued now m)\<lparr>omPayload := payload\<rparr>]\<rparr>)"
  by (auto simp: EnqueueOutbox_def Let_def enqueued_def insert_row_Some_iff insert_row_None_iff
      split: option.splits sum.splits if_splits)

lemma outboxAssociatedData_enqueued [simp]:
  "outboxAssociatedData ((enqueued now m)\<lparr>omPayload := p\<rparr>) = outboxAssociatedData m"
  by (simp add: outboxAssociatedData_def)

text \<open>
  A message that was enqueued reads back with its own payload, whether or not the store encrypts,
  and with its instants at millisecond precision; all other messages read as before.
\<close>

lemma GetOutbox_Enqueue:
  assumes "seal_opens P" and "length nonce = NonceSize" and "EnqueueOutbox P now nonce m s = (Inr (), t)"
  shows "GetOutbox P i t = (if i = omMessageID m then Inr (enqueued now m) else GetOutbox P i s)"
  using assms(3) Decrypt_Encrypt[OF assms(1,2)]
  by (cases "i = omMessageID m")
    (auto simp: EnqueueOutbox_returns GetOutbox_def restoreOutbox_def by_key_append split: option.splits)

section \<open>Delivery and cancellation\<close>

lemma outbox_row_by_key:
  assumes "wf_store s"
  shows "outbox_row i b s = (case by_key omMessageID i (outbox_messages s) of None \<Rightarrow> None
    | Some m \<Rightarrow> if omTargetAgentID m = b then Some m else None)"
proof -
  have u: "unique_key omMessageID (outbox_messages s)" using assms by (simp add: wf_store_def)
  have absent: "find (\<lambda>m. omMessageID m = j \<and> omTargetAgentID m = b) rows = None \<and> by_key omMessageID j rows = None"
    if "j \<notin> omMessageID ` set rows" for j rows
    using that by (induction rows) auto
  have "find (\<lambda>m. omMessageID m = i \<and> omTargetAgentID m = b) rows = (case by_key omMessageID i rows of None \<Rightarrow> None
      | Some m \<Rightarrow> if omTargetAgentID m = b then Some m else None)" if "unique_key omMessageID rows" for rows
    using that by (induction rows) (auto simp: unique_key_def absent)
  with u show ?thesis unfolding outbox_row_def by blast
qed

lemma MarkOutboxDelivered_pending:
  assumes "wf_store s" and "by_key omMessageID (drMessageID r) (outbox_messages s) = Some m"
    and "omTargetAgentID m = drTargetAgentID r" and "omState m = OutboxStatePending"
  shows "MarkOutboxDelivered r s = (Inr (), s\<lparr>
    outbox_messages := fst (update_rows
      (\<lambda>m. omMessageID m = drMessageID r \<and> omTargetAgentID m = drTargetAgentID r \<and> omState m = OutboxStatePending)
      (\<lambda>m. m\<lparr>omState := OutboxStateDelivered, omUpdatedAt := trunc_ms (drDeliveredAt r)\<rparr>) (outbox_messages s)),
    delivery_receipts := fst (insert_ignore receipt_key (r\<lparr>drDeliveredAt := trunc_ms (drDeliveredAt r)\<rparr>)
      (delivery_receipts s))\<rparr>)"
proof -
  have u: "unique_key omMessageID (outbox_messages s)" using assms(1) by (simp add: wf_store_def)
  have "snd (update_rows
      (\<lambda>m. omMessageID m = drMessageID r \<and> omTargetAgentID m = drTargetAgentID r \<and> omState m = OutboxStatePending)
      f (outbox_messages s)) = 1" for f
    using update_count_by_key[OF u, of "drMessageID r"
        "\<lambda>m. omTargetAgentID m = drTargetAgentID r \<and> omState m = OutboxStatePending"] assms(2-4)
    by (simp add: update_rows_def)
  then show ?thesis
    using assms by (simp add: MarkOutboxDelivered_def outbox_row_by_key requireOneRow_def case_prod_beta)
qed

lemma outbox_after_delivery:
  "by_key omMessageID i (fst (update_rows
      (\<lambda>m. omMessageID m = drMessageID r \<and> omTargetAgentID m = drTargetAgentID r \<and> omState m = OutboxStatePending)
      (\<lambda>m. m\<lparr>omState := OutboxStateDelivered, omUpdatedAt := t\<rparr>) rows)) =
   map_option (\<lambda>m. if omMessageID m = drMessageID r \<and> omTargetAgentID m = drTargetAgentID r \<and>
       omState m = OutboxStatePending then m\<lparr>omState := OutboxStateDelivered, omUpdatedAt := t\<rparr> else m)
     (by_key omMessageID i rows)"
  by (rule by_key_update) simp

lemma GetDeliveryReceipt_insert:
  assumes "GetDeliveryReceipt (drMessageID r) (drTargetAgentID r) s = Inl e"
    and "delivery_receipts t = fst (insert_ignore receipt_key (r\<lparr>drDeliveredAt := u\<rparr>) (delivery_receipts s))"
  shows "GetDeliveryReceipt (drMessageID r) (drTargetAgentID r) t = Inr (r\<lparr>drDeliveredAt := u\<rparr>)"
  using assms by (auto simp: GetDeliveryReceipt_def insert_ignore_eq receipt_key_def by_key_append
      split: option.splits)

text \<open>
  C27. Marking a pending message delivered succeeds, changes its state and stores the receipt at
  millisecond precision. A second marking changes nothing and succeeds exactly when it carries the
  same remote receipt and the stored instant; so a receipt whose instant has a part below the
  millisecond is refused when it is repeated.
\<close>

theorem MarkOutboxDelivered_once:
  assumes "wf_store s" and "by_key omMessageID (drMessageID r) (outbox_messages s) = Some m"
    and "omTargetAgentID m = drTargetAgentID r" and "omState m = OutboxStatePending"
    and "GetDeliveryReceipt (drMessageID r) (drTargetAgentID r) s = Inl ErrNotFound"
  shows "\<exists>t. MarkOutboxDelivered r s = (Inr (), t) \<and>
    by_key omMessageID (drMessageID r) (outbox_messages t) =
      Some (m\<lparr>omState := OutboxStateDelivered, omUpdatedAt := trunc_ms (drDeliveredAt r)\<rparr>) \<and>
    GetDeliveryReceipt (drMessageID r) (drTargetAgentID r) t =
      Inr (r\<lparr>drDeliveredAt := trunc_ms (drDeliveredAt r)\<rparr>) \<and>
    (\<forall>q. drMessageID q = drMessageID r \<and> drTargetAgentID q = drTargetAgentID r \<longrightarrow>
       MarkOutboxDelivered q t =
         (if drRemoteReceiptID q = drRemoteReceiptID r \<and> drDeliveredAt q = trunc_ms (drDeliveredAt r)
          then Inr () else Inl ErrInvalidState, t))"
proof -
  define t where "t = snd (MarkOutboxDelivered r s)"
  have mark: "MarkOutboxDelivered r s = (Inr (), t)"
    using MarkOutboxDelivered_pending[OF assms(1-4)] by (simp add: t_def)
  have id: "omMessageID m = drMessageID r" using assms(2) by (auto dest: by_key_SomeD)
  have row: "by_key omMessageID (drMessageID r) (outbox_messages t) =
      Some (m\<lparr>omState := OutboxStateDelivered, omUpdatedAt := trunc_ms (drDeliveredAt r)\<rparr>)"
    using MarkOutboxDelivered_pending[OF assms(1-4)] assms(2-4) id by (simp add: t_def outbox_after_delivery)
  have receipt: "GetDeliveryReceipt (drMessageID r) (drTargetAgentID r) t =
      Inr (r\<lparr>drDeliveredAt := trunc_ms (drDeliveredAt r)\<rparr>)"
    by (rule GetDeliveryReceipt_insert[OF assms(5)])
      (simp add: t_def MarkOutboxDelivered_pending[OF assms(1-4)])
  have "wf_store t" unfolding t_def using assms(1) by (rule wf_MarkOutboxDelivered)
  then have "outbox_row (drMessageID r) (drTargetAgentID r) t =
      Some (m\<lparr>omState := OutboxStateDelivered, omUpdatedAt := trunc_ms (drDeliveredAt r)\<rparr>)"
    using row assms(3) by (simp add: outbox_row_by_key)
  with receipt have "MarkOutboxDelivered q t =
      (if drRemoteReceiptID q = drRemoteReceiptID r \<and> drDeliveredAt q = trunc_ms (drDeliveredAt r)
       then Inr () else Inl ErrInvalidState, t)"
    if "drMessageID q = drMessageID r" "drTargetAgentID q = drTargetAgentID r" for q
    using that by (auto simp: MarkOutboxDelivered_def)
  with mark row receipt show ?thesis by blast
qed

text \<open>After the messages of a contact are cancelled none of them is due any more.\<close>

lemma CancelOutboxForContact_none_due:
  assumes "m \<in> set (outbox_messages (snd (CancelOutboxForContact now a b s)))"
    and "omSourceAgentID m = a" and "omTargetAgentID m = b"
  shows "omState m \<noteq> OutboxStatePending"
proof -
  have "m \<in> set (fst (update_rows
      (\<lambda>m. omSourceAgentID m = a \<and> omTargetAgentID m = b \<and> omState m = OutboxStatePending)
      (\<lambda>m. m\<lparr>omState := OutboxStateCancelled, omUpdatedAt := trunc_ms now\<rparr>) (outbox_messages s)))"
    using assms(1) by (simp add: CancelOutboxForContact_state)
  from in_update_rows[OF this] obtain r where
    "m = (if omSourceAgentID r = a \<and> omTargetAgentID r = b \<and> omState r = OutboxStatePending
      then r\<lparr>omState := OutboxStateCancelled, omUpdatedAt := trunc_ms now\<rparr> else r)" by blast
  with assms(2,3) show ?thesis by (simp split: if_splits)
qed

lemma CancelOutboxForContact_by_key:
  "by_key omMessageID i (outbox_messages (snd (CancelOutboxForContact now a b s))) =
     map_option (\<lambda>m. if omSourceAgentID m = a \<and> omTargetAgentID m = b \<and> omState m = OutboxStatePending
        then m\<lparr>omState := OutboxStateCancelled, omUpdatedAt := trunc_ms now\<rparr> else m)
       (by_key omMessageID i (outbox_messages s))"
  by (simp add: state_eqs by_key_update)

section \<open>Concrete runs\<close>

definition demo_message :: OutboxMessage where
  "demo_message = \<lparr>omMessageID = ''m1'', omIdempotencyKey = ''k1'', omSourceAgentID = ''alice'',
     omTargetAgentID = ''bob'', omContextID = ''ctx'', omPayload = ''0123456789abhello'',
     omState = OutboxStatePending, omAttemptCount = 0, omNextAttemptAt = 0, omCreatedAt = 5000000, omUpdatedAt = 5000000\<rparr>"

definition demo_outbox :: store where
  "demo_outbox = (empty_store (Some (replicate 32 (CHR ''k''))))\<lparr>outbox_messages := [demo_message]\<rparr>"

lemmas demo_outbox_defs = demo_outbox_def demo_message_def empty_store_def clear_primitives_def

lemma demo_outbox_wf: "wf_store demo_outbox"
  by (simp add: demo_outbox_defs wf_store_def unique_key_def)

lemma demo_outbox_due:
  "ListDueOutbox clear_primitives 9 0 demo_outbox = Inr [demo_message\<lparr>omPayload := ''hello''\<rparr>]"
  by (simp add: demo_outbox_defs ListDueOutbox_def due_rows_def restoreOutbox_def Decrypt_def
      StaticKeyProvider_Key_def NonceSize_def millis_def)

theorem ListDueOutbox_spec_witness:
  "\<exists>rows. list_all2 (\<lambda>row m. restoreOutbox clear_primitives row demo_outbox = Inr m) rows
       [demo_message\<lparr>omPayload := ''hello''\<rparr>] \<and> set rows \<subseteq> {m \<in> set (outbox_messages demo_outbox). is_due 9 m}"
  using ListDueOutbox_spec[OF demo_outbox_due] by blast

definition demo_receipt :: DeliveryReceipt where
  "demo_receipt = \<lparr>drMessageID = ''m1'', drTargetAgentID = ''bob'', drRemoteReceiptID = ''r1'', drDeliveredAt = 7000001\<rparr>"

theorem MarkOutboxDelivered_once_witness:
  "\<exists>t. MarkOutboxDelivered demo_receipt demo_outbox = (Inr (), t) \<and>
     MarkOutboxDelivered demo_receipt t = (Inl ErrInvalidState, t) \<and>
     MarkOutboxDelivered (demo_receipt\<lparr>drDeliveredAt := 7000000\<rparr>) t = (Inr (), t)"
  using MarkOutboxDelivered_once[OF demo_outbox_wf, of demo_receipt demo_message]
  by (fastforce simp: demo_receipt_def demo_outbox_def demo_message_def empty_store_def GetDeliveryReceipt_def
      trunc_ms_def fromMillis_def millis_def)

end
