(* ===== verification/StoreInbox.thy ===== *)
theory StoreInbox
  imports Store
begin

text \<open>
  \<^verbatim>\<open>internal/store/store.go\<close>, third part: the encrypted inbox, the audit log, the replay nonces, the
  attachment grants and the deduplication records of inbound messages.
\<close>

section \<open>Inbox\<close>

definition inboxAssociatedData :: "('a) InboxMessage_scheme \<Rightarrow> bytes" where
  "inboxAssociatedData message =
     ''snw-agent-link:inbox:'' @ imTargetAgentID message @ '':'' @ imSourceAgentID message @ '':'' @
     imMessageID message"

definition RecordInboxMessage :: "primitives \<Rightarrow> gotime \<Rightarrow> bytes \<Rightarrow> InboxMessage \<Rightarrow> unit op" where
  "RecordInboxMessage P now nonce message s =
     (if imTargetAgentID message = [] \<or> imSourceAgentID message = [] \<or> imMessageID message = [] \<or>
         imContextID message = []
      then (Inl (ErrMsg ''inbox message identity fields are required''), s)
      else (case (case aead s of None \<Rightarrow> Inr (imBody message)
                  | Some key \<Rightarrow> Encrypt P key nonce (imBody message) (inboxAssociatedData message)) of
              Inl e \<Rightarrow> (Inl e, s)
            | Inr body \<Rightarrow>
                (let row = \<lparr>imMessageID = imMessageID message, imTargetAgentID = imTargetAgentID message,
                       imSourceAgentID = imSourceAgentID message, imContextID = imContextID message,
                       imBody = body,
                       imState = (if imState message = [] then ''unread'' else imState message),
                       imReceivedAt = trunc_ms (if IsZero (imReceivedAt message) then now else imReceivedAt message),
                       irReadAt = None\<rparr>
                 in (Inr (), s\<lparr>inbox_messages := fst (insert_ignore inbox_key row (inbox_messages s))\<rparr>))))"

definition scanInbox :: "primitives \<Rightarrow> InboxRow \<Rightarrow> store \<Rightarrow> go_error + InboxMessage" where
  "scanInbox P row s =
     (let message = InboxMessage.truncate row in
      case aead s of
        None \<Rightarrow> Inr message
      | Some key \<Rightarrow>
          (case Decrypt P key (imBody row) (inboxAssociatedData row) of
             Inl e \<Rightarrow> Inl e
           | Inr body \<Rightarrow> Inr (message\<lparr>imBody := body\<rparr>)))"

fun scan_each :: "primitives \<Rightarrow> InboxRow list \<Rightarrow> store \<Rightarrow> go_error + InboxMessage list" where
  "scan_each P [] s = Inr []"
| "scan_each P (m # ms) s =
     (case scanInbox P m s of
        Inl e \<Rightarrow> Inl e
      | Inr m' \<Rightarrow> (case scan_each P ms s of Inl e \<Rightarrow> Inl e | Inr ms' \<Rightarrow> Inr (m' # ms')))"

definition inbox_limit :: "int \<Rightarrow> int" where
  "inbox_limit limit = (let limit = (if limit \<le> 0 then 100 else limit) in if limit > 500 then 500 else limit)"

definition inbox_rows :: "string \<Rightarrow> string \<Rightarrow> bool \<Rightarrow> int \<Rightarrow> store \<Rightarrow> InboxRow list" where
  "inbox_rows targetAgentID contextID unreadOnly limit s =
     take (nat (inbox_limit limit))
       (rev (sort_key (\<lambda>m. (imReceivedAt m, imMessageID m))
         (filter (\<lambda>m. imTargetAgentID m = targetAgentID \<and> (unreadOnly \<longrightarrow> imState m = ''unread'') \<and>
                      (contextID \<noteq> [] \<longrightarrow> imContextID m = contextID)) (inbox_messages s))))"

definition ListInboxMessages ::
  "primitives \<Rightarrow> string \<Rightarrow> string \<Rightarrow> bool \<Rightarrow> int \<Rightarrow> store \<Rightarrow> go_error + InboxMessage list" where
  "ListInboxMessages P targetAgentID contextID unreadOnly limit s =
     (if targetAgentID = [] then Inl (ErrMsg ''target agent id is required'')
      else scan_each P (inbox_rows targetAgentID contextID unreadOnly limit s) s)"

definition MarkInboxMessageRead :: "gotime \<Rightarrow> string \<Rightarrow> string \<Rightarrow> string \<Rightarrow> unit op" where
  "MarkInboxMessageRead now targetAgentID sourceAgentID messageID s =
     (if targetAgentID = [] \<or> sourceAgentID = [] \<or> messageID = []
      then (Inl (ErrMsg ''inbox message identity fields are required''), s)
      else (let (rows, n) = update_rows
                  (\<lambda>m. imTargetAgentID m = targetAgentID \<and> imSourceAgentID m = sourceAgentID \<and>
                       imMessageID m = messageID)
                  (\<lambda>m. m\<lparr>imState := ''read'', irReadAt := Some (trunc_ms now)\<rparr>) (inbox_messages s)
            in (requireOneRow n, s\<lparr>inbox_messages := rows\<rparr>)))"

section \<open>Audit log\<close>

definition AppendAuditEntry :: "gotime \<Rightarrow> AuditEntry \<Rightarrow> unit op" where
  "AppendAuditEntry now entry s =
     (case insert_row aeID
             (entry\<lparr>aeCreatedAt := trunc_ms (if IsZero (aeCreatedAt entry) then now else aeCreatedAt entry)\<rparr>)
             (audit_entries s) of
        None \<Rightarrow> (Inl ErrConstraint, s)
      | Some rows \<Rightarrow> (Inr (), s\<lparr>audit_entries := rows\<rparr>))"

definition ListAuditEntries :: "string \<Rightarrow> string \<Rightarrow> int \<Rightarrow> store \<Rightarrow> go_error + AuditEntry list" where
  "ListAuditEntries actorAgentID remoteAgentID limit s =
     Inr (take (nat (if limit \<le> 0 then 100 else limit))
       (rev (sort_key (\<lambda>e. (aeCreatedAt e, aeID e))
         (filter (\<lambda>e. (actorAgentID = [] \<or> aeActorAgentID e = actorAgentID) \<and>
                      (remoteAgentID = [] \<or> aeRemoteAgentID e = remoteAgentID)) (audit_entries s)))))"

section \<open>Replay nonces\<close>

definition ClaimReplayNonce :: "string \<Rightarrow> string \<Rightarrow> string \<Rightarrow> gotime \<Rightarrow> gotime \<Rightarrow> bool op" where
  "ClaimReplayNonce localAgentID remoteAgentID nonce expiresAt now s =
     (let rows = delete_rows (\<lambda>r. rnLocalAgentID r = localAgentID \<and> rnRemoteAgentID r = remoteAgentID \<and>
                   rnNonce r = nonce \<and> millis (rnExpiresAt r) \<le> millis now) (replay_nonces s);
          (rows', n) = insert_ignore nonce_key
            \<lparr>rnLocalAgentID = localAgentID, rnRemoteAgentID = remoteAgentID, rnNonce = nonce,
             rnExpiresAt = trunc_ms expiresAt, rnCreatedAt = trunc_ms now\<rparr> rows
      in (Inr (n = 1), s\<lparr>replay_nonces := rows'\<rparr>))"

section \<open>Attachment grants\<close>

definition CreateAttachmentGrant :: "gotime \<Rightarrow> AttachmentGrant \<Rightarrow> unit op" where
  \<comment> \<open>the blob URI has no column\<close>
  "CreateAttachmentGrant now grant s =
     (if agGrantID grant = [] \<or> agBlobID grant = [] \<or> agOwnerAgentID grant = [] \<or> agTargetAgentID grant = [] \<or>
         agContextID grant = [] \<or> agDigest grant = [] \<or> agSize grant < 0 \<or> IsZero (agExpiresAt grant)
      then (Inl ErrGrantDenied, s)
      else (let row = grant\<lparr>agBlobURI := [], agExpiresAt := trunc_ms (agExpiresAt grant), agRevokedAt := None,
                  agCreatedAt := trunc_ms (if IsZero (agCreatedAt grant) then now else agCreatedAt grant),
                  agUpdatedAt := trunc_ms now\<rparr>
            in case insert_row agGrantID row (attachment_grants s) of
                 None \<Rightarrow> (Inl ErrConstraint, s)
               | Some rows \<Rightarrow> (Inr (), s\<lparr>attachment_grants := rows\<rparr>)))"

definition GetAttachmentGrant :: "string \<Rightarrow> store \<Rightarrow> go_error + AttachmentGrant" where
  "GetAttachmentGrant grantID s =
     (case by_key agGrantID grantID (attachment_grants s) of None \<Rightarrow> Inl ErrNotFound | Some grant \<Rightarrow> Inr grant)"

definition AuthorizeAttachmentGrant ::
  "string \<Rightarrow> string \<Rightarrow> string \<Rightarrow> string \<Rightarrow> string \<Rightarrow> string \<Rightarrow> gotime \<Rightarrow> store \<Rightarrow> go_error + AttachmentGrant" where
  "AuthorizeAttachmentGrant grantID blobID ownerAgentID targetAgentID contextID digest now s =
     (case GetAttachmentGrant grantID s of
        Inl e \<Rightarrow> (if e = ErrNotFound then Inl ErrGrantDenied else Inl e)
      | Inr grant \<Rightarrow>
          if agBlobID grant \<noteq> blobID \<or> agOwnerAgentID grant \<noteq> ownerAgentID \<or>
             agTargetAgentID grant \<noteq> targetAgentID \<or> agContextID grant \<noteq> contextID \<or> agDigest grant \<noteq> digest
          then Inl ErrGrantDenied
          else if agRevokedAt grant \<noteq> None then Inl ErrGrantRevoked
          else if \<not> now < agExpiresAt grant then Inl ErrGrantExpired
          else Inr grant)"

definition RevokeAttachmentGrant :: "gotime \<Rightarrow> string \<Rightarrow> gotime \<Rightarrow> unit op" where
  "RevokeAttachmentGrant now grantID revokedAt s =
     (let revokedAt = (if IsZero revokedAt then now else revokedAt);
          (rows, n) = update_rows (\<lambda>g. agGrantID g = grantID)
            (\<lambda>g. g\<lparr>agRevokedAt := (case agRevokedAt g of None \<Rightarrow> Some (trunc_ms revokedAt) | Some t \<Rightarrow> Some t),
                   agUpdatedAt := trunc_ms revokedAt\<rparr>) (attachment_grants s)
      in (requireOneRow n, s\<lparr>attachment_grants := rows\<rparr>))"

definition RevokeAttachmentGrantsForContact :: "gotime \<Rightarrow> string \<Rightarrow> string \<Rightarrow> gotime \<Rightarrow> int op" where
  "RevokeAttachmentGrantsForContact now ownerAgentID targetAgentID revokedAt s =
     (let revokedAt = (if IsZero revokedAt then now else revokedAt);
          (rows, n) = update_rows
            (\<lambda>g. agOwnerAgentID g = ownerAgentID \<and> agTargetAgentID g = targetAgentID \<and> agRevokedAt g = None)
            (\<lambda>g. g\<lparr>agRevokedAt := Some (trunc_ms revokedAt), agUpdatedAt := trunc_ms revokedAt\<rparr>)
            (attachment_grants s)
      in (Inr (int n), s\<lparr>attachment_grants := rows\<rparr>))"

section \<open>Deduplication of inbound messages\<close>

definition RecordMessageOnce :: "gotime \<Rightarrow> string \<Rightarrow> string \<Rightarrow> string \<Rightarrow> bool op" where
  "RecordMessageOnce now targetAgentID messageID taskID s =
     (let (rows, n) = insert_ignore dedup_key
            \<lparr>ddSourceAgentID = [], ddTargetAgentID = targetAgentID, ddAgentKeyEpoch = 0,
             ddMessageID = messageID, ddTaskID = taskID, ddResponseStatus = 0, ddResponseType = [],
             ddResponseBody = [], ddCreatedAt = trunc_ms now\<rparr> (deduplication_records s)
      in (Inr (n = 1), s\<lparr>deduplication_records := rows\<rparr>))"

definition GetDeduplication :: "string \<Rightarrow> string \<Rightarrow> store \<Rightarrow> go_error + DeduplicationRecord" where
  "GetDeduplication targetAgentID messageID s =
     (case by_key dedup_key (targetAgentID, messageID) (deduplication_records s) of
        None \<Rightarrow> Inl ErrNotFound | Some r \<Rightarrow> Inr r)"

fun digits :: "nat \<Rightarrow> string" where
  \<comment> \<open>decimal digits, as the verb for integers prints them\<close>
  "digits n = (if n < 10 then [unbyte (48 + n)] else digits (n div 10) @ [unbyte (48 + n mod 10)])"

declare digits.simps [simp del]

definition scopedDedupAssociatedData :: "string \<Rightarrow> string \<Rightarrow> int \<Rightarrow> string \<Rightarrow> bytes" where
  "scopedDedupAssociatedData sourceAgentID targetAgentID epoch messageID =
     ''snw-agent-link:dedup:'' @ sourceAgentID @ '':'' @ targetAgentID @ '':'' @ digits (nat epoch) @ '':'' @
     messageID"

definition RecordScopedMessageOnce ::
  "gotime \<Rightarrow> string \<Rightarrow> string \<Rightarrow> int \<Rightarrow> string \<Rightarrow> string \<Rightarrow> bool op" where
  "RecordScopedMessageOnce now sourceAgentID targetAgentID epoch messageID taskID s =
     (let (rows, n) = insert_ignore scoped_key
            \<lparr>ddSourceAgentID = sourceAgentID, ddTargetAgentID = targetAgentID, ddAgentKeyEpoch = epoch,
             ddMessageID = messageID, ddTaskID = taskID, ddResponseStatus = 0, ddResponseType = [],
             ddResponseBody = [], ddCreatedAt = trunc_ms now\<rparr> (scoped_deduplication_records s)
      in (Inr (n = 1), s\<lparr>scoped_deduplication_records := rows\<rparr>))"

definition GetScopedDeduplication ::
  "primitives \<Rightarrow> string \<Rightarrow> string \<Rightarrow> int \<Rightarrow> string \<Rightarrow> store \<Rightarrow> go_error + DeduplicationRecord" where
  "GetScopedDeduplication P sourceAgentID targetAgentID epoch messageID s =
     (case by_key scoped_key (sourceAgentID, targetAgentID, epoch, messageID) (scoped_deduplication_records s) of
        None \<Rightarrow> Inl ErrNotFound
      | Some r \<Rightarrow>
          (case aead s of
             None \<Rightarrow> Inr r
           | Some key \<Rightarrow>
               if ddResponseBody r = [] then Inr r
               else (case Decrypt P key (ddResponseBody r)
                            (scopedDedupAssociatedData sourceAgentID targetAgentID epoch messageID) of
                       Inl e \<Rightarrow> Inl e
                     | Inr body \<Rightarrow> Inr (r\<lparr>ddResponseBody := body\<rparr>))))"

definition CompleteScopedMessage ::
  "primitives \<Rightarrow> bytes \<Rightarrow> string \<Rightarrow> string \<Rightarrow> int \<Rightarrow> string \<Rightarrow> string \<Rightarrow> int \<Rightarrow> string \<Rightarrow> bytes \<Rightarrow> unit op" where
  "CompleteScopedMessage P nonce sourceAgentID targetAgentID epoch messageID taskID status contentType body s =
     (case (case aead s of None \<Rightarrow> Inr body
            | Some key \<Rightarrow> if body = [] then Inr body
                else Encrypt P key nonce body (scopedDedupAssociatedData sourceAgentID targetAgentID epoch messageID)) of
        Inl e \<Rightarrow> (Inl e, s)
      | Inr storedBody \<Rightarrow>
          (let (rows, n) = update_rows
                 (\<lambda>r. ddSourceAgentID r = sourceAgentID \<and> ddTargetAgentID r = targetAgentID \<and>
                      ddAgentKeyEpoch r = epoch \<and> ddMessageID r = messageID)
                 (\<lambda>r. r\<lparr>ddTaskID := taskID, ddResponseStatus := status, ddResponseType := contentType,
                        ddResponseBody := storedBody\<rparr>) (scoped_deduplication_records s)
           in (requireOneRow n, s\<lparr>scoped_deduplication_records := rows\<rparr>)))"

section \<open>The state each operation leaves\<close>

lemma RevokeAttachmentGrantsForContact_state [state_eqs]:
  "snd (RevokeAttachmentGrantsForContact now a b t s) = s\<lparr>attachment_grants := fst (update_rows
      (\<lambda>g. agOwnerAgentID g = a \<and> agTargetAgentID g = b \<and> agRevokedAt g = None)
      (\<lambda>g. g\<lparr>agRevokedAt := Some (trunc_ms (if IsZero t then now else t)),
             agUpdatedAt := trunc_ms (if IsZero t then now else t)\<rparr>) (attachment_grants s))\<rparr>"
  by (simp add: RevokeAttachmentGrantsForContact_def Let_def case_prod_beta)

lemma RevokeAttachmentGrant_state [state_eqs]:
  "snd (RevokeAttachmentGrant now i t s) = s\<lparr>attachment_grants := fst (update_rows
      (\<lambda>g. agGrantID g = i)
      (\<lambda>g. g\<lparr>agRevokedAt := (case agRevokedAt g of
               None \<Rightarrow> Some (trunc_ms (if IsZero t then now else t)) | Some u \<Rightarrow> Some u),
             agUpdatedAt := trunc_ms (if IsZero t then now else t)\<rparr>) (attachment_grants s))\<rparr>"
  by (simp add: RevokeAttachmentGrant_def Let_def case_prod_beta)

lemma AppendAuditEntry_state [state_eqs]:
  "snd (AppendAuditEntry now e s) =
     (if by_key aeID (aeID e) (audit_entries s) \<noteq> None then s
      else s\<lparr>audit_entries := audit_entries s @
        [e\<lparr>aeCreatedAt := trunc_ms (if IsZero (aeCreatedAt e) then now else aeCreatedAt e)\<rparr>]\<rparr>)"
  by (auto simp: AppendAuditEntry_def insert_row_None_iff insert_row_Some_iff split: option.splits)

section \<open>Keys stay unique\<close>

lemma wf_RevokeGrantsForContact [wf_intros]:
  "wf_store s \<Longrightarrow> wf_store (snd (RevokeAttachmentGrantsForContact now a b t s))"
  by (simp add: state_eqs wf_store_def unique_key_update_rows)

lemma wf_RevokeAttachmentGrant [wf_intros]: "wf_store s \<Longrightarrow> wf_store (snd (RevokeAttachmentGrant now i t s))"
  by (simp add: state_eqs wf_store_def unique_key_update_rows)

lemma wf_inserted:
  assumes "wf_store s"
  shows "insert_row agGrantID g (attachment_grants s) = Some grants \<Longrightarrow> wf_store (s\<lparr>attachment_grants := grants\<rparr>)"
    "insert_row aeID e (audit_entries s) = Some entries \<Longrightarrow> wf_store (s\<lparr>audit_entries := entries\<rparr>)"
  using assms by (auto simp: wf_store_def intro: unique_key_insert_row)

lemma wf_CreateAttachmentGrant [wf_intros]: "wf_store s \<Longrightarrow> wf_store (snd (CreateAttachmentGrant now g s))"
  by (simp add: CreateAttachmentGrant_def Let_def wf_inserted split: option.split)

lemma wf_AppendAuditEntry [wf_intros]: "wf_store s \<Longrightarrow> wf_store (snd (AppendAuditEntry now e s))"
  by (simp add: AppendAuditEntry_def wf_inserted split: option.split)

lemma wf_RecordInboxMessage [wf_intros]: "wf_store s \<Longrightarrow> wf_store (snd (RecordInboxMessage P now n m s))"
  by (auto simp: RecordInboxMessage_def Let_def wf_store_def unique_key_insert_ignore split: sum.splits)

lemma wf_MarkInboxMessageRead [wf_intros]: "wf_store s \<Longrightarrow> wf_store (snd (MarkInboxMessageRead now a b i s))"
  by (simp add: MarkInboxMessageRead_def Let_def case_prod_beta wf_store_def unique_key_update_rows inbox_key_def)

lemma wf_ClaimReplayNonce [wf_intros]: "wf_store s \<Longrightarrow> wf_store (snd (ClaimReplayNonce a b n t now s))"
  by (simp add: ClaimReplayNonce_def Let_def case_prod_beta wf_store_def unique_key_insert_ignore
      unique_key_delete_rows)

lemma wf_RecordMessageOnce [wf_intros]: "wf_store s \<Longrightarrow> wf_store (snd (RecordMessageOnce now a i t s))"
  by (simp add: RecordMessageOnce_def Let_def case_prod_beta wf_store_def unique_key_insert_ignore)

lemma wf_RecordScopedMessageOnce [wf_intros]:
  "wf_store s \<Longrightarrow> wf_store (snd (RecordScopedMessageOnce now a b e i t s))"
  by (simp add: RecordScopedMessageOnce_def Let_def case_prod_beta wf_store_def unique_key_insert_ignore)

lemma wf_CompleteScopedMessage [wf_intros]:
  "wf_store s \<Longrightarrow> wf_store (snd (CompleteScopedMessage P n a b e i t st ct body s))"
  by (auto simp: CompleteScopedMessage_def Let_def case_prod_beta wf_store_def unique_key_update_rows
      scoped_key_def split: sum.splits)

end
