(* ===== verification/GoNet.thy ===== *)
theory GoNet
  imports GoBase
begin

text \<open>
  The functions of \<open>net\<close>, \<open>net/url\<close>, \<open>strings\<close> and \<open>strconv\<close> that the components use on addresses and
  numbers. Parsing of URLs and of IP literals is a parameter (\<open>netlib\<close>).
\<close>

section \<open>Strings and numbers\<close>

definition HasPrefix :: "string \<Rightarrow> string \<Rightarrow> bool" where
  "HasPrefix s p = (take (length p) s = p)"

definition HasSuffix :: "string \<Rightarrow> string \<Rightarrow> bool" where
  "HasSuffix s p = HasPrefix (rev s) (rev p)"

definition TrimPrefix :: "string \<Rightarrow> string \<Rightarrow> string" where
  "TrimPrefix s p = (if HasPrefix s p then drop (length p) s else s)"

definition Trim :: "string \<Rightarrow> string \<Rightarrow> string" where
  "Trim s cutset = rev (dropWhile (\<lambda>c. c \<in> set cutset) (rev (dropWhile (\<lambda>c. c \<in> set cutset) s)))"

definition is_digit :: "char \<Rightarrow> bool" where
  "is_digit c = (48 \<le> byte c \<and> byte c \<le> 57)"

definition digit_value :: "char \<Rightarrow> int" where
  "digit_value c = int (byte c) - 48"

definition decimal :: "string \<Rightarrow> int" where
  "decimal s = foldl (\<lambda>n c. 10 * n + digit_value c) 0 s"

text \<open>\<^verbatim>\<open>strconv.ParseInt(s, 10, 64)\<close>, which \<^verbatim>\<open>strconv.Atoi\<close> is on 64-bit platforms.\<close>

definition ParseInt64 :: "string \<Rightarrow> int option" where
  "ParseInt64 s =
     (let (negative, body) = (case s of c # cs \<Rightarrow>
            (if c = CHR ''-'' then (True, cs) else if c = CHR ''+'' then (False, cs) else (False, s))
            | [] \<Rightarrow> (False, s))
      in if body = [] \<or> \<not> list_all is_digit body then None
         else (let n = (if negative then - decimal body else decimal body)
               in if - (2 ^ 63) \<le> n \<and> n < 2 ^ 63 then Some n else None))"

section \<open>Addresses\<close>

text \<open>
  \<^verbatim>\<open>net.SplitHostPort\<close>; every error is \<open>None\<close>. The text after the last colon is the port.
\<close>

definition SplitHostPort :: "string \<Rightarrow> (string \<times> string) option" where
  "SplitHostPort hostport =
     (if CHR '':'' \<notin> set hostport then None
      else
        let port = rev (takeWhile (\<lambda>c. c \<noteq> CHR '':'') (rev hostport));
            i = length hostport - length port - 1
        in if take 1 hostport = ''[''
           then (if CHR '']'' \<notin> set hostport then None
                 else let e = length (takeWhile (\<lambda>c. c \<noteq> CHR '']'') hostport)
                      in if e + 1 \<noteq> i then None
                         else if CHR ''['' \<in> set (drop 1 hostport) then None
                         else if CHR '']'' \<in> set (drop (e + 1) hostport) then None
                         else Some (take (e - 1) (drop 1 hostport), port))
           else (let host = take i hostport
                 in if CHR '':'' \<in> set host then None
                    else if CHR ''['' \<in> set hostport \<or> CHR '']'' \<in> set hostport then None
                    else Some (host, port)))"

definition JoinHostPort :: "string \<Rightarrow> string \<Rightarrow> string" where
  "JoinHostPort host port =
     (if CHR '':'' \<in> set host then ''['' @ host @ '']:'' @ port else host @ '':'' @ port)"

definition hex_upper :: string where "hex_upper = ''0123456789ABCDEF''"

definition path_unescaped :: "char \<Rightarrow> bool" where
  "path_unescaped c =
     (is_digit c \<or> (65 \<le> byte c \<and> byte c \<le> 90) \<or> (97 \<le> byte c \<and> byte c \<le> 122) \<or>
      c \<in> set ''-_.~$&+:=@'')"

definition PathEscape :: "string \<Rightarrow> string" where
  "PathEscape s = concat (map (\<lambda>c. if path_unescaped c then [c]
     else [CHR 0x25, hex_upper ! (byte c div 16), hex_upper ! (byte c mod 16)]) s)"

record netlib =
  url_SchemeHost :: "string \<Rightarrow> (string \<times> string) option"  \<comment> \<open>url.Parse, then Scheme and Host\<close>
  net_ParseIP :: "string \<Rightarrow> bool"                         \<comment> \<open>net.ParseIP gives an address\<close>

lemma SplitHostPort_JoinHostPort_plain:
  assumes "CHR '':'' \<notin> set host" "CHR ''['' \<notin> set host" "CHR '']'' \<notin> set host"
    and "CHR '':'' \<notin> set port" "CHR ''['' \<notin> set port" "CHR '']'' \<notin> set port"
  shows "SplitHostPort (JoinHostPort host port) = Some (host, port)"
proof -
  have tw: "takeWhile (\<lambda>c. c \<noteq> CHR '':'') (rev port @ CHR '':'' # rev host) = rev port"
    using assms(4) by (subst takeWhile_append2) auto
  have nb: "take 1 (host @ '':'' @ port) \<noteq> ''[''"
    using assms(2) by (cases host) auto
  show ?thesis
    using assms nb by (simp add: SplitHostPort_def JoinHostPort_def Let_def tw)
qed

section \<open>IP addresses\<close>

text \<open>
  An address is the list of its bytes: four for IPv4, sixteen for IPv6. Parsing of URLs and addresses
  and name resolution are parameters (\<open>weblib\<close>).
\<close>

type_synonym ip = "nat list"

definition To4 :: "ip \<Rightarrow> ip option" where
  "To4 a = (if length a = 4 then Some a
     else if length a = 16 \<and> take 10 a = replicate 10 0 \<and> take 2 (drop 10 a) = [255, 255] then Some (drop 12 a)
     else None)"

definition IsLoopback :: "ip \<Rightarrow> bool" where
  "IsLoopback a = (case To4 a of Some v \<Rightarrow> v ! 0 = 127 | None \<Rightarrow> a = replicate 15 0 @ [1])"

definition Unmap :: "ip \<Rightarrow> ip" where
  "Unmap a = (case To4 a of Some v \<Rightarrow> v | None \<Rightarrow> a)"

definition ip_bits :: "ip \<Rightarrow> bool list" where
  "ip_bits a = concat (map (\<lambda>b. map (\<lambda>i. b div 2 ^ i mod 2 = 1) [7, 6, 5, 4, 3, 2, 1, 0]) a)"

definition Contains :: "ip \<times> nat \<Rightarrow> ip \<times> string \<Rightarrow> bool" where
  \<comment> \<open>\<^verbatim>\<open>netip.Prefix.Contains\<close>; an address with a zone is in no prefix\<close>
  "Contains prefix address = (case (prefix, address) of ((p, n), (a, zone)) \<Rightarrow>
     zone = [] \<and> length a = length p \<and> take n (ip_bits a) = take n (ip_bits p))"

record parsed_url =
  pScheme :: string
  pHasUser :: bool
  pHost :: string       \<comment> \<open>host and port\<close>
  pHostname :: string
  pPort :: string

record weblib =
  url_Parse :: "string \<Rightarrow> parsed_url option"
  LookupIP :: "string \<Rightarrow> ip list option"
  netip_ParseAddr :: "string \<Rightarrow> (ip \<times> string) option"   \<comment> \<open>address and zone\<close>
  netip_ParsePrefix :: "string \<Rightarrow> (ip \<times> nat) option"    \<comment> \<open>address and length\<close>

end
