(* ===== verification/Pairing.thy ===== *)
theory Pairing
  imports StoreOutbox StoreInbox GoNet
begin

text \<open>
  \<^verbatim>\<open>internal/pairing/service.go\<close>: the pairing protocol (invite, import, accept, approve, confirm,
  activate), revocation and blocking, over the store of one daemon. An operation takes the
  primitives, the encoders of its payloads and its environment: the successive readings of the clock
  and the random values it draws. Effects of the calls made before an error stay in the store, since
  the Go methods issue separate statements.
\<close>

section \<open>Messages\<close>

definition KindPairingInvite :: string where "KindPairingInvite = ''pairing.invite''"
definition KindPairingAcceptance :: string where "KindPairingAcceptance = ''pairing.acceptance''"
definition KindPairingConfirmation :: string where "KindPairingConfirmation = ''pairing.confirmation''"
definition KindPairingActivationReceipt :: string where
  "KindPairingActivationReceipt = ''pairing.activation_receipt''"
definition KindRevocationNotice :: string where "KindRevocationNotice = ''contact.revocation''"
definition pairingRoleInviter :: string where "pairingRoleInviter = ''inviter''"
definition pairingRoleInvitee :: string where "pairingRoleInvitee = ''invitee''"

lemma roles_differ [simp]: "pairingRoleInviter \<noteq> pairingRoleInvitee" "pairingRoleInvitee \<noteq> pairingRoleInviter"
  by (simp_all add: pairingRoleInviter_def pairingRoleInvitee_def)

record CreateInviteInput =
  ciRemoteAgentID :: string
  ciLocalHostFingerprint :: string
  ciLocalTailscaleAddress :: string
  ciLocalNodeID :: string
  ciTTL :: duration

record ApproveAcceptanceInput =
  aaExpectedHostFingerprint :: string
  aaExpectedAgentFingerprint :: string

record PairingInvitePayload =
  piInviteID :: string
  piInvitingAgentID :: string
  piInvitingAgentPublicKey :: bytes
  piInvitingHostFingerprint :: string
  piInvitingTailscaleAddress :: string
  piInvitingNodeID :: string
  piTargetAgentID :: string
  piSecret :: string
  piExpiresAt :: gotime

record PairingAcceptancePayload =
  paInviteID :: string
  paInviteDigest :: string
  paInvitingAgentID :: string
  paAcceptingAgentID :: string
  paAcceptingAgentPublicKey :: bytes
  paAcceptingHostFingerprint :: string
  paAcceptingTailscaleAddress :: string
  paAcceptingNodeID :: string
  paSecretProof :: string

record PairingConfirmationPayload =
  pcInviteID :: string
  pcInviteDigest :: string
  pcAcceptanceDigest :: string
  pcInvitingAgentID :: string
  pcInvitingAgentPublicKey :: bytes
  pcInvitingHostFingerprint :: string
  pcAcceptingAgentID :: string
  pcAcceptingAgentPublicKey :: bytes
  pcAcceptingHostFingerprint :: string

record PairingActivationReceiptPayload =
  pvInviteID :: string
  pvConfirmationDigest :: string
  pvInvitingAgentID :: string
  pvAcceptingAgentID :: string
  pvAcceptingAgentPublicKey :: bytes
  pvAcceptingHostFingerprint :: string

record RevocationNoticePayload =
  rvRevokingAgentID :: string
  rvRevokingAgentPublicKey :: bytes
  rvRevokingHostFingerprint :: string
  rvTargetAgentID :: string
  rvReason :: string
  rvRevokedAt :: gotime

record 'p signed_message =
  Payload :: 'p
  Envelope :: SignedEnvelope

type_synonym PairingInvite = "PairingInvitePayload signed_message"
type_synonym PairingAcceptance = "PairingAcceptancePayload signed_message"
type_synonym PairingConfirmation = "PairingConfirmationPayload signed_message"
type_synonym PairingActivationReceipt = "PairingActivationReceiptPayload signed_message"
type_synonym RevocationNotice = "RevocationNoticePayload signed_message"

text \<open>
  \<^verbatim>\<open>json.Marshal\<close> of the payloads. Only payloads with an instant can fail (a year outside 0 to 9999).
\<close>

record codec =
  json_invite :: "PairingInvitePayload \<Rightarrow> bytes option"
  json_acceptance :: "PairingAcceptancePayload \<Rightarrow> bytes"
  json_confirmation :: "PairingConfirmationPayload \<Rightarrow> bytes"
  json_receipt :: "PairingActivationReceiptPayload \<Rightarrow> bytes"
  json_revocation :: "RevocationNoticePayload \<Rightarrow> bytes option"

record env =
  clk :: clock                     \<comment> \<open>readings of s.now() and time.Now(), in the order of the calls\<close>
  uuid :: "nat \<Rightarrow> string"           \<comment> \<open>results of uuid.NewString()\<close>
  rnd :: bytes                     \<comment> \<open>the bytes rand.Read filled in\<close>

record lib =
  prim :: primitives
  json :: codec
  nets :: netlib

section \<open>Signing, digests, proofs\<close>

definition signPayload ::
  "lib \<Rightarrow> gotime \<Rightarrow> string \<Rightarrow> Identity \<Rightarrow> string \<Rightarrow> bytes option \<Rightarrow> go_error + SignedEnvelope" where
  \<comment> \<open>the last argument is the encoding of the payload\<close>
  "signPayload L now nonce signer kind encoded =
     (case encoded of
        None \<Rightarrow> Inl ErrMarshal
      | Some bs \<Rightarrow> Inr (Sign (prim L) now nonce signer (idAgentID signer) kind bs))"

definition verifyPayload ::
  "lib \<Rightarrow> SignedEnvelope \<Rightarrow> string \<Rightarrow> bytes option \<Rightarrow> string \<Rightarrow> bytes \<Rightarrow> go_error + unit" where
  "verifyPayload L envelope expectedKind encoded expectedAgentID expectedPublicKey =
     (if seKind envelope \<noteq> expectedKind then Inl ErrInvalidEnvelope
      else case VerifyEnvelopeForAgent (prim L) envelope expectedAgentID expectedPublicKey of
             Inl _ \<Rightarrow> Inl ErrInvalidEnvelope
           | Inr _ \<Rightarrow>
               (case encoded of
                  None \<Rightarrow> Inl ErrMarshal
                | Some bs \<Rightarrow> if bs \<noteq> sePayload envelope then Inl ErrInvalidEnvelope else Inr ()))"

definition digestEnvelope :: "lib \<Rightarrow> SignedEnvelope \<Rightarrow> string" where
  "digestEnvelope L envelope = hex_EncodeToString (sha256 (prim L) (json_envelope (prim L) envelope))"

definition xor_byte :: "nat \<Rightarrow> nat \<Rightarrow> nat" where
  "xor_byte a b = nat (xor (int a) (int b))"

definition hmac_sha256 :: "primitives \<Rightarrow> bytes \<Rightarrow> bytes \<Rightarrow> bytes" where
  \<comment> \<open>RFC 2104 with the 64-byte block of SHA-256\<close>
  "hmac_sha256 P key message =
     (let k = (if length key > 64 then sha256 P key else key);
          k = map byte k @ replicate (64 - length k) 0;
          ipad = map (\<lambda>b. unbyte (xor_byte b 0x36)) k;
          opad = map (\<lambda>b. unbyte (xor_byte b 0x5c)) k
      in sha256 P (opad @ sha256 P (ipad @ message)))"

definition acceptanceSecretProof :: "lib \<Rightarrow> bytes \<Rightarrow> string \<Rightarrow> string \<Rightarrow> string \<Rightarrow> string \<Rightarrow> string" where
  "acceptanceSecretProof L secretHash inviteDigest acceptingAgentID hostFingerprint agentFingerprint =
     RawURL_EncodeToString (hmac_sha256 (prim L) secretHash
       (inviteDigest @ [CHR 0x00] @ acceptingAgentID @ [CHR 0x00] @ hostFingerprint @ [CHR 0x00] @
        agentFingerprint))"

definition publicKey :: "bytes \<Rightarrow> go_error + bytes" where
  "publicKey key = (if length key \<noteq> PublicKeySize then Inl ErrInvalidPublicKey else Inr key)"

definition randomSecret :: "bytes \<Rightarrow> string" where
  "randomSecret bs = RawURL_EncodeToString bs"

definition hashSecret :: "lib \<Rightarrow> string \<Rightarrow> bytes" where
  "hashSecret L secret = sha256 (prim L) secret"

section \<open>Addresses\<close>

definition splitTailnetAddress :: "netlib \<Rightarrow> string \<Rightarrow> string \<times> string" where
  "splitTailnetAddress N address =
     (let raw = TrimSpace address in
      if raw = [] then ([], [])
      else
        let raw = (case url_SchemeHost N raw of Some (scheme, host) \<Rightarrow> if scheme \<noteq> [] then host else raw
                   | None \<Rightarrow> raw)
        in case (case SplitHostPort raw of
                   Some (host, port) \<Rightarrow> if ParseInt64 port \<noteq> None then Some (Trim host ''[]'', port) else None
                 | None \<Rightarrow> None) of
             Some result \<Rightarrow> result
           | None \<Rightarrow>
               (let raw = (if HasPrefix raw ''['' \<and> HasSuffix raw '']'' then Trim raw ''[]'' else raw)
                in if \<not> net_ParseIP N raw then ([], []) else (raw, [])))"

definition endpointForAgent :: "netlib \<Rightarrow> string \<Rightarrow> string \<Rightarrow> string" where
  "endpointForAgent N address agentID =
     (let (host, port) = splitTailnetAddress N address in
      if host = [] \<or> agentID = [] then []
      else let port = (if port = [] then ''7443'' else port)
           in ''http://'' @ JoinHostPort host port @ ''/agents/'' @ PathEscape agentID @ ''/a2a/rest'')"

section \<open>Operations\<close>

definition zero_contact :: Contact where
  "zero_contact = \<lparr>cLocalAgentID = [], cRemoteAgentID = [], cRemoteNodeID = [], cRemoteEndpoint = [],
     cRemoteBinding = [], cRemoteHostFingerprint = [], cRemoteAgentFingerprint = [],
     cState = ContactStateUnknown, cCreatedAt = zero_time, cUpdatedAt = zero_time\<rparr>"

definition zero_session :: PairingSession where
  "zero_session = \<lparr>psInviteID = [], psLocalAgentID = [], psRemoteAgentID = [], psRole = [],
     psLocalHostFingerprint = [], psRemoteHostFingerprint = [], psRemoteAgentPublicKey = [],
     psInviteDigest = [], psAcceptanceDigest = [], psConfirmationDigest = [],
     psExpiresAt = zero_time, psCreatedAt = zero_time, psUpdatedAt = zero_time\<rparr>"

definition rejectBlockedContact :: "string \<Rightarrow> string \<Rightarrow> store \<Rightarrow> go_error + unit" where
  "rejectBlockedContact localAgentID remoteAgentID s =
     (case GetContact localAgentID remoteAgentID s of
        Inl e \<Rightarrow> (if e = ErrNotFound then Inr () else Inl e)
      | Inr contact \<Rightarrow> if cState contact = ContactStateBlocked then Inl ErrContactBlocked else Inr ())"

definition CreateInvite ::
  "lib \<Rightarrow> env \<Rightarrow> Identity option \<Rightarrow> CreateInviteInput \<Rightarrow> PairingInvite op" where
  "CreateInvite L E localIdentity input s =
     (case localIdentity of
        None \<Rightarrow> (Inl (ErrMsg ''pairing invite identity and Tailscale address are required''), s)
      | Some i \<Rightarrow>
      if ciRemoteAgentID input = [] \<or> ciLocalTailscaleAddress input = []
      then (Inl (ErrMsg ''pairing invite identity and Tailscale address are required''), s)
      else if ciRemoteAgentID input = idAgentID i then (Inl (ErrMsg ''cannot pair an agent with itself''), s)
      else if ciTTL input \<le> 0 then (Inl (ErrMsg ''pairing invite ttl must be positive''), s)
      else
      and_then (rejectBlockedContact (idAgentID i) (ciRemoteAgentID input) s, s) (\<lambda>_ s.
      let now = clk E 0;
          payload = \<lparr>piInviteID = uuid E 0, piInvitingAgentID = idAgentID i,
            piInvitingAgentPublicKey = idPublicKey i,
            piInvitingHostFingerprint = ciLocalHostFingerprint input,
            piInvitingTailscaleAddress = ciLocalTailscaleAddress input,
            piInvitingNodeID = TrimSpace (ciLocalNodeID input),
            piTargetAgentID = ciRemoteAgentID input,
            piSecret = randomSecret (rnd E), piExpiresAt = now + ciTTL input\<rparr>
      in and_then (signPayload L (clk E 1) (uuid E 1) i KindPairingInvite (json_invite (json L) payload), s) (\<lambda>envelope s.
      and_then (CreatePairingRequest \<lparr>prID = piInviteID payload, prLocalAgentID = piInvitingAgentID payload,
          prRemoteAgentID = piTargetAgentID payload, prRemoteHostFingerprint = [], prRemoteAgentFingerprint = [],
          prSecretHash = hashSecret L (piSecret payload), prExpiresAt = piExpiresAt payload,
          prConsumedAt = None, prCreatedAt = now\<rparr> s) (\<lambda>_ s.
      and_then (UpsertPairingSession (clk E 2) (zero_session\<lparr>psInviteID := piInviteID payload,
          psLocalAgentID := piInvitingAgentID payload, psRemoteAgentID := piTargetAgentID payload,
          psRole := pairingRoleInviter, psLocalHostFingerprint := piInvitingHostFingerprint payload,
          psInviteDigest := digestEnvelope L envelope, psExpiresAt := piExpiresAt payload,
          psCreatedAt := now\<rparr>) s) (\<lambda>_ s.
      and_then (UpsertContact (clk E 3) (zero_contact\<lparr>cLocalAgentID := piInvitingAgentID payload,
          cRemoteAgentID := piTargetAgentID payload, cState := ContactStatePendingOutbound\<rparr>) s) (\<lambda>_ s.
      (Inr \<lparr>Payload = payload, Envelope = envelope\<rparr>, s)))))))"

definition ImportInvite :: "lib \<Rightarrow> env \<Rightarrow> Identity option \<Rightarrow> PairingInvite \<Rightarrow> Contact op" where
  "ImportInvite L E localIdentity invite s =
     (case localIdentity of
        None \<Rightarrow> (Inl (ErrMsg ''local identity is required''), s)
      | Some i \<Rightarrow>
      let payload = Payload invite in
      case GetPairingRequestForAgent (piInviteID payload) (idAgentID i) s of
        Inr _ \<Rightarrow> (Inl ErrInviteConsumed, s)
      | Inl e \<Rightarrow>
      if e \<noteq> ErrNotFound then (Inl e, s)
      else if piTargetAgentID payload \<noteq> idAgentID i \<or> piInvitingAgentID payload = []
      then (Inl ErrIdentityMismatch, s)
      else
      and_then (rejectBlockedContact (idAgentID i) (piInvitingAgentID payload) s, s) (\<lambda>_ s.
      if \<not> clk E 0 < piExpiresAt payload then (Inl ErrInviteExpired, s)
      else case publicKey (piInvitingAgentPublicKey payload) of
        Inl _ \<Rightarrow> (Inl ErrIdentityMismatch, s)
      | Inr inviterPublicKey \<Rightarrow>
      and_then (verifyPayload L (Envelope invite) KindPairingInvite (json_invite (json L) payload)
          (piInvitingAgentID payload) inviterPublicKey, s) (\<lambda>_ s.
      let now = clk E 1;
          request = \<lparr>prID = piInviteID payload, prLocalAgentID = idAgentID i,
            prRemoteAgentID = piInvitingAgentID payload,
            prRemoteHostFingerprint = piInvitingHostFingerprint payload,
            prRemoteAgentFingerprint = Fingerprint (prim L) inviterPublicKey,
            prSecretHash = hashSecret L (piSecret payload), prExpiresAt = piExpiresAt payload,
            prConsumedAt = None, prCreatedAt = now\<rparr>
      in case CreatePairingRequest request s of
        (Inl e, s) \<Rightarrow>
          (case GetPairingRequestForAgent (prID request) (prLocalAgentID request) s of
             Inr _ \<Rightarrow> (Inl ErrInviteConsumed, s) | Inl _ \<Rightarrow> (Inl e, s))
      | (Inr _, s) \<Rightarrow>
      and_then (UpsertPairingSession (clk E 2) (zero_session\<lparr>psInviteID := prID request,
          psLocalAgentID := prLocalAgentID request, psRemoteAgentID := prRemoteAgentID request,
          psRole := pairingRoleInvitee, psRemoteHostFingerprint := prRemoteHostFingerprint request,
          psRemoteAgentPublicKey := inviterPublicKey, psInviteDigest := digestEnvelope L (Envelope invite),
          psExpiresAt := prExpiresAt request, psCreatedAt := now\<rparr>) s) (\<lambda>_ s.
      let contact = zero_contact\<lparr>cLocalAgentID := prLocalAgentID request,
            cRemoteAgentID := prRemoteAgentID request,
            cRemoteEndpoint := endpointForAgent (nets L) (piInvitingTailscaleAddress payload) (prRemoteAgentID request),
            cRemoteBinding := TrimSpace (piInvitingTailscaleAddress payload),
            cRemoteNodeID := TrimSpace (piInvitingNodeID payload),
            cRemoteHostFingerprint := prRemoteHostFingerprint request,
            cRemoteAgentFingerprint := prRemoteAgentFingerprint request,
            cState := ContactStatePendingInbound\<rparr>
      in and_then (UpsertContact (clk E 3) contact s) (\<lambda>_ s.
      (GetContact (cLocalAgentID contact) (cRemoteAgentID contact) s, s))))))"

definition not_expired :: "gotime \<Rightarrow> PairingRequestValidator" where
  \<comment> \<open>the validator both consuming calls pass\<close>
  "not_expired now request = (if \<not> now < prExpiresAt request then Some ErrInviteExpired else None)"

fun last_pending :: "Contact list \<Rightarrow> nat \<Rightarrow> Contact \<Rightarrow> nat \<times> Contact" where
  \<comment> \<open>the loop over the contacts: how many are pending inbound, and the last of them\<close>
  "last_pending [] pendingCount contact = (pendingCount, contact)"
| "last_pending (candidate # cs) pendingCount contact =
     (if cState candidate = ContactStatePendingInbound then last_pending cs (Suc pendingCount) candidate
      else last_pending cs pendingCount contact)"

definition select_contact :: "Identity \<Rightarrow> string \<Rightarrow> store \<Rightarrow> go_error + Contact" where
  \<comment> \<open>lines 332 to 363: which pending contact is accepted\<close>
  "select_contact i inviteID s =
     (case ListContacts (idAgentID i) s of
        Inl e \<Rightarrow> Inl e
      | Inr cs \<Rightarrow>
          (case (if inviteID \<noteq> [] then
                   (case GetPairingSession inviteID (idAgentID i) s of
                      Inl e \<Rightarrow> Inl e
                    | Inr session \<Rightarrow>
                        (case GetContact (idAgentID i) (psRemoteAgentID session) s of
                           Inl e \<Rightarrow> Inl e
                         | Inr contact \<Rightarrow>
                             if cState contact \<noteq> ContactStatePendingInbound then Inl ErrInvalidTransition
                             else Inr contact))
                 else (let (pendingCount, contact) = last_pending cs 0 zero_contact
                       in if pendingCount > 1 then Inl ErrInvalidTransition else Inr contact)) of
             Inl e \<Rightarrow> Inl e
           | Inr contact \<Rightarrow> if cLocalAgentID contact = [] then Inl ErrInvalidTransition else Inr contact))"

definition acceptImportedInvite ::
  "lib \<Rightarrow> env \<Rightarrow> Identity option \<Rightarrow> string \<Rightarrow> string \<Rightarrow> string \<Rightarrow> string \<Rightarrow> PairingAcceptance op" where
  "acceptImportedInvite L E localIdentity inviteID localHostFingerprint tailscaleAddress nodeID s =
     (case localIdentity of
        None \<Rightarrow> (Inl (ErrMsg ''local identity is required''), s)
      | Some i \<Rightarrow>
      and_then (select_contact i inviteID s, s) (\<lambda>contact s.
      and_then (FindPairingSession (idAgentID i) (cRemoteAgentID contact) s, s) (\<lambda>session s.
      let now = clk E 0 in
      and_then (ValidateAndConsumePairingRequestForAgent (psInviteID session) (idAgentID i) now (not_expired now) s)
      (\<lambda>(request, consumed) s.
      if \<not> consumed then (Inl ErrInviteConsumed, s)
      else
      let payload = \<lparr>paInviteID = prID request, paInviteDigest = psInviteDigest session,
            paInvitingAgentID = prRemoteAgentID request, paAcceptingAgentID = idAgentID i,
            paAcceptingAgentPublicKey = idPublicKey i, paAcceptingHostFingerprint = localHostFingerprint,
            paAcceptingTailscaleAddress = TrimSpace tailscaleAddress, paAcceptingNodeID = TrimSpace nodeID,
            paSecretProof = acceptanceSecretProof L (prSecretHash request) (psInviteDigest session) (idAgentID i)
              localHostFingerprint (Fingerprint (prim L) (idPublicKey i))\<rparr>
      in and_then (signPayload L (clk E 1) (uuid E 0) i KindPairingAcceptance (Some (json_acceptance (json L) payload)), s)
      (\<lambda>envelope s.
      and_then (UpsertPairingSession (clk E 2) (session\<lparr>psLocalHostFingerprint := localHostFingerprint,
          psAcceptanceDigest := digestEnvelope L envelope\<rparr>) s) (\<lambda>_ s.
      and_then (UpsertContact (clk E 3) (contact\<lparr>cState := ContactStateAwaitingConfirmation\<rparr>) s) (\<lambda>_ s.
      (Inr \<lparr>Payload = payload, Envelope = envelope\<rparr>, s))))))))"

definition AcceptImportedInvite where
  "AcceptImportedInvite L E i localHostFingerprint = acceptImportedInvite L E i [] localHostFingerprint [] []"

definition AcceptImportedInviteByID where
  "AcceptImportedInviteByID L E i inviteID localHostFingerprint =
     acceptImportedInvite L E i inviteID localHostFingerprint [] []"

definition AcceptImportedInviteByIDAndAddress where
  "AcceptImportedInviteByIDAndAddress L E i inviteID localHostFingerprint tailscaleAddress =
     acceptImportedInvite L E i inviteID localHostFingerprint tailscaleAddress []"

definition AcceptImportedInviteAndAddress where
  "AcceptImportedInviteAndAddress L E i localHostFingerprint tailscaleAddress =
     acceptImportedInvite L E i [] localHostFingerprint tailscaleAddress []"

definition AcceptImportedInviteByIDAndAddressAndNode where
  "AcceptImportedInviteByIDAndAddressAndNode L E i inviteID localHostFingerprint tailscaleAddress nodeID =
     acceptImportedInvite L E i inviteID localHostFingerprint tailscaleAddress nodeID"

definition AcceptImportedInviteAndAddressAndNode where
  "AcceptImportedInviteAndAddressAndNode L E i localHostFingerprint tailscaleAddress nodeID =
     acceptImportedInvite L E i [] localHostFingerprint tailscaleAddress nodeID"

definition ApproveAcceptance ::
  "lib \<Rightarrow> env \<Rightarrow> Identity option \<Rightarrow> PairingAcceptance \<Rightarrow> ApproveAcceptanceInput \<Rightarrow> PairingConfirmation op" where
  "ApproveAcceptance L E localIdentity acceptance approval s =
     (case localIdentity of
        None \<Rightarrow> (Inl (ErrMsg ''local identity and expected remote agent fingerprint are required''), s)
      | Some i \<Rightarrow>
      let pa = Payload acceptance in
      if aaExpectedAgentFingerprint approval = []
      then (Inl (ErrMsg ''local identity and expected remote agent fingerprint are required''), s)
      else case publicKey (paAcceptingAgentPublicKey pa) of
        Inl _ \<Rightarrow> (Inl ErrIdentityMismatch, s)
      | Inr acceptingPublicKey \<Rightarrow>
      if (aaExpectedHostFingerprint approval \<noteq> [] \<and>
          paAcceptingHostFingerprint pa \<noteq> aaExpectedHostFingerprint approval) \<or>
         Fingerprint (prim L) acceptingPublicKey \<noteq> aaExpectedAgentFingerprint approval
      then (Inl ErrIdentityMismatch, s)
      else
      and_then (verifyPayload L (Envelope acceptance) KindPairingAcceptance (Some (json_acceptance (json L) pa))
          (paAcceptingAgentID pa) acceptingPublicKey, s) (\<lambda>_ s.
      and_then (GetPairingRequestForAgent (paInviteID pa) (idAgentID i) s, s) (\<lambda>request s.
      and_then (GetPairingSession (paInviteID pa) (idAgentID i) s, s) (\<lambda>session s.
      if psRole session \<noteq> pairingRoleInviter \<or> prLocalAgentID request \<noteq> idAgentID i \<or>
         prRemoteAgentID request \<noteq> paAcceptingAgentID pa \<or> paInvitingAgentID pa \<noteq> idAgentID i \<or>
         paInviteDigest pa \<noteq> psInviteDigest session
      then (Inl ErrIdentityMismatch, s)
      else if acceptanceSecretProof L (prSecretHash request) (psInviteDigest session) (paAcceptingAgentID pa)
                (paAcceptingHostFingerprint pa) (Fingerprint (prim L) acceptingPublicKey) \<noteq> paSecretProof pa
      then (Inl ErrInvalidSecret, s)
      else
      let now = clk E 0 in
      and_then (ValidateAndConsumePairingRequestForAgent (prID request) (idAgentID i) now (not_expired now) s)
      (\<lambda>(_, consumed) s.
      if \<not> consumed then (Inl ErrInviteConsumed, s)
      else
      let acceptanceDigest = digestEnvelope L (Envelope acceptance);
          payload = \<lparr>pcInviteID = prID request, pcInviteDigest = psInviteDigest session,
            pcAcceptanceDigest = acceptanceDigest, pcInvitingAgentID = idAgentID i,
            pcInvitingAgentPublicKey = idPublicKey i, pcInvitingHostFingerprint = psLocalHostFingerprint session,
            pcAcceptingAgentID = paAcceptingAgentID pa, pcAcceptingAgentPublicKey = acceptingPublicKey,
            pcAcceptingHostFingerprint = paAcceptingHostFingerprint pa\<rparr>
      in and_then (signPayload L (clk E 1) (uuid E 0) i KindPairingConfirmation
          (Some (json_confirmation (json L) payload)), s) (\<lambda>envelope s.
      and_then (UpsertPairingSession (clk E 2) (session\<lparr>
          psRemoteHostFingerprint := pcAcceptingHostFingerprint payload,
          psRemoteAgentPublicKey := acceptingPublicKey, psAcceptanceDigest := acceptanceDigest,
          psConfirmationDigest := digestEnvelope L envelope\<rparr>) s) (\<lambda>_ s.
      (case UpsertContact (clk E 3) (zero_contact\<lparr>cLocalAgentID := idAgentID i,
            cRemoteAgentID := pcAcceptingAgentID payload,
            cRemoteEndpoint := endpointForAgent (nets L) (paAcceptingTailscaleAddress pa) (pcAcceptingAgentID payload),
            cRemoteBinding := TrimSpace (paAcceptingTailscaleAddress pa),
            cRemoteNodeID := TrimSpace (paAcceptingNodeID pa),
            cRemoteHostFingerprint := pcAcceptingHostFingerprint payload,
            cRemoteAgentFingerprint := Fingerprint (prim L) acceptingPublicKey,
            cState := ContactStateAwaitingConfirmation\<rparr>) s of
         (Inl e, s) \<Rightarrow> (Inl (if e = ErrIdentityConflict then ErrIdentityMismatch else e), s)
       | (Inr _, s) \<Rightarrow> (Inr \<lparr>Payload = payload, Envelope = envelope\<rparr>, s)))))))))"

definition ApplyConfirmation ::
  "lib \<Rightarrow> env \<Rightarrow> Identity option \<Rightarrow> PairingConfirmation \<Rightarrow> PairingActivationReceipt op" where
  "ApplyConfirmation L E localIdentity confirmation s =
     (case localIdentity of
        None \<Rightarrow> (Inl (ErrMsg ''local identity is required''), s)
      | Some i \<Rightarrow>
      let pc = Payload confirmation in
      and_then (GetPairingSession (pcInviteID pc) (idAgentID i) s, s) (\<lambda>session s.
      case publicKey (pcInvitingAgentPublicKey pc) of
        Inl _ \<Rightarrow> (Inl ErrIdentityMismatch, s)
      | Inr invitingPublicKey \<Rightarrow>
      if invitingPublicKey \<noteq> psRemoteAgentPublicKey session then (Inl ErrIdentityMismatch, s)
      else
      and_then (verifyPayload L (Envelope confirmation) KindPairingConfirmation
          (Some (json_confirmation (json L) pc)) (pcInvitingAgentID pc) invitingPublicKey, s) (\<lambda>_ s.
      case publicKey (pcAcceptingAgentPublicKey pc) of
        Inl _ \<Rightarrow> (Inl ErrIdentityMismatch, s)
      | Inr acceptingPublicKey \<Rightarrow>
      if psRole session \<noteq> pairingRoleInvitee \<or> pcInvitingAgentID pc \<noteq> psRemoteAgentID session \<or>
         pcAcceptingAgentID pc \<noteq> idAgentID i \<or> acceptingPublicKey \<noteq> idPublicKey i \<or>
         pcInvitingHostFingerprint pc \<noteq> psRemoteHostFingerprint session \<or>
         pcAcceptingHostFingerprint pc \<noteq> psLocalHostFingerprint session \<or>
         pcInviteDigest pc \<noteq> psInviteDigest session \<or> pcAcceptanceDigest pc \<noteq> psAcceptanceDigest session
      then (Inl ErrIdentityMismatch, s)
      else
      let confirmationDigest = digestEnvelope L (Envelope confirmation);
          session = session\<lparr>psConfirmationDigest := confirmationDigest\<rparr>
      in and_then (UpsertPairingSession (clk E 0) session s) (\<lambda>_ s.
      and_then (GetContact (idAgentID i) (psRemoteAgentID session) s, s) (\<lambda>contact s.
      if cState contact \<noteq> ContactStateAwaitingConfirmation then (Inl ErrInvalidTransition, s)
      else
      and_then (UpsertContact (clk E 1) (contact\<lparr>cState := ContactStateActive\<rparr>) s) (\<lambda>_ s.
      let payload = \<lparr>pvInviteID = psInviteID session, pvConfirmationDigest = confirmationDigest,
            pvInvitingAgentID = psRemoteAgentID session, pvAcceptingAgentID = idAgentID i,
            pvAcceptingAgentPublicKey = idPublicKey i,
            pvAcceptingHostFingerprint = psLocalHostFingerprint session\<rparr>
      in and_then (signPayload L (clk E 2) (uuid E 0) i KindPairingActivationReceipt
          (Some (json_receipt (json L) payload)), s) (\<lambda>envelope s.
      (Inr \<lparr>Payload = payload, Envelope = envelope\<rparr>, s))))))))"

definition ApplyActivationReceipt ::
  "lib \<Rightarrow> env \<Rightarrow> Identity option \<Rightarrow> PairingActivationReceipt \<Rightarrow> Contact op" where
  "ApplyActivationReceipt L E localIdentity receipt s =
     (case localIdentity of
        None \<Rightarrow> (Inl (ErrMsg ''local identity is required''), s)
      | Some i \<Rightarrow>
      let pv = Payload receipt in
      and_then (GetPairingSession (pvInviteID pv) (idAgentID i) s, s) (\<lambda>session s.
      case publicKey (pvAcceptingAgentPublicKey pv) of
        Inl _ \<Rightarrow> (Inl ErrIdentityMismatch, s)
      | Inr acceptingPublicKey \<Rightarrow>
      if acceptingPublicKey \<noteq> psRemoteAgentPublicKey session then (Inl ErrIdentityMismatch, s)
      else
      and_then (verifyPayload L (Envelope receipt) KindPairingActivationReceipt
          (Some (json_receipt (json L) pv)) (pvAcceptingAgentID pv) acceptingPublicKey, s) (\<lambda>_ s.
      if psRole session \<noteq> pairingRoleInviter \<or> pvInvitingAgentID pv \<noteq> idAgentID i \<or>
         pvAcceptingAgentID pv \<noteq> psRemoteAgentID session \<or>
         pvAcceptingHostFingerprint pv \<noteq> psRemoteHostFingerprint session \<or>
         pvConfirmationDigest pv \<noteq> psConfirmationDigest session
      then (Inl ErrIdentityMismatch, s)
      else
      and_then (GetContact (idAgentID i) (psRemoteAgentID session) s, s) (\<lambda>contact s.
      if cState contact \<noteq> ContactStateAwaitingConfirmation then (Inl ErrInvalidTransition, s)
      else
      and_then (UpsertContact (clk E 0) (contact\<lparr>cState := ContactStateActive\<rparr>) s) (\<lambda>_ s.
      (GetContact (cLocalAgentID contact) (cRemoteAgentID contact) s, s))))))"

section \<open>Revocation and blocking\<close>

definition close_contact :: "clock \<Rightarrow> ContactState \<Rightarrow> Contact \<Rightarrow> Contact op" where
  \<comment> \<open>the tail that Revoke, Block and ApplyRevocation share: store the state, cancel what is queued for
      the contact, revoke its blob grants, and read the contact back\<close>
  "close_contact c st contact s =
     (let contact = contact\<lparr>cState := st\<rparr> in
      and_then (UpsertContact (c 0) contact s) (\<lambda>_ s.
      and_then (CancelOutboxForContact (c 1) (cLocalAgentID contact) (cRemoteAgentID contact) s) (\<lambda>_ s.
      and_then (RevokeAttachmentGrantsForContact (c 3) (cLocalAgentID contact) (cRemoteAgentID contact) (c 2) s) (\<lambda>_ s.
      (GetContact (cLocalAgentID contact) (cRemoteAgentID contact) s, s)))))"

definition Revoke :: "clock \<Rightarrow> string \<Rightarrow> string \<Rightarrow> Contact op" where
  "Revoke c localAgentID remoteAgentID s =
     and_then (GetContact localAgentID remoteAgentID s, s) (\<lambda>contact s.
     if cState contact = ContactStateBlocked then (Inl ErrInvalidTransition, s)
     else close_contact c ContactStateRevoked contact s)"

definition Block :: "clock \<Rightarrow> string \<Rightarrow> string \<Rightarrow> Contact op" where
  "Block c localAgentID remoteAgentID s =
     and_then (GetContact localAgentID remoteAgentID s, s) (\<lambda>contact s.
     close_contact c ContactStateBlocked contact s)"

definition RevokeWithNotice ::
  "lib \<Rightarrow> env \<Rightarrow> Identity option \<Rightarrow> string \<Rightarrow> string \<Rightarrow> (RevocationNotice \<times> Contact) op" where
  "RevokeWithNotice L E localIdentity remoteAgentID reason s =
     (case localIdentity of
        None \<Rightarrow> (Inl (ErrMsg ''local identity is required''), s)
      | Some i \<Rightarrow>
      and_then (Revoke (clk E) (idAgentID i) remoteAgentID s) (\<lambda>contact s.
      and_then (FindPairingSession (idAgentID i) remoteAgentID s, s) (\<lambda>session s.
      let payload = \<lparr>rvRevokingAgentID = idAgentID i, rvRevokingAgentPublicKey = idPublicKey i,
            rvRevokingHostFingerprint = psLocalHostFingerprint session, rvTargetAgentID = remoteAgentID,
            rvReason = reason, rvRevokedAt = clk E 4\<rparr>
      in and_then (signPayload L (clk E 5) (uuid E 0) i KindRevocationNotice (json_revocation (json L) payload), s)
      (\<lambda>envelope s. (Inr (\<lparr>Payload = payload, Envelope = envelope\<rparr>, contact), s)))))"

definition ApplyRevocation :: "lib \<Rightarrow> env \<Rightarrow> Identity option \<Rightarrow> RevocationNotice \<Rightarrow> Contact op" where
  "ApplyRevocation L E localIdentity notice s =
     (case localIdentity of
        None \<Rightarrow> (Inl ErrIdentityMismatch, s)
      | Some i \<Rightarrow>
      let rv = Payload notice in
      if rvTargetAgentID rv \<noteq> idAgentID i then (Inl ErrIdentityMismatch, s)
      else
      and_then (GetContact (idAgentID i) (rvRevokingAgentID rv) s, s) (\<lambda>contact s.
      case publicKey (rvRevokingAgentPublicKey rv) of
        Inl _ \<Rightarrow> (Inl ErrIdentityMismatch, s)
      | Inr revokingPublicKey \<Rightarrow>
      if rvRevokingHostFingerprint rv \<noteq> cRemoteHostFingerprint contact \<or>
         Fingerprint (prim L) revokingPublicKey \<noteq> cRemoteAgentFingerprint contact
      then (Inl ErrIdentityMismatch, s)
      else
      and_then (verifyPayload L (Envelope notice) KindRevocationNotice (json_revocation (json L) rv)
          (rvRevokingAgentID rv) revokingPublicKey, s) (\<lambda>_ s.
      close_contact (clk E) ContactStateRevoked contact s)))"

definition CanCommunicate :: "Contact \<Rightarrow> bool" where
  "CanCommunicate contact = (cState contact = ContactStateActive)"

end
