(* ===== verification/StoreOps.thy ===== *)
theory StoreOps
  imports StoreOutbox StoreInbox
begin

text \<open>
  The store as one component: every statement of \<^verbatim>\<open>internal/store/store.go\<close> that writes, as a constructor
  of one datatype, and what holds after any sequence of them. The keys stay unique, no row of the
  history tables disappears, and what is final stays as it is.
\<close>

section \<open>Writes\<close>

datatype store_op =
    OpUpsertContact gotime Contact
  | OpRegisterAgent gotime AgentRegistration
  | OpUpdateAgentCapability gotime string bytes int
  | OpCreatePairingRequest PairingRequest
  | OpConsume string gotime PairingRequestValidator
  | OpConsumeForAgent string string gotime PairingRequestValidator
  | OpUpsertPairingSession gotime PairingSession
  | OpEnqueueOutbox gotime bytes OutboxMessage
  | OpScheduleOutboxRetry gotime string gotime
  | OpMarkOutboxDelivered DeliveryReceipt
  | OpCancelOutbox gotime string
  | OpCancelOutboxForContact gotime string string
  | OpUpsertTaskIndex gotime TaskIndex
  | OpRecordInboxMessage gotime bytes InboxMessage
  | OpMarkInboxMessageRead gotime string string string
  | OpAppendAuditEntry gotime AuditEntry
  | OpClaimReplayNonce string string string gotime gotime
  | OpCreateAttachmentGrant gotime AttachmentGrant
  | OpRevokeAttachmentGrant gotime string gotime
  | OpRevokeAttachmentGrantsForContact gotime string string gotime
  | OpRecordMessageOnce gotime string string string
  | OpRecordScopedMessageOnce gotime string string int string string
  | OpCompleteScopedMessage bytes string string int string string int string bytes

fun store_step :: "primitives \<Rightarrow> store_op \<Rightarrow> store \<Rightarrow> store" where
  "store_step P (OpUpsertContact t c) s = snd (UpsertContact t c s)"
| "store_step P (OpRegisterAgent t r) s = snd (RegisterAgent t r s)"
| "store_step P (OpUpdateAgentCapability t a k g) s = snd (UpdateAgentCapability t a k g s)"
| "store_step P (OpCreatePairingRequest r) s = snd (CreatePairingRequest r s)"
| "store_step P (OpConsume i t v) s = snd (ValidateAndConsumePairingRequest i t v s)"
| "store_step P (OpConsumeForAgent i a t v) s = snd (ValidateAndConsumePairingRequestForAgent i a t v s)"
| "store_step P (OpUpsertPairingSession t p) s = snd (UpsertPairingSession t p s)"
| "store_step P (OpEnqueueOutbox t n m) s = snd (EnqueueOutbox P t n m s)"
| "store_step P (OpScheduleOutboxRetry t i u) s = snd (ScheduleOutboxRetry t i u s)"
| "store_step P (OpMarkOutboxDelivered r) s = snd (MarkOutboxDelivered r s)"
| "store_step P (OpCancelOutbox t i) s = snd (CancelOutbox t i s)"
| "store_step P (OpCancelOutboxForContact t a b) s = snd (CancelOutboxForContact t a b s)"
| "store_step P (OpUpsertTaskIndex t x) s = snd (UpsertTaskIndex t x s)"
| "store_step P (OpRecordInboxMessage t n m) s = snd (RecordInboxMessage P t n m s)"
| "store_step P (OpMarkInboxMessageRead t a b i) s = snd (MarkInboxMessageRead t a b i s)"
| "store_step P (OpAppendAuditEntry t e) s = snd (AppendAuditEntry t e s)"
| "store_step P (OpClaimReplayNonce a b n t u) s = snd (ClaimReplayNonce a b n t u s)"
| "store_step P (OpCreateAttachmentGrant t g) s = snd (CreateAttachmentGrant t g s)"
| "store_step P (OpRevokeAttachmentGrant t i u) s = snd (RevokeAttachmentGrant t i u s)"
| "store_step P (OpRevokeAttachmentGrantsForContact t a b u) s = snd (RevokeAttachmentGrantsForContact t a b u s)"
| "store_step P (OpRecordMessageOnce t a i k) s = snd (RecordMessageOnce t a i k s)"
| "store_step P (OpRecordScopedMessageOnce t a b e i k) s = snd (RecordScopedMessageOnce t a b e i k s)"
| "store_step P (OpCompleteScopedMessage n a b e i k st ct body) s =
     snd (CompleteScopedMessage P n a b e i k st ct body s)"

section \<open>How rows may change\<close>

definition registration_le :: "AgentRegistration \<Rightarrow> AgentRegistration \<Rightarrow> bool" where
  "registration_le r r' =
     (r' = r\<lparr>arCapabilityPublicKey := arCapabilityPublicKey r', arCapabilityGeneration := arCapabilityGeneration r',
            arUpdatedAt := arUpdatedAt r'\<rparr>)"

definition request_le :: "PairingRequest \<Rightarrow> PairingRequest \<Rightarrow> bool" where
  "request_le r r' =
     (r' = r\<lparr>prConsumedAt := prConsumedAt r'\<rparr> \<and> (prConsumedAt r \<noteq> None \<longrightarrow> prConsumedAt r' = prConsumedAt r))"

definition outbox_le :: "OutboxMessage \<Rightarrow> OutboxMessage \<Rightarrow> bool" where
  "outbox_le m m' =
     (m' = m\<lparr>omState := omState m', omAttemptCount := omAttemptCount m',
            omNextAttemptAt := omNextAttemptAt m', omUpdatedAt := omUpdatedAt m'\<rparr> \<and>
      omAttemptCount m \<le> omAttemptCount m' \<and> (omState m \<noteq> OutboxStatePending \<longrightarrow> m' = m))"

definition inbox_le :: "InboxRow \<Rightarrow> InboxRow \<Rightarrow> bool" where
  "inbox_le m m' =
     (m' = m\<lparr>imState := imState m', irReadAt := irReadAt m'\<rparr> \<and>
      (irReadAt m \<noteq> None \<longrightarrow> irReadAt m' \<noteq> None))"

definition grant_le :: "AttachmentGrant \<Rightarrow> AttachmentGrant \<Rightarrow> bool" where
  "grant_le g g' =
     (g' = g\<lparr>agRevokedAt := agRevokedAt g', agUpdatedAt := agUpdatedAt g'\<rparr> \<and>
      (agRevokedAt g \<noteq> None \<longrightarrow> agRevokedAt g' = agRevokedAt g))"

lemmas row_le_defs = registration_le_def request_le_def outbox_le_def inbox_le_def grant_le_def

lemma row_le_refl [simp]:
  "registration_le r r" "request_le q q" "outbox_le m m" "inbox_le n n" "grant_le g g"
  by (simp_all add: row_le_defs)

lemma registration_le_trans: "registration_le a b \<Longrightarrow> registration_le b c \<Longrightarrow> registration_le a c"
  unfolding registration_le_def by (cases a, cases b, cases c) simp

lemma request_le_trans: "request_le a b \<Longrightarrow> request_le b c \<Longrightarrow> request_le a c"
  unfolding request_le_def by (cases a, cases b, cases c) auto

lemma outbox_le_trans: "outbox_le a b \<Longrightarrow> outbox_le b c \<Longrightarrow> outbox_le a c"
  unfolding outbox_le_def by (cases a, cases b, cases c) auto

lemma inbox_le_trans: "inbox_le a b \<Longrightarrow> inbox_le b c \<Longrightarrow> inbox_le a c"
  unfolding inbox_le_def by (cases a, cases b, cases c) auto

lemma grant_le_trans: "grant_le a b \<Longrightarrow> grant_le b c \<Longrightarrow> grant_le a c"
  unfolding grant_le_def by (cases a, cases b, cases c) auto

lemmas row_le_trans = registration_le_trans request_le_trans outbox_le_trans inbox_le_trans grant_le_trans

definition store_le :: "store \<Rightarrow> store \<Rightarrow> bool" where
  "store_le s t =
     (keeps contact_key (\<lambda>c c'. cCreatedAt c' = cCreatedAt c) (contacts s) (contacts t) \<and>
      keeps arAgentID registration_le (agent_registrations s) (agent_registrations t) \<and>
      keeps request_key request_le (pairing_requests s) (pairing_requests t) \<and>
      keeps session_key (\<lambda>p p'. psCreatedAt p' = psCreatedAt p) (pairing_sessions s) (pairing_sessions t) \<and>
      keeps omMessageID outbox_le (outbox_messages s) (outbox_messages t) \<and>
      keeps dedup_key (=) (deduplication_records s) (deduplication_records t) \<and>
      keeps scoped_key (\<lambda>d d'. ddCreatedAt d' = ddCreatedAt d)
        (scoped_deduplication_records s) (scoped_deduplication_records t) \<and>
      keeps receipt_key (=) (delivery_receipts s) (delivery_receipts t) \<and>
      keeps inbox_key inbox_le (inbox_messages s) (inbox_messages t) \<and>
      keeps aeID (=) (audit_entries s) (audit_entries t) \<and>
      keeps agGrantID grant_le (attachment_grants s) (attachment_grants t) \<and>
      aead t = aead s)"

lemma store_le_refl: "store_le s s"
  by (simp add: store_le_def keeps_refl)

lemma store_le_trans: "store_le s t \<Longrightarrow> store_le t u \<Longrightarrow> store_le s u"
  unfolding store_le_def
  by (auto elim!: keeps_trans elim: row_le_trans)

section \<open>Every write keeps the history\<close>

lemma wf_store_step: "wf_store s \<Longrightarrow> wf_store (store_step P x s)"
  by (cases x) (simp_all add: wf_intros)

lemma store_le_table:
  "keeps contact_key (\<lambda>c c'. cCreatedAt c' = cCreatedAt c) (contacts s) r1 \<Longrightarrow> store_le s (s\<lparr>contacts := r1\<rparr>)"
  "keeps arAgentID registration_le (agent_registrations s) r2 \<Longrightarrow> store_le s (s\<lparr>agent_registrations := r2\<rparr>)"
  "keeps request_key request_le (pairing_requests s) r3 \<Longrightarrow> store_le s (s\<lparr>pairing_requests := r3\<rparr>)"
  "keeps session_key (\<lambda>p p'. psCreatedAt p' = psCreatedAt p) (pairing_sessions s) r4 \<Longrightarrow>
     store_le s (s\<lparr>pairing_sessions := r4\<rparr>)"
  "keeps omMessageID outbox_le (outbox_messages s) r5 \<Longrightarrow> store_le s (s\<lparr>outbox_messages := r5\<rparr>)"
  "keeps dedup_key (=) (deduplication_records s) r6 \<Longrightarrow> store_le s (s\<lparr>deduplication_records := r6\<rparr>)"
  "keeps scoped_key (\<lambda>d d'. ddCreatedAt d' = ddCreatedAt d) (scoped_deduplication_records s) r7 \<Longrightarrow>
     store_le s (s\<lparr>scoped_deduplication_records := r7\<rparr>)"
  "keeps inbox_key inbox_le (inbox_messages s) r8 \<Longrightarrow> store_le s (s\<lparr>inbox_messages := r8\<rparr>)"
  "keeps aeID (=) (audit_entries s) r9 \<Longrightarrow> store_le s (s\<lparr>audit_entries := r9\<rparr>)"
  "keeps agGrantID grant_le (attachment_grants s) r10 \<Longrightarrow> store_le s (s\<lparr>attachment_grants := r10\<rparr>)"
  "store_le s (s\<lparr>replay_nonces := r11\<rparr>)" "store_le s (s\<lparr>task_index := r12\<rparr>)"
  by (simp_all add: store_le_def keeps_refl)

lemma le_UpsertContact: "store_le s (snd (UpsertContact t c s))"
  by (simp add: state_eqs store_le_table keeps_upsert contact_merge_def contact_key_def)

lemma le_RegisterAgent: "store_le s (snd (RegisterAgent t r s))"
  by (simp add: state_eqs store_le_refl store_le_table keeps_append split: sum.splits)

lemma le_UpdateAgentCapability: "store_le s (snd (UpdateAgentCapability t a k g s))"
  by (simp add: state_eqs store_le_table keeps_update registration_le_def)

lemma le_CreatePairingRequest: "store_le s (snd (CreatePairingRequest r s))"
  by (simp add: CreatePairingRequest_eq store_le_refl store_le_table keeps_append split: sum.splits)

lemma keeps_consume:
  assumes "\<And>r. Q r \<Longrightarrow> prConsumedAt r = None"
  shows "keeps request_key request_le rows (fst (update_rows Q (\<lambda>r. r\<lparr>prConsumedAt := t\<rparr>) rows))"
  by (rule keeps_update) (auto simp: request_key_def request_le_def assms)

lemma le_Consume: "store_le s (snd (ValidateAndConsumePairingRequest i t v s))"
  by (auto simp: ValidateAndConsumePairingRequest_def Let_def case_prod_beta store_le_refl
      intro!: store_le_table keeps_consume split: sum.splits option.splits)

lemma le_ConsumeForAgent: "store_le s (snd (ValidateAndConsumePairingRequestForAgent i a t v s))"
  by (auto simp: ValidateAndConsumePairingRequestForAgent_def Let_def case_prod_beta store_le_refl
      intro!: store_le_table keeps_consume split: sum.splits option.splits)

lemma le_UpsertPairingSession: "store_le s (snd (UpsertPairingSession t p s))"
  by (simp add: state_eqs store_le_table keeps_upsert session_merge_def session_key_def)

lemma le_EnqueueOutbox: "store_le s (snd (EnqueueOutbox P t n m s))"
  by (auto simp: EnqueueOutbox_def Let_def insert_row_def store_le_refl
      intro!: store_le_table keeps_append split: sum.splits option.splits)

lemma keeps_outbox:
  assumes "\<And>m. Q m \<Longrightarrow> omState m = OutboxStatePending"
    and "\<And>m. f m = m\<lparr>omState := omState (f m), omAttemptCount := omAttemptCount (f m),
            omNextAttemptAt := omNextAttemptAt (f m), omUpdatedAt := omUpdatedAt (f m)\<rparr>"
    and "\<And>m. omAttemptCount m \<le> omAttemptCount (f m)" and "\<And>m. omMessageID (f m) = omMessageID m"
  shows "keeps omMessageID outbox_le rows (fst (update_rows Q f rows))"
  by (rule keeps_update) (use assms in \<open>auto simp: outbox_le_def\<close>)

lemma le_ScheduleOutboxRetry: "store_le s (snd (ScheduleOutboxRetry t i u s))"
  by (auto simp: state_eqs intro!: store_le_table keeps_outbox)

lemma le_CancelOutbox: "store_le s (snd (CancelOutbox t i s))"
  by (auto simp: CancelOutbox_def Let_def case_prod_beta store_le_refl
      intro!: store_le_table keeps_outbox split: option.splits)

lemma le_CancelOutboxForContact: "store_le s (snd (CancelOutboxForContact t a b s))"
  by (auto simp: state_eqs intro!: store_le_table keeps_outbox)

lemma le_MarkOutboxDelivered: "store_le s (snd (MarkOutboxDelivered r s))"
proof -
  have "keeps omMessageID outbox_le (outbox_messages s) (fst (update_rows
      (\<lambda>m. omMessageID m = drMessageID r \<and> omTargetAgentID m = drTargetAgentID r \<and> omState m = OutboxStatePending)
      (\<lambda>m. m\<lparr>omState := OutboxStateDelivered, omUpdatedAt := t\<rparr>) (outbox_messages s)))" for t
    by (auto intro!: keeps_outbox)
  then have "store_le s (s\<lparr>outbox_messages := fst (update_rows
      (\<lambda>m. omMessageID m = drMessageID r \<and> omTargetAgentID m = drTargetAgentID r \<and> omState m = OutboxStatePending)
      (\<lambda>m. m\<lparr>omState := OutboxStateDelivered, omUpdatedAt := t\<rparr>) (outbox_messages s)),
      delivery_receipts := fst (insert_ignore receipt_key q (delivery_receipts s))\<rparr>)" for t q
    by (simp add: store_le_def keeps_refl keeps_insert_ignore)
  then show ?thesis
    by (auto simp: MarkOutboxDelivered_def Let_def case_prod_beta store_le_refl
        split: option.splits sum.splits)
qed

lemma le_UpsertTaskIndex: "store_le s (snd (UpsertTaskIndex t x s))"
  by (simp add: state_eqs store_le_table)

lemma le_RecordInboxMessage: "store_le s (snd (RecordInboxMessage P t n m s))"
  by (auto simp: RecordInboxMessage_def Let_def store_le_refl intro!: store_le_table keeps_insert_ignore
      split: sum.splits)

lemma le_MarkInboxMessageRead: "store_le s (snd (MarkInboxMessageRead t a b i s))"
  by (auto simp: MarkInboxMessageRead_def Let_def case_prod_beta store_le_refl inbox_key_def inbox_le_def
      intro!: store_le_table keeps_update)

lemma le_AppendAuditEntry: "store_le s (snd (AppendAuditEntry t e s))"
  by (auto simp: state_eqs store_le_refl intro!: store_le_table keeps_append)

lemma le_ClaimReplayNonce: "store_le s (snd (ClaimReplayNonce a b n t u s))"
  by (simp add: ClaimReplayNonce_def Let_def case_prod_beta store_le_table)

lemma le_CreateAttachmentGrant: "store_le s (snd (CreateAttachmentGrant t g s))"
  by (auto simp: CreateAttachmentGrant_def Let_def insert_row_def store_le_refl
      intro!: store_le_table keeps_append split: option.splits)

lemma le_RevokeAttachmentGrant: "store_le s (snd (RevokeAttachmentGrant t i u s))"
  by (auto simp: state_eqs grant_le_def intro!: store_le_table keeps_update split: option.splits)

lemma le_RevokeGrantsForContact: "store_le s (snd (RevokeAttachmentGrantsForContact t a b u s))"
  by (auto simp: state_eqs grant_le_def intro!: store_le_table keeps_update)

lemma le_RecordMessageOnce: "store_le s (snd (RecordMessageOnce t a i k s))"
  by (simp add: RecordMessageOnce_def Let_def case_prod_beta store_le_table keeps_insert_ignore)

lemma le_RecordScopedMessageOnce: "store_le s (snd (RecordScopedMessageOnce t a b e i k s))"
  by (simp add: RecordScopedMessageOnce_def Let_def case_prod_beta store_le_table keeps_insert_ignore)

lemma le_CompleteScopedMessage: "store_le s (snd (CompleteScopedMessage P n a b e i k st ct body s))"
  by (auto simp: CompleteScopedMessage_def Let_def case_prod_beta store_le_refl scoped_key_def
      intro!: store_le_table keeps_update split: sum.splits)

lemmas store_le_ops = le_UpsertContact le_RegisterAgent le_UpdateAgentCapability le_CreatePairingRequest
  le_Consume le_ConsumeForAgent le_UpsertPairingSession le_EnqueueOutbox le_ScheduleOutboxRetry
  le_MarkOutboxDelivered le_CancelOutbox le_CancelOutboxForContact le_UpsertTaskIndex
  le_RecordInboxMessage le_MarkInboxMessageRead le_AppendAuditEntry le_ClaimReplayNonce
  le_CreateAttachmentGrant le_RevokeAttachmentGrant le_RevokeGrantsForContact le_RecordMessageOnce
  le_RecordScopedMessageOnce le_CompleteScopedMessage

lemma store_le_step: "store_le s (store_step P x s)"
  by (cases x) (simp_all add: store_le_ops)

interpretation store_history: monotone_steps "store_step P" wf_store "\<lambda>_. store_le" for P
  by unfold_locales (auto intro: wf_store_step store_le_step store_le_refl store_le_trans)

section \<open>What the store promises\<close>

lemma store_le_run: "store_le s (run (store_step P) ops s)"
proof (induction ops arbitrary: s)
  case (Cons x xs)
  show ?case using store_le_trans[OF store_le_step Cons.IH] by simp
qed (simp add: store_le_refl)

lemma row_le_final:
  "outbox_le m m' \<Longrightarrow> omState m \<noteq> OutboxStatePending \<Longrightarrow> m' = m"
  "request_le r r' \<Longrightarrow> prConsumedAt r \<noteq> None \<Longrightarrow> r' = r"
  "grant_le g g' \<Longrightarrow> agRevokedAt g \<noteq> None \<Longrightarrow> agRevokedAt g' = agRevokedAt g"
  by (simp add: outbox_le_def) (cases r, cases r', simp add: request_le_def, simp add: grant_le_def)

lemma store_leD:
  assumes "store_le s t"
  shows "keeps omMessageID outbox_le (outbox_messages s) (outbox_messages t)"
    "keeps request_key request_le (pairing_requests s) (pairing_requests t)"
    "keeps agGrantID grant_le (attachment_grants s) (attachment_grants t)"
    "keeps receipt_key (=) (delivery_receipts s) (delivery_receipts t)"
    "keeps aeID (=) (audit_entries s) (audit_entries t)"
    "keeps scoped_key (\<lambda>d d'. ddCreatedAt d' = ddCreatedAt d)
       (scoped_deduplication_records s) (scoped_deduplication_records t)"
    "aead t = aead s"
  using assms by (simp_all add: store_le_def)

lemma get_by_key:
  "GetPairingRequestForAgent j a s = Inr r \<longleftrightarrow> by_key request_key (j, a) (pairing_requests s) = Some r"
  "GetAttachmentGrant k s = Inr g \<longleftrightarrow> by_key agGrantID k (attachment_grants s) = Some g"
  "GetDeliveryReceipt i b s = Inr d \<longleftrightarrow> by_key receipt_key (i, b) (delivery_receipts s) = Some d"
  by (simp_all add: GetPairingRequestForAgent_def GetAttachmentGrant_def GetDeliveryReceipt_def
      split: option.splits)

lemma store_le_final:
  assumes "store_le s t"
  shows "by_key omMessageID i (outbox_messages s) = Some m \<Longrightarrow> omState m \<noteq> OutboxStatePending \<Longrightarrow>
           by_key omMessageID i (outbox_messages t) = Some m"
    and "GetPairingRequestForAgent j a s = Inr r \<Longrightarrow> prConsumedAt r \<noteq> None \<Longrightarrow>
           GetPairingRequestForAgent j a t = Inr r"
    and "GetAttachmentGrant k s = Inr g \<Longrightarrow> agRevokedAt g \<noteq> None \<Longrightarrow>
           \<exists>g'. GetAttachmentGrant k t = Inr g' \<and> agRevokedAt g' = agRevokedAt g"
    and "GetDeliveryReceipt i b s = Inr d \<Longrightarrow> GetDeliveryReceipt i b t = Inr d"
    and "by_key aeID l (audit_entries s) = Some e \<Longrightarrow> by_key aeID l (audit_entries t) = Some e"
  unfolding get_by_key
  using keepsD[OF store_leD(1)[OF assms], of i m] row_le_final(1)
  apply blast
  using keepsD[OF store_leD(2)[OF assms], of "(j, a)" r] row_le_final(2)
  apply blast
  using keepsD[OF store_leD(3)[OF assms], of k g] row_le_final(3)
  apply blast
  using keepsD[OF store_leD(4)[OF assms], of "(i, b)" d]
  apply blast
  using keepsD[OF store_leD(5)[OF assms], of l e]
  by blast



section \<open>Receipts belong to delivered messages\<close>

definition receipts_final :: "store \<Rightarrow> bool" where
  "receipts_final s = (\<forall>d\<in>set (delivery_receipts s). \<exists>m. by_key omMessageID (drMessageID d) (outbox_messages s) = Some m \<and>
     omTargetAgentID m = drTargetAgentID d \<and> omState m = OutboxStateDelivered)"

lemma receipts_final_le:
  assumes "receipts_final s" and "store_le s t" and "delivery_receipts t = delivery_receipts s"
  shows "receipts_final t"
  using assms(1,3) store_le_final(1)[OF assms(2)] unfolding receipts_final_def
  by (metis OutboxState.distinct(1))

lemma receipts_frame:
  "(\<forall>r. x \<noteq> OpMarkOutboxDelivered r) \<Longrightarrow> delivery_receipts (store_step P x s) = delivery_receipts s"
  by (cases x) (auto simp: state_eqs CreatePairingRequest_def ValidateAndConsumePairingRequest_def
      ValidateAndConsumePairingRequestForAgent_def EnqueueOutbox_def CancelOutbox_def RecordInboxMessage_def
      MarkInboxMessageRead_def ClaimReplayNonce_def CreateAttachmentGrant_def RecordMessageOnce_def
      RecordScopedMessageOnce_def CompleteScopedMessage_def Let_def case_prod_beta split: sum.splits option.splits)

lemma MarkOutboxDelivered_cases:
  assumes "wf_store s"
  obtains (same) "snd (MarkOutboxDelivered r s) = s"
  | (delivered) m where "by_key omMessageID (drMessageID r) (outbox_messages s) = Some m"
      "omTargetAgentID m = drTargetAgentID r" "omState m = OutboxStatePending"
proof (cases "outbox_row (drMessageID r) (drTargetAgentID r) s")
  case None
  then show ?thesis by (intro same) (simp add: MarkOutboxDelivered_def)
next
  case (Some m)
  then have m: "by_key omMessageID (drMessageID r) (outbox_messages s) = Some m" "omTargetAgentID m = drTargetAgentID r"
    using assms by (auto simp: outbox_row_by_key split: option.splits if_splits)
  show ?thesis
  proof (cases "omState m = OutboxStatePending")
    case True
    with m show ?thesis by (rule delivered)
  next
    case False
    with Some show ?thesis by (intro same) (auto simp: MarkOutboxDelivered_def split: sum.splits)
  qed
qed

lemma receipts_final_Mark:
  assumes "wf_store s" and "receipts_final s"
  shows "receipts_final (snd (MarkOutboxDelivered r s))"
  using assms(1)
proof (cases rule: MarkOutboxDelivered_cases[of s r])
  case same
  with assms(2) show ?thesis by simp
next
  case (delivered m)
  let ?t = "snd (MarkOutboxDelivered r s)"
  have id: "omMessageID m = drMessageID r" using delivered(1) by (auto dest: by_key_SomeD)
  have "\<exists>m. by_key omMessageID (drMessageID d) (outbox_messages ?t) = Some m \<and>
      omTargetAgentID m = drTargetAgentID d \<and> omState m = OutboxStateDelivered"
    if d: "d \<in> set (delivery_receipts ?t)" for d
  proof (cases "d \<in> set (delivery_receipts s)")
    case True
    then obtain q where "by_key omMessageID (drMessageID d) (outbox_messages s) = Some q"
      "omTargetAgentID q = drTargetAgentID d" "omState q = OutboxStateDelivered"
      using assms(2) unfolding receipts_final_def by blast
    then show ?thesis using store_le_final(1)[OF le_MarkOutboxDelivered[of s r]] by fastforce
  next
    case False
    with d have "d = r\<lparr>drDeliveredAt := trunc_ms (drDeliveredAt r)\<rparr>"
      by (auto simp: MarkOutboxDelivered_pending[OF assms(1) delivered] insert_ignore_def split: if_splits)
    then show ?thesis
      using delivered id by (simp add: MarkOutboxDelivered_pending[OF assms(1) delivered] outbox_after_delivery)
  qed
  then show ?thesis unfolding receipts_final_def by blast
qed

lemma receipts_final_step:
  assumes "wf_store s" and "receipts_final s"
  shows "receipts_final (store_step P x s)"
proof (cases "\<exists>r. x = OpMarkOutboxDelivered r")
  case True
  with assms show ?thesis by (auto intro: receipts_final_Mark)
next
  case False
  with assms(2) show ?thesis by (intro receipts_final_le[OF _ store_le_step] receipts_frame) auto
qed

interpretation receipts: invariant_steps "store_step P" "\<lambda>s. wf_store s \<and> receipts_final s" for P
  by unfold_locales (auto intro: wf_store_step receipts_final_step)

text \<open>
  C28. After every sequence of writes on a new database, a delivery receipt exists only for a message
  of the outbox that is addressed to the agent of the receipt and is marked delivered.
\<close>

theorem receipt_means_delivered:
  assumes "s = run (store_step P) ops (empty_store key)" and "GetDeliveryReceipt i b s = Inr d"
  shows "\<exists>m. by_key omMessageID i (outbox_messages s) = Some m \<and> omTargetAgentID m = b \<and> omState m = OutboxStateDelivered"
proof -
  have "receipts_final (empty_store key)" by (simp add: receipts_final_def empty_store_def)
  then have "receipts_final s" unfolding assms(1) using receipts.inv_run wf_store_empty by blast
  moreover have "d \<in> set (delivery_receipts s)" "receipt_key d = (i, b)"
    using assms(2) unfolding get_by_key by (auto dest: by_key_SomeD)
  ultimately show ?thesis unfolding receipts_final_def receipt_key_def by auto
qed

definition demo_cancelled :: store where
  "demo_cancelled = (empty_store None)\<lparr>outbox_messages := [demo_message\<lparr>omState := OutboxStateCancelled\<rparr>]\<rparr>"


definition demo_history :: "store_op list" where
  "demo_history = [OpEnqueueOutbox 5000000 ''0123456789ab'' demo_message, OpMarkOutboxDelivered demo_receipt]"

theorem receipt_means_delivered_witness:
  "\<exists>m. by_key omMessageID ''m1'' (outbox_messages (run (store_step clear_primitives) demo_history (empty_store None))) = Some m \<and>
     omTargetAgentID m = ''bob'' \<and> omState m = OutboxStateDelivered"
proof -
  have "GetDeliveryReceipt ''m1'' ''bob'' (run (store_step clear_primitives) demo_history (empty_store None)) =
      Inr (demo_receipt\<lparr>drDeliveredAt := 7000000\<rparr>)"
    by (simp add: demo_history_def EnqueueOutbox_def insert_row_def demo_message_def empty_store_def MarkOutboxDelivered_def
        outbox_row_def update_rows_def requireOneRow_def insert_ignore_def demo_receipt_def GetDeliveryReceipt_def
        receipt_key_def trunc_ms_def fromMillis_def millis_def)
  from receipt_means_delivered[OF refl this] show ?thesis .
qed

end
