(* ===== verification/PairingMoves.thy ===== *)
theory PairingMoves
  imports Pairing StoreOps
begin

text \<open>
  How the operations of \<^verbatim>\<open>internal/pairing/service.go\<close> move a contact between its states. One lemma per
  operation says which contact it writes, if any, and under which condition; an abstract state machine
  of one contact follows, and the operations refine it.
\<close>

section \<open>Keys stay unique\<close>

lemma wf_and_then [wf_intros]:
  "wf_store (snd r) \<Longrightarrow> (\<And>x s. wf_store s \<Longrightarrow> wf_store (snd (k x s))) \<Longrightarrow> wf_store (snd (and_then r k))"
  by (rule and_then_state_inv)

lemma wf_close_contact [wf_intros]: "wf_store s \<Longrightarrow> wf_store (snd (close_contact c st contact s))"
  by (auto simp: close_contact_def Let_def intro!: wf_intros)

lemma wf_Revoke [wf_intros]: "wf_store s \<Longrightarrow> wf_store (snd (Revoke c a b s))"
  by (auto simp: Revoke_def intro!: wf_intros)

lemma wf_Block [wf_intros]: "wf_store s \<Longrightarrow> wf_store (snd (Block c a b s))"
  by (auto simp: Block_def intro!: wf_intros)

lemma wf_RevokeWithNotice [wf_intros]: "wf_store s \<Longrightarrow> wf_store (snd (RevokeWithNotice L E i b r s))"
  by (auto simp: RevokeWithNotice_def Let_def intro!: wf_intros split: option.splits)

lemma wf_ApplyRevocation [wf_intros]: "wf_store s \<Longrightarrow> wf_store (snd (ApplyRevocation L E i n s))"
  by (auto simp: ApplyRevocation_def Let_def intro!: wf_intros split: option.splits sum.splits)

lemma wf_CreateInvite [wf_intros]: "wf_store s \<Longrightarrow> wf_store (snd (CreateInvite L E i inp s))"
  by (auto simp: CreateInvite_def Let_def intro!: wf_intros split: option.splits)

lemma wf_ImportInvite [wf_intros]:
  assumes "wf_store s"
  shows "wf_store (snd (ImportInvite L E i v s))"
proof -
  have "wf_store t" if "CreatePairingRequest r u = (x, t)" "wf_store u" for r u x t
    using wf_CreatePairingRequest[OF that(2), of r] that(1) by simp
  with assms show ?thesis
    by (auto simp: ImportInvite_def Let_def intro!: wf_intros split: option.splits sum.splits prod.splits)
qed

lemma wf_acceptImportedInvite [wf_intros]:
  "wf_store s \<Longrightarrow> wf_store (snd (acceptImportedInvite L E i iv h ta nd s))"
  by (auto simp: acceptImportedInvite_def Let_def intro!: wf_intros split: option.splits)

lemma wf_ApproveAcceptance [wf_intros]: 
  assumes "wf_store s"
  shows "wf_store (snd (ApproveAcceptance L E i a p s))"
proof -
  have "wf_store t" if "UpsertContact n c u = (x, t)" "wf_store u" for n c u x t
    using wf_UpsertContact[OF that(2), of n c] that(1) by simp
  with assms show ?thesis
    by (auto simp: ApproveAcceptance_def Let_def intro!: wf_intros split: option.splits sum.splits prod.splits)
qed

lemma wf_ApplyConfirmation [wf_intros]: "wf_store s \<Longrightarrow> wf_store (snd (ApplyConfirmation L E i c s))"
  by (auto simp: ApplyConfirmation_def Let_def intro!: wf_intros split: option.splits sum.splits)

lemma wf_ApplyActivationReceipt [wf_intros]: "wf_store s \<Longrightarrow> wf_store (snd (ApplyActivationReceipt L E i r s))"
  by (auto simp: ApplyActivationReceipt_def Let_def intro!: wf_intros split: option.splits sum.splits)

section \<open>Which contact an operation writes\<close>

definition put_contact :: "gotime \<Rightarrow> Contact \<Rightarrow> Contact list \<Rightarrow> Contact list" where
  "put_contact now c rows = fst (upsert_row contact_key contact_guard contact_merge (contact_row now c) rows)"

lemma contacts_frame [simp]:
  "contacts (snd (UpsertContact now c s)) = put_contact now c (contacts s)"
  "contacts (snd (UpsertPairingSession now p s)) = contacts s"
  "contacts (snd (CreatePairingRequest r s)) = contacts s"
  "contacts (snd (ValidateAndConsumePairingRequestForAgent iv a t v s)) = contacts s"
  "contacts (snd (CancelOutboxForContact now a b s)) = contacts s"
  "contacts (snd (RevokeAttachmentGrantsForContact now a b t s)) = contacts s"
  by (auto simp: state_eqs put_contact_def CreatePairingRequest_eq ValidateAndConsumePairingRequestForAgent_def
      Let_def case_prod_beta split: sum.splits option.splits)

lemma GetContact_contacts: "contacts s = contacts t \<Longrightarrow> GetContact a b s = GetContact a b t"
  by (simp add: GetContact_def)

text \<open>
  An operation that writes a contact does so once. \<open>writes s t c\<close>: the contacts of \<open>t\<close> are those of \<open>s\<close>
  after an upsert of \<open>c\<close>.
\<close>

definition writes :: "store \<Rightarrow> store \<Rightarrow> Contact \<Rightarrow> bool" where
  "writes s t c = (\<exists>now. contacts t = put_contact now c (contacts s))"

definition contact_state :: "string \<Rightarrow> string \<Rightarrow> store \<Rightarrow> ContactState" where
  "contact_state a b s = (case GetContact a b s of Inl _ \<Rightarrow> ContactStateUnknown | Inr c \<Rightarrow> cState c)"

lemma and_then_pure_state: "snd (and_then r (\<lambda>x s. (f x s, s))) = snd r"
  by (auto simp: and_then_snd split: sum.splits)

lemma rejectBlockedContact_ok:
  "rejectBlockedContact a b s = Inr u \<Longrightarrow> contact_state a b s \<noteq> ContactStateBlocked"
  by (auto simp: rejectBlockedContact_def contact_state_def split: sum.splits if_splits)

lemma CreateInvite_writes:
  assumes "t = snd (CreateInvite L E (Some i) inp s)"
  shows "contacts t = contacts s \<or>
    (contact_state (idAgentID i) (ciRemoteAgentID inp) s \<noteq> ContactStateBlocked \<and>
     writes s t (zero_contact\<lparr>cLocalAgentID := idAgentID i, cRemoteAgentID := ciRemoteAgentID inp,
       cState := ContactStatePendingOutbound\<rparr>))"
proof (cases "rejectBlockedContact (idAgentID i) (ciRemoteAgentID inp) s")
  case (Inl e)
  then show ?thesis using assms by (simp add: CreateInvite_def)
next
  case (Inr u)
  show ?thesis
    using assms Inr rejectBlockedContact_ok[OF Inr]
    by (auto simp: CreateInvite_def Let_def signPayload_def and_then_snd and_then_pure_state writes_def
        CreatePairingRequest_eq UpsertPairingSession_def put_contact_def state_eqs
        split: option.splits sum.splits if_splits)
qed

lemma ImportInvite_writes:
  assumes "t = snd (ImportInvite L E (Some i) invite s)"
  shows "contacts t = contacts s \<or>
    (contact_state (idAgentID i) (piInvitingAgentID (Payload invite)) s \<noteq> ContactStateBlocked \<and>
     piTargetAgentID (Payload invite) = idAgentID i \<and> clk E 0 < piExpiresAt (Payload invite) \<and>
     length (piInvitingAgentPublicKey (Payload invite)) = PublicKeySize \<and>
     verifyPayload L (Envelope invite) KindPairingInvite (json_invite (json L) (Payload invite))
       (piInvitingAgentID (Payload invite)) (piInvitingAgentPublicKey (Payload invite)) = Inr () \<and>
     (\<exists>c. writes s t c \<and> cLocalAgentID c = idAgentID i \<and> cRemoteAgentID c = piInvitingAgentID (Payload invite) \<and>
        cState c = ContactStatePendingInbound \<and>
        cRemoteHostFingerprint c = piInvitingHostFingerprint (Payload invite) \<and>
        cRemoteAgentFingerprint c = Fingerprint (prim L) (piInvitingAgentPublicKey (Payload invite))))"
proof (cases "rejectBlockedContact (idAgentID i) (piInvitingAgentID (Payload invite)) s")
  case (Inl e)
  then show ?thesis using assms by (auto simp: ImportInvite_def Let_def split: sum.splits)
next
  case (Inr u)
  show ?thesis
    using assms rejectBlockedContact_ok[OF Inr] Inr
    by (auto simp: ImportInvite_def Let_def and_then_snd and_then_pure_state publicKey_def
        CreatePairingRequest_eq UpsertPairingSession_def writes_def
        split: sum.splits if_splits)
qed

lemma GetContact_self: "GetContact a b s = Inr c \<Longrightarrow> GetContact a (cRemoteAgentID c) s = Inr c"
  using GetContact_key by fastforce

lemma last_pending_spec:
  "last_pending cs n c0 = (m, c) \<Longrightarrow>
     (m = n \<and> c = c0) \<or> (n < m \<and> c \<in> set cs \<and> cState c = ContactStatePendingInbound)"
  by (induction cs n c0 rule: last_pending.induct) (fastforce split: if_splits)+

lemma select_contact_spec:
  assumes "wf_store s" and "select_contact i iv s = Inr c"
  shows "GetContact (idAgentID i) (cRemoteAgentID c) s = Inr c \<and> cState c = ContactStatePendingInbound"
proof (cases "iv = []")
  case False
  then show ?thesis
    using assms(2) by (auto simp: select_contact_def intro: GetContact_self split: sum.splits if_splits)
next
  case True
  define cs where "cs = sort_key cRemoteAgentID (filter (\<lambda>c. cLocalAgentID c = idAgentID i) (contacts s))"
  obtain m where "last_pending cs 0 zero_contact = (m, c)" "cLocalAgentID c \<noteq> []"
    using assms(2) True
    by (auto simp: select_contact_def ListContacts_def cs_def Let_def split: prod.splits if_splits)
  with last_pending_spec[of cs 0 zero_contact m c]
  have c: "c \<in> set cs" "cState c = ContactStatePendingInbound" by (auto simp: zero_contact_def)
  then have "c \<in> set (contacts s)" "cLocalAgentID c = idAgentID i" by (auto simp: cs_def)
  moreover have "unique_key contact_key (contacts s)" using assms(1) by (simp add: wf_store_def)
  ultimately have "by_key contact_key (contact_key c) (contacts s) = Some c" by (simp add: by_key_unique)
  with c \<open>cLocalAgentID c = idAgentID i\<close> show ?thesis by (simp add: GetContact_def contact_key_def)
qed

lemma acceptImportedInvite_writes:
  assumes "wf_store s" and "t = snd (acceptImportedInvite L E (Some i) iv h ta nd s)"
  shows "contacts t = contacts s \<or>
    (\<exists>c. GetContact (idAgentID i) (cRemoteAgentID c) s = Inr c \<and> cState c = ContactStatePendingInbound \<and>
       writes s t (c\<lparr>cState := ContactStateAwaitingConfirmation\<rparr>))"
proof (cases "select_contact i iv s")
  case (Inl e)
  then show ?thesis using assms by (simp add: acceptImportedInvite_def)
next
  case (Inr c)
  note sel = select_contact_spec[OF assms(1) Inr]
  have "contacts t = contacts s \<or> writes s t (c\<lparr>cState := ContactStateAwaitingConfirmation\<rparr>)"
    using assms(2) Inr
    by (auto simp: acceptImportedInvite_def Let_def and_then_snd and_then_pure_state signPayload_def
        UpsertPairingSession_def writes_def split: sum.splits if_splits prod.splits)
  with sel show ?thesis by blast
qed

lemma ConsumeForAgent_consumed:
  "fst (ValidateAndConsumePairingRequestForAgent j a now (not_expired now) s) = Inr (r, True) \<Longrightarrow>
     \<exists>q. GetPairingRequestForAgent j a s = Inr q \<and> prConsumedAt q = None \<and> now < prExpiresAt q \<and>
       r = q\<lparr>prConsumedAt := Some now\<rparr>"
  by (auto simp: ValidateAndConsumePairingRequestForAgent_def not_expired_def Let_def case_prod_beta
      split: sum.splits option.splits if_splits)

text \<open>What the inviter checks before it lets the acceptance through.\<close>

definition acceptance_checked ::
  "lib \<Rightarrow> env \<Rightarrow> Identity \<Rightarrow> PairingAcceptance \<Rightarrow> ApproveAcceptanceInput \<Rightarrow> store \<Rightarrow> bool" where
  "acceptance_checked L E i acceptance approval s =
     (let pa = Payload acceptance in
      aaExpectedAgentFingerprint approval \<noteq> [] \<and>
      Fingerprint (prim L) (paAcceptingAgentPublicKey pa) = aaExpectedAgentFingerprint approval \<and>
      (aaExpectedHostFingerprint approval \<noteq> [] \<longrightarrow>
         paAcceptingHostFingerprint pa = aaExpectedHostFingerprint approval) \<and>
      verifyPayload L (Envelope acceptance) KindPairingAcceptance (Some (json_acceptance (json L) pa))
        (paAcceptingAgentID pa) (paAcceptingAgentPublicKey pa) = Inr () \<and>
      (\<exists>request session.
         GetPairingRequestForAgent (paInviteID pa) (idAgentID i) s = Inr request \<and>
         GetPairingSession (paInviteID pa) (idAgentID i) s = Inr session \<and>
         psRole session = pairingRoleInviter \<and> prRemoteAgentID request = paAcceptingAgentID pa \<and>
         paInvitingAgentID pa = idAgentID i \<and> paInviteDigest pa = psInviteDigest session \<and>
         paSecretProof pa = acceptanceSecretProof L (prSecretHash request) (psInviteDigest session)
           (paAcceptingAgentID pa) (paAcceptingHostFingerprint pa)
           (Fingerprint (prim L) (paAcceptingAgentPublicKey pa)) \<and>
         prConsumedAt request = None \<and> clk E 0 < prExpiresAt request))"

lemma snd_relabel:
  "snd (case r of (Inl e, s) \<Rightarrow> (f e, s) | (Inr x, s) \<Rightarrow> (g x, s)) = snd r"
  by (auto split: prod.splits sum.splits)

lemma ApproveAcceptance_writes:
  assumes "t = snd (ApproveAcceptance L E (Some i) acceptance approval s)"
  shows "contacts t = contacts s \<or>
    (acceptance_checked L E i acceptance approval s \<and>
     (\<exists>c. writes s t c \<and> cLocalAgentID c = idAgentID i \<and> cRemoteAgentID c = paAcceptingAgentID (Payload acceptance) \<and>
        cState c = ContactStateAwaitingConfirmation \<and>
        cRemoteHostFingerprint c = paAcceptingHostFingerprint (Payload acceptance) \<and>
        cRemoteAgentFingerprint c = Fingerprint (prim L) (paAcceptingAgentPublicKey (Payload acceptance))))"
proof (cases "GetPairingRequestForAgent (paInviteID (Payload acceptance)) (idAgentID i) s")
  case (Inl e)
  then show ?thesis
    using assms by (auto simp: ApproveAcceptance_def Let_def and_then_snd split: sum.splits)
next
  case (Inr request)
  then have "prID request = paInviteID (Payload acceptance)" by (simp add: GetPairingRequest_key)
  with Inr show ?thesis
    unfolding acceptance_checked_def Let_def
    using assms
    by (auto simp: ApproveAcceptance_def Let_def and_then_snd and_then_pure_state signPayload_def publicKey_def
        UpsertPairingSession_def writes_def snd_relabel
        dest!: ConsumeForAgent_consumed split: sum.splits if_splits)
qed

text \<open>What the invitee checks on a confirmation, and the inviter on an activation receipt.\<close>

definition confirmation_checked :: "lib \<Rightarrow> Identity \<Rightarrow> PairingConfirmation \<Rightarrow> PairingSession \<Rightarrow> bool" where
  "confirmation_checked L i confirmation session =
     (let pc = Payload confirmation in
      psRole session = pairingRoleInvitee \<and>
      pcInvitingAgentID pc = psRemoteAgentID session \<and> pcInvitingAgentPublicKey pc = psRemoteAgentPublicKey session \<and>
      pcAcceptingAgentID pc = idAgentID i \<and> pcAcceptingAgentPublicKey pc = idPublicKey i \<and>
      pcInvitingHostFingerprint pc = psRemoteHostFingerprint session \<and>
      pcAcceptingHostFingerprint pc = psLocalHostFingerprint session \<and>
      pcInviteDigest pc = psInviteDigest session \<and> pcAcceptanceDigest pc = psAcceptanceDigest session \<and>
      verifyPayload L (Envelope confirmation) KindPairingConfirmation (Some (json_confirmation (json L) pc))
        (psRemoteAgentID session) (psRemoteAgentPublicKey session) = Inr ())"

definition receipt_checked :: "lib \<Rightarrow> Identity \<Rightarrow> PairingActivationReceipt \<Rightarrow> PairingSession \<Rightarrow> bool" where
  "receipt_checked L i receipt session =
     (let pv = Payload receipt in
      psRole session = pairingRoleInviter \<and> pvInvitingAgentID pv = idAgentID i \<and>
      pvAcceptingAgentID pv = psRemoteAgentID session \<and>
      pvAcceptingAgentPublicKey pv = psRemoteAgentPublicKey session \<and>
      pvAcceptingHostFingerprint pv = psRemoteHostFingerprint session \<and>
      pvConfirmationDigest pv = psConfirmationDigest session \<and>
      verifyPayload L (Envelope receipt) KindPairingActivationReceipt (Some (json_receipt (json L) pv))
        (psRemoteAgentID session) (psRemoteAgentPublicKey session) = Inr ())"

lemma ApplyConfirmation_writes:
  assumes "t = snd (ApplyConfirmation L E (Some i) confirmation s)"
  shows "contacts t = contacts s \<or>
    (\<exists>session c. GetPairingSession (pcInviteID (Payload confirmation)) (idAgentID i) s = Inr session \<and>
       confirmation_checked L i confirmation session \<and>
       GetContact (idAgentID i) (psRemoteAgentID session) s = Inr c \<and>
       cState c = ContactStateAwaitingConfirmation \<and> writes s t (c\<lparr>cState := ContactStateActive\<rparr>))"
  unfolding confirmation_checked_def Let_def
  using assms
  by (auto simp: ApplyConfirmation_def Let_def and_then_snd and_then_pure_state signPayload_def publicKey_def
      UpsertPairingSession_def writes_def GetContact_def split: sum.splits if_splits)

lemma ApplyActivationReceipt_writes:
  assumes "t = snd (ApplyActivationReceipt L E (Some i) receipt s)"
  shows "contacts t = contacts s \<or>
    (\<exists>session c. GetPairingSession (pvInviteID (Payload receipt)) (idAgentID i) s = Inr session \<and>
       receipt_checked L i receipt session \<and>
       GetContact (idAgentID i) (psRemoteAgentID session) s = Inr c \<and>
       cState c = ContactStateAwaitingConfirmation \<and> writes s t (c\<lparr>cState := ContactStateActive\<rparr>))"
  unfolding receipt_checked_def Let_def
  using assms
  by (auto simp: ApplyActivationReceipt_def Let_def and_then_snd and_then_pure_state publicKey_def writes_def
      split: sum.splits if_splits)

lemma close_contact_writes: "writes s (snd (close_contact c st contact s)) (contact\<lparr>cState := st\<rparr>)"
  by (auto simp: close_contact_def Let_def and_then_snd and_then_pure_state writes_def
      CancelOutboxForContact_def RevokeAttachmentGrantsForContact_def case_prod_beta split: sum.splits)

lemma Revoke_writes:
  assumes "t = snd (Revoke c a b s)"
  shows "contacts t = contacts s \<or>
    (\<exists>r. GetContact a b s = Inr r \<and> cState r \<noteq> ContactStateBlocked \<and> writes s t (r\<lparr>cState := ContactStateRevoked\<rparr>))"
  using assms by (cases "GetContact a b s") (auto simp: Revoke_def close_contact_writes)

lemma Block_writes:
  assumes "t = snd (Block c a b s)"
  shows "contacts t = contacts s \<or>
    (\<exists>r. GetContact a b s = Inr r \<and> writes s t (r\<lparr>cState := ContactStateBlocked\<rparr>))"
  using assms by (cases "GetContact a b s") (auto simp: Block_def close_contact_writes)

lemma RevokeWithNotice_contacts:
  "snd (RevokeWithNotice L E (Some i) b r s) = snd (Revoke (clk E) (idAgentID i) b s)"
  by (auto simp: RevokeWithNotice_def Let_def and_then_snd and_then_pure_state split: sum.splits)

lemma ApplyRevocation_writes:
  assumes "t = snd (ApplyRevocation L E (Some i) notice s)"
  shows "contacts t = contacts s \<or>
    (\<exists>c. GetContact (idAgentID i) (rvRevokingAgentID (Payload notice)) s = Inr c \<and>
       rvTargetAgentID (Payload notice) = idAgentID i \<and>
       cRemoteHostFingerprint c = rvRevokingHostFingerprint (Payload notice) \<and>
       cRemoteAgentFingerprint c = Fingerprint (prim L) (rvRevokingAgentPublicKey (Payload notice)) \<and>
       verifyPayload L (Envelope notice) KindRevocationNotice (json_revocation (json L) (Payload notice))
         (rvRevokingAgentID (Payload notice)) (rvRevokingAgentPublicKey (Payload notice)) = Inr () \<and>
       writes s t (c\<lparr>cState := ContactStateRevoked\<rparr>))"
  using assms
  by (auto simp: ApplyRevocation_def Let_def and_then_snd publicKey_def close_contact_writes
      split: sum.splits if_splits)

lemmas pairing_writes = CreateInvite_writes ImportInvite_writes acceptImportedInvite_writes ApproveAcceptance_writes
  ApplyConfirmation_writes ApplyActivationReceipt_writes Revoke_writes Block_writes ApplyRevocation_writes

section \<open>Lookups after a write\<close>

lemma GetContact_writes:
  assumes "wf_store s" and "writes s t c"
  shows "GetContact a b t = GetContact a b s \<or>
    ((a, b) = contact_key c \<and> (\<forall>old. GetContact a b s = Inr old \<longrightarrow> contact_guard old c) \<and>
     (\<exists>c'. GetContact a b t = Inr c' \<and> cState c' = cState c \<and>
        cRemoteHostFingerprint c' = cRemoteHostFingerprint c \<and>
        cRemoteAgentFingerprint c' = cRemoteAgentFingerprint c))"
proof -
  from assms(2) obtain now where "contacts t = contacts (snd (UpsertContact now c s))"
    by (auto simp: writes_def)
  then have "GetContact a b t = GetContact a b (snd (UpsertContact now c s))" by (rule GetContact_contacts)
  then show ?thesis
    by (auto simp: GetContact_UpsertContact[OF assms(1)] split: sum.splits)
qed

lemma writes_state:
  assumes "wf_store s" and "writes s t c"
  shows "contact_state a b t = contact_state a b s \<or>
    (a = cLocalAgentID c \<and> b = cRemoteAgentID c \<and> contact_state a b t = cState c \<and>
     (\<forall>old. GetContact a b s = Inr old \<longrightarrow> contact_guard old c))"
  using GetContact_writes[OF assms, of a b] by (auto simp: contact_state_def contact_key_def)

section \<open>The operations as one step function\<close>

datatype pairing_op =
    DoCreateInvite env Identity CreateInviteInput
  | DoImportInvite env Identity PairingInvite
  | DoAcceptInvite env Identity string string string string
  | DoApproveAcceptance env Identity PairingAcceptance ApproveAcceptanceInput
  | DoApplyConfirmation env Identity PairingConfirmation
  | DoApplyActivationReceipt env Identity PairingActivationReceipt
  | DoRevoke clock string string
  | DoBlock clock string string
  | DoRevokeWithNotice env Identity string string
  | DoApplyRevocation env Identity RevocationNotice

fun pairing_step :: "lib \<Rightarrow> pairing_op \<Rightarrow> store \<Rightarrow> store" where
  "pairing_step L (DoCreateInvite E i inp) s = snd (CreateInvite L E (Some i) inp s)"
| "pairing_step L (DoImportInvite E i v) s = snd (ImportInvite L E (Some i) v s)"
| "pairing_step L (DoAcceptInvite E i iv h ta nd) s = snd (acceptImportedInvite L E (Some i) iv h ta nd s)"
| "pairing_step L (DoApproveAcceptance E i a p) s = snd (ApproveAcceptance L E (Some i) a p s)"
| "pairing_step L (DoApplyConfirmation E i c) s = snd (ApplyConfirmation L E (Some i) c s)"
| "pairing_step L (DoApplyActivationReceipt E i r) s = snd (ApplyActivationReceipt L E (Some i) r s)"
| "pairing_step L (DoRevoke c a b) s = snd (Revoke c a b s)"
| "pairing_step L (DoBlock c a b) s = snd (Block c a b s)"
| "pairing_step L (DoRevokeWithNotice E i b r) s = snd (RevokeWithNotice L E (Some i) b r s)"
| "pairing_step L (DoApplyRevocation E i n) s = snd (ApplyRevocation L E (Some i) n s)"

text \<open>
  The invariant of the pairing component: unique keys, and a peer that is being admitted or is
  admitted has a pinned agent fingerprint.
\<close>

definition admitted_states :: "ContactState set" where
  "admitted_states = {ContactStatePendingInbound, ContactStateAwaitingConfirmation, ContactStateActive}"

definition peers_known :: "store \<Rightarrow> bool" where
  "peers_known s =
     (\<forall>a b c. GetContact a b s = Inr c \<and> cState c \<in> admitted_states \<longrightarrow> cRemoteAgentFingerprint c \<noteq> [])"

definition pairing_inv :: "store \<Rightarrow> bool" where
  "pairing_inv s = (wf_store s \<and> peers_known s)"

lemma pairing_inv_empty: "pairing_inv (empty_store key)"
  using wf_store_empty[of key] by (simp add: pairing_inv_def peers_known_def GetContact_def empty_store_def)

lemma wf_pairing_step: "wf_store s \<Longrightarrow> wf_store (pairing_step L x s)"
  by (cases x) (simp_all add: wf_intros)

lemma sextets_nonempty: "ns \<noteq> [] \<Longrightarrow> sextets ns \<noteq> []"
  by (induction ns rule: sextets.induct) auto

lemma Fingerprint_nonempty: "sha256_size P \<Longrightarrow> Fingerprint P k \<noteq> []"
  using sextets_nonempty[of "map byte (sha256 P k)"]
  by (auto simp: Fingerprint_def RawURL_EncodeToString_def b64_raw_encode_def sha256_size_def)
    (metis list.size(3) numeral_eq_iff zero_neq_numeral)

lemma peers_known_writes:
  assumes "wf_store s" and "peers_known s" and "writes s t c"
    and "cState c \<in> admitted_states \<Longrightarrow> cRemoteAgentFingerprint c \<noteq> []"
  shows "peers_known t"
  using GetContact_writes[OF assms(1,3)] assms(2,4) unfolding peers_known_def by (metis sum.inject(2))

lemma peers_known_contacts: "contacts t = contacts s \<Longrightarrow> peers_known s \<Longrightarrow> peers_known t"
  using GetContact_contacts[of t s] by (simp add: peers_known_def)

lemma peers_known_step:
  assumes "sha256_size (prim L)" and "pairing_inv s"
  shows "peers_known (pairing_step L x s)"
proof -
  have wf: "wf_store s" and known: "peers_known s" using assms(2) by (simp_all add: pairing_inv_def)
  note put = peers_known_writes[OF wf known] and same = peers_known_contacts[OF _ known]
  have fp: "GetContact a b s = Inr c \<Longrightarrow> cState c \<in> admitted_states \<Longrightarrow> cRemoteAgentFingerprint c \<noteq> []" for a b c
    using known by (auto simp: peers_known_def)
  have pinned: "writes s t c \<Longrightarrow> cRemoteAgentFingerprint c = Fingerprint (prim L) k \<Longrightarrow> peers_known t" for t c k
    using Fingerprint_nonempty[OF assms(1), of k] by (intro put) auto
  have moved: "writes s t (c\<lparr>cState := st\<rparr>) \<Longrightarrow> GetContact a b s = Inr c \<Longrightarrow>
      cState c = ContactStatePendingInbound \<or> cState c = ContactStateAwaitingConfirmation \<Longrightarrow> peers_known t" for t c st a b
    using fp[of a b c] by (intro put[of t "c\<lparr>cState := st\<rparr>"]) (auto simp: admitted_states_def)
  have out: "writes s t (c\<lparr>cState := st\<rparr>) \<Longrightarrow> st = ContactStatePendingOutbound \<or> st = ContactStateRevoked \<or>
      st = ContactStateBlocked \<Longrightarrow> peers_known t" for t c st
    by (intro put[of t "c\<lparr>cState := st\<rparr>"]) (auto simp: admitted_states_def)
  show ?thesis
  proof (cases x)
    case (DoCreateInvite E i inp)
    then show ?thesis using CreateInvite_writes[of "pairing_step L x s" L E i inp s]
      by (auto intro: same out)
  next
    case (DoImportInvite E i v)
    then show ?thesis using ImportInvite_writes[of "pairing_step L x s" L E i v s]
      by (auto intro: same pinned)
  next
    case (DoAcceptInvite E i iv h ta nd)
    then show ?thesis using acceptImportedInvite_writes[OF wf, of "pairing_step L x s" L E i iv h ta nd]
      by (auto intro: same moved)
  next
    case (DoApproveAcceptance E i a p)
    then show ?thesis using ApproveAcceptance_writes[of "pairing_step L x s" L E i a p s]
      by (auto intro: same pinned)
  next
    case (DoApplyConfirmation E i c)
    then show ?thesis using ApplyConfirmation_writes[of "pairing_step L x s" L E i c s]
      by (auto intro: same moved)
  next
    case (DoApplyActivationReceipt E i r)
    then show ?thesis using ApplyActivationReceipt_writes[of "pairing_step L x s" L E i r s]
      by (auto intro: same moved)
  next
    case (DoRevoke c a b)
    then show ?thesis using Revoke_writes[of "pairing_step L x s" c a b s]
      by (auto intro: same out)
  next
    case (DoBlock c a b)
    then show ?thesis using Block_writes[of "pairing_step L x s" c a b s]
      by (auto intro: same out)
  next
    case (DoRevokeWithNotice E i b r)
    then show ?thesis using Revoke_writes[of "pairing_step L x s" "clk E" "idAgentID i" b s]
      by (auto intro: same out simp: RevokeWithNotice_contacts)
  next
    case (DoApplyRevocation E i n)
    then show ?thesis using ApplyRevocation_writes[of "pairing_step L x s" L E i n s]
      by (auto intro: same out)
  qed
qed

section \<open>The abstract machine of one contact\<close>

text \<open>
  \<open>contact_edge x st st'\<close>: the operation \<open>x\<close>, when it concerns the contact, may move it from \<open>st\<close> to \<open>st'\<close>.
\<close>

inductive contact_edge :: "pairing_op \<Rightarrow> ContactState \<Rightarrow> ContactState \<Rightarrow> bool" where
  invite: "st \<notin> {ContactStateBlocked, ContactStateActive, ContactStateAwaitingConfirmation} \<Longrightarrow>
    contact_edge (DoCreateInvite E i inp) st ContactStatePendingOutbound"
| import: "st \<noteq> ContactStateBlocked \<Longrightarrow> contact_edge (DoImportInvite E i v) st ContactStatePendingInbound"
| accept: "contact_edge (DoAcceptInvite E i iv h ta nd) ContactStatePendingInbound ContactStateAwaitingConfirmation"
| approve: "contact_edge (DoApproveAcceptance E i a p) st ContactStateAwaitingConfirmation"
| confirm: "contact_edge (DoApplyConfirmation E i c) ContactStateAwaitingConfirmation ContactStateActive"
| activate: "contact_edge (DoApplyActivationReceipt E i r) ContactStateAwaitingConfirmation ContactStateActive"
| revoke: "st \<noteq> ContactStateBlocked \<Longrightarrow> contact_edge (DoRevoke c a b) st ContactStateRevoked"
| notice: "st \<noteq> ContactStateBlocked \<Longrightarrow> contact_edge (DoRevokeWithNotice E i b r) st ContactStateRevoked"
| revoked: "contact_edge (DoApplyRevocation E i n) st ContactStateRevoked"
| block: "contact_edge (DoBlock c a b) st ContactStateBlocked"

inductive_simps contact_edge_to_active: "contact_edge x st ContactStateActive"
inductive_simps contact_edge_from_blocked: "contact_edge x ContactStateBlocked st"

lemma not_guarded:
  assumes "pairing_inv s" and "\<forall>old. GetContact a b s = Inr old \<longrightarrow> contact_guard old c"
    and "cRemoteAgentFingerprint c = []"
  shows "contact_state a b s \<notin> {ContactStateActive, ContactStateAwaitingConfirmation}"
  using assms
  by (auto simp: contact_state_def pairing_inv_def peers_known_def admitted_states_def contact_guard_def
      pinned_def split: sum.splits)

lemma contact_state_Inr: "GetContact a b s = Inr c \<Longrightarrow> contact_state a b s = cState c"
  by (simp add: contact_state_def)

definition moves_along :: "pairing_op \<Rightarrow> store \<Rightarrow> store \<Rightarrow> bool" where
  "moves_along x s t = (contacts t = contacts s \<or> (\<exists>c. writes s t c \<and>
    (contact_edge x (contact_state (cLocalAgentID c) (cRemoteAgentID c) s) (cState c) \<or>
     (\<exists>E i inp. x = DoCreateInvite E i inp \<and> cRemoteAgentFingerprint c = [] \<and> cState c = ContactStatePendingOutbound \<and>
        contact_state (cLocalAgentID c) (cRemoteAgentID c) s \<noteq> ContactStateBlocked))))"

lemma moves_same: "contacts t = contacts s \<Longrightarrow> moves_along x s t"
  by (simp add: moves_along_def)

lemma moves_edge:
  assumes "writes s t c" and "cLocalAgentID c = a" and "cRemoteAgentID c = b" and "cState c = st"
    and "contact_edge x (contact_state a b s) st"
  shows "moves_along x s t"
  using assms unfolding moves_along_def by blast

lemma moves_found:
  assumes "GetContact a b s = Inr c" and "writes s t (c\<lparr>cState := st\<rparr>)" and "cState c = st0"
    and "contact_edge x st0 st"
  shows "moves_along x s t"
  using assms GetContact_key[OF assms(1)] contact_state_Inr[OF assms(1)] by (intro moves_edge[OF assms(2)]) auto

lemma moves_pairing_step:
  assumes "wf_store s" and "t = pairing_step L x s"
  shows "moves_along x s t"
proof -
  note found = moves_found moves_edge moves_same contact_edge.intros
  show ?thesis
  proof (cases x)
    case (DoCreateInvite E i inp)
    then show ?thesis
      using CreateInvite_writes[of t L E i inp s] assms(2) 
      by (fastforce simp: zero_contact_def moves_along_def)
  next
    case (DoImportInvite E i v)
    then show ?thesis
      using ImportInvite_writes[of t L E i v s] assms(2) by (auto intro: found)
  next
    case (DoAcceptInvite E i iv h ta nd)
    then have "t = snd (acceptImportedInvite L E (Some i) iv h ta nd s)" using assms(2) by simp
    from acceptImportedInvite_writes[OF assms(1) this] show ?thesis
      using DoAcceptInvite by (auto intro: found)
  next
    case (DoApproveAcceptance E i a p)
    then show ?thesis
      using ApproveAcceptance_writes[of t L E i a p s] assms(2) by (auto intro: found)
  next
    case (DoApplyConfirmation E i c)
    then show ?thesis
      using ApplyConfirmation_writes[of t L E i c s] assms(2)
      by (auto intro: found)
  next
    case (DoApplyActivationReceipt E i r)
    then show ?thesis
      using ApplyActivationReceipt_writes[of t L E i r s] assms(2)
      by (auto intro: found)
  next
    case (DoRevoke c a b)
    then show ?thesis
      using Revoke_writes[of t c a b s] assms(2)
      by (auto intro: found)
  next
    case (DoBlock c a b)
    then show ?thesis
      using Block_writes[of t c a b s] assms(2) by (auto intro: found)
  next
    case (DoRevokeWithNotice E i b r)
    then show ?thesis
      using Revoke_writes[of t "clk E" "idAgentID i" b s] assms(2)
      by (auto intro: found simp: RevokeWithNotice_contacts)
  next
    case (DoApplyRevocation E i n)
    then show ?thesis
      using ApplyRevocation_writes[of t L E i n s] assms(2) by (auto intro: found)
  qed
qed

lemma pairing_step_edge:
  assumes "pairing_inv s" and "t = pairing_step L x s"
  shows "contact_state a b t = contact_state a b s \<or> contact_edge x (contact_state a b s) (contact_state a b t)"
proof -
  have wf: "wf_store s" using assms(1) by (simp add: pairing_inv_def)
  from moves_pairing_step[OF wf assms(2)] show ?thesis
    unfolding moves_along_def
  proof (elim disjE exE conjE)
    assume "contacts t = contacts s"
    then show ?thesis using GetContact_contacts[of t s] by (simp add: contact_state_def)
  next
    fix c assume "writes s t c" "contact_edge x (contact_state (cLocalAgentID c) (cRemoteAgentID c) s) (cState c)"
    then show ?thesis using writes_state[OF wf, of t c a b] by auto
  next
    fix c E i inp
    assume w: "writes s t c" and c: "x = DoCreateInvite E i inp" "cRemoteAgentFingerprint c = []"
      "cState c = ContactStatePendingOutbound"
      "contact_state (cLocalAgentID c) (cRemoteAgentID c) s \<noteq> ContactStateBlocked"
    show ?thesis
      using writes_state[OF wf w, of a b] c not_guarded[OF assms(1), of a b c]
      by (auto intro: contact_edge.invite)
  qed
qed

lemma pairing_step_edge_wf:
  assumes "wf_store s" and "t = pairing_step L x s"
  shows "contact_state a b t = contact_state a b s \<or> contact_edge x (contact_state a b s) (contact_state a b t) \<or>
    (contact_state a b t = ContactStatePendingOutbound \<and> contact_state a b s \<noteq> ContactStateBlocked)"
  using moves_pairing_step[OF assms] unfolding moves_along_def
proof (elim disjE exE conjE)
  assume "contacts t = contacts s"
  then show ?thesis using GetContact_contacts[of t s] by (simp add: contact_state_def)
next
  fix c assume "writes s t c" "contact_edge x (contact_state (cLocalAgentID c) (cRemoteAgentID c) s) (cState c)"
  then show ?thesis using writes_state[OF assms(1), of t c a b] by auto
next
  fix c assume "writes s t c" "cState c = ContactStatePendingOutbound"
    "contact_state (cLocalAgentID c) (cRemoteAgentID c) s \<noteq> ContactStateBlocked"
  then show ?thesis using writes_state[OF assms(1), of t c a b] by auto
qed

lemma pairing_inv_step: "sha256_size (prim L) \<Longrightarrow> pairing_inv s \<Longrightarrow> pairing_inv (pairing_step L x s)"
  using peers_known_step[of L s x] wf_pairing_step[of s L x] by (simp add: pairing_inv_def)

section \<open>Pairing operations only append to the history\<close>

lemma le_and_then:
  assumes "store_le s0 (snd r)" and "\<And>x s. store_le s0 s \<Longrightarrow> store_le s0 (snd (k x s))"
  shows "store_le s0 (snd (and_then r k))"
  using assms by (rule and_then_state_inv)

lemma le_after:
  assumes "store_le s0 s"
  shows "store_le s0 (snd (UpsertContact t c s))" "store_le s0 (snd (UpsertPairingSession t p s))"
    "store_le s0 (snd (CreatePairingRequest r s))"
    "store_le s0 (snd (ValidateAndConsumePairingRequestForAgent i a t v s))"
    "store_le s0 (snd (CancelOutboxForContact t a b s))"
    "store_le s0 (snd (RevokeAttachmentGrantsForContact t a b u s))"
  using assms by (blast intro: store_le_trans store_le_ops)+

lemmas le_intros = le_and_then le_after store_le_refl

lemma le_close_contact: "store_le s0 s \<Longrightarrow> store_le s0 (snd (close_contact c st contact s))"
  by (auto simp: close_contact_def Let_def intro!: le_intros)

lemma le_Revoke: "store_le s (snd (Revoke c a b s))"
  by (auto simp: Revoke_def intro!: le_intros le_close_contact)

lemma le_ImportInvite: "store_le s (snd (ImportInvite L E i v s))"
proof -
  have "store_le s0 t" if "CreatePairingRequest r u = (x, t)" "store_le s0 u" for s0 r u x t
    using le_after(3)[OF that(2), of r] that(1) by simp
  then show ?thesis
    by (auto simp: ImportInvite_def Let_def intro!: le_intros split: option.splits sum.splits prod.splits)
qed

lemma le_ApproveAcceptance: "store_le s (snd (ApproveAcceptance L E i a p s))"
proof -
  have "store_le s0 t" if "UpsertContact n c u = (x, t)" "store_le s0 u" for s0 n c u x t
    using le_after(1)[OF that(2), of n c] that(1) by simp
  then show ?thesis
    by (auto simp: ApproveAcceptance_def Let_def intro!: le_intros split: option.splits sum.splits prod.splits)
qed

lemma store_le_pairing_step: "store_le s (pairing_step L x s)"
proof (cases x)
  case (DoCreateInvite E i inp)
  then show ?thesis by (auto simp: CreateInvite_def Let_def intro!: le_intros)
next
  case (DoAcceptInvite E i iv h ta nd)
  then show ?thesis by (auto simp: acceptImportedInvite_def Let_def intro!: le_intros)
next
  case (DoApplyConfirmation E i c)
  then show ?thesis by (auto simp: ApplyConfirmation_def Let_def intro!: le_intros split: sum.splits)
next
  case (DoApplyActivationReceipt E i r)
  then show ?thesis by (auto simp: ApplyActivationReceipt_def Let_def intro!: le_intros split: sum.splits)
next
  case (DoBlock c a b)
  then show ?thesis by (auto simp: Block_def intro!: le_intros le_close_contact)
next
  case (DoApplyRevocation E i n)
  then show ?thesis
    by (auto simp: ApplyRevocation_def Let_def intro!: le_intros le_close_contact split: sum.splits)
qed (simp_all add: RevokeWithNotice_contacts le_Revoke le_ImportInvite le_ApproveAcceptance)

interpretation pairing_runs: monotone_steps "pairing_step L"
  "\<lambda>s. sha256_size (prim L) \<and> pairing_inv s" "\<lambda>_. store_le" for L
  by unfold_locales (auto intro: pairing_inv_step store_le_pairing_step store_le_refl store_le_trans)

end
