(* ===== verification/Demo.thy ===== *)
theory Demo
  imports Pairing
begin

text \<open>
  Two concrete agents, a concrete instance of the library parameters and a few stores, on which the
  theorems about pairing, admission and delivery are instantiated.
\<close>

definition demo_key :: "char \<Rightarrow> bytes" where
  "demo_key c = replicate 64 c"

definition alice :: Identity where
  "alice = \<lparr>idAgentID = ''alice'', idPublicKey = replicate 32 (CHR ''a''), idPrivateKey = demo_key (CHR ''a'')\<rparr>"

definition bob :: Identity where
  "bob = \<lparr>idAgentID = ''bob'', idPublicKey = replicate 32 (CHR ''b''), idPrivateKey = demo_key (CHR ''b'')\<rparr>"

definition demo_lib :: lib where
  "demo_lib = \<lparr>prim = clear_primitives,
     json = \<lparr>json_invite = (\<lambda>v. Some (piInviteID v @ piSecret v)), json_acceptance = (\<lambda>p. paInviteID p @ paSecretProof p),
       json_confirmation = (\<lambda>p. pcInviteID p @ pcAcceptanceDigest p),
       json_receipt = (\<lambda>p. pvInviteID p @ pvConfirmationDigest p), json_revocation = (\<lambda>n. Some (rvReason n))\<rparr>,
     nets = \<lparr>url_SchemeHost = (\<lambda>_. None), net_ParseIP = (\<lambda>_. False)\<rparr>\<rparr>"

definition demo_env :: env where
  "demo_env = \<lparr>clk = (\<lambda>n. int n), uuid = (\<lambda>n. if n = 0 then ''invite-1'' else ''nonce''), rnd = ''0123''\<rparr>"

definition demo_input :: CreateInviteInput where
  "demo_input = \<lparr>ciRemoteAgentID = ''bob'', ciLocalHostFingerprint = ''host-a'',
     ciLocalTailscaleAddress = ''100.64.0.1:7443'', ciLocalNodeID = [], ciTTL = Hour\<rparr>"

definition demo_contact :: "ContactState \<Rightarrow> Contact" where
  "demo_contact st = \<lparr>cLocalAgentID = ''alice'', cRemoteAgentID = ''bob'', cRemoteNodeID = [], cRemoteEndpoint = [],
     cRemoteBinding = [], cRemoteHostFingerprint = ''host-b'', cRemoteAgentFingerprint = ''fp-b'',
     cState = st, cCreatedAt = 0, cUpdatedAt = 0\<rparr>"

definition demo_store :: "ContactState \<Rightarrow> store" where
  "demo_store st = (empty_store None)\<lparr>contacts := [demo_contact st]\<rparr>"

lemma wf_demo_store: "wf_store (demo_store st)"
  by (simp add: demo_store_def wf_store_def empty_store_def unique_key_def)

lemma GetContact_demo: "GetContact ''alice'' ''bob'' (demo_store st) = Inr (demo_contact st)"
  by (simp add: GetContact_def demo_store_def demo_contact_def contact_key_def)

lemma demo_lib_laws: "sha256_size (prim demo_lib)" "sign_verifies (prim demo_lib) k"
  by (simp_all add: demo_lib_def clear_primitives_laws)

lemma wf_demo_identities: "wf_identity alice" "wf_identity bob"
  by (simp_all add: wf_identity_def alice_def bob_def demo_key_def ed25519_Public_def PrivateKeySize_def)

lemma demo_CreateInvite:
  "\<exists>invite t. CreateInvite demo_lib demo_env (Some alice) demo_input (empty_store None) = (Inr invite, t) \<and>
     piInviteID (Payload invite) = ''invite-1'' \<and> piExpiresAt (Payload invite) = Hour"
  by (simp add: CreateInvite_def demo_input_def alice_def demo_env_def rejectBlockedContact_def GetContact_def
      empty_store_def signPayload_def CreatePairingRequest_def insert_row_def UpsertPairingSession_def
      UpsertContact_def upsert_row_def demo_lib_def Let_def Hour_def)

text \<open>Alice's store with Bob as an active contact, pinned to his key.\<close>

definition demo_active :: store where
  "demo_active = (empty_store None)\<lparr>contacts := [(demo_contact ContactStateActive)\<lparr>
     cRemoteAgentFingerprint := Fingerprint clear_primitives (idPublicKey bob)\<rparr>]\<rparr>"

lemma wf_demo_active: "wf_store demo_active"
  by (simp add: demo_active_def wf_store_def empty_store_def unique_key_def)

lemma GetContact_active: "GetContact ''alice'' ''bob'' demo_active =
    Inr ((demo_contact ContactStateActive)\<lparr>cRemoteAgentFingerprint := Fingerprint clear_primitives (idPublicKey bob)\<rparr>)"
  by (simp add: GetContact_def demo_active_def demo_contact_def contact_key_def)

end
