(* ===== verification/PairingProps.thy ===== *)
theory PairingProps
  imports PairingMoves Demo
begin

text \<open>
  What the pairing component guarantees: the life of a contact, what activation requires, that a
  block holds, that closing a contact stops its traffic, and that an invite is used once.
\<close>

section \<open>The life of a contact\<close>

lemma reachable_inv: "sha256_size (prim L) \<Longrightarrow> pairing_inv (run (pairing_step L) xs (empty_store key))"
  using pairing_runs.inv_run[of L "empty_store key" xs] pairing_inv_empty by blast

text \<open>
  C2. The pairing operations refine the state machine of one contact: on every store they can reach,
  an operation leaves the state of each contact alone or moves it along an edge of the machine that
  belongs to that operation.
\<close>

theorem pairing_refines_machine:
  assumes "sha256_size (prim L)" and "s = run (pairing_step L) xs (empty_store key)"
  shows "contact_state a b (pairing_step L x s) = contact_state a b s \<or>
    contact_edge x (contact_state a b s) (contact_state a b (pairing_step L x s))"
  using pairing_step_edge[OF _ refl] reachable_inv[OF assms(1)] assms(2) by blast

lemma demo_invited_state:
  "contact_state ''alice'' ''bob'' (pairing_step demo_lib (DoCreateInvite demo_env alice demo_input) (empty_store None))
     = ContactStatePendingOutbound"
  by (simp add: contact_state_def CreateInvite_def demo_input_def alice_def demo_env_def rejectBlockedContact_def
      GetContact_def empty_store_def signPayload_def CreatePairingRequest_def insert_row_def UpsertPairingSession_def
      UpsertContact_def upsert_row_def demo_lib_def Let_def Hour_def contact_key_def zero_contact_def contact_row_def)

theorem pairing_refines_machine_witness:
  "contact_edge (DoCreateInvite demo_env alice demo_input) ContactStateUnknown ContactStatePendingOutbound"
  using pairing_refines_machine[OF demo_lib_laws(1), of "empty_store None" "[]" None "''alice''" "''bob''"
      "DoCreateInvite demo_env alice demo_input"] demo_invited_state
  by (simp add: contact_state_def GetContact_def empty_store_def)

text \<open>
  C3. A contact becomes active only from awaiting confirmation, and only by a confirmation or an
  activation receipt whose envelope verifies under the public key of the local pairing session named
  by it, for the right agents, hosts and digests.
\<close>

theorem active_only_confirmed:
  assumes "wf_store s" and "contact_state a b s \<noteq> ContactStateActive"
    and "contact_state a b (pairing_step L x s) = ContactStateActive"
  shows "contact_state a b s = ContactStateAwaitingConfirmation \<and>
    ((\<exists>E i conf session. x = DoApplyConfirmation E i conf \<and> idAgentID i = a \<and> psRemoteAgentID session = b \<and>
        GetPairingSession (pcInviteID (Payload conf)) a s = Inr session \<and> confirmation_checked L i conf session) \<or>
     (\<exists>E i rcpt session. x = DoApplyActivationReceipt E i rcpt \<and> idAgentID i = a \<and> psRemoteAgentID session = b \<and>
        GetPairingSession (pvInviteID (Payload rcpt)) a s = Inr session \<and> receipt_checked L i rcpt session))"
proof -
  define t where "t = pairing_step L x s"
  have edge: "contact_edge x (contact_state a b s) ContactStateActive"
    using pairing_step_edge_wf[OF assms(1) refl, of a b L x] assms(2,3) by auto
  have changed: "contacts t \<noteq> contacts s"
    using assms(2,3) GetContact_contacts[of t s a b] by (auto simp: contact_state_def t_def)
  have here: "a = i \<and> b = j"
    if "GetContact i j s = Inr c" "writes s t (c\<lparr>cState := st\<rparr>)" for i j c st
    using writes_state[OF assms(1) that(2), of a b] GetContact_key[OF that(1)] assms(2,3) by (auto simp: t_def)
  from edge show ?thesis
    unfolding contact_edge_to_active
  proof (elim disjE exE conjE)
    fix E i conf assume x: "x = DoApplyConfirmation E i conf" and st: "contact_state a b s = ContactStateAwaitingConfirmation"
    have "t = snd (ApplyConfirmation L E (Some i) conf s)" by (simp add: t_def x)
    from ApplyConfirmation_writes[OF this] changed here x st show ?thesis by blast
  next
    fix E i rcpt
    assume x: "x = DoApplyActivationReceipt E i rcpt" and st: "contact_state a b s = ContactStateAwaitingConfirmation"
    have "t = snd (ApplyActivationReceipt L E (Some i) rcpt s)" by (simp add: t_def x)
    from ApplyActivationReceipt_writes[OF this] changed here x st show ?thesis by blast
  qed
qed

section \<open>Blocking\<close>

text \<open>
  The operations that can take a contact out of the blocked state: the approval of an acceptance for
  an invite that is still open, and a revocation notice signed by the peer.
\<close>

fun unblocks :: "pairing_op \<Rightarrow> bool" where
  "unblocks (DoApproveAcceptance _ _ _ _) = True"
| "unblocks (DoApplyRevocation _ _ _) = True"
| "unblocks _ = False"

lemma blocked_step:
  assumes "wf_store s" and "contact_state a b s = ContactStateBlocked" and "\<not> unblocks x"
  shows "contact_state a b (pairing_step L x s) = ContactStateBlocked"
  using pairing_step_edge_wf[OF assms(1) refl, of a b L x] assms(2,3)
  by (auto simp: contact_edge_from_blocked)

lemma blocked_run:
  "wf_store s \<Longrightarrow> contact_state a b s = ContactStateBlocked \<Longrightarrow> \<not> list_ex unblocks xs \<Longrightarrow>
     contact_state a b (run (pairing_step L) xs s) = ContactStateBlocked"
  by (induction xs arbitrary: s) (auto simp: blocked_step wf_pairing_step)

text \<open>
  C6. A blocked contact stays blocked through every sequence of pairing operations that contains no
  approval of an acceptance and no revocation notice from a peer.
\<close>

theorem blocked_stays_blocked:
  assumes "wf_store s" and "contact_state a b s = ContactStateBlocked" and "\<not> list_ex unblocks xs"
  shows "contact_state a b (run (pairing_step L) xs s) = ContactStateBlocked"
  using assms by (rule blocked_run)

theorem blocked_stays_blocked_witness:
  "contact_state ''alice'' ''bob'' (run (pairing_step demo_lib)
     [DoCreateInvite demo_env alice demo_input, DoRevoke (\<lambda>n. int n) ''alice'' ''bob''] (demo_store ContactStateBlocked))
     = ContactStateBlocked"
  by (rule blocked_stays_blocked[OF wf_demo_store])
    (simp_all add: contact_state_def GetContact_demo demo_contact_def)

text \<open>
  C7. While a contact is blocked neither a new invite to it is created nor an invite from it imported:
  the call fails and the database is not written.
\<close>

theorem blocked_refuses_pairing:
  assumes "contact_state (idAgentID i) b s = ContactStateBlocked"
  shows "(\<forall>inp. ciRemoteAgentID inp = b \<longrightarrow> (\<exists>e. CreateInvite L E (Some i) inp s = (Inl e, s))) \<and>
    (\<forall>v. piInvitingAgentID (Payload v) = b \<longrightarrow> (\<exists>e. ImportInvite L E (Some i) v s = (Inl e, s)))"
proof -
  have "rejectBlockedContact (idAgentID i) b s = Inl ErrContactBlocked"
    using assms by (auto simp: contact_state_def rejectBlockedContact_def split: sum.splits)
  then show ?thesis
    by (auto simp: CreateInvite_def ImportInvite_def Let_def split: sum.splits)
qed

theorem blocked_refuses_pairing_witness:
  "\<exists>e. CreateInvite demo_lib demo_env (Some alice) demo_input (demo_store ContactStateBlocked) =
     (Inl e, demo_store ContactStateBlocked)"
proof -
  have "contact_state (idAgentID alice) ''bob'' (demo_store ContactStateBlocked) = ContactStateBlocked"
    by (simp add: contact_state_def GetContact_demo alice_def demo_contact_def)
  from blocked_refuses_pairing[OF this] show ?thesis by (simp add: demo_input_def)
qed

section \<open>Closing a contact\<close>

lemma closed_outbox:
  "m \<in> set (outbox_messages (snd (CancelOutboxForContact now a b s))) \<Longrightarrow>
     omSourceAgentID m = a \<and> omTargetAgentID m = b \<Longrightarrow> omState m \<noteq> OutboxStatePending"
  by (blast dest: CancelOutboxForContact_none_due)

lemma closed_grants:
  assumes "g \<in> set (attachment_grants (snd (RevokeAttachmentGrantsForContact now a b t s)))"
    and "agOwnerAgentID g = a \<and> agTargetAgentID g = b"
  shows "agRevokedAt g \<noteq> None"
proof -
  have "g \<in> set (fst (update_rows
      (\<lambda>g. agOwnerAgentID g = a \<and> agTargetAgentID g = b \<and> agRevokedAt g = None)
      (\<lambda>g. g\<lparr>agRevokedAt := Some (trunc_ms (if IsZero t then now else t)),
             agUpdatedAt := trunc_ms (if IsZero t then now else t)\<rparr>) (attachment_grants s)))"
    using assms(1) by (simp add: RevokeAttachmentGrantsForContact_state)
  from in_update_rows[OF this] obtain r where
    "g = (if agOwnerAgentID r = a \<and> agTargetAgentID r = b \<and> agRevokedAt r = None
      then r\<lparr>agRevokedAt := Some (trunc_ms (if IsZero t then now else t)),
             agUpdatedAt := trunc_ms (if IsZero t then now else t)\<rparr> else r)" by blast
  with assms(2) show ?thesis by (simp split: if_splits)
qed

text \<open>No pending message and no usable grant is left from \<open>a\<close> to \<open>b\<close>.\<close>

definition traffic_stopped :: "string \<Rightarrow> string \<Rightarrow> store \<Rightarrow> bool" where
  "traffic_stopped a b s =
     (list_all (\<lambda>m. omSourceAgentID m = a \<and> omTargetAgentID m = b \<longrightarrow> omState m \<noteq> OutboxStatePending)
        (outbox_messages s) \<and>
      list_all (\<lambda>g. agOwnerAgentID g = a \<and> agTargetAgentID g = b \<longrightarrow> agRevokedAt g \<noteq> None)
        (attachment_grants s))"

lemma close_contact_closes:
  assumes "wf_store s" and "GetContact a b s = Inr k"
  shows "\<exists>k' t. close_contact c st k s = (Inr k', t) \<and> GetContact a b t = Inr k' \<and> cState k' = st \<and>
    cRemoteHostFingerprint k' = cRemoteHostFingerprint k \<and> cRemoteAgentFingerprint k' = cRemoteAgentFingerprint k \<and>
    traffic_stopped a b t"
proof -
  have id: "cLocalAgentID k = a" "cRemoteAgentID k = b" using GetContact_key[OF assms(2)] by auto
  define s1 where "s1 = snd (UpsertContact (c 0) (k\<lparr>cState := st\<rparr>) s)"
  define s2 where "s2 = snd (CancelOutboxForContact (c 1) a b s1)"
  define t where "t = snd (RevokeAttachmentGrantsForContact (c 3) a b (c 2) s2)"
  have "fst (UpsertContact (c 0) (k\<lparr>cState := st\<rparr>) s) = Inr ()"
    using assms id by (simp add: UpsertContact_result contact_guard_def)
  then have up: "UpsertContact (c 0) (k\<lparr>cState := st\<rparr>) s = (Inr (), s1)" by (simp add: s1_def prod_eq_iff)
  have can: "CancelOutboxForContact (c 1) a b s1 = (Inr (), s2)" by (simp add: s2_def CancelOutboxForContact_def)
  obtain n where rev: "RevokeAttachmentGrantsForContact (c 3) a b (c 2) s2 = (Inr n, t)"
    by (simp add: t_def RevokeAttachmentGrantsForContact_def case_prod_beta Let_def)
  have "GetContact a b t = GetContact a b s1" by (rule GetContact_contacts) (simp add: t_def s2_def)
  also have "\<dots> = Inr (contact_merge k (contact_row (c 0) (k\<lparr>cState := st\<rparr>)))"
    using assms id by (simp add: s1_def GetContact_UpsertContact contact_key_def contact_guard_def)
  finally have got: "GetContact a b t = Inr (contact_merge k (contact_row (c 0) (k\<lparr>cState := st\<rparr>)))" .
  have "outbox_messages t = outbox_messages s2" by (simp add: t_def state_eqs)
  then have "traffic_stopped a b t"
    using closed_outbox[of _ "c 1" a b s1] closed_grants[of _ "c 3" a b "c 2" s2]
    by (auto simp: traffic_stopped_def list_all_iff s2_def t_def)
  with got up can rev id show ?thesis
    by (simp add: close_contact_def Let_def)
qed

lemma close_contact_state:
  assumes "wf_store s" and "GetContact a b s = Inr k" and "close_contact c st k s = (Inr k', t)"
  shows "contact_state a b t = st"
  using close_contact_closes[OF assms(1,2), of c st] assms(3) by (auto simp: contact_state_def)

lemma Revoke_state: "wf_store s \<Longrightarrow> Revoke c a b s = (Inr k, t) \<Longrightarrow> contact_state a b t = ContactStateRevoked"
  by (auto simp: Revoke_def and_then_returns intro: close_contact_state split: if_splits)

lemma Block_state: "wf_store s \<Longrightarrow> Block c a b s = (Inr k, t) \<Longrightarrow> contact_state a b t = ContactStateBlocked"
  by (auto simp: Block_def and_then_returns intro: close_contact_state)

lemma wf_Block_run: "wf_store s \<Longrightarrow> Block c a b s = (r, t) \<Longrightarrow> wf_store t"
  using wf_Block[of s c a b] by simp

text \<open>
  C4. Revoking a contact that is not blocked, and blocking any contact, succeeds: the contact ends in
  the closed state with its pinned fingerprints, it may no longer communicate, none of the messages
  queued for it is pending, and every attachment grant made to it is revoked.
\<close>

theorem closing_stops_traffic:
  assumes "wf_store s" and "GetContact a b s = Inr k"
  shows "(cState k \<noteq> ContactStateBlocked \<longrightarrow>
      (\<exists>k' t. Revoke c a b s = (Inr k', t) \<and> GetContact a b t = Inr k' \<and> cState k' = ContactStateRevoked \<and>
         cRemoteHostFingerprint k' = cRemoteHostFingerprint k \<and> cRemoteAgentFingerprint k' = cRemoteAgentFingerprint k \<and>
         \<not> CanCommunicate k' \<and> traffic_stopped a b t)) \<and>
    (\<exists>k' t. Block c a b s = (Inr k', t) \<and> GetContact a b t = Inr k' \<and> cState k' = ContactStateBlocked \<and>
       cRemoteHostFingerprint k' = cRemoteHostFingerprint k \<and> cRemoteAgentFingerprint k' = cRemoteAgentFingerprint k \<and>
       \<not> CanCommunicate k' \<and> traffic_stopped a b t)"
  using close_contact_closes[OF assms, of c ContactStateRevoked] close_contact_closes[OF assms, of c ContactStateBlocked]
    assms(2) by (auto simp: Revoke_def Block_def CanCommunicate_def)

theorem closing_stops_traffic_witness:
  "\<exists>k t. Revoke (\<lambda>n. int n) ''alice'' ''bob'' (demo_store ContactStateActive) = (Inr k, t) \<and>
     cState k = ContactStateRevoked \<and> traffic_stopped ''alice'' ''bob'' t"
  using closing_stops_traffic[OF wf_demo_store GetContact_demo, of ContactStateActive "\<lambda>n. int n"]
  by (auto simp: demo_contact_def)

section \<open>An invite is used once\<close>

definition invite_open :: "string \<Rightarrow> string \<Rightarrow> store \<Rightarrow> bool" where
  "invite_open j a s = (case GetPairingRequestForAgent j a s of Inr r \<Rightarrow> prConsumedAt r = None | Inl _ \<Rightarrow> False)"

definition invite_used :: "string \<Rightarrow> string \<Rightarrow> store \<Rightarrow> bool" where
  "invite_used j a s = (case GetPairingRequestForAgent j a s of Inr r \<Rightarrow> prConsumedAt r \<noteq> None | Inl _ \<Rightarrow> False)"

lemma used_not_open: "invite_used j a s \<Longrightarrow> \<not> invite_open j a s"
  by (simp add: invite_open_def invite_used_def split: sum.splits)

lemma used_mono: "store_le s t \<Longrightarrow> invite_used j a s \<Longrightarrow> invite_used j a t"
  by (auto simp: invite_used_def dest: store_le_final(2) split: sum.splits)

lemma consume_uses:
  assumes "wf_store s"
    and "ValidateAndConsumePairingRequestForAgent j a now v s = (Inr (r, True), t)"
  shows "prID r = j \<and> invite_open j a s \<and> invite_used j a t"
proof -
  obtain q where q: "GetPairingRequestForAgent j a s = Inr q" "prConsumedAt q = None" "v q = None"
    "r = q\<lparr>prConsumedAt := Some now\<rparr>"
    using assms by (auto simp: ConsumeForAgent_eq split: sum.splits if_splits option.splits)
  moreover have "prID q = j" using GetPairingRequest_key[OF q(1)] by simp
  ultimately show ?thesis
    using assms by (auto simp: ConsumeForAgent_eq invite_open_def invite_used_def GetPairingRequest_consumed)
qed

lemma requests_frame [simp]:
  "pairing_requests (snd (UpsertContact n c u)) = pairing_requests u"
  by (simp add: state_eqs)

lemma returns_last:
  "and_then r (\<lambda>_ s. (Inr g, s)) = (Inr y, t) \<longleftrightarrow> ok (fst r) \<and> y = g \<and> t = snd r"
  "(case r of (Inl e, s) \<Rightarrow> (Inl (f e), s) | (Inr _, s) \<Rightarrow> (Inr g, s)) = (Inr y, t) \<longleftrightarrow>
     ok (fst r) \<and> y = g \<and> t = snd r"
  by (auto simp: and_then_def split: prod.splits sum.splits)

lemma invite_used_requests: "pairing_requests t = pairing_requests s \<Longrightarrow> invite_used j a t = invite_used j a s"
  by (simp add: invite_used_def GetPairingRequestForAgent_def)

lemma ApproveAcceptance_uses:
  assumes "wf_store s" and "ApproveAcceptance L E (Some i) acceptance approval s = (Inr conf, t)"
  shows "invite_open (paInviteID (Payload acceptance)) (idAgentID i) s \<and>
    invite_used (paInviteID (Payload acceptance)) (idAgentID i) t"
proof -
  let ?j = "paInviteID (Payload acceptance)"
  have "\<exists>request r s1. GetPairingRequestForAgent ?j (idAgentID i) s = Inr request \<and>
      ValidateAndConsumePairingRequestForAgent (prID request) (idAgentID i) (clk E 0) (not_expired (clk E 0)) s
        = (Inr (r, True), s1) \<and> pairing_requests t = pairing_requests s1"
    using assms(2)
    by (auto simp: ApproveAcceptance_def Let_def returns_last UpsertPairingSession_def and_then_returns
        split: sum.splits if_splits)
  then obtain request r s1 where req: "GetPairingRequestForAgent ?j (idAgentID i) s = Inr request"
    and con: "ValidateAndConsumePairingRequestForAgent (prID request) (idAgentID i) (clk E 0) (not_expired (clk E 0)) s
      = (Inr (r, True), s1)" and same: "pairing_requests t = pairing_requests s1" by blast
  have "prID request = ?j" using GetPairingRequest_key[OF req] by simp
  then show ?thesis using consume_uses[OF assms(1) con] invite_used_requests[OF same] by simp
qed

lemma acceptImportedInvite_uses:
  assumes "wf_store s" and "acceptImportedInvite L E (Some i) iv h ta nd s = (Inr acceptance, t)"
  shows "invite_open (paInviteID (Payload acceptance)) (idAgentID i) s \<and>
    invite_used (paInviteID (Payload acceptance)) (idAgentID i) t"
proof -
  let ?consume = "\<lambda>session :: PairingSession. ValidateAndConsumePairingRequestForAgent (psInviteID session) (idAgentID i) (clk E 0)
    (not_expired (clk E 0)) s"
  have "\<exists>session r s1. ?consume session = (Inr (r, True), s1) \<and> paInviteID (Payload acceptance) = prID r \<and>
      pairing_requests t = pairing_requests s1"
    using assms(2)
    by (auto simp: acceptImportedInvite_def Let_def returns_last UpsertPairingSession_def and_then_returns
        split: sum.splits if_splits) blast
  then obtain session r s1 where j: "paInviteID (Payload acceptance) = prID r"
    and con: "?consume session = (Inr (r, True), s1)" and same: "pairing_requests t = pairing_requests s1" by blast
  show ?thesis using consume_uses[OF assms(1) con] invite_used_requests[OF same] j by simp
qed

lemma used_run:
  assumes "wf_store s" and "invite_used j a s"
  shows "invite_used j a (run (pairing_step L) xs s)"
  using assms used_mono[OF store_le_pairing_step] by (induction xs arbitrary: s) (auto simp: wf_pairing_step)

lemma wf_run: "wf_store s \<Longrightarrow> wf_store (run (pairing_step L) xs s)"
  by (induction xs arbitrary: s) (auto simp: wf_pairing_step)

text \<open>
  C5. An invite is used at most once on each side: after an acceptance of it was approved, and after
  pairing operations of any kind, no acceptance of the same invite is approved again; and after the
  invitee accepted it, no later acceptance by that agent is for the same invite.
\<close>

theorem invite_single_use:
  assumes "wf_store s" and "idAgentID i' = idAgentID i"
  shows "(\<forall>acc conf t xs. ApproveAcceptance L E (Some i) acc appr s = (Inr conf, t) \<longrightarrow>
       paInviteID (Payload acc') = paInviteID (Payload acc) \<longrightarrow>
       \<not> ok (fst (ApproveAcceptance L E' (Some i') acc' appr' (run (pairing_step L) xs t)))) \<and>
    (\<forall>acc t xs acc2 u. acceptImportedInvite L E (Some i) iv h ta nd s = (Inr acc, t) \<longrightarrow>
       acceptImportedInvite L E' (Some i') iv' h' ta' nd' (run (pairing_step L) xs t) = (Inr acc2, u) \<longrightarrow>
       paInviteID (Payload acc2) \<noteq> paInviteID (Payload acc))"
proof (intro conjI allI impI)
  fix acc conf t xs
  assume first: "ApproveAcceptance L E (Some i) acc appr s = (Inr conf, t)"
    and same: "paInviteID (Payload acc') = paInviteID (Payload acc)"
  have wf: "wf_store t" using wf_ApproveAcceptance[OF assms(1), of L E "Some i" acc appr] first by simp
  have "invite_used (paInviteID (Payload acc)) (idAgentID i) (run (pairing_step L) xs t)"
    using used_run[OF wf] ApproveAcceptance_uses[OF assms(1) first] by blast
  with same assms(2) show "\<not> ok (fst (ApproveAcceptance L E' (Some i') acc' appr' (run (pairing_step L) xs t)))"
    using ApproveAcceptance_uses[OF wf_run[OF wf], where E=E' and i=i' and acceptance=acc' and approval=appr']
      used_not_open by (metis ok_iff prod.collapse)
next
  fix acc t xs acc2 u
  assume first: "acceptImportedInvite L E (Some i) iv h ta nd s = (Inr acc, t)"
    and second: "acceptImportedInvite L E' (Some i') iv' h' ta' nd' (run (pairing_step L) xs t) = (Inr acc2, u)"
  have wf: "wf_store t" using wf_acceptImportedInvite[OF assms(1), of L E "Some i" iv h ta nd] first by simp
  have "invite_used (paInviteID (Payload acc)) (idAgentID i) (run (pairing_step L) xs t)"
    using used_run[OF wf] acceptImportedInvite_uses[OF assms(1) first] by blast
  then show "paInviteID (Payload acc2) \<noteq> paInviteID (Payload acc)"
    using acceptImportedInvite_uses[OF wf_run[OF wf] second] used_not_open assms(2) by metis
qed

end
