(* ===== verification/Handshake.thy ===== *)
theory Handshake
  imports PairingProps
begin

text \<open>
  The pairing protocol between two daemons, each with its own store: an invite created by one agent,
  imported and accepted by the other, approved, confirmed and activated, makes each the active
  contact of the other. One lemma per message gives what the receiving side stores and answers.
\<close>

section \<open>Signatures between the two sides\<close>

definition trusted :: "lib \<Rightarrow> Identity \<Rightarrow> bool" where
  "trusted L i = (wf_identity i \<and> sign_verifies (prim L) (idPrivateKey i))"

lemma verifyPayload_signed:
  assumes "trusted L i"
  shows "verifyPayload L (Sign (prim L) now u i (idAgentID i) kind bs) kind (Some bs) (idAgentID i) (idPublicKey i) = Inr ()"
  using assms Verify_Sign[of i "prim L" now u "idAgentID i" kind bs] by (simp add: verifyPayload_def trusted_def)

lemma publicKey_trusted: "trusted L i \<Longrightarrow> publicKey (idPublicKey i) = Inr (idPublicKey i)"
  using length_public_key[of i] by (simp add: publicKey_def trusted_def)

lemma trusted_id: "trusted L i \<Longrightarrow> idAgentID i \<noteq> []"
  by (simp add: trusted_def wf_identity_def)

section \<open>Lookups are local to their table\<close>

lemma GetPairingSession_frame [simp]:
  "GetPairingSession j a (s\<lparr>pairing_requests := q\<rparr>) = GetPairingSession j a s"
  "GetPairingSession j a (snd (UpsertContact n c s)) = GetPairingSession j a s"
  by (simp_all add: GetPairingSession_def state_eqs)

lemma GetPairingRequest_frame [simp]:
  "GetPairingRequestForAgent j a (snd (UpsertPairingSession n p s)) = GetPairingRequestForAgent j a s"
  "GetPairingRequestForAgent j a (snd (UpsertContact n c s)) = GetPairingRequestForAgent j a s"
  by (simp_all add: GetPairingRequestForAgent_def state_eqs)

lemma GetContact_frame [simp]:
  "GetContact a b (s\<lparr>pairing_requests := q\<rparr>) = GetContact a b s"
  "GetContact a b (snd (UpsertPairingSession n p s)) = GetContact a b s"
  by (simp_all add: GetContact_def state_eqs)

lemma and_then_session: "and_then (UpsertPairingSession n p s) k = k () (snd (UpsertPairingSession n p s))"
  by (simp add: UpsertPairingSession_def)

section \<open>What each side holds during the handshake\<close>

text \<open>The inviter \<open>i\<close> after sending \<open>invite\<close>.\<close>

definition invited :: "lib \<Rightarrow> Identity \<Rightarrow> string \<Rightarrow> PairingInvite \<Rightarrow> store \<Rightarrow> bool" where
  "invited L i b invite s =
     (wf_store s \<and>
      (\<exists>request session contact.
         GetPairingRequestForAgent (piInviteID (Payload invite)) (idAgentID i) s = Inr request \<and>
         prConsumedAt request = None \<and> prExpiresAt request = trunc_ms (piExpiresAt (Payload invite)) \<and>
         prRemoteAgentID request = b \<and> prSecretHash request = hashSecret L (piSecret (Payload invite)) \<and>
         GetPairingSession (piInviteID (Payload invite)) (idAgentID i) s = Inr session \<and>
         psRole session = pairingRoleInviter \<and> psRemoteAgentID session = b \<and>
         psInviteDigest session = digestEnvelope L (Envelope invite) \<and>
         psLocalHostFingerprint session = piInvitingHostFingerprint (Payload invite) \<and>
         GetContact (idAgentID i) b s = Inr contact \<and> cState contact = ContactStatePendingOutbound))"

definition invite_valid :: "lib \<Rightarrow> Identity \<Rightarrow> string \<Rightarrow> PairingInvite \<Rightarrow> bool" where
  "invite_valid L i b invite =
     (piInvitingAgentID (Payload invite) = idAgentID i \<and> piTargetAgentID (Payload invite) = b \<and>
      piInvitingAgentPublicKey (Payload invite) = idPublicKey i \<and>
      verifyPayload L (Envelope invite) KindPairingInvite (json_invite (json L) (Payload invite))
        (idAgentID i) (idPublicKey i) = Inr ())"

lemma UpsertContact_returns:
  assumes "wf_store s" and "UpsertContact n c s = (Inr (), t)"
  shows "t = snd (UpsertContact n c s) \<and>
    (\<exists>k. GetContact (cLocalAgentID c) (cRemoteAgentID c) t = Inr k \<and> cState k = cState c \<and>
      cRemoteHostFingerprint k = cRemoteHostFingerprint c \<and> cRemoteAgentFingerprint k = cRemoteAgentFingerprint c)"
proof -
  have t: "t = snd (UpsertContact n c s)" "fst (UpsertContact n c s) = Inr ()" using assms(2) by simp_all
  then show ?thesis
    using assms(1) by (auto simp: UpsertContact_result GetContact_UpsertContact contact_key_def
        split: sum.splits if_splits)
qed

lemma GetPairingSession_put:
  assumes "wf_store s"
  shows "\<exists>q. GetPairingSession (psInviteID p) (psLocalAgentID p) (snd (UpsertPairingSession n p s)) = Inr q \<and>
    psRole q = psRole p \<and> psRemoteAgentID q = psRemoteAgentID p \<and> psInviteDigest q = psInviteDigest p \<and>
    psAcceptanceDigest q = psAcceptanceDigest p \<and> psConfirmationDigest q = psConfirmationDigest p \<and>
    psLocalHostFingerprint q = psLocalHostFingerprint p \<and> psRemoteHostFingerprint q = psRemoteHostFingerprint p \<and>
    psRemoteAgentPublicKey q = psRemoteAgentPublicKey p"
  using GetPairingSession_Upsert[OF assms, of "psInviteID p" "psLocalAgentID p" n p]
  by (auto simp: session_key_def split: sum.splits)

lemma CreatePairingRequest_put:
  assumes "CreatePairingRequest r s = (Inr (), t)"
  shows "GetPairingRequestForAgent (prID r) (prLocalAgentID r) t = Inr (request_row r) \<and>
    GetPairingSession j a t = GetPairingSession j a s \<and> GetContact a b t = GetContact a b s"
  using assms
  by (auto simp: CreatePairingRequest_def insert_row_Some_iff GetPairingRequestForAgent_def by_key_append
      request_row_def request_key_def GetPairingSession_def GetContact_def split: option.splits)

lemma CreateInvite_post:
  assumes "trusted L i" and "wf_store s" and "CreateInvite L E (Some i) inp s = (Inr invite, t)"
  shows "invited L i (ciRemoteAgentID inp) invite t \<and> invite_valid L i (ciRemoteAgentID inp) invite \<and>
    piInvitingHostFingerprint (Payload invite) = ciLocalHostFingerprint inp"
proof -
  define payload where "payload = \<lparr>piInviteID = uuid E 0, piInvitingAgentID = idAgentID i,
    piInvitingAgentPublicKey = idPublicKey i, piInvitingHostFingerprint = ciLocalHostFingerprint inp,
    piInvitingTailscaleAddress = ciLocalTailscaleAddress inp, piInvitingNodeID = TrimSpace (ciLocalNodeID inp),
    piTargetAgentID = ciRemoteAgentID inp, piSecret = randomSecret (rnd E), piExpiresAt = clk E 0 + ciTTL inp\<rparr>"
  define request where "request = \<lparr>prID = uuid E 0, prLocalAgentID = idAgentID i,
    prRemoteAgentID = ciRemoteAgentID inp, prRemoteHostFingerprint = [], prRemoteAgentFingerprint = [],
    prSecretHash = hashSecret L (piSecret payload), prExpiresAt = piExpiresAt payload, prConsumedAt = None,
    prCreatedAt = clk E 0\<rparr>"
  define session where "session envelope = zero_session\<lparr>psInviteID := uuid E 0, psLocalAgentID := idAgentID i,
    psRemoteAgentID := ciRemoteAgentID inp, psRole := pairingRoleInviter,
    psLocalHostFingerprint := ciLocalHostFingerprint inp, psInviteDigest := digestEnvelope L envelope,
    psExpiresAt := piExpiresAt payload, psCreatedAt := clk E 0\<rparr>" for envelope
  define contact where "contact = zero_contact\<lparr>cLocalAgentID := idAgentID i,
    cRemoteAgentID := ciRemoteAgentID inp, cState := ContactStatePendingOutbound\<rparr>"
  have "\<exists>envelope s1.
      signPayload L (clk E 1) (uuid E 1) i KindPairingInvite (json_invite (json L) payload) = Inr envelope \<and>
      CreatePairingRequest request s = (Inr (), s1) \<and>
      UpsertContact (clk E 3) contact (snd (UpsertPairingSession (clk E 2) (session envelope) s1)) = (Inr (), t) \<and>
      invite = \<lparr>Payload = payload, Envelope = envelope\<rparr>"
    using assms(3)
    by (auto simp: CreateInvite_def Let_def and_then_returns and_then_session payload_def request_def session_def
        contact_def split: if_splits)
  then obtain envelope s1 where
    e: "signPayload L (clk E 1) (uuid E 1) i KindPairingInvite (json_invite (json L) payload) = Inr envelope" and
    r: "CreatePairingRequest request s = (Inr (), s1)" and
    u: "UpsertContact (clk E 3) contact (snd (UpsertPairingSession (clk E 2) (session envelope) s1)) = (Inr (), t)" and
    v: "invite = \<lparr>Payload = payload, Envelope = envelope\<rparr>" by blast
  have wf1: "wf_store s1" using wf_CreatePairingRequest[OF assms(2), of request] r by simp
  then have wf2: "wf_store (snd (UpsertPairingSession (clk E 2) (session envelope) s1))" by (rule wf_UpsertPairingSession)
  note t = UpsertContact_returns[OF wf2 u]
  have wft: "wf_store t" using wf_UpsertContact[OF wf2] t by blast
  have "GetPairingRequestForAgent (uuid E 0) (idAgentID i) t = Inr (request_row request)"
    using CreatePairingRequest_put[OF r] t by (simp add: request_def)
  moreover have "\<exists>q. GetPairingSession (uuid E 0) (idAgentID i) t = Inr q \<and> psRole q = pairingRoleInviter \<and>
      psRemoteAgentID q = ciRemoteAgentID inp \<and> psInviteDigest q = digestEnvelope L envelope \<and>
      psLocalHostFingerprint q = ciLocalHostFingerprint inp"
    using GetPairingSession_put[OF wf1, of "session envelope" "clk E 2"] t by (auto simp: session_def)
  moreover have "\<exists>k. GetContact (idAgentID i) (ciRemoteAgentID inp) t = Inr k \<and> cState k = ContactStatePendingOutbound"
    using t by (auto simp: contact_def)
  ultimately have "invited L i (ciRemoteAgentID inp) invite t"
    using wft by (auto simp: invited_def v payload_def request_def request_row_def)
  moreover have "invite_valid L i (ciRemoteAgentID inp) invite"
    using e verifyPayload_signed[OF assms(1)]
    by (auto simp: invite_valid_def v signPayload_def payload_def split: option.splits)
  ultimately show ?thesis by (simp add: v payload_def)
qed

text \<open>A store that knows nothing of the peer \<open>a\<close> and of the invite \<open>j\<close>.\<close>

definition fresh_for :: "string \<Rightarrow> string \<Rightarrow> string \<Rightarrow> store \<Rightarrow> bool" where
  "fresh_for b a j s =
     (wf_store s \<and> GetPairingRequestForAgent j b s = Inl ErrNotFound \<and> GetPairingSession j b s = Inl ErrNotFound \<and>
      filter (\<lambda>p. psLocalAgentID p = b \<and> psRemoteAgentID p = a) (pairing_sessions s) = [] \<and>
      GetContact b a s = Inl ErrNotFound)"

text \<open>The invitee \<open>i\<close> after importing \<open>invite\<close>.\<close>

definition imported :: "lib \<Rightarrow> Identity \<Rightarrow> PairingInvite \<Rightarrow> store \<Rightarrow> bool" where
  "imported L i invite s =
     (let v = Payload invite; a = piInvitingAgentID v; b = idAgentID i in
      wf_store s \<and>
      (\<exists>request session contact.
         GetPairingRequestForAgent (piInviteID v) b s = Inr request \<and>
         prConsumedAt request = None \<and> prExpiresAt request = trunc_ms (piExpiresAt v) \<and>
         prRemoteAgentID request = a \<and> prSecretHash request = hashSecret L (piSecret v) \<and>
         GetPairingSession (piInviteID v) b s = Inr session \<and> FindPairingSession b a s = Inr session \<and>
         psRole session = pairingRoleInvitee \<and> psRemoteAgentID session = a \<and>
         psInviteDigest session = digestEnvelope L (Envelope invite) \<and>
         psRemoteHostFingerprint session = piInvitingHostFingerprint v \<and>
         psRemoteAgentPublicKey session = piInvitingAgentPublicKey v \<and>
         GetContact b a s = Inr contact \<and> cState contact = ContactStatePendingInbound \<and>
         cRemoteHostFingerprint contact = piInvitingHostFingerprint v \<and>
         cRemoteAgentFingerprint contact = Fingerprint (prim L) (piInvitingAgentPublicKey v)))"

lemma UpsertContact_absent:
  assumes "wf_store s" and "GetContact (cLocalAgentID c) (cRemoteAgentID c) s = Inl e"
  shows "UpsertContact n c s = (Inr (), snd (UpsertContact n c s)) \<and>
    GetContact (cLocalAgentID c) (cRemoteAgentID c) (snd (UpsertContact n c s)) = Inr (contact_row n c)"
  using assms UpsertContact_result[OF assms(1), of n c] GetContact_UpsertContact[OF assms(1)]
  by (simp add: prod_eq_iff contact_key_def)

lemma UpsertPairingSession_new:
  assumes "wf_store s" and "GetPairingSession (psInviteID p) (psLocalAgentID p) s = Inl e"
  shows "pairing_sessions (snd (UpsertPairingSession n p s)) = pairing_sessions s @ [session_row n p]"
proof -
  have "unique_key session_key (pairing_sessions s)" using assms(1) by (simp add: wf_store_def)
  then show ?thesis
    using assms(2) by (simp add: state_eqs upsert_row_eq GetPairingSession_def session_key_def split: option.splits)
qed

lemma CreatePairingRequest_new:
  assumes "GetPairingRequestForAgent (prID r) (prLocalAgentID r) s = Inl e"
  shows "CreatePairingRequest r s = (Inr (), s\<lparr>pairing_requests := pairing_requests s @ [request_row r]\<rparr>)"
  using assms by (simp add: CreatePairingRequest_eq)

lemma ImportInvite_post:
  assumes "fresh_for (idAgentID i) (idAgentID a) (piInviteID (Payload invite)) s"
    and "trusted L a" and "invite_valid L a (idAgentID i) invite" and "clk E 0 < piExpiresAt (Payload invite)"
  shows "\<exists>c t. ImportInvite L E (Some i) invite s = (Inr c, t) \<and> imported L i invite t"
proof -
  let ?v = "Payload invite"
  define request where "request = \<lparr>prID = piInviteID ?v, prLocalAgentID = idAgentID i,
    prRemoteAgentID = piInvitingAgentID ?v, prRemoteHostFingerprint = piInvitingHostFingerprint ?v,
    prRemoteAgentFingerprint = Fingerprint (prim L) (piInvitingAgentPublicKey ?v),
    prSecretHash = hashSecret L (piSecret ?v), prExpiresAt = piExpiresAt ?v, prConsumedAt = None, prCreatedAt = clk E 1\<rparr>"
  define session where "session = zero_session\<lparr>psInviteID := prID request,
    psLocalAgentID := prLocalAgentID request, psRemoteAgentID := prRemoteAgentID request,
    psRole := pairingRoleInvitee, psRemoteHostFingerprint := prRemoteHostFingerprint request,
    psRemoteAgentPublicKey := piInvitingAgentPublicKey ?v, psInviteDigest := digestEnvelope L (Envelope invite),
    psExpiresAt := prExpiresAt request, psCreatedAt := clk E 1\<rparr>"
  define contact where "contact = zero_contact\<lparr>cLocalAgentID := prLocalAgentID request,
    cRemoteAgentID := prRemoteAgentID request,
    cRemoteEndpoint := endpointForAgent (nets L) (piInvitingTailscaleAddress ?v) (prRemoteAgentID request),
    cRemoteBinding := TrimSpace (piInvitingTailscaleAddress ?v), cRemoteNodeID := TrimSpace (piInvitingNodeID ?v),
    cRemoteHostFingerprint := prRemoteHostFingerprint request,
    cRemoteAgentFingerprint := prRemoteAgentFingerprint request, cState := ContactStatePendingInbound\<rparr>"
  define s1 where "s1 = s\<lparr>pairing_requests := pairing_requests s @ [request_row request]\<rparr>"
  define s2 where "s2 = snd (UpsertPairingSession (clk E 2) session s1)"
  define t where "t = snd (UpsertContact (clk E 3) contact s2)"
  note fresh = assms(1)[unfolded fresh_for_def] and valid = assms(3)[unfolded invite_valid_def]
  have r: "CreatePairingRequest request s = (Inr (), s1)"
    unfolding s1_def using fresh by (intro CreatePairingRequest_new) (simp add: request_def)
  have wf1: "wf_store s1" using wf_CreatePairingRequest[of s request] r fresh by simp
  have wf2: "wf_store s2" unfolding s2_def using wf1 by (rule wf_UpsertPairingSession)
  have none: "GetContact (cLocalAgentID contact) (cRemoteAgentID contact) s2 = Inl ErrNotFound"
    using fresh valid by (simp add: s2_def s1_def contact_def request_def)
  note u = UpsertContact_absent[OF wf2 none, of "clk E 3", folded t_def]
  have "ImportInvite L E (Some i) invite s = (Inr (contact_row (clk E 3) contact), t)"
    using r u fresh valid assms(4) trusted_id[OF assms(2)] publicKey_trusted[OF assms(2)]
    by (simp add: ImportInvite_def Let_def rejectBlockedContact_def and_then_session
        request_def session_def s2_def contact_def)
  moreover have "imported L i invite t"
  proof -
    have "GetPairingRequestForAgent (piInviteID ?v) (idAgentID i) t = Inr (request_row request)"
      using CreatePairingRequest_put[OF r] by (simp add: t_def s2_def request_def)
    moreover have new: "pairing_sessions t = pairing_sessions s @ [session_row (clk E 2) session]"
      using UpsertPairingSession_new[OF wf1, of session] fresh
      by (simp add: t_def s2_def s1_def session_def request_def state_eqs)
    moreover have "GetPairingSession (piInviteID ?v) (idAgentID i) t = Inr (session_row (clk E 2) session)"
      using fresh new by (auto simp: GetPairingSession_def by_key_append session_def session_key_def request_def
          session_row_def split: option.splits)
    moreover have "FindPairingSession (idAgentID i) (idAgentID a) t = Inr (session_row (clk E 2) session)"
      using fresh new valid
      by (intro FindPairingSession_single) (simp add: session_row_def session_def request_def)
    moreover have "wf_store t" unfolding t_def using wf2 by (rule wf_UpsertContact)
    moreover have "GetContact (idAgentID i) (idAgentID a) t = Inr (contact_row (clk E 3) contact)"
      using u valid by (simp add: contact_def request_def)
    ultimately show ?thesis
      using valid by (simp add: imported_def Let_def request_def request_row_def session_def contact_def)
  qed
  ultimately show ?thesis by blast
qed

text \<open>The acceptance of \<open>invite\<close> by \<open>i\<close>, and the invitee after sending it.\<close>

definition acceptance_valid :: "lib \<Rightarrow> Identity \<Rightarrow> string \<Rightarrow> PairingInvite \<Rightarrow> PairingAcceptance \<Rightarrow> bool" where
  "acceptance_valid L i h invite acceptance =
     (let v = Payload invite; p = Payload acceptance in
      paInviteID p = piInviteID v \<and> paInviteDigest p = digestEnvelope L (Envelope invite) \<and>
      paInvitingAgentID p = piInvitingAgentID v \<and> paAcceptingAgentID p = idAgentID i \<and>
      paAcceptingAgentPublicKey p = idPublicKey i \<and> paAcceptingHostFingerprint p = h \<and>
      paSecretProof p = acceptanceSecretProof L (hashSecret L (piSecret v)) (digestEnvelope L (Envelope invite))
        (idAgentID i) h (Fingerprint (prim L) (idPublicKey i)) \<and>
      verifyPayload L (Envelope acceptance) KindPairingAcceptance (Some (json_acceptance (json L) p))
        (idAgentID i) (idPublicKey i) = Inr ())"

definition accepted :: "lib \<Rightarrow> Identity \<Rightarrow> string \<Rightarrow> PairingInvite \<Rightarrow> PairingAcceptance \<Rightarrow> store \<Rightarrow> bool" where
  "accepted L i h invite acceptance s =
     (let v = Payload invite; a = piInvitingAgentID v; b = idAgentID i in
      wf_store s \<and>
      (\<exists>session contact.
         GetPairingSession (piInviteID v) b s = Inr session \<and>
         psRole session = pairingRoleInvitee \<and> psRemoteAgentID session = a \<and>
         psInviteDigest session = digestEnvelope L (Envelope invite) \<and>
         psAcceptanceDigest session = digestEnvelope L (Envelope acceptance) \<and>
         psLocalHostFingerprint session = h \<and> psRemoteHostFingerprint session = piInvitingHostFingerprint v \<and>
         psRemoteAgentPublicKey session = piInvitingAgentPublicKey v \<and>
         GetContact b a s = Inr contact \<and> cState contact = ContactStateAwaitingConfirmation \<and>
         cRemoteHostFingerprint contact = piInvitingHostFingerprint v \<and>
         cRemoteAgentFingerprint contact = Fingerprint (prim L) (piInvitingAgentPublicKey v)))"

lemma UpsertContact_same_peer:
  assumes "wf_store s" and "GetContact a b s = Inr k"
  shows "\<exists>t k'. UpsertContact n (k\<lparr>cState := st\<rparr>) s = (Inr (), t) \<and> t = snd (UpsertContact n (k\<lparr>cState := st\<rparr>) s) \<and>
    GetContact a b t = Inr k' \<and> cState k' = st \<and>
    cRemoteHostFingerprint k' = cRemoteHostFingerprint k \<and> cRemoteAgentFingerprint k' = cRemoteAgentFingerprint k"
proof -
  have id: "cLocalAgentID k = a" "cRemoteAgentID k = b" using GetContact_key[OF assms(2)] by auto
  then have "fst (UpsertContact n (k\<lparr>cState := st\<rparr>) s) = Inr ()"
    using assms by (simp add: UpsertContact_result contact_guard_def)
  then show ?thesis
    using assms id by (simp add: prod_eq_iff GetContact_UpsertContact contact_key_def contact_guard_def)
qed

lemma consume_open:
  assumes "wf_store s" and "GetPairingRequestForAgent j a s = Inr r" and "prConsumedAt r = None" and "now < prExpiresAt r"
  shows "\<exists>q. ValidateAndConsumePairingRequestForAgent j a now (not_expired now) s =
    (Inr (r\<lparr>prConsumedAt := Some now\<rparr>, True), s\<lparr>pairing_requests := q\<rparr>) \<and> wf_store (s\<lparr>pairing_requests := q\<rparr>)"
  using ConsumeForAgent_eq[OF assms(1), of j a now "not_expired now"] assms(2-4)
    wf_ConsumeForAgent[OF assms(1), of j a now "not_expired now"]
  by (simp add: not_expired_def) blast

lemma acceptImportedInvite_post:
  assumes "imported L i invite s" and "trusted L i" and "piInviteID (Payload invite) \<noteq> []"
    and "clk E 0 < trunc_ms (piExpiresAt (Payload invite))"
  shows "\<exists>acceptance t. acceptImportedInvite L E (Some i) (piInviteID (Payload invite)) h ta nd s = (Inr acceptance, t) \<and>
    acceptance_valid L i h invite acceptance \<and> accepted L i h invite acceptance t"
proof -
  let ?j = "piInviteID (Payload invite)" and ?a = "piInvitingAgentID (Payload invite)" and ?b = "idAgentID i"
  from assms(1) obtain request session contact where wf: "wf_store s" and
    r: "GetPairingRequestForAgent ?j ?b s = Inr request" "prConsumedAt request = None"
      "prExpiresAt request = trunc_ms (piExpiresAt (Payload invite))" "prRemoteAgentID request = ?a"
      "prSecretHash request = hashSecret L (piSecret (Payload invite))" and
    p: "GetPairingSession ?j ?b s = Inr session" "FindPairingSession ?b ?a s = Inr session"
      "psRole session = pairingRoleInvitee" "psRemoteAgentID session = ?a"
      "psInviteDigest session = digestEnvelope L (Envelope invite)"
      "psRemoteHostFingerprint session = piInvitingHostFingerprint (Payload invite)"
      "psRemoteAgentPublicKey session = piInvitingAgentPublicKey (Payload invite)" and
    c: "GetContact ?b ?a s = Inr contact" "cState contact = ContactStatePendingInbound"
      "cRemoteHostFingerprint contact = piInvitingHostFingerprint (Payload invite)"
      "cRemoteAgentFingerprint contact = Fingerprint (prim L) (piInvitingAgentPublicKey (Payload invite))"
    unfolding imported_def Let_def by blast
  have ids: "psInviteID session = ?j" "psLocalAgentID session = ?b" "cLocalAgentID contact = ?b" "cRemoteAgentID contact = ?a"
    "prID request = ?j" using GetPairingSession_key[OF p(1)] GetContact_key[OF c(1)] GetPairingRequest_key[OF r(1)] by auto
  obtain q where q: "ValidateAndConsumePairingRequestForAgent ?j ?b (clk E 0) (not_expired (clk E 0)) s =
      (Inr (request\<lparr>prConsumedAt := Some (clk E 0)\<rparr>, True), s\<lparr>pairing_requests := q\<rparr>)"
    "wf_store (s\<lparr>pairing_requests := q\<rparr>)" using consume_open[OF wf r(1,2)] r(3) assms(4) by auto
  define payload where "payload = \<lparr>paInviteID = ?j, paInviteDigest = psInviteDigest session,
    paInvitingAgentID = prRemoteAgentID request, paAcceptingAgentID = ?b, paAcceptingAgentPublicKey = idPublicKey i,
    paAcceptingHostFingerprint = h, paAcceptingTailscaleAddress = TrimSpace ta, paAcceptingNodeID = TrimSpace nd,
    paSecretProof = acceptanceSecretProof L (prSecretHash request) (psInviteDigest session) ?b h
      (Fingerprint (prim L) (idPublicKey i))\<rparr>"
  define envelope where "envelope = Sign (prim L) (clk E 1) (uuid E 0) i ?b KindPairingAcceptance (json_acceptance (json L) payload)"
  define session' where "session' = session\<lparr>psLocalHostFingerprint := h, psAcceptanceDigest := digestEnvelope L envelope\<rparr>"
  define s2 where "s2 = snd (UpsertPairingSession (clk E 2) session' (s\<lparr>pairing_requests := q\<rparr>))"
  have wf2: "wf_store s2" unfolding s2_def using q(2) by (rule wf_UpsertPairingSession)
  have c2: "GetContact ?b ?a s2 = Inr contact" using c(1) by (simp add: s2_def)
  obtain t k where u: "UpsertContact (clk E 3) (contact\<lparr>cState := ContactStateAwaitingConfirmation\<rparr>) s2 = (Inr (), t)"
    and t: "t = snd (UpsertContact (clk E 3) (contact\<lparr>cState := ContactStateAwaitingConfirmation\<rparr>) s2)"
    and k: "GetContact ?b ?a t = Inr k" "cState k = ContactStateAwaitingConfirmation"
      "cRemoteHostFingerprint k = cRemoteHostFingerprint contact" "cRemoteAgentFingerprint k = cRemoteAgentFingerprint contact"
    using UpsertContact_same_peer[OF wf2 c2] by blast
  have "select_contact i ?j s = Inr contact"
    using assms(2,3) p(1,4) c(1,2) ids by (simp add: select_contact_def ListContacts_def trusted_id)
  then have "acceptImportedInvite L E (Some i) ?j h ta nd s = (Inr \<lparr>Payload = payload, Envelope = envelope\<rparr>, t)"
    using p(2) ids q(1) u
    by (simp add: acceptImportedInvite_def Let_def signPayload_def and_then_session payload_def envelope_def session'_def s2_def)
  moreover have "acceptance_valid L i h invite \<lparr>Payload = payload, Envelope = envelope\<rparr>"
    using verifyPayload_signed[OF assms(2)] p(5) r(4,5)
    by (simp add: acceptance_valid_def Let_def payload_def envelope_def)
  moreover have "accepted L i h invite \<lparr>Payload = payload, Envelope = envelope\<rparr> t"
    using GetPairingSession_put[OF q(2), of session' "clk E 2", folded s2_def] wf_UpsertContact[OF wf2] k p c ids t
    by (auto simp: accepted_def Let_def session'_def)
  ultimately show ?thesis by blast
qed

text \<open>The confirmation of \<open>acceptance\<close> by the inviter \<open>a\<close>, and the inviter after sending it.\<close>

definition confirmation_valid ::
  "lib \<Rightarrow> Identity \<Rightarrow> Identity \<Rightarrow> string \<Rightarrow> PairingInvite \<Rightarrow> PairingAcceptance \<Rightarrow> PairingConfirmation \<Rightarrow> bool" where
  "confirmation_valid L a i h invite acceptance confirmation =
     (let v = Payload invite; p = Payload confirmation in
      pcInviteID p = piInviteID v \<and> pcInviteDigest p = digestEnvelope L (Envelope invite) \<and>
      pcAcceptanceDigest p = digestEnvelope L (Envelope acceptance) \<and>
      pcInvitingAgentID p = idAgentID a \<and> pcInvitingAgentPublicKey p = idPublicKey a \<and>
      pcInvitingHostFingerprint p = piInvitingHostFingerprint v \<and>
      pcAcceptingAgentID p = idAgentID i \<and> pcAcceptingAgentPublicKey p = idPublicKey i \<and>
      pcAcceptingHostFingerprint p = h \<and>
      verifyPayload L (Envelope confirmation) KindPairingConfirmation (Some (json_confirmation (json L) p))
        (idAgentID a) (idPublicKey a) = Inr ())"

definition approved ::
  "lib \<Rightarrow> Identity \<Rightarrow> Identity \<Rightarrow> string \<Rightarrow> PairingInvite \<Rightarrow> PairingConfirmation \<Rightarrow> store \<Rightarrow> bool" where
  "approved L a i h invite confirmation s =
     (wf_store s \<and>
      (\<exists>session contact.
         GetPairingSession (piInviteID (Payload invite)) (idAgentID a) s = Inr session \<and>
         psRole session = pairingRoleInviter \<and> psRemoteAgentID session = idAgentID i \<and>
         psRemoteHostFingerprint session = h \<and> psRemoteAgentPublicKey session = idPublicKey i \<and>
         psConfirmationDigest session = digestEnvelope L (Envelope confirmation) \<and>
         GetContact (idAgentID a) (idAgentID i) s = Inr contact \<and>
         cState contact = ContactStateAwaitingConfirmation \<and> cRemoteHostFingerprint contact = h \<and>
         cRemoteAgentFingerprint contact = Fingerprint (prim L) (idPublicKey i)))"

text \<open>The contact that the inviter stores, and the payload that it signs.\<close>

definition approved_contact :: "lib \<Rightarrow> Identity \<Rightarrow> PairingAcceptance \<Rightarrow> Contact" where
  "approved_contact L a acceptance =
     (let pa = Payload acceptance in
      zero_contact\<lparr>cLocalAgentID := idAgentID a, cRemoteAgentID := paAcceptingAgentID pa,
        cRemoteEndpoint := endpointForAgent (nets L) (paAcceptingTailscaleAddress pa) (paAcceptingAgentID pa),
        cRemoteBinding := TrimSpace (paAcceptingTailscaleAddress pa), cRemoteNodeID := TrimSpace (paAcceptingNodeID pa),
        cRemoteHostFingerprint := paAcceptingHostFingerprint pa,
        cRemoteAgentFingerprint := Fingerprint (prim L) (paAcceptingAgentPublicKey pa),
        cState := ContactStateAwaitingConfirmation\<rparr>)"

definition confirmation_payload :: "lib \<Rightarrow> Identity \<Rightarrow> PairingSession \<Rightarrow> PairingAcceptance \<Rightarrow> PairingConfirmationPayload" where
  "confirmation_payload L a session acceptance =
     (let pa = Payload acceptance in
      \<lparr>pcInviteID = paInviteID pa, pcInviteDigest = psInviteDigest session,
       pcAcceptanceDigest = digestEnvelope L (Envelope acceptance), pcInvitingAgentID = idAgentID a,
       pcInvitingAgentPublicKey = idPublicKey a, pcInvitingHostFingerprint = psLocalHostFingerprint session,
       pcAcceptingAgentID = paAcceptingAgentID pa, pcAcceptingAgentPublicKey = paAcceptingAgentPublicKey pa,
       pcAcceptingHostFingerprint = paAcceptingHostFingerprint pa\<rparr>)"

definition approved_session :: "lib \<Rightarrow> PairingSession \<Rightarrow> PairingAcceptance \<Rightarrow> SignedEnvelope \<Rightarrow> PairingSession" where
  "approved_session L session acceptance envelope =
     session\<lparr>psRemoteHostFingerprint := paAcceptingHostFingerprint (Payload acceptance),
             psRemoteAgentPublicKey := paAcceptingAgentPublicKey (Payload acceptance),
             psAcceptanceDigest := digestEnvelope L (Envelope acceptance),
             psConfirmationDigest := digestEnvelope L envelope\<rparr>"

lemma ApproveAcceptance_post:
  assumes "invited L a (idAgentID i) invite s" and "acceptance_valid L i h invite acceptance"
    and "invite_valid L a (idAgentID i) invite" and "trusted L a" and "trusted L i"
    and "clk E 0 < trunc_ms (piExpiresAt (Payload invite))"
    and "aaExpectedAgentFingerprint approval = Fingerprint (prim L) (idPublicKey i)"
    and "aaExpectedAgentFingerprint approval \<noteq> []"
    and "aaExpectedHostFingerprint approval = [] \<or> aaExpectedHostFingerprint approval = h"
  shows "\<exists>confirmation t. ApproveAcceptance L E (Some a) acceptance approval s = (Inr confirmation, t) \<and>
    confirmation_valid L a i h invite acceptance confirmation \<and> approved L a i h invite confirmation t"
proof -
  let ?j = "piInviteID (Payload invite)" and ?a = "idAgentID a" and ?b = "idAgentID i"
  note v = assms(3)[unfolded invite_valid_def] and pa = assms(2)[unfolded acceptance_valid_def Let_def]
  from assms(1) obtain request session contact where wf: "wf_store s" and
    r: "GetPairingRequestForAgent ?j ?a s = Inr request" "prConsumedAt request = None"
      "prExpiresAt request = trunc_ms (piExpiresAt (Payload invite))" "prRemoteAgentID request = ?b"
      "prSecretHash request = hashSecret L (piSecret (Payload invite))" and
    p: "GetPairingSession ?j ?a s = Inr session" "psRole session = pairingRoleInviter" "psRemoteAgentID session = ?b"
      "psInviteDigest session = digestEnvelope L (Envelope invite)"
      "psLocalHostFingerprint session = piInvitingHostFingerprint (Payload invite)" and
    c: "GetContact ?a ?b s = Inr contact" "cState contact = ContactStatePendingOutbound"
    unfolding invited_def by blast
  have ids: "psInviteID session = ?j" "psLocalAgentID session = ?a" "prID request = ?j" "prLocalAgentID request = ?a"
    using GetPairingSession_key[OF p(1)] GetPairingRequest_key[OF r(1)] by auto
  obtain q where q: "ValidateAndConsumePairingRequestForAgent ?j ?a (clk E 0) (not_expired (clk E 0)) s =
      (Inr (request\<lparr>prConsumedAt := Some (clk E 0)\<rparr>, True), s\<lparr>pairing_requests := q\<rparr>)"
    "wf_store (s\<lparr>pairing_requests := q\<rparr>)" using consume_open[OF wf r(1,2)] r(3) assms(6) by auto
  define payload where "payload = confirmation_payload L a session acceptance"
  define envelope where "envelope = Sign (prim L) (clk E 1) (uuid E 0) a ?a KindPairingConfirmation
    (json_confirmation (json L) payload)"
  define s2 where "s2 = snd (UpsertPairingSession (clk E 2) (approved_session L session acceptance envelope)
    (s\<lparr>pairing_requests := q\<rparr>))"
  define t where "t = snd (UpsertContact (clk E 3) (approved_contact L a acceptance) s2)"
  have wf2: "wf_store s2" unfolding s2_def using q(2) by (rule wf_UpsertPairingSession)
  have "GetContact ?a ?b s2 = Inr contact" using c(1) by (simp add: s2_def)
  then have "fst (UpsertContact (clk E 3) (approved_contact L a acceptance) s2) = Inr ()"
    using wf2 c(2) pa by (simp add: UpsertContact_result approved_contact_def Let_def contact_guard_def pinned_def)
  then have u: "UpsertContact (clk E 3) (approved_contact L a acceptance) s2 = (Inr (), t)"
    by (simp add: t_def prod_eq_iff)
  have "ApproveAcceptance L E (Some a) acceptance approval s = (Inr \<lparr>Payload = payload, Envelope = envelope\<rparr>, t)"
    using r p ids q(1) u v pa assms(7-9) publicKey_trusted[OF assms(5)]
    by (auto simp: ApproveAcceptance_def Let_def signPayload_def and_then_session payload_def envelope_def s2_def
        confirmation_payload_def approved_session_def approved_contact_def)
  moreover have "confirmation_valid L a i h invite acceptance \<lparr>Payload = payload, Envelope = envelope\<rparr>"
    using verifyPayload_signed[OF assms(4)] p pa
    by (simp add: confirmation_valid_def Let_def payload_def confirmation_payload_def envelope_def)
  moreover have "approved L a i h invite \<lparr>Payload = payload, Envelope = envelope\<rparr> t"
    using GetPairingSession_put[OF q(2), of "approved_session L session acceptance envelope" "clk E 2", folded s2_def] p ids pa
      UpsertContact_returns[OF wf2 u] wf_UpsertContact[OF wf2, of "clk E 3" "approved_contact L a acceptance"]
    by (auto simp: approved_def Let_def approved_session_def approved_contact_def t_def)
  ultimately show ?thesis by blast
qed

text \<open>The receipt of the invitee for \<open>confirmation\<close>.\<close>

definition receipt_valid :: "lib \<Rightarrow> Identity \<Rightarrow> Identity \<Rightarrow> string \<Rightarrow> PairingInvite \<Rightarrow> PairingConfirmation \<Rightarrow>
  PairingActivationReceipt \<Rightarrow> bool" where
  "receipt_valid L a i h invite confirmation receipt =
     (let p = Payload receipt in
      pvInviteID p = piInviteID (Payload invite) \<and> pvConfirmationDigest p = digestEnvelope L (Envelope confirmation) \<and>
      pvInvitingAgentID p = idAgentID a \<and> pvAcceptingAgentID p = idAgentID i \<and>
      pvAcceptingAgentPublicKey p = idPublicKey i \<and> pvAcceptingHostFingerprint p = h \<and>
      verifyPayload L (Envelope receipt) KindPairingActivationReceipt (Some (json_receipt (json L) p))
        (idAgentID i) (idPublicKey i) = Inr ())"

definition active_peer :: "lib \<Rightarrow> string \<Rightarrow> Identity \<Rightarrow> string \<Rightarrow> store \<Rightarrow> bool" where
  \<comment> \<open>the agent \<open>x\<close> has \<open>peer\<close> on host \<open>h\<close> as an active contact\<close>
  "active_peer L x peer h s =
     (case GetContact x (idAgentID peer) s of
        Inl _ \<Rightarrow> False
      | Inr c \<Rightarrow> CanCommunicate c \<and> cRemoteHostFingerprint c = h \<and>
          cRemoteAgentFingerprint c = Fingerprint (prim L) (idPublicKey peer))"

lemma ApplyConfirmation_post:
  assumes "accepted L i h invite acceptance s" and "confirmation_valid L a i h invite acceptance confirmation"
    and "invite_valid L a (idAgentID i) invite" and "trusted L a" and "trusted L i"
  shows "\<exists>receipt t. ApplyConfirmation L E (Some i) confirmation s = (Inr receipt, t) \<and>
    receipt_valid L a i h invite confirmation receipt \<and>
    active_peer L (idAgentID i) a (piInvitingHostFingerprint (Payload invite)) t"
proof -
  let ?j = "piInviteID (Payload invite)" and ?a = "idAgentID a" and ?b = "idAgentID i"
  note v = assms(3)[unfolded invite_valid_def] and pc = assms(2)[unfolded confirmation_valid_def Let_def]
  from assms(1) v obtain session contact where wf: "wf_store s" and
    p: "GetPairingSession ?j ?b s = Inr session" "psRole session = pairingRoleInvitee" "psRemoteAgentID session = ?a"
      "psInviteDigest session = digestEnvelope L (Envelope invite)"
      "psAcceptanceDigest session = digestEnvelope L (Envelope acceptance)" "psLocalHostFingerprint session = h"
      "psRemoteHostFingerprint session = piInvitingHostFingerprint (Payload invite)"
      "psRemoteAgentPublicKey session = idPublicKey a" and
    c: "GetContact ?b ?a s = Inr contact" "cState contact = ContactStateAwaitingConfirmation"
      "cRemoteHostFingerprint contact = piInvitingHostFingerprint (Payload invite)"
      "cRemoteAgentFingerprint contact = Fingerprint (prim L) (idPublicKey a)"
    unfolding accepted_def Let_def by auto
  have ids: "psInviteID session = ?j" using GetPairingSession_key[OF p(1)] by simp
  define digest where "digest = digestEnvelope L (Envelope confirmation)"
  define s1 where "s1 = snd (UpsertPairingSession (clk E 0) (session\<lparr>psConfirmationDigest := digest\<rparr>) s)"
  have wf1: "wf_store s1" unfolding s1_def using wf by (rule wf_UpsertPairingSession)
  have c1: "GetContact ?b ?a s1 = Inr contact" using c(1) by (simp add: s1_def)
  from UpsertContact_same_peer[OF wf1 c1, of "clk E 1" ContactStateActive] obtain t k where
    u: "UpsertContact (clk E 1) (contact\<lparr>cState := ContactStateActive\<rparr>) s1 = (Inr (), t)" and
    k: "GetContact ?b ?a t = Inr k" "cState k = ContactStateActive"
      "cRemoteHostFingerprint k = cRemoteHostFingerprint contact"
      "cRemoteAgentFingerprint k = cRemoteAgentFingerprint contact" by blast
  define payload where "payload = \<lparr>pvInviteID = ?j, pvConfirmationDigest = digest, pvInvitingAgentID = ?a,
    pvAcceptingAgentID = ?b, pvAcceptingAgentPublicKey = idPublicKey i, pvAcceptingHostFingerprint = h\<rparr>"
  define envelope where "envelope = Sign (prim L) (clk E 2) (uuid E 0) i ?b KindPairingActivationReceipt
    (json_receipt (json L) payload)"
  have "ApplyConfirmation L E (Some i) confirmation s = (Inr \<lparr>Payload = payload, Envelope = envelope\<rparr>, t)"
    using p c1 c(2) ids u pc publicKey_trusted[OF assms(4)] publicKey_trusted[OF assms(5)]
    by (simp add: ApplyConfirmation_def Let_def signPayload_def and_then_session payload_def envelope_def
        digest_def s1_def)
  moreover have "receipt_valid L a i h invite confirmation \<lparr>Payload = payload, Envelope = envelope\<rparr>"
    using verifyPayload_signed[OF assms(5)] by (simp add: receipt_valid_def payload_def envelope_def digest_def)
  moreover have "active_peer L ?b a (piInvitingHostFingerprint (Payload invite)) t"
    using k c by (simp add: active_peer_def CanCommunicate_def)
  ultimately show ?thesis by blast
qed

lemma ApplyActivationReceipt_post:
  assumes "approved L a i h invite confirmation s" and "receipt_valid L a i h invite confirmation receipt"
    and "trusted L i"
  shows "\<exists>c t. ApplyActivationReceipt L E (Some a) receipt s = (Inr c, t) \<and> active_peer L (idAgentID a) i h t"
proof -
  let ?j = "piInviteID (Payload invite)" and ?a = "idAgentID a" and ?b = "idAgentID i"
  note pv = assms(2)[unfolded receipt_valid_def Let_def]
  from assms(1) obtain session contact where wf: "wf_store s" and
    p: "GetPairingSession ?j ?a s = Inr session" "psRole session = pairingRoleInviter" "psRemoteAgentID session = ?b"
      "psRemoteHostFingerprint session = h" "psRemoteAgentPublicKey session = idPublicKey i"
      "psConfirmationDigest session = digestEnvelope L (Envelope confirmation)" and
    c: "GetContact ?a ?b s = Inr contact" "cState contact = ContactStateAwaitingConfirmation"
      "cRemoteHostFingerprint contact = h" "cRemoteAgentFingerprint contact = Fingerprint (prim L) (idPublicKey i)"
    unfolding approved_def by blast
  have ids: "cLocalAgentID contact = ?a" "cRemoteAgentID contact = ?b" using GetContact_key[OF c(1)] by auto
  from UpsertContact_same_peer[OF wf c(1), of "clk E 0" ContactStateActive] obtain t k where
    "UpsertContact (clk E 0) (contact\<lparr>cState := ContactStateActive\<rparr>) s = (Inr (), t)"
    "GetContact ?a ?b t = Inr k" "cState k = ContactStateActive"
    "cRemoteHostFingerprint k = cRemoteHostFingerprint contact"
    "cRemoteAgentFingerprint k = cRemoteAgentFingerprint contact" by blast
  with p c ids pv publicKey_trusted[OF assms(3)] show ?thesis
    by (simp add: ApplyActivationReceipt_def Let_def active_peer_def CanCommunicate_def)
qed

section \<open>The whole handshake\<close>

text \<open>
  C1. The pairing protocol completes. Once \<open>a\<close> has created an invite for \<open>b\<close>, and as long as it has not
  expired, a daemon that knows nothing of \<open>a\<close> imports it, accepts it, and the acceptance is approved by
  an inviter who names the fingerprint of \<open>b\<close>; the confirmation and the activation receipt are
  accepted, and at the end each agent is an active contact of the other, pinned to the fingerprints
  of the other's key and host.
\<close>

theorem handshake_completes:
  assumes "trusted L a" and "trusted L b" and "sha256_size (prim L)" and "wf_store sA"
    and "CreateInvite L E1 (Some a) inp sA = (Inr invite, sA1)"
    and "ciRemoteAgentID inp = idAgentID b" and "piInviteID (Payload invite) \<noteq> []"
    and "fresh_for (idAgentID b) (idAgentID a) (piInviteID (Payload invite)) sB"
    and "clk E2 0 < piExpiresAt (Payload invite)" and "clk E3 0 < trunc_ms (piExpiresAt (Payload invite))"
    and "clk E4 0 < trunc_ms (piExpiresAt (Payload invite))"
    and "aaExpectedAgentFingerprint approval = Fingerprint (prim L) (idPublicKey b)"
    and "aaExpectedHostFingerprint approval = [] \<or> aaExpectedHostFingerprint approval = h"
  shows "\<exists>contact sB1 acceptance sB2 confirmation sA2 receipt sB3 contact' sA3.
    ImportInvite L E2 (Some b) invite sB = (Inr contact, sB1) \<and>
    acceptImportedInvite L E3 (Some b) (piInviteID (Payload invite)) h ta nd sB1 = (Inr acceptance, sB2) \<and>
    ApproveAcceptance L E4 (Some a) acceptance approval sA1 = (Inr confirmation, sA2) \<and>
    ApplyConfirmation L E5 (Some b) confirmation sB2 = (Inr receipt, sB3) \<and>
    ApplyActivationReceipt L E6 (Some a) receipt sA2 = (Inr contact', sA3) \<and>
    active_peer L (idAgentID a) b h sA3 \<and> active_peer L (idAgentID b) a (ciLocalHostFingerprint inp) sB3"
proof -
  note invite = CreateInvite_post[OF assms(1,4,5), unfolded assms(6)]
  obtain contact sB1 where i: "ImportInvite L E2 (Some b) invite sB = (Inr contact, sB1)" "imported L b invite sB1"
    using ImportInvite_post[OF assms(8,1) _ assms(9)] invite by blast
  obtain acceptance sB2 where
    acc: "acceptImportedInvite L E3 (Some b) (piInviteID (Payload invite)) h ta nd sB1 = (Inr acceptance, sB2)"
      "acceptance_valid L b h invite acceptance" "accepted L b h invite acceptance sB2"
    using acceptImportedInvite_post[OF i(2) assms(2,7,10)] by blast
  have "aaExpectedAgentFingerprint approval \<noteq> []" using Fingerprint_nonempty[OF assms(3)] assms(12) by simp
  then obtain confirmation sA2 where
    app: "ApproveAcceptance L E4 (Some a) acceptance approval sA1 = (Inr confirmation, sA2)"
      "confirmation_valid L a b h invite acceptance confirmation" "approved L a b h invite confirmation sA2"
    using ApproveAcceptance_post[OF _ acc(2) _ assms(1,2,11,12) _ assms(13)] invite by blast
  obtain receipt sB3 where con: "ApplyConfirmation L E5 (Some b) confirmation sB2 = (Inr receipt, sB3)"
      "receipt_valid L a b h invite confirmation receipt"
      "active_peer L (idAgentID b) a (piInvitingHostFingerprint (Payload invite)) sB3"
    using ApplyConfirmation_post[OF acc(3) app(2) _ assms(1,2)] invite by blast
  obtain contact' sA3 where "ApplyActivationReceipt L E6 (Some a) receipt sA2 = (Inr contact', sA3)"
      "active_peer L (idAgentID a) b h sA3"
    using ApplyActivationReceipt_post[OF app(3) con(2) assms(2)] by blast
  with i acc app con invite show ?thesis by metis
qed

section \<open>A confirmation under another key\<close>

text \<open>
  The confirmation an agent \<open>m\<close> can sign for an invite of its own that was never accepted: all digests of
  the acceptance and the host fingerprint of the invitee are still empty in the session.
\<close>

definition unasked_confirmation :: "lib \<Rightarrow> gotime \<Rightarrow> string \<Rightarrow> Identity \<Rightarrow> Identity \<Rightarrow> PairingInvite \<Rightarrow> PairingConfirmation" where
  "unasked_confirmation L now u m i invite =
     (let p = \<lparr>pcInviteID = piInviteID (Payload invite), pcInviteDigest = digestEnvelope L (Envelope invite),
            pcAcceptanceDigest = [], pcInvitingAgentID = idAgentID m, pcInvitingAgentPublicKey = idPublicKey m,
            pcInvitingHostFingerprint = piInvitingHostFingerprint (Payload invite),
            pcAcceptingAgentID = idAgentID i, pcAcceptingAgentPublicKey = idPublicKey i, pcAcceptingHostFingerprint = []\<rparr>
      in \<lparr>Payload = p, Envelope = Sign (prim L) now u m (idAgentID m) KindPairingConfirmation (json_confirmation (json L) p)\<rparr>)"

lemma ImportInvite_conflict:
  assumes "wf_store s" and "invite_valid L m (idAgentID i) invite" and "trusted L m"
    and "GetPairingRequestForAgent (piInviteID (Payload invite)) (idAgentID i) s = Inl ErrNotFound"
    and "GetPairingSession (piInviteID (Payload invite)) (idAgentID i) s = Inl ErrNotFound"
    and "GetContact (idAgentID i) (idAgentID m) s = Inr c" and "cState c = ContactStateAwaitingConfirmation"
    and "cRemoteAgentFingerprint c \<noteq> Fingerprint (prim L) (idPublicKey m)"
    and "clk E 0 < piExpiresAt (Payload invite)"
  shows "\<exists>t session. ImportInvite L E (Some i) invite s = (Inl ErrIdentityConflict, t) \<and> wf_store t \<and>
    GetContact (idAgentID i) (idAgentID m) t = Inr c \<and>
    GetPairingSession (piInviteID (Payload invite)) (idAgentID i) t = Inr session \<and>
    psRole session = pairingRoleInvitee \<and> psRemoteAgentID session = idAgentID m \<and>
    psRemoteHostFingerprint session = piInvitingHostFingerprint (Payload invite) \<and>
    psRemoteAgentPublicKey session = idPublicKey m \<and> psLocalHostFingerprint session = [] \<and>
    psInviteDigest session = digestEnvelope L (Envelope invite) \<and> psAcceptanceDigest session = []"
proof -
  let ?v = "Payload invite"
  define request where "request = \<lparr>prID = piInviteID ?v, prLocalAgentID = idAgentID i, prRemoteAgentID = idAgentID m,
    prRemoteHostFingerprint = piInvitingHostFingerprint ?v, prRemoteAgentFingerprint = Fingerprint (prim L) (idPublicKey m),
    prSecretHash = hashSecret L (piSecret ?v), prExpiresAt = piExpiresAt ?v, prConsumedAt = None, prCreatedAt = clk E 1\<rparr>"
  define session where "session = zero_session\<lparr>psInviteID := piInviteID ?v, psLocalAgentID := idAgentID i,
    psRemoteAgentID := idAgentID m, psRole := pairingRoleInvitee, psRemoteHostFingerprint := piInvitingHostFingerprint ?v,
    psRemoteAgentPublicKey := idPublicKey m, psInviteDigest := digestEnvelope L (Envelope invite),
    psExpiresAt := piExpiresAt ?v, psCreatedAt := clk E 1\<rparr>"
  define s1 where "s1 = s\<lparr>pairing_requests := pairing_requests s @ [request_row request]\<rparr>"
  define s2 where "s2 = snd (UpsertPairingSession (clk E 2) session s1)"
  note valid = assms(2)[unfolded invite_valid_def]
  have r: "CreatePairingRequest request s = (Inr (), s1)"
    unfolding s1_def using assms(4) by (intro CreatePairingRequest_new) (simp add: request_def)
  have wf1: "wf_store s1" using wf_CreatePairingRequest[OF assms(1), of request] r by simp
  have wf2: "wf_store s2" unfolding s2_def using wf1 by (rule wf_UpsertPairingSession)
  have c2: "GetContact (idAgentID i) (idAgentID m) s2 = Inr c" using assms(6) by (simp add: s2_def s1_def)
  define contact where "contact = zero_contact\<lparr>cLocalAgentID := idAgentID i, cRemoteAgentID := idAgentID m,
    cRemoteEndpoint := endpointForAgent (nets L) (piInvitingTailscaleAddress ?v) (idAgentID m),
    cRemoteBinding := TrimSpace (piInvitingTailscaleAddress ?v), cRemoteNodeID := TrimSpace (piInvitingNodeID ?v),
    cRemoteHostFingerprint := piInvitingHostFingerprint ?v,
    cRemoteAgentFingerprint := Fingerprint (prim L) (idPublicKey m), cState := ContactStatePendingInbound\<rparr>"
  define t where "t = snd (UpsertContact (clk E 3) contact s2)"
  have guard: "\<not> contact_guard c contact" using assms(7,8) by (simp add: contact_guard_def pinned_def contact_def)
  have u: "UpsertContact (clk E 3) contact s2 = (Inl ErrIdentityConflict, t)"
    using c2 guard by (simp add: t_def prod_eq_iff UpsertContact_result[OF wf2]) (simp add: contact_def)
  have "ImportInvite L E (Some i) invite s = (Inl ErrIdentityConflict, t)"
    using r u assms(4,6,7,9) valid trusted_id[OF assms(3)] publicKey_trusted[OF assms(3)]
    by (simp add: ImportInvite_def Let_def rejectBlockedContact_def and_then_session
        request_def session_def s2_def contact_def)
  moreover have "GetContact (idAgentID i) (idAgentID m) t = Inr c"
    unfolding t_def using c2 guard by (simp add: GetContact_UpsertContact[OF wf2])
  moreover have "wf_store t" unfolding t_def using wf2 by (rule wf_UpsertContact)
  ultimately show ?thesis
    using GetPairingSession_put[OF wf1, of session "clk E 2", folded s2_def]
    by (auto simp: t_def session_def zero_session_def)
qed

text \<open>
  C8. A confirmation is checked against the key of the pairing session, not against the fingerprint
  pinned in the contact, and an import that is refused as an identity conflict has already stored its
  session. So an agent \<open>m\<close> that uses the agent id of a contact awaiting confirmation, with another key,
  can have that contact activated: its invite is refused, its unasked confirmation is accepted, and
  the contact is active although the pinned peer has confirmed nothing.
\<close>

theorem refused_import_activates:
  assumes "wf_store s" and "invite_valid L m (idAgentID i) invite" and "trusted L m" and "trusted L i"
    and "GetPairingRequestForAgent (piInviteID (Payload invite)) (idAgentID i) s = Inl ErrNotFound"
    and "GetPairingSession (piInviteID (Payload invite)) (idAgentID i) s = Inl ErrNotFound"
    and "GetContact (idAgentID i) (idAgentID m) s = Inr c" and "cState c = ContactStateAwaitingConfirmation"
    and "cRemoteAgentFingerprint c \<noteq> Fingerprint (prim L) (idPublicKey m)"
    and "clk E 0 < piExpiresAt (Payload invite)"
  shows "\<exists>t receipt u k. ImportInvite L E (Some i) invite s = (Inl ErrIdentityConflict, t) \<and>
    ApplyConfirmation L E' (Some i) (unasked_confirmation L now n m i invite) t = (Inr receipt, u) \<and>
    GetContact (idAgentID i) (idAgentID m) u = Inr k \<and> cState k = ContactStateActive \<and>
    cRemoteAgentFingerprint k = cRemoteAgentFingerprint c"
proof -
  let ?j = "piInviteID (Payload invite)" and ?conf = "unasked_confirmation L now n m i invite"
  obtain t session where imp: "ImportInvite L E (Some i) invite s = (Inl ErrIdentityConflict, t)" and wft: "wf_store t" and
    c: "GetContact (idAgentID i) (idAgentID m) t = Inr c" and
    p: "GetPairingSession ?j (idAgentID i) t = Inr session" "psRole session = pairingRoleInvitee"
      "psRemoteAgentID session = idAgentID m"
      "psRemoteHostFingerprint session = piInvitingHostFingerprint (Payload invite)"
      "psRemoteAgentPublicKey session = idPublicKey m" "psLocalHostFingerprint session = []"
      "psInviteDigest session = digestEnvelope L (Envelope invite)" "psAcceptanceDigest session = []"
    using ImportInvite_conflict[OF assms(1,2,3,5-10)] by blast
  define s1 where "s1 = snd (UpsertPairingSession (clk E' 0)
    (session\<lparr>psConfirmationDigest := digestEnvelope L (Envelope ?conf)\<rparr>) t)"
  have wf1: "wf_store s1" unfolding s1_def using wft by (rule wf_UpsertPairingSession)
  have c1: "GetContact (idAgentID i) (idAgentID m) s1 = Inr c" using c by (simp add: s1_def)
  from UpsertContact_same_peer[OF wf1 c1, of "clk E' 1" ContactStateActive] obtain u k where
    u: "UpsertContact (clk E' 1) (c\<lparr>cState := ContactStateActive\<rparr>) s1 = (Inr (), u)" and
    k: "GetContact (idAgentID i) (idAgentID m) u = Inr k" "cState k = ContactStateActive"
      "cRemoteAgentFingerprint k = cRemoteAgentFingerprint c" by blast
  have "\<exists>receipt. ApplyConfirmation L E' (Some i) ?conf t = (Inr receipt, u)"
    using p c1 assms(8) u publicKey_trusted[OF assms(3)] publicKey_trusted[OF assms(4)] verifyPayload_signed[OF assms(3)]
    by (simp add: ApplyConfirmation_def Let_def signPayload_def and_then_session s1_def unasked_confirmation_def)
  with imp k show ?thesis by blast
qed

section \<open>A concrete handshake\<close>

definition demo_approval :: ApproveAcceptanceInput where
  "demo_approval = \<lparr>aaExpectedHostFingerprint = ''host-b'',
     aaExpectedAgentFingerprint = Fingerprint (prim demo_lib) (idPublicKey bob)\<rparr>"

lemma demo_trusted: "trusted demo_lib alice" "trusted demo_lib bob"
  by (simp_all add: trusted_def wf_demo_identities demo_lib_laws)

lemma demo_fresh: "fresh_for (idAgentID bob) (idAgentID alice) ''invite-1'' (empty_store None)"
  using wf_store_empty[of None]
  by (simp add: fresh_for_def GetPairingRequestForAgent_def GetPairingSession_def GetContact_def empty_store_def)

lemma demo_ids: "idAgentID alice = ''alice''" "idAgentID bob = ''bob''" "ciRemoteAgentID demo_input = ''bob''"
  by (simp_all add: alice_def bob_def demo_input_def)

lemma demo_clock: "clk demo_env n = int n" "0 < Hour" "0 < trunc_ms Hour"
  by (simp_all add: demo_env_def Hour_def trunc_ms_def fromMillis_def millis_def)

theorem handshake_completes_witness:
  "\<exists>sA3 sB3. active_peer demo_lib ''alice'' bob ''host-b'' sA3 \<and> active_peer demo_lib ''bob'' alice ''host-a'' sB3"
proof -
  obtain invite sA1 where inv: "CreateInvite demo_lib demo_env (Some alice) demo_input (empty_store None) = (Inr invite, sA1)"
    "piInviteID (Payload invite) = ''invite-1''" "piExpiresAt (Payload invite) = Hour" using demo_CreateInvite by blast
  have "ciLocalHostFingerprint demo_input = ''host-a''" by (simp add: demo_input_def)
  then show ?thesis
    using handshake_completes[OF demo_trusted demo_lib_laws(1) wf_store_empty inv(1), of "empty_store None" demo_env
        demo_env demo_env demo_approval "''host-b''" "[]" "[]" demo_env demo_env] inv(2,3) demo_fresh
    by (simp add: demo_ids demo_clock demo_approval_def) blast
qed

lemma demo_approved:
  "\<exists>invite acceptance confirmation sA1 sA2 sB. invite_valid demo_lib alice ''bob'' invite \<and>
     invited demo_lib alice ''bob'' invite sA1 \<and> accepted demo_lib bob ''host-b'' invite acceptance sB \<and>
     ApproveAcceptance demo_lib demo_env (Some alice) acceptance demo_approval sA1 = (Inr confirmation, sA2) \<and>
     confirmation_valid demo_lib alice bob ''host-b'' invite acceptance confirmation"
proof -
  obtain invite sA1 where inv: "CreateInvite demo_lib demo_env (Some alice) demo_input (empty_store None) = (Inr invite, sA1)"
    "piInviteID (Payload invite) = ''invite-1''" "piExpiresAt (Payload invite) = Hour" using demo_CreateInvite by blast
  have post: "invited demo_lib alice ''bob'' invite sA1" "invite_valid demo_lib alice ''bob'' invite"
    using CreateInvite_post[OF demo_trusted(1) wf_store_empty inv(1)] by (simp_all add: demo_ids)
  obtain c sB1 where imp: "imported demo_lib bob invite sB1"
    using ImportInvite_post[OF _ demo_trusted(1), of bob invite "empty_store None" demo_env] inv demo_fresh post
    by (auto simp: demo_ids demo_clock)
  obtain acceptance sB where acc: "acceptance_valid demo_lib bob ''host-b'' invite acceptance"
    "accepted demo_lib bob ''host-b'' invite acceptance sB"
    using acceptImportedInvite_post[OF imp demo_trusted(2), of demo_env "''host-b''" "[]" "[]"] inv
    by (auto simp: demo_clock)
  have "aaExpectedAgentFingerprint demo_approval \<noteq> []"
    by (simp add: demo_approval_def Fingerprint_nonempty demo_lib_laws)
  then show ?thesis
    using ApproveAcceptance_post[OF _ acc(1) _ demo_trusted, of sA1 demo_env demo_approval] inv post acc
    by (simp add: demo_ids demo_clock demo_approval_def) blast
qed

theorem invite_single_use_witness:
  "\<exists>s t acceptance confirmation.
     ApproveAcceptance demo_lib demo_env (Some alice) acceptance demo_approval s = (Inr confirmation, t) \<and>
     \<not> ok (fst (ApproveAcceptance demo_lib demo_env (Some alice) acceptance demo_approval t))"
proof -
  from demo_approved obtain invite acceptance confirmation s t where
    s: "invited demo_lib alice ''bob'' invite s"
    "ApproveAcceptance demo_lib demo_env (Some alice) acceptance demo_approval s = (Inr confirmation, t)" by blast
  then have "wf_store s" by (simp add: invited_def)
  from invite_single_use[OF this refl, of demo_lib demo_env alice demo_approval acceptance demo_env demo_approval
      "[]" "[]" "[]" "[]" "[]" "[]" "[]" "[]"] s(2)
  have "\<not> ok (fst (ApproveAcceptance demo_lib demo_env (Some alice) acceptance demo_approval (run (pairing_step demo_lib) [] t)))"
    by blast
  with s(2) show ?thesis by auto
qed

theorem active_only_confirmed_witness:
  "\<exists>s conf session. contact_state ''bob'' ''alice'' s = ContactStateAwaitingConfirmation \<and>
     GetPairingSession (pcInviteID (Payload conf)) ''bob'' s = Inr session \<and> confirmation_checked demo_lib bob conf session"
proof -
  from demo_approved obtain invite acceptance conf s where
    i: "invite_valid demo_lib alice ''bob'' invite" and a: "accepted demo_lib bob ''host-b'' invite acceptance s" and
    c: "confirmation_valid demo_lib alice bob ''host-b'' invite acceptance conf" by blast
  obtain r t where "ApplyConfirmation demo_lib demo_env (Some bob) conf s = (Inr r, t)"
    "active_peer demo_lib ''bob'' alice (piInvitingHostFingerprint (Payload invite)) t"
    using ApplyConfirmation_post[OF a c _ demo_trusted, of demo_env] i by (auto simp: demo_ids)
  then have act: "contact_state ''bob'' ''alice'' (pairing_step demo_lib (DoApplyConfirmation demo_env bob conf) s) = ContactStateActive"
    by (auto simp: active_peer_def contact_state_def CanCommunicate_def demo_ids split: sum.splits)
  have st: "contact_state ''bob'' ''alice'' s = ContactStateAwaitingConfirmation" "wf_store s"
    using a i by (auto simp: accepted_def Let_def invite_valid_def contact_state_def demo_ids)
  then have "contact_state ''bob'' ''alice'' s \<noteq> ContactStateActive" by simp
  from active_only_confirmed[OF st(2) this act] st(1) show ?thesis by auto
qed

lemma demo_fingerprint: "Fingerprint (prim demo_lib) (idPublicKey bob) \<noteq> ''fp-b''"
  by code_simp

lemma demo_CreateInvite_back:
  "\<exists>invite t. CreateInvite demo_lib demo_env (Some bob) (demo_input\<lparr>ciRemoteAgentID := ''alice''\<rparr>) (empty_store None) = (Inr invite, t) \<and>
     piInviteID (Payload invite) = ''invite-1'' \<and> piExpiresAt (Payload invite) = Hour"
  by (simp add: CreateInvite_def demo_input_def bob_def demo_env_def rejectBlockedContact_def GetContact_def
      empty_store_def signPayload_def CreatePairingRequest_def insert_row_def UpsertPairingSession_def
      UpsertContact_def upsert_row_def demo_lib_def Let_def Hour_def)

theorem refused_import_activates_witness:
  "\<exists>invite t receipt u k.
     ImportInvite demo_lib demo_env (Some alice) invite (demo_store ContactStateAwaitingConfirmation) =
       (Inl ErrIdentityConflict, t) \<and>
     ApplyConfirmation demo_lib demo_env (Some alice) (unasked_confirmation demo_lib 0 ''n'' bob alice invite) t =
       (Inr receipt, u) \<and>
     GetContact ''alice'' ''bob'' u = Inr k \<and> cState k = ContactStateActive \<and> cRemoteAgentFingerprint k = ''fp-b''"
proof -
  obtain invite s0 where inv: "CreateInvite demo_lib demo_env (Some bob) (demo_input\<lparr>ciRemoteAgentID := ''alice''\<rparr>)
      (empty_store None) = (Inr invite, s0)" "piExpiresAt (Payload invite) = Hour" using demo_CreateInvite_back by blast
  have valid: "invite_valid demo_lib bob (idAgentID alice) invite"
    using CreateInvite_post[OF demo_trusted(2) wf_store_empty inv(1)] by (simp add: demo_ids)
  have fp: "cRemoteAgentFingerprint (demo_contact ContactStateAwaitingConfirmation) \<noteq>
      Fingerprint (prim demo_lib) (idPublicKey bob)"
    using demo_fingerprint by (simp add: demo_contact_def)
  have "\<exists>t receipt u k. ImportInvite demo_lib demo_env (Some alice) invite (demo_store ContactStateAwaitingConfirmation) =
       (Inl ErrIdentityConflict, t) \<and>
     ApplyConfirmation demo_lib demo_env (Some alice) (unasked_confirmation demo_lib 0 ''n'' bob alice invite) t =
       (Inr receipt, u) \<and>
     GetContact (idAgentID alice) (idAgentID bob) u = Inr k \<and> cState k = ContactStateActive \<and>
     cRemoteAgentFingerprint k = cRemoteAgentFingerprint (demo_contact ContactStateAwaitingConfirmation)"
    by (rule refused_import_activates[OF wf_demo_store valid demo_trusted(2,1) _ _ _ _ fp])
      (simp_all add: demo_ids GetContact_demo inv(2) demo_clock demo_contact_def demo_store_def empty_store_def
        GetPairingRequestForAgent_def GetPairingSession_def GetContact_def contact_key_def)
  then show ?thesis by (simp add: demo_ids demo_contact_def) blast
qed

end
