(* ===== verification/Gate.thy ===== *)
theory Gate
  imports PairingProps StoreOps
begin

text \<open>
  The interface through which the rest of the daemon relies on pairing: traffic between two agents
  passes only while the contact is active. Each component that lets traffic through interprets it with its own
  check, and inherits that nothing passes for a contact that was revoked or blocked.
\<close>

locale active_gate =
  fixes passes :: "'i \<Rightarrow> store \<Rightarrow> bool"
    and parties :: "'i \<Rightarrow> string \<times> string"  \<comment> \<open>local and remote agent\<close>
  assumes passes_active: "passes x s \<Longrightarrow> parties x = (a, b) \<Longrightarrow> contact_state a b s = ContactStateActive"
begin

lemma closed_refused: "parties x = (a, b) \<Longrightarrow> contact_state a b s \<noteq> ContactStateActive \<Longrightarrow> \<not> passes x s"
  using passes_active by blast

lemma refused_after_Revoke:
  assumes "wf_store s" and "Revoke c a b s = (Inr k, t)" and "parties x = (a, b)"
  shows "\<not> passes x t"
proof -
  have "contact_state a b t = ContactStateRevoked" using Revoke_state[OF assms(1,2)] .
  then show ?thesis using closed_refused[OF assms(3), of t] by simp
qed

lemma refused_after_Block:
  assumes "wf_store s" and "Block c a b s = (Inr k, t)" and "parties x = (a, b)" and "\<not> list_ex unblocks xs"
  shows "\<not> passes x (run (pairing_step L) xs t)"
proof -
  have "contact_state a b (run (pairing_step L) xs t) = ContactStateBlocked" using blocked_run Block_state wf_Block_run assms by metis
  then show ?thesis using closed_refused[OF assms(3), of "run (pairing_step L) xs t"] by simp
qed

end

end
