(* ===== verification/Admission.thy ===== *)
theory Admission
  imports Gate
begin

text \<open>
  \<^verbatim>\<open>internal/admission/service.go\<close>: the decision whether a signed envelope of a remote agent is let
  through. The checks run in the order of the code; the deferred audit entry is written on every path.
\<close>

section \<open>Authorize\<close>

record admission_input =
  inLocalAgentID :: string
  inRemoteHostFingerprint :: string
  inRemotePublicKey :: bytes
  inEnvelope :: SignedEnvelope

definition admission_skew :: "duration \<Rightarrow> duration" where
  \<comment> \<open>NewService\<close>
  "admission_skew allowedSkew = (if allowedSkew \<le> 0 then 5 * Minute else allowedSkew)"

definition admission_checks :: "primitives \<Rightarrow> duration \<Rightarrow> gotime \<Rightarrow> admission_input \<Rightarrow> unit op" where
  \<comment> \<open>the body of Authorize up to its returns; \<open>now\<close> is the reading of the clock in it\<close>
  "admission_checks P skew now input s =
     (let envelope = inEnvelope input; remoteAgentID = seAgentID envelope in
      case GetContact (inLocalAgentID input) remoteAgentID s of
        Inl e \<Rightarrow> (Inl (if e = ErrNotFound then ErrContactNotActive else e), s)
      | Inr contact \<Rightarrow>
          if cState contact \<noteq> ContactStateActive then (Inl ErrContactNotActive, s)
          else if inRemoteHostFingerprint input \<noteq> [] \<and> cRemoteHostFingerprint contact \<noteq> [] \<and>
                  cRemoteHostFingerprint contact \<noteq> inRemoteHostFingerprint input
          then (Inl ErrHostFingerprintMismatch, s)
          else if cRemoteAgentFingerprint contact \<noteq> Fingerprint P (inRemotePublicKey input)
          then (Inl ErrAgentFingerprintMismatch, s)
          else (case VerifyEnvelopeForAgent P envelope (cRemoteAgentID contact) (inRemotePublicKey input) of
                  Inl e \<Rightarrow> (Inl e, s)
                | Inr _ \<Rightarrow>
                    let issuedAt = fromMillis (seIssuedAt envelope) in
                    if issuedAt < now - skew \<or> issuedAt > now + skew then (Inl ErrEnvelopeOutsideTimeWindow, s)
                    else and_then (ClaimReplayNonce (inLocalAgentID input) remoteAgentID (seNonce envelope)
                           (issuedAt + skew) now s) (\<lambda>claimed s.
                         if \<not> claimed then (Inl ErrReplayDetected, s) else (Inr (), s))))"

definition audit_of :: "string \<Rightarrow> gotime \<Rightarrow> admission_input \<Rightarrow> bool \<Rightarrow> AuditEntry" where
  "audit_of entryID at input allowed =
     \<lparr>aeID = entryID, aeActorAgentID = inLocalAgentID input, aeRemoteAgentID = seAgentID (inEnvelope input),
      aeAction = ''admission.authorize'', aeOutcome = (if allowed then ''allowed'' else ''denied''),
      aeRequestID = seNonce (inEnvelope input), aeCreatedAt = at\<rparr>"

definition Authorize :: "primitives \<Rightarrow> duration \<Rightarrow> clock \<Rightarrow> string \<Rightarrow> admission_input \<Rightarrow> unit op" where
  \<comment> \<open>\<open>c 0\<close> is the reading for the time window, \<open>c 1\<close> the one for the audit entry, \<open>c 2\<close> the store's own\<close>
  "Authorize P skew c entryID input s =
     (let (result, s) = admission_checks P skew (c 0) input s;
          (audit, s) = AppendAuditEntry (c 2) (audit_of entryID (c 1) input (ok result)) s
      in (case result of Inl e \<Rightarrow> Inl e | Inr _ \<Rightarrow> audit, s))"

section \<open>What the checks ensure\<close>

text \<open>The conditions under which an envelope is admissible, apart from its nonce.\<close>

definition admissible :: "primitives \<Rightarrow> duration \<Rightarrow> gotime \<Rightarrow> admission_input \<Rightarrow> store \<Rightarrow> bool" where
  "admissible P skew now input s =
     (case GetContact (inLocalAgentID input) (seAgentID (inEnvelope input)) s of
        Inl _ \<Rightarrow> False
      | Inr contact \<Rightarrow>
          CanCommunicate contact \<and>
          (inRemoteHostFingerprint input = [] \<or> cRemoteHostFingerprint contact = [] \<or>
           cRemoteHostFingerprint contact = inRemoteHostFingerprint input) \<and>
          cRemoteAgentFingerprint contact = Fingerprint P (inRemotePublicKey input) \<and>
          seKeyFingerprint (inEnvelope input) = Fingerprint P (inRemotePublicKey input) \<and>
          ed25519_Verify P (inRemotePublicKey input) (signingBytes P (inEnvelope input)) (seSignature (inEnvelope input)) \<and>
          \<bar>fromMillis (seIssuedAt (inEnvelope input)) - now\<bar> \<le> skew)"

definition nonce_of :: "admission_input \<Rightarrow> string \<times> string \<times> string" where
  "nonce_of input = (inLocalAgentID input, seAgentID (inEnvelope input), seNonce (inEnvelope input))"

definition nonce_live :: "string \<times> string \<times> string \<Rightarrow> gotime \<Rightarrow> store \<Rightarrow> bool" where
  "nonce_live k now s =
     (case by_key nonce_key k (replay_nonces s) of None \<Rightarrow> False | Some r \<Rightarrow> millis now < millis (rnExpiresAt r))"

lemma by_key_delete_other:
  assumes "\<And>r. key r = k \<Longrightarrow> \<not> Q r"
  shows "by_key key k (delete_rows Q rows) = by_key key k rows"
  using assms by (induction rows) (auto simp: delete_rows_def)

lemma by_key_delete_expired:
  assumes "unique_key key rows"
  shows "by_key key k (delete_rows (\<lambda>r. key r = k \<and> Q r) rows) =
    (case by_key key k rows of None \<Rightarrow> None | Some r \<Rightarrow> if Q r then None else Some r)"
proof -
  have absent: "by_key key j (filter (\<lambda>r. key r = j \<longrightarrow> \<not> Q r) xs) = None \<and> by_key key j xs = None"
    if "j \<notin> key ` set xs" for j xs
    using that by (induction xs) auto
  show ?thesis
    using assms by (induction rows) (auto simp: delete_rows_def unique_key_def absent)
qed

lemma ClaimReplayNonce_eq:
  assumes "wf_store s"
  shows "fst (ClaimReplayNonce a b n t now s) = Inr (\<not> nonce_live (a, b, n) now s)"
    and "by_key nonce_key k (replay_nonces (snd (ClaimReplayNonce a b n t now s))) =
      (if k = (a, b, n) \<and> \<not> nonce_live k now s
       then Some \<lparr>rnLocalAgentID = a, rnRemoteAgentID = b, rnNonce = n, rnExpiresAt = trunc_ms t, rnCreatedAt = trunc_ms now\<rparr>
       else by_key nonce_key k (replay_nonces s))"
proof -
  let ?Q = "\<lambda>r. millis (rnExpiresAt r) \<le> millis now"
  have u: "unique_key nonce_key (replay_nonces s)" using assms by (simp add: wf_store_def)
  have del: "(\<lambda>r. rnLocalAgentID r = a \<and> rnRemoteAgentID r = b \<and> rnNonce r = n \<and> ?Q r) =
      (\<lambda>r. nonce_key r = (a, b, n) \<and> ?Q r)" by (auto simp: nonce_key_def)
  have other: "k \<noteq> (a, b, n) \<Longrightarrow> by_key nonce_key k (delete_rows (\<lambda>r. nonce_key r = (a, b, n) \<and> ?Q r) (replay_nonces s)) =
      by_key nonce_key k (replay_nonces s)" by (rule by_key_delete_other) auto
  note same = by_key_delete_expired[OF u, of "(a, b, n)" ?Q]
  show "fst (ClaimReplayNonce a b n t now s) = Inr (\<not> nonce_live (a, b, n) now s)"
    using same by (auto simp: ClaimReplayNonce_def Let_def insert_ignore_eq del nonce_live_def
        split: option.splits if_splits) (simp_all add: nonce_key_def)
  show "by_key nonce_key k (replay_nonces (snd (ClaimReplayNonce a b n t now s))) =
      (if k = (a, b, n) \<and> \<not> nonce_live k now s
       then Some \<lparr>rnLocalAgentID = a, rnRemoteAgentID = b, rnNonce = n, rnExpiresAt = trunc_ms t, rnCreatedAt = trunc_ms now\<rparr>
       else by_key nonce_key k (replay_nonces s))"
    using same other
    by (auto simp: ClaimReplayNonce_def Let_def insert_ignore_eq del nonce_live_def by_key_append
        split: option.splits if_splits) (simp_all add: nonce_key_def)
qed

lemma abs_window: "\<not> (i < now - skew \<or> i > now + skew) \<longleftrightarrow> \<bar>i - now\<bar> \<le> (skew :: int)"
  by auto

lemma fst_claim:
  assumes "wf_store s"
  shows "fst (and_then (ClaimReplayNonce a b n t now s) (\<lambda>claimed s. if \<not> claimed then (Inl e, s) else (Inr (), s))) =
    (if nonce_live (a, b, n) now s then Inl e else Inr ())"
  using ClaimReplayNonce_eq(1)[OF assms, of a b n t now] by (auto simp: and_then_def split: prod.splits)

lemma snd_claim:
  "snd (and_then (ClaimReplayNonce a b n t now s) (\<lambda>claimed s. if \<not> claimed then (Inl e, s) else (Inr (), s))) =
    snd (ClaimReplayNonce a b n t now s)"
  by (auto simp: and_then_def split: prod.splits sum.splits)

lemma admission_checks_ok:
  assumes "wf_store s"
  shows "fst (admission_checks P skew now input s) = Inr () \<longleftrightarrow>
    admissible P skew now input s \<and> \<not> nonce_live (nonce_of input) now s"
proof (cases "GetContact (inLocalAgentID input) (seAgentID (inEnvelope input)) s")
  case (Inl e)
  then show ?thesis by (simp add: admission_checks_def admissible_def)
next
  case (Inr c)
  have id: "cRemoteAgentID c = seAgentID (inEnvelope input)" using GetContact_key[OF Inr] by simp
  note v = VerifyEnvelopeForAgent_ok_iff[of P "inEnvelope input" "seAgentID (inEnvelope input)" "inRemotePublicKey input"]
  show ?thesis
    using Inr id v
    by (cases "VerifyEnvelopeForAgent P (inEnvelope input) (seAgentID (inEnvelope input)) (inRemotePublicKey input)")
      (auto simp: admission_checks_def admissible_def CanCommunicate_def Let_def nonce_of_def fst_claim[OF assms])
qed

lemma admission_checks_state:
  assumes "wf_store s"
  shows "snd (admission_checks P skew now input s) =
    (if admissible P skew now input s
     then snd (ClaimReplayNonce (inLocalAgentID input) (seAgentID (inEnvelope input)) (seNonce (inEnvelope input))
       (fromMillis (seIssuedAt (inEnvelope input)) + skew) now s)
     else s)"
proof (cases "GetContact (inLocalAgentID input) (seAgentID (inEnvelope input)) s")
  case (Inl e)
  then show ?thesis by (simp add: admission_checks_def admissible_def)
next
  case (Inr c)
  have id: "cRemoteAgentID c = seAgentID (inEnvelope input)" using GetContact_key[OF Inr] by simp
  note v = VerifyEnvelopeForAgent_ok_iff[of P "inEnvelope input" "seAgentID (inEnvelope input)" "inRemotePublicKey input"]
  show ?thesis
    using Inr id v
    by (cases "VerifyEnvelopeForAgent P (inEnvelope input) (seAgentID (inEnvelope input)) (inRemotePublicKey input)")
      (auto simp: admission_checks_def admissible_def CanCommunicate_def Let_def snd_claim)
qed

section \<open>The decision and its audit entry\<close>

lemma admissible_audit [simp]: "admissible P skew now input (s\<lparr>audit_entries := l\<rparr>) = admissible P skew now input s"
  by (simp add: admissible_def GetContact_def)

lemma wf_admission_checks: "wf_store s \<Longrightarrow> wf_store (snd (admission_checks P skew now input s))"
  by (simp add: admission_checks_state wf_intros)

lemma wf_Authorize [wf_intros]: "wf_store s \<Longrightarrow> wf_store (snd (Authorize P skew c e input s))"
  by (simp add: Authorize_def case_prod_beta Let_def wf_AppendAuditEntry wf_admission_checks)

lemma audit_entries_claim [simp]: "audit_entries (snd (ClaimReplayNonce a b n t now s)) = audit_entries s"
  by (simp add: ClaimReplayNonce_def Let_def case_prod_beta)

lemma Authorize_result:
  assumes "wf_store s" and "by_key aeID entryID (audit_entries s) = None"
  shows "Authorize P skew c entryID input s =
    (let (r, t) = admission_checks P skew (c 0) input s
     in (r, t\<lparr>audit_entries := audit_entries s @ [(audit_of entryID (c 1) input (ok r))\<lparr>
            aeCreatedAt := trunc_ms (if IsZero (c 1) then c 2 else c 1)\<rparr>]\<rparr>))"
proof -
  obtain r t where rt: "admission_checks P skew (c 0) input s = (r, t)" by (cases "admission_checks P skew (c 0) input s")
  then have same: "audit_entries t = audit_entries s"
    using admission_checks_state[OF assms(1), of P skew "c 0" input] by (auto split: if_splits)
  show ?thesis
    using rt same assms(2)
    by (auto simp: Authorize_def AppendAuditEntry_def insert_row_None_iff insert_row_Some_iff audit_of_def Let_def
        split: option.splits sum.splits)
qed

text \<open>
  Admission lets an envelope through exactly when the contact is active, the host and agent
  fingerprints agree with the pinned ones, the signature verifies under the presented key for that
  agent, the time of issue is within the allowed skew, and the nonce was not claimed before; and it
  writes exactly one audit entry, with that outcome, in every case.
\<close>

lemma Authorize_decides:
  assumes "wf_store s" and "by_key aeID entryID (audit_entries s) = None"
    and "allowed = (admissible P skew (c 0) input s \<and> \<not> nonce_live (nonce_of input) (c 0) s)"
  shows "(fst (Authorize P skew c entryID input s) = Inr () \<longleftrightarrow> allowed) \<and>
    audit_entries (snd (Authorize P skew c entryID input s)) =
      audit_entries s @ [(audit_of entryID (c 1) input allowed)\<lparr>
        aeCreatedAt := trunc_ms (if IsZero (c 1) then c 2 else c 1)\<rparr>]"
proof -
  obtain r t where rt: "admission_checks P skew (c 0) input s = (r, t)" by (cases "admission_checks P skew (c 0) input s")
  have "ok r \<longleftrightarrow> allowed" "r = Inr () \<longleftrightarrow> allowed"
    using admission_checks_ok[OF assms(1), of P skew "c 0" input] rt assms(3) by (auto simp: ok_iff)
  then show ?thesis using Authorize_result[OF assms(1,2), of P skew c input] rt by simp
qed

section \<open>No replay\<close>

lemma nonces_frame:
  assumes "\<nexists>a b n t u. x = OpClaimReplayNonce a b n t u"
  shows "replay_nonces (store_step P x s) = replay_nonces s"
  using assms
  by (cases x)
    (auto simp: state_eqs CreatePairingRequest_eq ValidateAndConsumePairingRequest_def MarkOutboxDelivered_def
      ValidateAndConsumePairingRequestForAgent_def EnqueueOutbox_def CancelOutbox_def RecordInboxMessage_def
      MarkInboxMessageRead_def CreateAttachmentGrant_def RecordMessageOnce_def RecordScopedMessageOnce_def
      CompleteScopedMessage_def Let_def case_prod_beta split: sum.splits option.splits)

fun claims_before :: "string \<times> string \<times> string \<Rightarrow> gotime \<Rightarrow> store_op \<Rightarrow> bool" where
  \<comment> \<open>a claim of this nonce happens before the instant\<close>
  "claims_before k T (OpClaimReplayNonce a b n t u) = ((a, b, n) = k \<longrightarrow> millis u < millis T)"
| "claims_before k T _ = True"

lemma nonce_kept_step:
  assumes "wf_store s" and "by_key nonce_key k (replay_nonces s) = Some r" and "millis (rnExpiresAt r) = millis T"
    and "claims_before k T x"
  shows "by_key nonce_key k (replay_nonces (store_step P x s)) = Some r"
proof (cases "\<exists>a b n t u. x = OpClaimReplayNonce a b n t u")
  case True
  then obtain a b n t u where x: "x = OpClaimReplayNonce a b n t u" by blast
  show ?thesis
    using assms by (auto simp: x ClaimReplayNonce_eq(2)[OF assms(1)] nonce_live_def)
next
  case False
  then show ?thesis using nonces_frame[of x P s] assms(2) by simp
qed

lemma nonce_kept_run:
  assumes "wf_store s" and "by_key nonce_key k (replay_nonces s) = Some r" and "millis (rnExpiresAt r) = millis T"
    and "list_all (claims_before k T) ops"
  shows "by_key nonce_key k (replay_nonces (run (store_step P) ops s)) = Some r"
  using assms
proof (induction ops arbitrary: s)
  case (Cons x xs)
  have "by_key nonce_key k (replay_nonces (store_step P x s)) = Some r"
    using nonce_kept_step[OF Cons.prems(1-3)] Cons.prems(4) by simp
  then show ?case using Cons.IH[OF wf_store_step[OF Cons.prems(1)]] Cons.prems(3,4) by simp
qed simp

text \<open>
  C30. An envelope that was admitted is not admitted again. Whatever is written to the store in
  between, as long as claims of its nonce come before the end of its validity, the same envelope is
  refused at every later reading of the clock outside the very millisecond in which its validity ends.
\<close>

theorem admitted_once:
  assumes "wf_store s" and "by_key aeID e1 (audit_entries s) = None"
    and "Authorize P skew c e1 input s = (Inr (), t)"
    and "T = fromMillis (seIssuedAt (inEnvelope input)) + skew"
    and "list_all (claims_before (nonce_of input) T) ops" and "u = run (store_step P) ops t"
    and "by_key aeID e2 (audit_entries u) = None" and "millis (c' 0) \<noteq> millis T"
  shows "fst (Authorize P skew c' e2 input u) \<noteq> Inr ()"
proof -
  obtain r t' where rt: "admission_checks P skew (c 0) input s = (r, t')" by (cases "admission_checks P skew (c 0) input s")
  have r: "r = Inr ()" and t: "replay_nonces t = replay_nonces t'"
    using assms(3) Authorize_result[OF assms(1,2), of P skew c input] rt by auto
  have "wf_store t" using wf_Authorize[OF assms(1), of P skew c e1 input] assms(3) by simp
  have adm: "admissible P skew (c 0) input s" "\<not> nonce_live (nonce_of input) (c 0) s"
    using admission_checks_ok[OF assms(1), of P skew "c 0" input] rt r by auto
  have "\<exists>q. by_key nonce_key (nonce_of input) (replay_nonces t') = Some q \<and> millis (rnExpiresAt q) = millis T"
    using admission_checks_state[OF assms(1), of P skew "c 0" input] rt adm assms(4) ClaimReplayNonce_eq(2)[OF assms(1)]
    by (auto simp: nonce_of_def)
  then obtain q where q: "by_key nonce_key (nonce_of input) (replay_nonces u) = Some q" "millis (rnExpiresAt q) = millis T"
    using nonce_kept_run[OF \<open>wf_store t\<close> _ _ assms(5)] t assms(6) by metis
  have wfu: "wf_store u" unfolding assms(6) using \<open>wf_store t\<close> store_history.inv_run by blast
  have "\<not> (admissible P skew (c' 0) input u \<and> \<not> nonce_live (nonce_of input) (c' 0) u)"
  proof
    assume a: "admissible P skew (c' 0) input u \<and> \<not> nonce_live (nonce_of input) (c' 0) u"
    then have "c' 0 \<le> T" by (auto simp: admissible_def assms(4) split: sum.splits)
    then have "millis (c' 0) \<le> millis T" by (rule millis_mono)
    with assms(8) q a show False by (simp add: nonce_live_def)
  qed
  then have "fst (admission_checks P skew (c' 0) input u) \<noteq> Inr ()" using admission_checks_ok[OF wfu] by blast
  then show ?thesis using Authorize_result[OF wfu assms(7)] by (simp add: case_prod_beta Let_def)
qed

lemma Authorize_inactive:
  assumes "contact_state (inLocalAgentID input) (seAgentID (inEnvelope input)) s \<noteq> ContactStateActive"
  shows "fst (Authorize P skew c e input s) \<noteq> Inr ()"
proof -
  have "\<exists>err. admission_checks P skew (c 0) input s = (Inl err, s)"
    using assms by (cases "GetContact (inLocalAgentID input) (seAgentID (inEnvelope input)) s")
      (auto simp: admission_checks_def contact_state_def)
  then show ?thesis by (auto simp: Authorize_def split: prod.splits)
qed

interpretation admit_active: active_gate
  "\<lambda>(skew, c, e, input) s. fst (Authorize P skew c e input s) = Inr ()"
  "\<lambda>(skew, c, e, input). (inLocalAgentID input, seAgentID (inEnvelope input))" for P
  by unfold_locales (use Authorize_inactive in fastforce)

section \<open>A concrete admission\<close>

definition demo_envelope :: SignedEnvelope where
  "demo_envelope = Sign clear_primitives 0 ''n1'' bob ''bob'' ''a2a'' ''hello''"

definition demo_admission :: admission_input where
  "demo_admission = \<lparr>inLocalAgentID = ''alice'', inRemoteHostFingerprint = ''host-b'',
     inRemotePublicKey = idPublicKey bob, inEnvelope = demo_envelope\<rparr>"

lemma demo_admissible: "admissible clear_primitives (5 * Minute) 0 demo_admission demo_active"
  using Verify_Sign[OF wf_demo_identities(2) clear_primitives_laws(1), of 0 "''n1''" "''bob''" "''a2a''" "''hello''"]
  by (auto simp: admissible_def demo_admission_def demo_envelope_def GetContact_active CanCommunicate_def
      VerifyEnvelopeForAgent_ok_iff demo_contact_def fromMillis_def millis_def Minute_def)

lemma demo_nonce: "\<not> nonce_live (nonce_of demo_admission) 0 demo_active"
  by (simp add: nonce_live_def demo_active_def empty_store_def)

lemma demo_no_audit: "by_key aeID e (audit_entries demo_active) = None"
  by (simp add: demo_active_def empty_store_def)

lemma Authorize_decides_witness:
  "fst (Authorize clear_primitives (5 * Minute) (\<lambda>_. 0) ''e1'' demo_admission demo_active) = Inr () \<and>
   length (audit_entries (snd (Authorize clear_primitives (5 * Minute) (\<lambda>_. 0) ''e1'' demo_admission demo_active))) = 1"
  using Authorize_decides[OF wf_demo_active demo_no_audit refl, where P=clear_primitives and skew="5 * Minute" and c="\<lambda>_. 0" and input=demo_admission and entryID="''e1''"]
    demo_admissible demo_nonce by (simp add: demo_active_def empty_store_def)

lemma demo_admitted:
  "\<exists>t. Authorize clear_primitives (5 * Minute) (\<lambda>_. 0) ''e1'' demo_admission demo_active = (Inr (), t) \<and>
     by_key aeID ''e2'' (audit_entries t) = None"
proof -
  obtain t' where "admission_checks clear_primitives (5 * Minute) 0 demo_admission demo_active = (Inr (), t')"
    using admission_checks_ok[OF wf_demo_active, of clear_primitives "5 * Minute" 0 demo_admission] demo_admissible demo_nonce
    by (metis prod.collapse)
  then show ?thesis
    using Authorize_result[OF wf_demo_active demo_no_audit, where P=clear_primitives and skew="5 * Minute" and c="\<lambda>_. 0" and input=demo_admission and entryID="''e1''"]
    by (simp add: audit_of_def demo_active_def empty_store_def)
qed

theorem admitted_once_witness:
  "\<exists>t. Authorize clear_primitives (5 * Minute) (\<lambda>_. 0) ''e1'' demo_admission demo_active = (Inr (), t) \<and>
     fst (Authorize clear_primitives (5 * Minute) (\<lambda>_. Minute) ''e2'' demo_admission t) \<noteq> Inr ()"
proof -
  obtain t where t: "Authorize clear_primitives (5 * Minute) (\<lambda>_. 0) ''e1'' demo_admission demo_active = (Inr (), t)"
    "by_key aeID ''e2'' (audit_entries t) = None" using demo_admitted by blast
  have "fst (Authorize clear_primitives (5 * Minute) (\<lambda>_. Minute) ''e2'' demo_admission t) \<noteq> Inr ()"
    by (rule admitted_once[OF wf_demo_active demo_no_audit t(1) refl, of "[]"])
      (simp_all add: t(2) demo_admission_def demo_envelope_def fromMillis_def millis_def Minute_def)
  with t(1) show ?thesis by blast
qed

end
