(* ===== verification/Delivery.thy ===== *)
theory Delivery
  imports Gate
begin

text \<open>
  \<^verbatim>\<open>internal/delivery/service.go\<close> and \<^verbatim>\<open>internal/delivery/a2a.go\<close>: the retry delay, the pass over the due
  messages of the outbox, and the transport that resolves a contact before it sends.
\<close>

section \<open>Configuration and retry delay\<close>

record delivery_config =
  BatchSize :: int
  BaseDelay :: duration
  MaxDelay :: duration

definition NewService_delivery :: "delivery_config \<Rightarrow> delivery_config" where
  "NewService_delivery config =
     (let batchSize = (if BatchSize config \<le> 0 then 100 else BatchSize config);
          baseDelay = (if BaseDelay config \<le> 0 then Second else BaseDelay config);
          maxDelay = (if MaxDelay config \<le> 0 then 15 * Minute else MaxDelay config);
          maxDelay = (if maxDelay < baseDelay then baseDelay else maxDelay)
      in \<lparr>BatchSize = batchSize, BaseDelay = baseDelay, MaxDelay = maxDelay\<rparr>)"

text \<open>
  The conversion of a 64-bit integer to a double rounds to 53 bits, ties to even. The product with a
  power of two is exact. A double outside the range of the integer type converts to a value that the
  language leaves to the implementation: \<open>beyond\<close>.
\<close>

fun bit_length :: "nat \<Rightarrow> nat" where
  "bit_length n = (if n = 0 then 0 else Suc (bit_length (n div 2)))"

declare bit_length.simps [simp del]

definition float64 :: "int \<Rightarrow> int" where
  \<comment> \<open>for non-negative arguments\<close>
  "float64 n =
     (let k = bit_length (nat n) - 53; q = n div 2 ^ k; r = n mod 2 ^ k
      in if k = 0 then n
         else if 2 * r < 2 ^ k \<or> (2 * r = 2 ^ k \<and> even q) then q * 2 ^ k else (q + 1) * 2 ^ k)"

definition to_int64 :: "int \<Rightarrow> int \<Rightarrow> int" where
  "to_int64 beyond x = (if - (2 ^ 63) \<le> x \<and> x < 2 ^ 63 then x else beyond)"

definition retryDelay :: "int \<Rightarrow> (duration \<Rightarrow> duration) \<Rightarrow> delivery_config \<Rightarrow> int \<Rightarrow> duration" where
  "retryDelay beyond jitter_of cfg attempt =
     (let attempt = (if attempt < 1 then 1 else attempt);
          exponent = attempt - 1;
          exponent = (if exponent > 62 then 62 else exponent);
          delay = to_int64 beyond (float64 (BaseDelay cfg) * 2 ^ nat exponent);
          delay = (if delay \<le> 0 \<or> delay > MaxDelay cfg then MaxDelay cfg else delay);
          jitter = jitter_of delay;
          jitter = (if jitter < 0 then 0 else jitter)
      in if delay > MaxDelay cfg - jitter then MaxDelay cfg else delay + jitter)"

definition randomJitter :: "(int \<Rightarrow> int) \<Rightarrow> duration \<Rightarrow> duration" where
  \<comment> \<open>the argument is rand.Int64N\<close>
  "randomJitter int64N delay = (let window = delay div 4 in if window \<le> 0 then 0 else int64N (window + 1))"

lemma NewService_delivery_bounds:
  "0 < BatchSize (NewService_delivery c)" "0 < BaseDelay (NewService_delivery c)"
  "BaseDelay (NewService_delivery c) \<le> MaxDelay (NewService_delivery c)"
  by (auto simp: NewService_delivery_def Let_def Second_def Minute_def)

lemma bit_length_le: "n < 2 ^ k \<Longrightarrow> bit_length n \<le> k"
proof (induction n arbitrary: k rule: bit_length.induct)
  case (1 n)
  show ?case
  proof (cases "n = 0")
    case True
    then show ?thesis by (simp add: bit_length.simps)
  next
    case False
    with "1.prems" obtain j where k: "k = Suc j" by (cases k) auto
    with "1.prems" have "n div 2 < 2 ^ j" by auto
    with 1 False show ?thesis by (simp add: k bit_length.simps[of n])
  qed
qed

lemma float64_exact: "0 \<le> n \<Longrightarrow> n < 2 ^ 53 \<Longrightarrow> float64 n = n"
proof -
  assume "0 \<le> n" "n < 2 ^ 53"
  then have "nat n < 2 ^ 53" by (simp add: nat_less_iff)
  then have "bit_length (nat n) - 53 = 0" using bit_length_le[of "nat n" 53] by simp
  then show ?thesis by (simp add: float64_def)
qed

lemma retryDelay_bound:
  "0 < retryDelay beyond jitter_of (NewService_delivery c) n"
  "retryDelay beyond jitter_of (NewService_delivery c) n \<le> MaxDelay (NewService_delivery c)"
  using NewService_delivery_bounds[of c] by (auto simp: retryDelay_def Let_def)

lemma capped_conversion:
  assumes "0 < p" "m < 2 ^ 63" "beyond \<le> 0 \<or> m \<le> beyond"
  shows "(if to_int64 beyond p \<le> 0 \<or> m < to_int64 beyond p then m else to_int64 beyond p) = min m p"
  using assms by (auto simp: to_int64_def min_def)

text \<open>
  C33. The retry delay is capped exponential backoff with jitter: for a base delay below \<open>2 ^ 53\<close>
  nanoseconds (104 days) it is the base delay doubled for each earlier attempt (at most 62 times), capped,
  plus the jitter for that delay, capped again. The detour over floating point loses nothing, and an
  overflow of the product is caught by the cap.
\<close>

theorem retryDelay_backoff:
  assumes "cfg = NewService_delivery config" and "BaseDelay cfg < 2 ^ 53" and "MaxDelay cfg < 2 ^ 63"
    and "beyond \<le> 0 \<or> MaxDelay cfg \<le> beyond" and "1 \<le> attempt" and "\<forall>d. 0 \<le> jitter_of d"
    and "d = min (MaxDelay cfg) (BaseDelay cfg * 2 ^ nat (min 62 (attempt - 1)))"
  shows "retryDelay beyond jitter_of cfg attempt = min (MaxDelay cfg) (d + jitter_of d)"
proof -
  let ?p = "BaseDelay cfg * 2 ^ nat (min 62 (attempt - 1))"
  have b: "0 < BaseDelay cfg" "BaseDelay cfg \<le> MaxDelay cfg" using NewService_delivery_bounds[of config] assms(1) by auto
  have f: "float64 (BaseDelay cfg) = BaseDelay cfg" using b(1) assms(2) by (intro float64_exact) auto
  have pos: "0 < ?p" using b(1) by simp
  have e: "(if attempt - 1 > 62 then 62 else attempt - 1) = min 62 (attempt - 1)" by simp
  note d = capped_conversion[OF pos assms(3,4), folded assms(7)]
  have j: "(if jitter_of d < 0 then 0 else jitter_of d) = jitter_of d" using assms(6) by (simp add: not_less)
  have "(if d > MaxDelay cfg - jitter_of d then MaxDelay cfg else d + jitter_of d) = min (MaxDelay cfg) (d + jitter_of d)"
    by (auto simp: min_def)
  then show ?thesis
    using assms(5) by (simp only: retryDelay_def Let_def f e d j not_less if_not_P)
qed

theorem retryDelay_backoff_witness:
  "retryDelay (- (2 ^ 63)) (\<lambda>_. 0) (NewService_delivery \<lparr>BatchSize = 0, BaseDelay = 0, MaxDelay = 0\<rparr>) 3 = 4 * Second"
  using retryDelay_backoff[of "NewService_delivery \<lparr>BatchSize = 0, BaseDelay = 0, MaxDelay = 0\<rparr>"
      "\<lparr>BatchSize = 0, BaseDelay = 0, MaxDelay = 0\<rparr>" "- (2 ^ 63)" 3 "\<lambda>_. 0" "4 * Second"]
  by (simp add: NewService_delivery_def Second_def Minute_def)

section \<open>One pass over the due messages\<close>

text \<open>
  \<open>deliver i\<close> is the i-th call of \<^verbatim>\<open>Transport.Deliver\<close> in the pass; it may write to the store. \<open>ctx i\<close> is what
  \<^verbatim>\<open>ctx.Err()\<close> gives before it and \<open>clk i\<close> the store's clock after it.
\<close>

type_synonym deliver_fun = "nat \<Rightarrow> OutboxMessage \<Rightarrow> store \<Rightarrow> (go_error, string, store) outcome"

record ProcessResult =
  Delivered :: int
  Retried :: int

record pass_env =
  ctx :: "nat \<Rightarrow> go_error option"
  pass_now :: gotime
  pass_clock :: "nat \<Rightarrow> gotime"
  pass_delay :: "int \<Rightarrow> duration"

definition receipt_for :: "gotime \<Rightarrow> string \<Rightarrow> OutboxMessage \<Rightarrow> DeliveryReceipt" where
  "receipt_for now remoteReceiptID message =
     \<lparr>drMessageID = omMessageID message, drTargetAgentID = omTargetAgentID message,
      drRemoteReceiptID = remoteReceiptID, drDeliveredAt = now\<rparr>"

fun process_each :: "deliver_fun \<Rightarrow> pass_env \<Rightarrow> nat \<Rightarrow> OutboxMessage list \<Rightarrow> ProcessResult \<Rightarrow> store \<Rightarrow>
    (ProcessResult \<times> go_error option) \<times> store" where
  "process_each deliver E i [] result s = ((result, None), s)"
| "process_each deliver E i (message # messages) result s =
     (case ctx E i of
        Some err \<Rightarrow> ((result, Some err), s)
      | None \<Rightarrow>
         (case deliver i message s of
            (Inl deliverErr, s1) \<Rightarrow>
              (let nextAttemptAt = pass_now E + pass_delay E (omAttemptCount message + 1)
               in case ScheduleOutboxRetry (pass_clock E i) (omMessageID message) nextAttemptAt s1 of
                    (Inl err, s2) \<Rightarrow> ((result, Some err), s2)
                  | (Inr _, s2) \<Rightarrow> process_each deliver E (Suc i) messages (result\<lparr>Retried := Retried result + 1\<rparr>) s2)
          | (Inr remoteReceiptID, s1) \<Rightarrow>
              (case MarkOutboxDelivered (receipt_for (pass_now E) remoteReceiptID message) s1 of
                 (Inl err, s2) \<Rightarrow> ((result, Some err), s2)
               | (Inr _, s2) \<Rightarrow> process_each deliver E (Suc i) messages (result\<lparr>Delivered := Delivered result + 1\<rparr>) s2)))"

definition ProcessDue ::
  "primitives \<Rightarrow> delivery_config \<Rightarrow> deliver_fun option \<Rightarrow> pass_env \<Rightarrow> store option \<Rightarrow>
     (ProcessResult \<times> go_error option) \<times> store option" where
  "ProcessDue P cfg transport E db =
     (let zero = \<lparr>Delivered = 0, Retried = 0\<rparr> in
      case db of None \<Rightarrow> ((zero, Some (ErrMsg ''delivery store is required'')), None)
      | Some s \<Rightarrow>
         (case transport of None \<Rightarrow> ((zero, Some (ErrMsg ''delivery transport is required'')), db)
          | Some deliver \<Rightarrow>
             (case ListDueOutbox P (pass_now E) (BatchSize cfg) s of
                Inl err \<Rightarrow> ((zero, Some err), db)
              | Inr messages \<Rightarrow> map_prod id Some (process_each deliver E 0 messages zero s))))"

text \<open>What a pass makes of the row of a message after one answer of the transport.\<close>

definition settled :: "pass_env \<Rightarrow> nat \<Rightarrow> (go_error + string) \<Rightarrow> OutboxMessage \<Rightarrow> OutboxMessage" where
  "settled E i answer m = (case answer of
     Inl _ \<Rightarrow> m\<lparr>omAttemptCount := omAttemptCount m + 1,
        omNextAttemptAt := trunc_ms (pass_now E + pass_delay E (omAttemptCount m + 1)),
        omUpdatedAt := trunc_ms (pass_clock E i)\<rparr>
   | Inr _ \<Rightarrow> m\<lparr>omState := OutboxStateDelivered, omUpdatedAt := trunc_ms (pass_now E)\<rparr>)"

definition settle :: "pass_env \<Rightarrow> nat \<Rightarrow> (go_error + string) \<Rightarrow> OutboxMessage \<Rightarrow> store \<Rightarrow> (go_error, unit, store) outcome" where
  \<comment> \<open>the write that follows the answer\<close>
  "settle E i answer m s = (case answer of
     Inl _ \<Rightarrow> ScheduleOutboxRetry (pass_clock E i) (omMessageID m) (pass_now E + pass_delay E (omAttemptCount m + 1)) s
   | Inr rid \<Rightarrow> MarkOutboxDelivered (receipt_for (pass_now E) rid m) s)"

definition counted :: "(go_error + string) \<Rightarrow> ProcessResult \<Rightarrow> ProcessResult" where
  "counted answer result = (case answer of Inl _ \<Rightarrow> result\<lparr>Retried := Retried result + 1\<rparr>
     | Inr _ \<Rightarrow> result\<lparr>Delivered := Delivered result + 1\<rparr>)"

lemma process_each_step:
  assumes "ctx E i = None" and "deliver i m s = (answer, s1)" and "settle E i answer m s1 = (Inr (), s2)"
  shows "process_each deliver E i (m # ms) result s = process_each deliver E (Suc i) ms (counted answer result) s2"
  using assms by (cases answer) (simp_all add: settle_def counted_def Let_def)

lemma ScheduleOutboxRetry_pending:
  assumes "wf_store s" and "by_key omMessageID i (outbox_messages s) = Some m" and "omState m = OutboxStatePending"
  shows "fst (ScheduleOutboxRetry now i t s) = Inr ()"
proof -
  have "unique_key omMessageID (outbox_messages s)" using assms(1) by (simp add: wf_store_def)
  from update_count_by_key[OF this, of i "\<lambda>m. omState m = OutboxStatePending"] assms(2,3)
  show ?thesis by (simp add: ScheduleOutboxRetry_def update_rows_def requireOneRow_def)
qed

lemma no_receipt:
  assumes "receipts_final s" and "by_key omMessageID i (outbox_messages s) = Some row" and "omState row = OutboxStatePending"
  shows "by_key receipt_key (i, b) (delivery_receipts s) = None"
proof (rule ccontr)
  assume "by_key receipt_key (i, b) (delivery_receipts s) \<noteq> None"
  then obtain d where "d \<in> set (delivery_receipts s)" "drMessageID d = i"
    by (auto simp: receipt_key_def dest: by_key_SomeD)
  with assms show False unfolding receipts_final_def by fastforce
qed

lemma settle_pending:
  assumes "wf_store s" and "receipts_final s" and "by_key omMessageID (omMessageID m) (outbox_messages s) = Some row"
    and "omTargetAgentID row = omTargetAgentID m" and "omAttemptCount row = omAttemptCount m"
    and "omState row = OutboxStatePending"
  shows "\<exists>t. settle E i answer m s = (Inr (), t) \<and> wf_store t \<and> receipts_final t \<and>
    (\<forall>j. by_key omMessageID j (outbox_messages t) =
       (if j = omMessageID m then Some (settled E i answer row) else by_key omMessageID j (outbox_messages s))) \<and>
    (\<forall>rid. answer = Inr rid \<longrightarrow> GetDeliveryReceipt (omMessageID m) (omTargetAgentID m) t =
       Inr (receipt_for (trunc_ms (pass_now E)) rid m)) \<and> store_le s t"
proof (cases answer)
  case (Inl e)
  let ?t = "snd (settle E i answer m s)"
  have "fst (settle E i answer m s) = Inr ()"
    using ScheduleOutboxRetry_pending[OF assms(1,3,6)] Inl by (simp add: settle_def)
  moreover have "?t = store_step P (OpScheduleOutboxRetry (pass_clock E i) (omMessageID m)
      (pass_now E + pass_delay E (omAttemptCount m + 1))) s" for P
    by (simp add: settle_def Inl)
  then have "wf_store ?t" "receipts_final ?t" "store_le s ?t"
    using wf_store_step[OF assms(1)] receipts_final_step[OF assms(1,2)] store_le_step by metis+
  moreover have "by_key omMessageID j (outbox_messages ?t) =
      (if j = omMessageID m then Some (settled E i answer row) else by_key omMessageID j (outbox_messages s))" for j
    using assms(3,5,6) by_key_SomeD[of omMessageID j "outbox_messages s"]
    by (cases "by_key omMessageID j (outbox_messages s)") (auto simp: Inl settle_def settled_def state_eqs by_key_update)
  ultimately show ?thesis using Inl by (metis prod.collapse sum.distinct(1))
next
  case (Inr rid)
  let ?r = "receipt_for (pass_now E) rid m" and ?t = "snd (settle E i answer m s)"
  note mark = MarkOutboxDelivered_pending[OF assms(1), of ?r row]
  have st: "settle E i answer m s = (Inr (), ?t)" "?t = snd (MarkOutboxDelivered ?r s)"
    using mark assms by (simp_all add: settle_def Inr receipt_for_def)
  then have "wf_store ?t" "receipts_final ?t" "store_le s ?t"
    using wf_MarkOutboxDelivered[OF assms(1)] receipts_final_Mark[OF assms(1,2)] le_MarkOutboxDelivered by simp_all
  moreover have "by_key omMessageID j (outbox_messages ?t) =
      (if j = omMessageID m then Some (settled E i answer row) else by_key omMessageID j (outbox_messages s))" for j
    using assms(3,4,6) mark by_key_SomeD[of omMessageID j "outbox_messages s"] unfolding st(2)
    by (cases "by_key omMessageID j (outbox_messages s)")
      (auto simp: Inr settled_def by_key_update receipt_for_def)
  moreover note no_receipt[OF assms(2,3,6), of "omTargetAgentID m"]
  then have "GetDeliveryReceipt (omMessageID m) (omTargetAgentID m) ?t = Inr (receipt_for (trunc_ms (pass_now E)) rid m)"
    using mark assms unfolding st(2)
    by (auto simp: GetDeliveryReceipt_def insert_ignore_eq by_key_append receipt_key_def receipt_for_def)
  ultimately show ?thesis using st(1) Inr by (metis sum.inject(2))
qed

text \<open>A message of the listing and the row it was read from.\<close>

definition listed_row :: "store \<Rightarrow> OutboxMessage \<Rightarrow> OutboxMessage \<Rightarrow> bool" where
  "listed_row s m row = (by_key omMessageID (omMessageID m) (outbox_messages s) = Some row \<and>
     omTargetAgentID row = omTargetAgentID m \<and> omAttemptCount row = omAttemptCount m \<and> omState row = OutboxStatePending)"

definition settled_in :: "pass_env \<Rightarrow> nat \<Rightarrow> (go_error + string) \<Rightarrow> OutboxMessage \<Rightarrow> OutboxMessage \<Rightarrow> store \<Rightarrow> bool" where
  "settled_in E k answer m row t =
     (by_key omMessageID (omMessageID m) (outbox_messages t) = Some (settled E k answer row) \<and>
      (\<forall>rid. answer = Inr rid \<longrightarrow> GetDeliveryReceipt (omMessageID m) (omTargetAgentID m) t =
         Inr (receipt_for (trunc_ms (pass_now E)) rid m)))"

definition delivered_count :: "(nat \<Rightarrow> OutboxMessage \<Rightarrow> go_error + string) \<Rightarrow> nat \<Rightarrow> OutboxMessage list \<Rightarrow> int" where
  "delivered_count answer i ms = int (length (filter (\<lambda>(k, m). ok (answer k m)) (enumerate i ms)))"

lemma process_each_settles:
  assumes "wf_store s" and "receipts_final s" and "\<forall>k. ctx E k = None" and "distinct (map omMessageID ms)"
    and "list_all2 (listed_row s) ms rows"
  shows "\<exists>res t. process_each (\<lambda>k m s. (answer k m, s)) E i ms result s = ((res, None), t) \<and>
    Delivered res = Delivered result + delivered_count answer i ms \<and>
    Delivered res + Retried res = Delivered result + Retried result + int (length ms) \<and>
    (\<forall>k<length ms. settled_in E (i + k) (answer (i + k) (ms ! k)) (ms ! k) (rows ! k) t) \<and>
    (\<forall>j. j \<notin> omMessageID ` set ms \<longrightarrow> by_key omMessageID j (outbox_messages t) = by_key omMessageID j (outbox_messages s)) \<and>
    store_le s t"
  using assms
proof (induction ms arbitrary: i rows result s)
  case Nil
  then show ?case by (auto simp: delivered_count_def store_le_refl)
next
  case (Cons m ms)
  obtain row rows' where rows: "rows = row # rows'" "listed_row s m row" "list_all2 (listed_row s) ms rows'"
    using Cons.prems(5) by (auto simp: list_all2_Cons1)
  obtain s2 where s2: "settle E i (answer i m) m s = (Inr (), s2)" "wf_store s2" "receipts_final s2" "store_le s s2"
    "\<And>j. by_key omMessageID j (outbox_messages s2) =
       (if j = omMessageID m then Some (settled E i (answer i m) row) else by_key omMessageID j (outbox_messages s))"
    "\<And>rid. answer i m = Inr rid \<Longrightarrow> GetDeliveryReceipt (omMessageID m) (omTargetAgentID m) s2 =
       Inr (receipt_for (trunc_ms (pass_now E)) rid m)"
    using settle_pending[OF Cons.prems(1,2), of m row E i "answer i m"] rows(2) unfolding listed_row_def by blast
  have later: "list_all2 (listed_row s2) ms rows'"
    using rows(3) by (rule list.rel_mono_strong) (use Cons.prems(4) s2(5) in \<open>auto simp: listed_row_def rev_image_eqI\<close>)
  obtain res t where t: "process_each (\<lambda>k m s. (answer k m, s)) E (Suc i) ms (counted (answer i m) result) s2 = ((res, None), t)"
    "Delivered res = Delivered (counted (answer i m) result) + delivered_count answer (Suc i) ms"
    "Delivered res + Retried res = Delivered (counted (answer i m) result) + Retried (counted (answer i m) result) + int (length ms)"
    "\<forall>k<length ms. settled_in E (Suc i + k) (answer (Suc i + k) (ms ! k)) (ms ! k) (rows' ! k) t"
    "\<forall>j. j \<notin> omMessageID ` set ms \<longrightarrow> by_key omMessageID j (outbox_messages t) = by_key omMessageID j (outbox_messages s2)"
    "store_le s2 t"
    using Cons.IH[OF s2(2,3) Cons.prems(3) _ later, of "Suc i" "counted (answer i m) result"] Cons.prems(4) by auto
  have head: "settled_in E i (answer i m) m row t"
    using t(5) s2(5,6) Cons.prems(4) store_le_final(4)[OF t(6)] by (auto simp: settled_in_def)
  have settled: "settled_in E (i + k) (answer (i + k) ((m # ms) ! k)) ((m # ms) ! k) (rows ! k) t" if "k < length (m # ms)" for k
    using that head t(4) unfolding rows(1) by (cases k) auto
  have run: "process_each (\<lambda>k m s. (answer k m, s)) E i (m # ms) result s = ((res, None), t)"
    using process_each_step[of E i "\<lambda>k m s. (answer k m, s)" m s "answer i m" s s2 ms result] Cons.prems(3) s2(1) t(1) by simp
  have count: "Delivered res = Delivered result + delivered_count answer i (m # ms)"
    "Delivered res + Retried res = Delivered result + Retried result + int (length (m # ms))"
    using t(2,3) by (auto simp: counted_def delivered_count_def split: sum.splits)
  show ?case
    using run count settled t(5) s2(5) store_le_trans[OF s2(4) t(6)] by (intro exI[of _ res] exI[of _ t]) auto
qed

lemma restoreOutbox_fields:
  "restoreOutbox P row s = Inr m \<Longrightarrow> omMessageID m = omMessageID row \<and> omTargetAgentID m = omTargetAgentID row \<and>
     omAttemptCount m = omAttemptCount row"
  by (auto simp: restoreOutbox_def split: option.splits sum.splits)

lemma due_rows_distinct: 
  assumes "wf_store s"
  shows "distinct (map omMessageID (due_rows now limit s))"
proof -
  have "distinct (map omMessageID (outbox_messages s))" using assms by (simp add: wf_store_def unique_key_def)
  then have "distinct (map omMessageID (sort_key due_order (filter (is_due now) (outbox_messages s))))"
    by (auto simp: distinct_map inj_on_def)
  then show ?thesis by (simp add: due_rows_eq flip: take_map)
qed

lemma ListDueOutbox_listed:
  assumes "wf_store s" and "ListDueOutbox P now limit s = Inr ms"
  shows "list_all2 (listed_row s) ms (due_rows now limit s)" "map omMessageID ms = map omMessageID (due_rows now limit s)"
proof -
  have "list_all2 (\<lambda>row m. restoreOutbox P row s = Inr m) (due_rows now limit s) ms"
    using assms(2) by (simp add: ListDueOutbox_def restore_each_eq)
  then have nth: "length ms = length (due_rows now limit s)"
    "\<And>k. k < length ms \<Longrightarrow> restoreOutbox P (due_rows now limit s ! k) s = Inr (ms ! k)"
    by (auto simp: list_all2_conv_all_nth)
  then show "map omMessageID ms = map omMessageID (due_rows now limit s)"
    by (metis (mono_tags, lifting) length_map nth_equalityI nth_map restoreOutbox_fields)
  have row: "r \<in> set (due_rows now limit s) \<Longrightarrow> by_key omMessageID (omMessageID r) (outbox_messages s) = Some r \<and>
      omState r = OutboxStatePending" for r
    using assms(1) by (auto simp: due_rows_eq is_due_def wf_store_def dest!: in_set_takeD intro: by_key_unique)
  show "list_all2 (listed_row s) ms (due_rows now limit s)"
    unfolding list_all2_conv_all_nth
  proof (intro conjI allI impI)
    fix k
    assume "k < length ms"
    then show "listed_row s (ms ! k) (due_rows now limit s ! k)"
      using nth(1) row[of "due_rows now limit s ! k"] restoreOutbox_fields[OF nth(2)] by (simp add: listed_row_def)
  qed (rule nth(1))
qed


definition demo_pass :: pass_env where
  "demo_pass = \<lparr>ctx = (\<lambda>_. None), pass_now = 9000000, pass_clock = (\<lambda>_. 9000000),
     pass_delay = retryDelay 0 (\<lambda>_. 0) (NewService_delivery \<lparr>BatchSize = 0, BaseDelay = 0, MaxDelay = 0\<rparr>)\<rparr>"


section \<open>The A2A transport\<close>

text \<open>
  The A2A client is a parameter: \<open>a2a_request\<close> decodes the stored payload and \<open>a2a_send\<close> sends the
  request to an endpoint, signed by an identity for a target agent, and, when a public key is given,
  accepts only answers signed with it by the target within the skew.
\<close>

datatype a2a_result = A2ATask string | A2AMessage string | A2AOther

record 'req a2a_client =
  a2a_request :: "bytes \<Rightarrow> 'req option"
  a2a_send :: "string \<Rightarrow> Identity \<Rightarrow> string \<Rightarrow> (bytes \<times> duration) option \<Rightarrow> 'req \<Rightarrow> go_error + a2a_result"

definition deliverA2A ::
  "netlib \<Rightarrow> 'req a2a_client \<Rightarrow> OutboxMessage \<Rightarrow> string option \<Rightarrow> Identity \<Rightarrow> bytes option \<Rightarrow> go_error + string" where
  \<comment> \<open>the endpoint is the parsed URL; a nil pointer is None\<close>
  "deliverA2A N client message endpoint signer remotePublicKey =
     (case endpoint of
        None \<Rightarrow> Inl (ErrMsg ''invalid target endpoint'')
      | Some url \<Rightarrow>
         (case url_SchemeHost N url of None \<Rightarrow> Inl (ErrMsg ''invalid target endpoint'')
          | Some (scheme, host) \<Rightarrow>
             if scheme = [] \<or> host = [] then Inl (ErrMsg ''invalid target endpoint'')
             else (case a2a_request client (omPayload message) of
                     None \<Rightarrow> Inl (ErrMsg ''decode outbox A2A request'')
                   | Some request \<Rightarrow>
                      (let verifier = (case remotePublicKey of
                             None \<Rightarrow> None
                           | Some key \<Rightarrow> if length key = PublicKeySize then Some (key, 5 * Minute) else None)
                       in case a2a_send client url signer (omTargetAgentID message) verifier request of
                            Inl err \<Rightarrow> Inl err
                          | Inr (A2ATask i) \<Rightarrow> Inr i
                          | Inr (A2AMessage i) \<Rightarrow> Inr i
                          | Inr A2AOther \<Rightarrow> Inl (ErrMsg ''A2A response did not contain a task or message'')))))"

definition NewA2ATransport :: "netlib \<Rightarrow> (string \<times> string) list \<Rightarrow> go_error + (string \<times> string) list" where
  \<comment> \<open>the endpoint map as an association list with distinct keys\<close>
  "NewA2ATransport N endpoints =
     (if \<exists>(agentID, raw)\<in>set endpoints. (case url_SchemeHost N raw of None \<Rightarrow> True
           | Some (scheme, host) \<Rightarrow> scheme = [] \<or> host = [])
      then Inl (ErrMsg ''parse endpoint'') else Inr endpoints)"

definition A2ATransport_Deliver ::
  "netlib \<Rightarrow> 'req a2a_client \<Rightarrow> (string \<times> string) list \<Rightarrow> (string \<rightharpoonup> Identity) \<Rightarrow> OutboxMessage \<Rightarrow> go_error + string" where
  "A2ATransport_Deliver N client endpoints identities message =
     (case map_of endpoints (omTargetAgentID message) of
        None \<Rightarrow> Inl (ErrMsg ''target endpoint is not configured'')
      | Some endpoint \<Rightarrow>
         (case identities (omSourceAgentID message) of
            None \<Rightarrow> Inl (ErrMsg ''source identity is not configured'')
          | Some signer \<Rightarrow> deliverA2A N client message (Some endpoint) signer None))"

record dynamic_transport =
  GetIdentity :: "string \<Rightarrow> go_error + Identity"
  requireRemoteNodeID :: bool
  readinessCheck :: "go_error option option"  \<comment> \<open>None: no check; Some r: what the check returns\<close>
  taskStore :: bool                           \<comment> \<open>SetTaskStore was called with the store\<close>

definition NewDynamicA2ATransport :: "(string \<Rightarrow> go_error + Identity) \<Rightarrow> dynamic_transport" where
  \<comment> \<open>with non-nil providers\<close>
  "NewDynamicA2ATransport ids = \<lparr>GetIdentity = ids, requireRemoteNodeID = False, readinessCheck = None, taskStore = False\<rparr>"

definition SetTaskStore :: "dynamic_transport \<Rightarrow> dynamic_transport" where
  "SetTaskStore tr = tr\<lparr>taskStore := True\<rparr>"

definition SetRequireRemoteNodeID :: "bool \<Rightarrow> dynamic_transport \<Rightarrow> dynamic_transport" where
  "SetRequireRemoteNodeID required tr = tr\<lparr>requireRemoteNodeID := required\<rparr>"

definition SetReadinessCheck :: "go_error option \<Rightarrow> dynamic_transport \<Rightarrow> dynamic_transport" where
  "SetReadinessCheck check tr = tr\<lparr>readinessCheck := Some check\<rparr>"

definition deliver_gate :: "netlib \<Rightarrow> dynamic_transport \<Rightarrow> OutboxMessage \<Rightarrow> store \<Rightarrow> go_error + (Contact \<times> Identity)" where
  \<comment> \<open>the checks of Deliver before anything is sent\<close>
  "deliver_gate N tr message s =
     (case readinessCheck tr of
        Some (Some err) \<Rightarrow> Inl err
      | _ \<Rightarrow>
         (case GetContact (omSourceAgentID message) (omTargetAgentID message) s of
            Inl err \<Rightarrow> Inl err
          | Inr contact \<Rightarrow>
             if cState contact \<noteq> ContactStateActive then Inl (ErrMsg ''target contact is not active'')
             else if requireRemoteNodeID tr \<and> TrimSpace (cRemoteNodeID contact) = []
             then Inl (ErrMsg ''target contact Tailscale node identity is unavailable'')
             else if cRemoteEndpoint contact = [] then Inl (ErrMsg ''target endpoint is not configured'')
             else (case GetIdentity tr (omSourceAgentID message) of
                     Inl err \<Rightarrow> Inl err
                   | Inr signer \<Rightarrow>
                       if url_SchemeHost N (cRemoteEndpoint contact) = None then Inl (ErrMsg ''parse target endpoint'')
                       else Inr (contact, signer))))"

definition Dynamic_Deliver ::
  "netlib \<Rightarrow> 'req a2a_client \<Rightarrow> dynamic_transport \<Rightarrow> clock \<Rightarrow> OutboxMessage \<Rightarrow> store \<Rightarrow> (go_error, string, store) outcome" where
  \<comment> \<open>the store implements PairingSessionProvider, so the session is always looked up\<close>
  "Dynamic_Deliver N client tr c message s =
     (case deliver_gate N tr message s of
        Inl err \<Rightarrow> (Inl err, s)
      | Inr (contact, signer) \<Rightarrow>
         (let remotePublicKey = (case FindPairingSession (omSourceAgentID message) (omTargetAgentID message) s of
                Inl _ \<Rightarrow> None
              | Inr session \<Rightarrow> if length (psRemoteAgentPublicKey session) = PublicKeySize
                              then Some (psRemoteAgentPublicKey session) else None)
          in case deliverA2A N client message (Some (cRemoteEndpoint contact)) signer remotePublicKey of
               Inl err \<Rightarrow> (Inl err, s)
             | Inr result \<Rightarrow>
                 (Inr result,
                  if taskStore tr
                  then snd (UpsertTaskIndex (c 1) \<lparr>tiTaskID = result, tiContextID = omContextID message,
                         tiLocalAgentID = omSourceAgentID message, tiRemoteAgentID = omTargetAgentID message,
                         tiState = ''working'', tiCursor = [], tiUpdatedAt = c 0\<rparr> s)
                  else s)))"

definition session_key_pin :: "OutboxMessage \<Rightarrow> store \<Rightarrow> (bytes \<times> duration) option" where
  \<comment> \<open>the key that answers must be signed with: that of the latest pairing session with the target\<close>
  "session_key_pin message s = (case FindPairingSession (omSourceAgentID message) (omTargetAgentID message) s of
     Inl _ \<Rightarrow> None
   | Inr session \<Rightarrow> if length (psRemoteAgentPublicKey session) = PublicKeySize
                   then Some (psRemoteAgentPublicKey session, 5 * Minute) else None)"

lemma deliver_gate_ok:
  "deliver_gate N tr m s = Inr (contact, signer) \<longleftrightarrow>
     (\<forall>err. readinessCheck tr \<noteq> Some (Some err)) \<and>
     GetContact (omSourceAgentID m) (omTargetAgentID m) s = Inr contact \<and> cState contact = ContactStateActive \<and>
     (requireRemoteNodeID tr \<longrightarrow> TrimSpace (cRemoteNodeID contact) \<noteq> []) \<and> cRemoteEndpoint contact \<noteq> [] \<and>
     GetIdentity tr (omSourceAgentID m) = Inr signer \<and> url_SchemeHost N (cRemoteEndpoint contact) \<noteq> None"
  by (cases "readinessCheck tr"; cases "the (readinessCheck tr)")
    (auto simp: deliver_gate_def split: sum.splits)

lemma deliverA2A_ok:
  "deliverA2A N client m (Some url) signer key = Inr rid \<longleftrightarrow>
     (\<exists>scheme host request. url_SchemeHost N url = Some (scheme, host) \<and> scheme \<noteq> [] \<and> host \<noteq> [] \<and>
        a2a_request client (omPayload m) = Some request \<and>
        a2a_send client url signer (omTargetAgentID m)
          (case key of None \<Rightarrow> None | Some k \<Rightarrow> if length k = PublicKeySize then Some (k, 5 * Minute) else None) request
          \<in> {Inr (A2ATask rid), Inr (A2AMessage rid)})"
  by (auto simp: deliverA2A_def Let_def split: option.splits sum.splits a2a_result.splits if_splits)


definition demo_client :: "string a2a_client" where
  "demo_client = \<lparr>a2a_request = (\<lambda>p. Some p), a2a_send = (\<lambda>url signer target pin request. Inr (A2ATask request))\<rparr>"

definition demo_net :: netlib where
  "demo_net = \<lparr>url_SchemeHost = (\<lambda>u. Some (''https'', u)), net_ParseIP = (\<lambda>_. False)\<rparr>"

definition demo_endpoint_store :: "ContactState \<Rightarrow> store" where
  "demo_endpoint_store st = (empty_store None)\<lparr>contacts := [(demo_contact st)\<lparr>cRemoteEndpoint := ''bob:7443''\<rparr>]\<rparr>"

lemma GetContact_demo_endpoint: "GetContact ''alice'' ''bob'' (demo_endpoint_store st) = Inr ((demo_contact st)\<lparr>cRemoteEndpoint := ''bob:7443''\<rparr>)"
  by (simp add: demo_endpoint_store_def GetContact_def contact_key_def demo_contact_def)


interpretation deliver_active: active_gate
  "\<lambda>m s. ok (fst (Dynamic_Deliver N client tr c m s))" "\<lambda>m. (omSourceAgentID m, omTargetAgentID m)" for N client tr c
proof unfold_locales
  fix m s a b
  assume "ok (fst (Dynamic_Deliver N client tr c m s))" and "(omSourceAgentID m, omTargetAgentID m) = (a, b)"
  then obtain contact signer where "deliver_gate N tr m s = Inr (contact, signer)"
    by (cases "deliver_gate N tr m s") (auto simp: Dynamic_Deliver_def)
  with \<open>(omSourceAgentID m, omTargetAgentID m) = (a, b)\<close> show "contact_state a b s = ContactStateActive"
    unfolding deliver_gate_ok by (simp add: contact_state_def)
qed

end
