(* ===== verification/GoText.thy ===== *)
theory GoText
  imports GoNet
begin

text \<open>
  Text functions of the Go library used on signed headers: UTF-8 (\<open>unicode/utf8\<close>), quoting and integers
  (\<open>strconv\<close>), splitting (\<open>strings\<close>). Whether a code point beyond ASCII is printable
  (\<open>strconv.IsPrint\<close>, a table) is an argument of quoting.
\<close>

section \<open>UTF-8\<close>

definition RuneError :: nat where "RuneError = 0xFFFD"

definition ValidRune :: "nat \<Rightarrow> bool" where
  "ValidRune r = (r < 0xD800 \<or> (0xDFFF < r \<and> r \<le> 0x10FFFF))"

definition is_cont :: "char \<Rightarrow> bool" where "is_cont c = (0x80 \<le> byte c \<and> byte c \<le> 0xBF)"

fun DecodeRune :: "string \<Rightarrow> nat \<times> nat" where
  \<comment> \<open>code point and width; an invalid sequence gives RuneError of width 1\<close>
  "DecodeRune [] = (RuneError, 0)"
| "DecodeRune (c # s) =
     (let a = byte c; bad = (RuneError, 1) in
      if a < 0x80 then (a, 1)
      else if 0xC2 \<le> a \<and> a \<le> 0xDF then
        (case s of c1 # _ \<Rightarrow> if is_cont c1 then ((a mod 32) * 64 + byte c1 mod 64, 2) else bad | _ \<Rightarrow> bad)
      else if 0xE0 \<le> a \<and> a \<le> 0xEF then
        (case s of c1 # c2 # _ \<Rightarrow>
           if is_cont c1 \<and> is_cont c2 \<and> (a = 0xE0 \<longrightarrow> 0xA0 \<le> byte c1) \<and> (a = 0xED \<longrightarrow> byte c1 \<le> 0x9F)
           then ((a mod 16) * 4096 + (byte c1 mod 64) * 64 + byte c2 mod 64, 3) else bad | _ \<Rightarrow> bad)
      else if 0xF0 \<le> a \<and> a \<le> 0xF4 then
        (case s of c1 # c2 # c3 # _ \<Rightarrow>
           if is_cont c1 \<and> is_cont c2 \<and> is_cont c3 \<and> (a = 0xF0 \<longrightarrow> 0x90 \<le> byte c1) \<and> (a = 0xF4 \<longrightarrow> byte c1 \<le> 0x8F)
           then ((a mod 8) * 262144 + (byte c1 mod 64) * 4096 + (byte c2 mod 64) * 64 + byte c3 mod 64, 4) else bad
         | _ \<Rightarrow> bad)
      else bad)"

fun EncodeRune :: "nat \<Rightarrow> string" where
  "EncodeRune r =
     (let r = (if ValidRune r then r else RuneError) in
      if r < 0x80 then [unbyte r]
      else if r < 0x800 then [unbyte (0xC0 + r div 64), unbyte (0x80 + r mod 64)]
      else if r < 0x10000 then [unbyte (0xE0 + r div 4096), unbyte (0x80 + r div 64 mod 64), unbyte (0x80 + r mod 64)]
      else [unbyte (0xF0 + r div 262144), unbyte (0x80 + r div 4096 mod 64), unbyte (0x80 + r div 64 mod 64),
            unbyte (0x80 + r mod 64)])"

declare EncodeRune.simps [simp del] DecodeRune.simps [simp del]

lemma DecodeRune_width: "s \<noteq> [] \<Longrightarrow> 0 < snd (DecodeRune s)"
  by (cases s) (auto simp: DecodeRune.simps Let_def split: list.splits)

lemma DecodeRune_ascii: "byte c < 0x80 \<Longrightarrow> DecodeRune (c # s) = (byte c, 1)"
  by (simp add: DecodeRune.simps)

section \<open>Quoting\<close>

definition escape_char :: "char \<Rightarrow> char option" where
  \<comment> \<open>the letter after the backslash and the byte it stands for\<close>
  "escape_char c = map_of
     [(CHR ''a'', CHR 0x07), (CHR ''b'', CHR 0x08), (CHR ''f'', CHR 0x0C), (CHR ''n'', CHR 0x0A),
      (CHR ''r'', CHR 0x0D), (CHR ''t'', CHR 0x09), (CHR ''v'', CHR 0x0B)] c"

fun hex_number :: "string \<Rightarrow> nat option" where
  "hex_number s = map_option (\<lambda>ds. foldl (\<lambda>n d. 16 * n + d) 0 ds) (all_some (map hex_value s))"

definition octal_digit :: "char \<Rightarrow> bool" where "octal_digit c = (48 \<le> byte c \<and> byte c \<le> 55)"

fun UnquoteChar :: "char \<Rightarrow> string \<Rightarrow> (nat \<times> bool \<times> string) option" where
  \<comment> \<open>value, whether it is a code point to encode, the rest\<close>
  "UnquoteChar q [] = None"
| "UnquoteChar q (c # s) =
     (if c = q \<and> (q = CHR 0x27 \<or> q = CHR 0x22) then None
      else if 0x80 \<le> byte c then (let (r, n) = DecodeRune (c # s) in Some (r, True, drop n (c # s)))
      else if c \<noteq> CHR 0x5C then Some (byte c, False, s)
      else case s of
        [] \<Rightarrow> None
      | e # t \<Rightarrow>
          (case escape_char e of
             Some b \<Rightarrow> Some (byte b, False, t)
           | None \<Rightarrow>
              if e \<in> {CHR ''x'', CHR ''u'', CHR ''U''} then
                (let n = (if e = CHR ''x'' then 2 else if e = CHR ''u'' then 4 else 8) in
                 if length t < n then None
                 else (case hex_number (take n t) of None \<Rightarrow> None
                       | Some v \<Rightarrow> if e = CHR ''x'' then Some (v, False, drop n t)
                                   else if \<not> ValidRune v then None else Some (v, True, drop n t)))
              else if octal_digit e then
                (if length t < 2 \<or> \<not> list_all octal_digit (take 2 t) then None
                 else (let v = (byte e - 48) * 64 + (byte (t ! 0) - 48) * 8 + (byte (t ! 1) - 48)
                       in if 255 < v then None else Some (v, False, drop 2 t)))
              else if e = CHR 0x5C then Some (0x5C, False, t)
              else if e = CHR 0x27 \<or> e = CHR 0x22 then (if e \<noteq> q then None else Some (byte e, False, t))
              else None))"

declare UnquoteChar.simps [simp del]

lemma UnquoteChar_shorter: "UnquoteChar q s = Some (v, m, t) \<Longrightarrow> length t < length s"
proof (cases s)
  case (Cons c s')
  assume "UnquoteChar q s = Some (v, m, t)"
  then show ?thesis
    using DecodeRune_width[of s] Cons
    by (auto simp: UnquoteChar.simps Let_def split: if_splits option.splits list.splits prod.splits)
qed (simp add: UnquoteChar.simps)

function unquote_loop :: "char \<Rightarrow> string \<Rightarrow> string \<Rightarrow> string option" where
  \<comment> \<open>the text after the opening quote; the closing quote must end it\<close>
  "unquote_loop q buf s =
     (case s of
        [] \<Rightarrow> None
      | c # rest \<Rightarrow>
          if c = q then (if rest = [] then Some buf else None)
          else if c = CHR 0x0A then None
          else (case UnquoteChar q s of
                  None \<Rightarrow> None
                | Some (r, multibyte, rem) \<Rightarrow>
                    let buf = buf @ (if r < 0x80 \<or> \<not> multibyte then [unbyte r] else EncodeRune r)
                    in if q = CHR 0x27 then (if rem = [q] then Some buf else None)
                       else unquote_loop q buf rem))"
  by pat_completeness auto
termination
  by (relation "measure (\<lambda>(q, buf, s). length s)") (auto dest: UnquoteChar_shorter)

declare unquote_loop.simps [simp del]

definition Unquote :: "string \<Rightarrow> string option" where
  "Unquote s =
     (case s of
        [] \<Rightarrow> None
      | q # body \<Rightarrow>
          if body = [] then None
          else if q = CHR 0x60 then
            (if last body = q \<and> q \<notin> set (butlast body) then Some (filter (\<lambda>c. c \<noteq> CHR 0x0D) (butlast body)) else None)
          else if q = CHR 0x22 \<or> q = CHR 0x27 then unquote_loop q [] body
          else None)"

definition hex_pad :: "nat \<Rightarrow> nat \<Rightarrow> string" where
  \<comment> \<open>the low digits of a number, most significant first\<close>
  "hex_pad k n = map (\<lambda>i. hex_digits ! (n div 16 ^ i mod 16)) (rev [0..<k])"

definition quote_rune :: "(nat \<Rightarrow> bool) \<Rightarrow> nat \<Rightarrow> string" where
  "quote_rune is_print r =
     (if r = 0x22 \<or> r = 0x5C then [CHR 0x5C, unbyte r]
      else if (0x20 \<le> r \<and> r < 0x7F) \<or> (0x80 \<le> r \<and> is_print r) then EncodeRune r
      else case map_of [(0x07, CHR ''a''), (0x08, CHR ''b''), (0x0C, CHR ''f''), (0x0A, CHR ''n''),
                  (0x0D, CHR ''r''), (0x09, CHR ''t''), (0x0B, CHR ''v'')] r of
             Some c \<Rightarrow> [CHR 0x5C, c]
           | None \<Rightarrow>
               if r < 0x20 \<or> r = 0x7F then [CHR 0x5C, CHR ''x''] @ hex_pad 2 r
               else if r < 0x10000 then [CHR 0x5C, CHR ''u''] @ hex_pad 4 r
               else [CHR 0x5C, CHR ''U''] @ hex_pad 8 r)"

function quote_body :: "(nat \<Rightarrow> bool) \<Rightarrow> string \<Rightarrow> string" where
  "quote_body is_print s =
     (case s of
        [] \<Rightarrow> []
      | c # _ \<Rightarrow>
          (let (r, n) = DecodeRune s
           in (if n = 1 \<and> r = RuneError then [CHR 0x5C, CHR ''x''] @ hex_pad 2 (byte c) else quote_rune is_print r) @
              quote_body is_print (drop n s)))"
  by pat_completeness auto
termination
proof (relation "measure (\<lambda>(p, s). length s)", goal_cases)
  case (2 p s c t x r n)
  then have "0 < n" using DecodeRune_width[of s] by (metis list.distinct(1) snd_conv)
  with 2 show ?case by auto
qed auto

declare quote_body.simps [simp del]

definition Quote :: "(nat \<Rightarrow> bool) \<Rightarrow> string \<Rightarrow> string" where
  "Quote is_print s = [CHR 0x22] @ quote_body is_print s @ [CHR 0x22]"

text \<open>Text that quoting leaves alone: printable ASCII without the quote and the backslash.\<close>

definition plain_char :: "char \<Rightarrow> bool" where
  "plain_char c = (0x20 \<le> byte c \<and> byte c < 0x7F \<and> c \<noteq> CHR 0x22 \<and> c \<noteq> CHR 0x5C)"

lemma byte_eq_iff: "byte c = byte d \<longleftrightarrow> c = d"
  by (metis unbyte_byte)

lemma quote_body_plain: "list_all plain_char s \<Longrightarrow> quote_body p s = s"
proof (induction s)
  case (Cons c s)
  then have c: "0x20 \<le> byte c" "byte c < 0x7F" "byte c \<noteq> byte (CHR 0x22)" "byte c \<noteq> byte (CHR 0x5C)"
    by (auto simp: plain_char_def byte_eq_iff)
  moreover have "byte (CHR 0x22) = 0x22" "byte (CHR 0x5C) = 0x5C" by (simp_all add: byte_def)
  ultimately have "quote_rune p (byte c) = [c]"
    by (simp add: quote_rune_def EncodeRune.simps ValidRune_def)
  with c Cons show ?case
    by (subst quote_body.simps) (simp add: DecodeRune_ascii RuneError_def)
qed (simp add: quote_body.simps)

lemma Quote_plain: "list_all plain_char s \<Longrightarrow> Quote p s = [CHR 0x22] @ s @ [CHR 0x22]"
  by (simp add: Quote_def quote_body_plain)

lemma unquote_loop_plain: "list_all plain_char s \<Longrightarrow> unquote_loop (CHR 0x22) buf (s @ [CHR 0x22]) = Some (buf @ s)"
proof (induction s arbitrary: buf)
  case Nil
  show ?case by (subst unquote_loop.simps) simp
next
  case (Cons c s)
  then have c: "byte c < 0x7F" "c \<noteq> CHR 0x22" "c \<noteq> CHR 0x5C" "c \<noteq> CHR 0x0A"
    by (auto simp: plain_char_def byte_def)
  then have "UnquoteChar (CHR 0x22) (c # s @ [CHR 0x22]) = Some (byte c, False, s @ [CHR 0x22])"
    by (simp add: UnquoteChar.simps)
  with c Cons show ?case by (subst unquote_loop.simps) simp
qed

lemma Unquote_Quote_plain: "list_all plain_char s \<Longrightarrow> Unquote (Quote p s) = Some s"
  using unquote_loop_plain[of s "[]"] by (simp add: Quote_plain Unquote_def)

section \<open>Splitting\<close>

function fields_loop :: "string \<Rightarrow> string \<Rightarrow> string list" where
  \<comment> \<open>\<^verbatim>\<open>strings.Fields\<close>: the current field and the rest\<close>
  "fields_loop field s =
     (let flush = (if field = [] then [] else [field]) in
      case s of
        [] \<Rightarrow> flush
      | c # rest \<Rightarrow>
          (case strip_one space_seqs s of
             Some t \<Rightarrow> flush @ fields_loop [] t
           | None \<Rightarrow> fields_loop (field @ [c]) rest))"
  by pat_completeness auto
termination
  by (relation "measure (\<lambda>(f, s). length s)") (auto dest: strip_one_shorter)

declare fields_loop.simps [simp del]

definition Fields :: "string \<Rightarrow> string list" where "Fields s = fields_loop [] s"

fun Split :: "char \<Rightarrow> string \<Rightarrow> string list" where
  "Split sep [] = [[]]"
| "Split sep (c # s) =
     (if c = sep then [] # Split sep s
      else (case Split sep s of [] \<Rightarrow> [[c]] | w # ws \<Rightarrow> (c # w) # ws))"

definition SplitN2 :: "char \<Rightarrow> string \<Rightarrow> string list" where
  \<comment> \<open>\<^verbatim>\<open>strings.SplitN(s, sep, 2)\<close>\<close>
  "SplitN2 sep s = (let w = takeWhile (\<lambda>c. c \<noteq> sep) s in if w = s then [s] else [w, drop (Suc (length w)) s])"

definition Join :: "string \<Rightarrow> string list \<Rightarrow> string" where
  "Join sep ws = (case ws of [] \<Rightarrow> [] | w # ws \<Rightarrow> w @ concat (map (\<lambda>v. sep @ v) ws))"

lemma Split_nonempty: "Split sep s \<noteq> []"
  by (induction s) (auto split: list.splits)

lemma Split_plain: "sep \<notin> set s \<Longrightarrow> Split sep s = [s]"
  by (induction s) auto

lemma Split_append: "sep \<notin> set w \<Longrightarrow> Split sep (w @ sep # s) = w # Split sep s"
  by (induction w) auto

lemma SplitN2_at: "sep \<notin> set w \<Longrightarrow> SplitN2 sep (w @ sep # s) = [w, s]"
proof -
  assume "sep \<notin> set w"
  then have "takeWhile (\<lambda>c. c \<noteq> sep) (w @ sep # s) = w" by (subst takeWhile_append2) auto
  then show ?thesis by (simp add: SplitN2_def Let_def)
qed

text \<open>Visible ASCII contains no space for the library's notion.\<close>

definition visible :: "char \<Rightarrow> bool" where "visible c = (0x21 \<le> byte c \<and> byte c < 0x7F)"

lemma strip_one_visible:
  assumes "\<forall>p\<in>set ps. p \<noteq> [] \<longrightarrow> hd p \<noteq> c"
  shows "strip_one ps (c # s) = None"
  using assms
proof (induction ps)
  case (Cons p ps)
  then show ?case by (cases p) auto
qed simp

lemma space_heads: "visible c \<Longrightarrow> \<forall>p\<in>set space_seqs. p \<noteq> [] \<longrightarrow> hd p \<noteq> c"
  "visible c \<Longrightarrow> \<forall>p\<in>set (map rev space_seqs). p \<noteq> [] \<longrightarrow> hd p \<noteq> c"
  by (auto simp: space_seqs_def visible_def byte_def)

lemma trim_left_visible: "visible c \<Longrightarrow> trim_left space_seqs (c # s) = c # s"
  "visible c \<Longrightarrow> trim_left (map rev space_seqs) (c # s) = c # s"
  by (subst trim_left.simps, simp add: strip_one_visible[OF space_heads(1)] strip_one_visible[OF space_heads(2)])+

lemma TrimSpace_visible:
  assumes "s \<noteq> []" and "visible (hd s)" and "visible (last s)"
  shows "TrimSpace s = s"
proof -
  obtain c t where s: "s = c # t" using assms(1) by (cases s) auto
  obtain d u where r: "rev s = d # u" "d = last s" using assms(1) by (cases "rev s") (auto simp: last_rev[symmetric] hd_rev)
  have "trim_left space_seqs s = s" using assms(2) trim_left_visible(1)[of c t] by (simp add: s)
  moreover have "trim_left (map rev space_seqs) (rev s) = rev s" using assms(3) trim_left_visible(2)[of d u] unfolding r by simp
  ultimately show ?thesis by (simp add: TrimSpace_def)
qed

lemma fields_loop_word: "list_all visible w \<Longrightarrow> fields_loop f (w @ s) = fields_loop (f @ w) s"
proof (induction w arbitrary: f)
  case (Cons c w)
  then show ?case
    by (subst fields_loop.simps) (simp add: strip_one_visible[OF space_heads(1)])
qed simp

lemma fields_loop_space: "fields_loop f (CHR 0x20 # s) = (if f = [] then [] else [f]) @ fields_loop [] s"
  by (subst fields_loop.simps) (simp add: space_seqs_def)

lemma Fields_Join:
  assumes "list_all (\<lambda>w. w \<noteq> [] \<and> list_all visible w) ws"
  shows "Fields (Join '' '' ws) = ws"
proof -
  have "fields_loop [] (w @ concat (map (\<lambda>v. '' '' @ v) ws)) = w # ws"
    if "w \<noteq> []" "list_all visible w" "list_all (\<lambda>w. w \<noteq> [] \<and> list_all visible w) ws" for w ws
    using that
  proof (induction ws arbitrary: w)
    case Nil
    then show ?case using fields_loop_word[of w "[]" "[]"] by (simp add: fields_loop.simps)
  next
    case (Cons v ws)
    then show ?case by (simp add: fields_loop_word fields_loop_space)
  qed
  note words = this
  show ?thesis
  proof (cases ws)
    case Nil
    then show ?thesis by (simp add: Fields_def Join_def fields_loop.simps)
  next
    case (Cons w vs)
    have "(@) '' '' = (#) (CHR 0x20)" by (simp add: fun_eq_iff)
    with Cons assms words[of w vs] show ?thesis by (simp add: Fields_def Join_def)
  qed
qed

section \<open>Integers\<close>

fun digits :: "nat \<Rightarrow> string" where
  "digits n = (if n < 10 then [unbyte (48 + n)] else digits (n div 10) @ [unbyte (48 + n mod 10)])"

declare digits.simps [simp del]

definition FormatInt :: "int \<Rightarrow> string" where
  "FormatInt n = (if n < 0 then ''-'' @ digits (nat (- n)) else digits (nat n))"

lemma digits_all: "list_all is_digit (digits n)"
proof (induction n rule: digits.induct)
  case (1 n)
  have "is_digit (unbyte (48 + k))" if "k < 10" for k using that by (simp add: is_digit_def byte_unbyte)
  with 1 show ?case by (subst digits.simps) auto
qed

lemma digits_nonempty: "digits n \<noteq> []"
  by (subst digits.simps) simp

lemma decimal_append: "decimal (s @ [c]) = 10 * decimal s + digit_value c"
  by (simp add: decimal_def)

lemma decimal_digits: "decimal (digits n) = int n"
proof (induction n rule: digits.induct)
  case (1 n)
  show ?case
  proof (cases "n < 10")
    case True
    then show ?thesis by (subst digits.simps) (simp add: decimal_def digit_value_def byte_unbyte)
  next
    case False
    then have "decimal (digits n) = 10 * int (n div 10) + int (n mod 10)"
      using 1 by (subst digits.simps) (simp add: decimal_append digit_value_def byte_unbyte)
    also have "\<dots> = int n" by presburger
    finally show ?thesis .
  qed
qed

lemma ParseInt64_FormatInt:
  assumes "0 \<le> n" and "n < 2 ^ 63"
  shows "ParseInt64 (FormatInt n) = Some n"
proof -
  obtain c cs where d: "digits (nat n) = c # cs" by (cases "digits (nat n)") (auto simp: digits_nonempty)
  then have "is_digit c" using digits_all[of "nat n"] by simp
  then have "c \<noteq> CHR ''-''" "c \<noteq> CHR ''+''" by (auto simp: is_digit_def byte_def)
  moreover have "list_all is_digit (digits (nat n))" by (rule digits_all)
  moreover have "decimal (digits (nat n)) = n" using decimal_digits[of "nat n"] assms(1) by simp
  ultimately show ?thesis using assms d by (simp add: ParseInt64_def FormatInt_def Let_def)
qed

lemma FormatInt_visible: "0 \<le> n \<Longrightarrow> list_all visible (FormatInt n)"
  using digits_all[of "nat n"] by (auto simp: FormatInt_def is_digit_def visible_def list_all_iff)

section \<open>Base64 with padding\<close>

definition Std_DecodeString :: "string \<Rightarrow> bytes option" where
  \<comment> \<open>after newlines and carriage returns are skipped the length is a multiple of four, and only the
    last group carries padding\<close>
  "Std_DecodeString s =
     (let t = filter (\<lambda>c. c \<noteq> CHR 0x0D \<and> c \<noteq> CHR 0x0A) s;
          pad = length (takeWhile (\<lambda>c. c = CHR ''='') (rev t));
          body = take (length t - pad) t
      in if length t mod 4 \<noteq> 0 \<or> pad > 2 then None else b64_raw_decode b64_std body)"

lemma length_sextets: "length (sextets ns) = (4 * length ns + 2) div 3"
  by (induction ns rule: sextets.induct) auto

lemma b64_std_chars:
  assumes "c \<in> set (b64_raw_encode b64_std bs)"
  shows "c \<in> set b64_std"
proof -
  have "length b64_std = 64" by (simp add: b64_std_def)
  then have "\<forall>n\<in>set (sextets (map byte bs)). n < length b64_std" using sextets_less[of "map byte bs"] by auto
  then show ?thesis using assms by (auto simp: b64_raw_encode_def)
qed

lemma padded_length: "((4 * n + 2) div 3 + (3 - n mod 3) mod 3) mod 4 = (0::nat)"
proof -
  define q where "q = n div 3"
  have "n = 3 * q + n mod 3" by (simp add: q_def)
  moreover have "n mod 3 = 0 \<or> n mod 3 = 1 \<or> n mod 3 = 2" by auto
  moreover have "(4 * (3 * q) + 2) div 3 = 4 * q" "(4 * (3 * q + 1) + 2) div 3 = 4 * q + 2"
    "(4 * (3 * q + 2) + 2) div 3 = 4 * q + 3" by auto
  ultimately show ?thesis by (elim disjE) auto
qed

lemma Std_roundtrip: "Std_DecodeString (Std_EncodeToString bs) = Some bs"
proof -
  let ?b = "b64_raw_encode b64_std bs" and ?k = "(3 - length bs mod 3) mod 3"
  let ?t = "?b @ replicate ?k (CHR ''='')"
  have chars: "c \<noteq> CHR 0x0D \<and> c \<noteq> CHR 0x0A \<and> c \<noteq> CHR ''=''" if "c \<in> set ?b" for c
    using b64_std_chars[OF that] by (auto simp: b64_std_def)
  have raw: "b64_raw_decode b64_std ?b = Some bs"
    by (rule b64_raw_roundtrip) (simp_all add: b64_std_def)
  have clean: "filter (\<lambda>c. c \<noteq> CHR 0x0D \<and> c \<noteq> CHR 0x0A) ?t = ?t"
    using chars by (auto simp: filter_id_conv)
  have "takeWhile (\<lambda>c. c = CHR ''='') (rev ?b) = []"
  proof (cases "rev ?b")
    case (Cons c cs)
    then have "c \<in> set ?b" by (metis list.set_intros(1) set_rev)
    with Cons chars show ?thesis by simp
  qed simp
  then have pad: "takeWhile (\<lambda>c. c = CHR ''='') (rev ?t) = replicate ?k (CHR ''='')"
    by (simp only: rev_append rev_replicate) (subst takeWhile_append2, simp_all)
  have "length ?b = (4 * length bs + 2) div 3" by (simp add: b64_raw_encode_def length_sextets)
  then have "length ?t mod 4 = 0" using padded_length[of "length bs"] by simp
  then show ?thesis using clean pad raw by (simp add: Std_DecodeString_def Std_EncodeToString_def Let_def)
qed

end
