(* ===== verification/HttpSignature.thy ===== *)
theory HttpSignature
  imports GoText Identity
begin

text \<open>
  \<^verbatim>\<open>internal/transport/http_signature.go\<close>: RFC 9421 signatures of requests and responses. Headers map
  canonical names to their values, as \<^verbatim>\<open>http.Header\<close> does; a URL has no user information and no fragment.
  \<open>isPrint\<close> is \<^verbatim>\<open>strconv.IsPrint\<close> beyond ASCII.
\<close>

section \<open>HTTP messages\<close>

type_synonym header = "string \<Rightarrow> string list"

definition Header_Get :: "header \<Rightarrow> string \<Rightarrow> string" where
  "Header_Get h k = (case h k of [] \<Rightarrow> [] | v # _ \<Rightarrow> v)"

definition Header_Set :: "header \<Rightarrow> string \<Rightarrow> string \<Rightarrow> header" where
  "Header_Set h k v = h(k := [v])"

lemma Header_Get_Set [simp]: "Header_Get (Header_Set h k v) k' = (if k' = k then v else Header_Get h k')"
  by (simp add: Header_Get_def Header_Set_def)

record go_url =
  uScheme :: string
  uHost :: string
  uPath :: string      \<comment> \<open>EscapedPath\<close>
  uRawQuery :: string

definition IsAbs :: "go_url \<Rightarrow> bool" where "IsAbs u = (uScheme u \<noteq> [])"

definition RequestURI :: "go_url \<Rightarrow> string" where
  "RequestURI u = (if uPath u = [] then ''/'' else uPath u) @ (if uRawQuery u = [] then [] else ''?'' @ uRawQuery u)"

definition URL_String :: "go_url \<Rightarrow> string" where
  "URL_String u =
     (if uScheme u \<noteq> [] then uScheme u @ '':'' else []) @
     (if uScheme u \<noteq> [] \<or> uHost u \<noteq> [] then (if uHost u \<noteq> [] \<or> uPath u \<noteq> [] then ''//'' else []) @ uHost u else []) @
     (if uPath u \<noteq> [] \<and> take 1 (uPath u) \<noteq> ''/'' \<and> uHost u \<noteq> [] then ''/'' else []) @ uPath u @
     (if uRawQuery u = [] then [] else ''?'' @ uRawQuery u)"

record http_request =
  rqMethod :: string
  rqURL :: go_url
  rqHost :: string
  rqTLS :: bool
  rqHeader :: header
  rqBody :: "go_error + bytes"  \<comment> \<open>what reading the body gives; a nil body reads as empty\<close>

record http_response =
  rsStatus :: int
  rsHeader :: header
  rsBody :: "go_error + bytes"

section \<open>Metadata\<close>

definition signatureLabel :: string where "signatureLabel = ''snw-agent''"

definition agentIDHeader :: string where "agentIDHeader = ''X-Snw-Agent-Id''"
definition publicKeyHeader :: string where "publicKeyHeader = ''X-Snw-Agent-Public-Key''"
definition targetAgentIDHeader :: string where "targetAgentIDHeader = ''X-Snw-Target-Agent-Id''"
definition contentDigestHeader :: string where "contentDigestHeader = ''Content-Digest''"
definition signatureInputHeader :: string where "signatureInputHeader = ''Signature-Input''"
definition signatureHeader :: string where "signatureHeader = ''Signature''"

lemmas header_names = agentIDHeader_def publicKeyHeader_def targetAgentIDHeader_def contentDigestHeader_def
  signatureInputHeader_def signatureHeader_def

record signatureMetadata =
  Components :: "string list"
  Created :: int
  KeyID :: string
  Nonce :: string

definition requestComponents :: "string list" where
  "requestComponents = [''@method'', ''@target-uri'', ''content-digest'', ''x-snw-agent-id'', ''x-snw-target-agent-id'']"

definition responseComponents :: "string list" where
  "responseComponents = [''@status'', ''content-digest'', ''x-snw-agent-id'']"

definition identityNonce :: "bytes \<Rightarrow> string" where
  \<comment> \<open>of the 16 bytes read from the random source\<close>
  "identityNonce value = RawURL_EncodeToString value"

definition contentDigest :: "primitives \<Rightarrow> bytes \<Rightarrow> string" where
  "contentDigest P body = ''sha-256=:'' @ Std_EncodeToString (sha256 P body) @ '':''"

definition setContentDigest :: "primitives \<Rightarrow> header \<Rightarrow> bytes \<Rightarrow> header" where
  "setContentDigest P headers body = Header_Set headers contentDigestHeader (contentDigest P body)"

definition signatureParams :: "(nat \<Rightarrow> bool) \<Rightarrow> signatureMetadata \<Rightarrow> string" where
  "signatureParams isPrint metadata =
     ''('' @ Join '' '' (map (Quote isPrint) (Components metadata)) @ '');created='' @ FormatInt (Created metadata) @
     '';keyid='' @ Quote isPrint (KeyID metadata) @ '';nonce='' @ Quote isPrint (Nonce metadata)"

definition line :: "string \<Rightarrow> string \<Rightarrow> string" where
  "line name value = [CHR 0x22] @ name @ [CHR 0x22] @ '': '' @ value"

definition newline :: string where "newline = [CHR 0x0A]"

definition requestTarget :: "http_request \<Rightarrow> string" where
  "requestTarget request =
     (if IsAbs (rqURL request) then URL_String (rqURL request)
      else (if rqTLS request then ''https'' else ''http'') @ ''://'' @ rqHost request @ RequestURI (rqURL request))"

definition requestSignatureBase :: "(nat \<Rightarrow> bool) \<Rightarrow> http_request \<Rightarrow> signatureMetadata \<Rightarrow> string" where
  "requestSignatureBase isPrint request metadata =
     Join newline
       [line ''@method'' (rqMethod request), line ''@target-uri'' (requestTarget request),
        line ''content-digest'' (Header_Get (rqHeader request) contentDigestHeader),
        line ''x-snw-agent-id'' (Header_Get (rqHeader request) agentIDHeader),
        line ''x-snw-target-agent-id'' (Header_Get (rqHeader request) targetAgentIDHeader),
        line ''@signature-params'' (signatureParams isPrint metadata)]"

definition responseSignatureBase :: "(nat \<Rightarrow> bool) \<Rightarrow> int \<Rightarrow> header \<Rightarrow> signatureMetadata \<Rightarrow> string" where
  "responseSignatureBase isPrint status headers metadata =
     Join newline
       [line ''@status'' (FormatInt status), line ''content-digest'' (Header_Get headers contentDigestHeader),
        line ''x-snw-agent-id'' (Header_Get headers agentIDHeader),
        line ''@signature-params'' (signatureParams isPrint metadata)]"

definition setSignatureHeaders :: "(nat \<Rightarrow> bool) \<Rightarrow> header \<Rightarrow> signatureMetadata \<Rightarrow> bytes \<Rightarrow> header" where
  "setSignatureHeaders isPrint headers metadata signature =
     Header_Set (Header_Set headers signatureInputHeader (signatureLabel @ ''='' @ signatureParams isPrint metadata))
       signatureHeader (signatureLabel @ ''=:'' @ Std_EncodeToString signature @ '':'')"

section \<open>Parsing\<close>

fun unquote_each :: "string list \<Rightarrow> string list option" where
  "unquote_each [] = Some []"
| "unquote_each (t # ts) =
     (case Unquote t of None \<Rightarrow> None
      | Some c \<Rightarrow> (case unquote_each ts of None \<Rightarrow> None | Some cs \<Rightarrow> Some (c # cs)))"

fun parse_parameters :: "string list \<Rightarrow> signatureMetadata \<Rightarrow> go_error + signatureMetadata" where
  "parse_parameters [] metadata = Inr metadata"
| "parse_parameters (parameter # parameters) metadata =
     (case SplitN2 (CHR ''='') (TrimSpace parameter) of
        [name, v] \<Rightarrow>
          if name = ''created'' then
            (case ParseInt64 v of None \<Rightarrow> Inl ErrHTTPSignature
             | Some created \<Rightarrow> parse_parameters parameters (metadata\<lparr>Created := created\<rparr>))
          else if name = ''keyid'' \<or> name = ''nonce'' then
            (case Unquote v of None \<Rightarrow> Inl ErrHTTPSignature
             | Some parsed \<Rightarrow> parse_parameters parameters
                 (if name = ''keyid'' then metadata\<lparr>KeyID := parsed\<rparr> else metadata\<lparr>Nonce := parsed\<rparr>))
          else parse_parameters parameters metadata
      | _ \<Rightarrow> parse_parameters parameters metadata)"

definition parseSignatureParams :: "string \<Rightarrow> go_error + signatureMetadata" where
  "parseSignatureParams v =
     (if \<not> HasPrefix v ''('' \<or> CHR '')'' \<notin> set v then Inl ErrHTTPSignature
      else
        let closeParen = length (takeWhile (\<lambda>c. c \<noteq> CHR '')'') v) in
        case unquote_each (Fields (TrimSpace (drop 1 (take closeParen v)))) of
          None \<Rightarrow> Inl ErrHTTPSignature
        | Some components \<Rightarrow>
            (case parse_parameters (Split (CHR '';'') (drop (closeParen + 1) v))
                    \<lparr>Components = components, Created = 0, KeyID = [], Nonce = []\<rparr> of
               Inl e \<Rightarrow> Inl e
             | Inr metadata \<Rightarrow>
                 if Created metadata \<le> 0 \<or> KeyID metadata = [] \<or> Nonce metadata = [] then Inl ErrHTTPSignature
                 else Inr metadata))"

definition parseSignatureHeaders :: "header \<Rightarrow> go_error + signatureMetadata \<times> bytes" where
  "parseSignatureHeaders headers =
     (let input = Header_Get headers signatureInputHeader; v = Header_Get headers signatureHeader;
          prefix = signatureLabel @ ''='' in
      if input = [] \<or> v = [] then Inl ErrMissingSignature
      else if \<not> HasPrefix input prefix \<or> \<not> HasPrefix v prefix then Inl ErrHTTPSignature
      else
        (case parseSignatureParams (TrimPrefix input prefix) of
           Inl e \<Rightarrow> Inl e
         | Inr metadata \<Rightarrow>
             let rawValue = TrimPrefix v prefix in
             if length rawValue < 2 \<or> rawValue ! 0 \<noteq> CHR '':'' \<or> rawValue ! (length rawValue - 1) \<noteq> CHR '':''
             then Inl ErrHTTPSignature
             else (case Std_DecodeString (drop 1 (take (length rawValue - 1) rawValue)) of
                     None \<Rightarrow> Inl ErrHTTPSignature
                   | Some signature \<Rightarrow>
                       if length signature \<noteq> SignatureSize then Inl ErrHTTPSignature else Inr (metadata, signature))))"

fun same_from :: "string list \<Rightarrow> string list \<Rightarrow> bool" where
  "same_from (a # as) (e # es) = (a = e \<and> same_from as es)"
| "same_from _ _ = True"

definition sameComponents :: "string list \<Rightarrow> string list \<Rightarrow> bool" where
  "sameComponents actual expected = (if length actual \<noteq> length expected then False else same_from actual expected)"

section \<open>Signing and verification\<close>

text \<open>\<open>sign_now\<close> is the reading of the clock and \<open>nonce_bytes\<close> what the random source gives.\<close>

definition SignRequest ::
  "primitives \<Rightarrow> (nat \<Rightarrow> bool) \<Rightarrow> gotime \<Rightarrow> bytes \<Rightarrow> http_request \<Rightarrow> Identity \<Rightarrow> string \<Rightarrow> go_error + http_request" where
  "SignRequest P isPrint sign_now nonce_bytes request signer targetAgent =
     (if targetAgent = [] then Inl (ErrMsg ''request, signer and target agent are required'')
      else case rqBody request of
        Inl e \<Rightarrow> Inl e
      | Inr body \<Rightarrow>
          (let h = setContentDigest P (rqHeader request) body;
               h = Header_Set h agentIDHeader (idAgentID signer);
               h = Header_Set h publicKeyHeader (RawURL_EncodeToString (idPublicKey signer));
               h = Header_Set h targetAgentIDHeader targetAgent;
               request = request\<lparr>rqBody := Inr body, rqHeader := h\<rparr>;
               metadata = \<lparr>Components = requestComponents, Created = Unix sign_now,
                 KeyID = Fingerprint P (idPublicKey signer), Nonce = identityNonce nonce_bytes\<rparr>;
               signature = ed25519_Sign P (idPrivateKey signer) (requestSignatureBase isPrint request metadata)
           in Inr (request\<lparr>rqHeader := setSignatureHeaders isPrint h metadata signature\<rparr>)))"

definition skew_or_default :: "duration \<Rightarrow> duration" where
  "skew_or_default allowedSkew = (if allowedSkew \<le> 0 then 5 * Minute else allowedSkew)"

definition VerifyRequestForTarget ::
  "primitives \<Rightarrow> (nat \<Rightarrow> bool) \<Rightarrow> http_request \<Rightarrow> string \<Rightarrow> string \<Rightarrow> bytes \<Rightarrow> gotime \<Rightarrow> duration \<Rightarrow> go_error + string" where
  "VerifyRequestForTarget P isPrint request expectedAgent expectedTarget publicKey now allowedSkew =
     (if expectedAgent = [] \<or> length publicKey \<noteq> PublicKeySize then Inl ErrHTTPSignature
      else case parseSignatureHeaders (rqHeader request) of
        Inl e \<Rightarrow> Inl e
      | Inr (metadata, signature) \<Rightarrow>
          let skew = skew_or_default allowedSkew;
              targetAgent = Header_Get (rqHeader request) targetAgentIDHeader;
              issued = fromUnix (Created metadata) in
          if \<not> sameComponents (Components metadata) requestComponents then Inl ErrHTTPSignature
          else if KeyID metadata \<noteq> Fingerprint P publicKey \<or> Header_Get (rqHeader request) agentIDHeader \<noteq> expectedAgent
          then Inl ErrHTTPSignature
          else if targetAgent = [] \<or> (expectedTarget \<noteq> [] \<and> targetAgent \<noteq> expectedTarget) then Inl ErrHTTPSignature
          else if issued < now - skew \<or> issued > now + skew then Inl ErrHTTPSignature
          else case rqBody request of
            Inl e \<Rightarrow> Inl e
          | Inr body \<Rightarrow>
              if Header_Get (rqHeader request) contentDigestHeader \<noteq> contentDigest P body then Inl ErrDigestMismatch
              else if \<not> ed25519_Verify P publicKey (requestSignatureBase isPrint request metadata) signature
              then Inl ErrHTTPSignature
              else Inr (Nonce metadata))"

definition VerifyRequest ::
  "primitives \<Rightarrow> (nat \<Rightarrow> bool) \<Rightarrow> http_request \<Rightarrow> string \<Rightarrow> bytes \<Rightarrow> gotime \<Rightarrow> duration \<Rightarrow> go_error + string" where
  "VerifyRequest P isPrint request expectedAgent publicKey now allowedSkew =
     VerifyRequestForTarget P isPrint request expectedAgent [] publicKey now allowedSkew"

definition SignResponse ::
  "primitives \<Rightarrow> (nat \<Rightarrow> bool) \<Rightarrow> gotime \<Rightarrow> bytes \<Rightarrow> header \<Rightarrow> int \<Rightarrow> bytes \<Rightarrow> Identity \<Rightarrow> header" where
  "SignResponse P isPrint sign_now nonce_bytes headers status body signer =
     (let h = setContentDigest P headers body;
          metadata = \<lparr>Components = responseComponents, Created = Unix sign_now,
            KeyID = Fingerprint P (idPublicKey signer), Nonce = identityNonce nonce_bytes\<rparr>;
          h = Header_Set h agentIDHeader (idAgentID signer);
          h = Header_Set h publicKeyHeader (RawURL_EncodeToString (idPublicKey signer));
          signature = ed25519_Sign P (idPrivateKey signer) (responseSignatureBase isPrint status h metadata)
      in setSignatureHeaders isPrint h metadata signature)"

definition VerifyResponseForAgent ::
  "primitives \<Rightarrow> (nat \<Rightarrow> bool) \<Rightarrow> http_response \<Rightarrow> string \<Rightarrow> bytes \<Rightarrow> gotime \<Rightarrow> duration \<Rightarrow> go_error + unit" where
  "VerifyResponseForAgent P isPrint response expectedAgent publicKey now allowedSkew =
     (if length publicKey \<noteq> PublicKeySize then Inl ErrHTTPSignature
      else case parseSignatureHeaders (rsHeader response) of
        Inl e \<Rightarrow> Inl e
      | Inr (metadata, signature) \<Rightarrow>
          let skew = skew_or_default allowedSkew; issued = fromUnix (Created metadata) in
          if \<not> sameComponents (Components metadata) responseComponents \<or> KeyID metadata \<noteq> Fingerprint P publicKey
          then Inl ErrHTTPSignature
          else if expectedAgent \<noteq> [] \<and> Header_Get (rsHeader response) agentIDHeader \<noteq> expectedAgent
          then Inl ErrHTTPSignature
          else if issued < now - skew \<or> issued > now + skew then Inl ErrHTTPSignature
          else case rsBody response of
            Inl e \<Rightarrow> Inl e
          | Inr body \<Rightarrow>
              if Header_Get (rsHeader response) contentDigestHeader \<noteq> contentDigest P body then Inl ErrDigestMismatch
              else if \<not> ed25519_Verify P publicKey (responseSignatureBase isPrint (rsStatus response) (rsHeader response) metadata) signature
              then Inl ErrHTTPSignature
              else Inr ())"

definition VerifyResponse ::
  "primitives \<Rightarrow> (nat \<Rightarrow> bool) \<Rightarrow> http_response \<Rightarrow> bytes \<Rightarrow> gotime \<Rightarrow> duration \<Rightarrow> go_error + unit" where
  "VerifyResponse P isPrint response publicKey now allowedSkew =
     VerifyResponseForAgent P isPrint response [] publicKey now allowedSkew"

section \<open>What is printed parses back\<close>

lemma sameComponents_iff: "sameComponents as es \<longleftrightarrow> as = es"
proof -
  have "length as = length es \<Longrightarrow> same_from as es \<longleftrightarrow> as = es"
    by (induction as es rule: list_induct2) auto
  then show ?thesis by (auto simp: sameComponents_def)
qed

text \<open>Characters that need no quoting and do not structure the header.\<close>

definition token_char :: "char \<Rightarrow> bool" where
  "token_char c = (visible c \<and> c \<notin> {CHR 0x22, CHR 0x5C, CHR '')'', CHR '';''})"

definition token :: "string \<Rightarrow> bool" where
  "token s = (s \<noteq> [] \<and> list_all token_char s)"

definition wf_metadata :: "signatureMetadata \<Rightarrow> bool" where
  "wf_metadata metadata =
     (Components metadata \<noteq> [] \<and> list_all token (Components metadata) \<and> 0 < Created metadata \<and>
      Created metadata < 2 ^ 63 \<and> token (KeyID metadata) \<and> token (Nonce metadata))"

lemma token_char_plain: "token_char c \<Longrightarrow> plain_char c"
  by (simp add: token_char_def visible_def plain_char_def)

lemma token_plain: "list_all token_char s \<Longrightarrow> list_all plain_char s"
  by (erule list.pred_mono_strong) (rule token_char_plain)

lemma token_Quote: "list_all token_char s \<Longrightarrow> Quote p s = [CHR 0x22] @ s @ [CHR 0x22]"
  by (simp add: Quote_plain token_plain)

lemma visible_quote [simp]: "visible (CHR 0x22)"
  by (simp add: visible_def byte_def)

lemma token_Quote_visible: "list_all token_char s \<Longrightarrow> list_all visible (Quote p s)"
  by (auto simp: token_Quote list_all_iff token_char_def)

lemma token_Quote_chars: "list_all token_char s \<Longrightarrow> c \<in> set (Quote p s) \<Longrightarrow> c \<noteq> CHR '')'' \<and> c \<noteq> CHR '';''"
  by (auto simp: token_Quote list_all_iff token_char_def)

lemma unquote_each_Quote: "list_all token cs \<Longrightarrow> unquote_each (map (Quote p) cs) = Some cs"
  by (induction cs) (auto simp: token_def Unquote_Quote_plain token_plain)

lemma Join_ends:
  assumes "ws \<noteq> []" and "\<forall>w\<in>set ws. w \<noteq> [] \<and> hd w = q \<and> last w = q"
  shows "Join sep ws \<noteq> [] \<and> hd (Join sep ws) = q \<and> last (Join sep ws) = q"
proof -
  obtain w vs where ws: "ws = w # vs" using assms(1) by (cases ws) auto
  have "last (w @ concat (map (\<lambda>v. sep @ v) vs)) = q" if "w \<noteq> []" "last w = q" "\<forall>w\<in>set vs. w \<noteq> [] \<and> last w = q" for w
    using that by (induction vs rule: rev_induct) auto
  with assms ws show ?thesis by (simp add: Join_def)
qed

lemma parameter_created:
  "0 < n \<Longrightarrow> n < 2 ^ 63 \<Longrightarrow> parse_parameters ((''created='' @ FormatInt n) # ps) m = parse_parameters ps (m\<lparr>Created := n\<rparr>)"
proof -
  assume n: "0 < n" "n < 2 ^ 63"
  have ne: "FormatInt n \<noteq> []" using n by (simp add: FormatInt_def digits_nonempty)
  have "visible (last (FormatInt n))" using FormatInt_visible[of n] n ne by (simp add: list_all_iff)
  then have "TrimSpace (''created='' @ FormatInt n) = ''created='' @ FormatInt n"
    using ne by (intro TrimSpace_visible) (simp_all add: visible_def byte_def)
  moreover have "SplitN2 (CHR ''='') (''created='' @ FormatInt n) = [''created'', FormatInt n]"
    using SplitN2_at[of "CHR ''=''" "''created''" "FormatInt n"] by simp
  ultimately show ?thesis using n by (simp add: ParseInt64_FormatInt)
qed

lemma parameter_quoted:
  assumes "name = ''keyid'' \<or> name = ''nonce''" and "list_all token_char v"
  shows "parse_parameters ((name @ ''='' @ Quote p v) # ps) m =
    parse_parameters ps (if name = ''keyid'' then m\<lparr>KeyID := v\<rparr> else m\<lparr>Nonce := v\<rparr>)"
proof -
  have "TrimSpace (name @ ''='' @ Quote p v) = name @ ''='' @ Quote p v"
    using assms by (intro TrimSpace_visible) (auto simp: visible_def byte_def token_Quote)
  moreover have "SplitN2 (CHR ''='') (name @ ''='' @ Quote p v) = [name, Quote p v]"
    using SplitN2_at[of "CHR ''=''" name "Quote p v"] assms(1) by auto
  moreover have "Unquote (Quote p v) = Some v" using assms(2) by (simp add: Unquote_Quote_plain token_plain)
  ultimately show ?thesis using assms(1) by auto
qed

text \<open>The component list in front of the parameters.\<close>

definition component_list :: "(nat \<Rightarrow> bool) \<Rightarrow> string list \<Rightarrow> string" where
  "component_list p cs = ''('' @ Join '' '' (map (Quote p) cs) @ '')''"

definition close_paren :: "string \<Rightarrow> nat" where
  "close_paren v = length (takeWhile (\<lambda>c. c \<noteq> CHR '')'') v)"

lemma component_list_parses:
  assumes "cs \<noteq> []" and "list_all token cs" and "v = component_list p cs @ rest"
  shows "HasPrefix v ''(''" "CHR '')'' \<in> set v" "drop (close_paren v + 1) v = rest"
    "unquote_each (Fields (TrimSpace (drop 1 (take (close_paren v) v)))) = Some cs"
proof -
  let ?q = "map (Quote p) cs"
  have v: "v = (''('' @ Join '' '' ?q) @ CHR '')'' # rest" by (simp add: assms(3) component_list_def)
  have quoted: "\<forall>w\<in>set ?q. w \<noteq> [] \<and> hd w = CHR 0x22 \<and> last w = CHR 0x22"
    using assms(2) by (auto simp: list_all_iff token_def token_Quote)
  have "\<forall>x\<in>set (''('' @ Join '' '' ?q). x \<noteq> CHR '')''"
  proof -
    have "CHR '')'' \<notin> set w" if "w \<in> set ?q" for w
      using that assms(2) token_Quote_chars by (fastforce simp: list_all_iff token_def)
    then show ?thesis using assms(1) by (cases ?q) (auto simp: Join_def)
  qed
  then have "takeWhile (\<lambda>c. c \<noteq> CHR '')'') v = ''('' @ Join '' '' ?q"
    unfolding v by (subst takeWhile_append2) auto
  then have k: "close_paren v = Suc (length (Join '' '' ?q))" by (simp add: close_paren_def)
  have trim: "TrimSpace (Join '' '' ?q) = Join '' '' ?q"
    using Join_ends[OF _ quoted, of "'' ''"] assms(1) by (intro TrimSpace_visible) auto
  have "unquote_each (Fields (Join '' '' ?q)) = Some cs"
    using assms(2) quoted token_Quote_visible unquote_each_Quote[of cs p]
    by (subst Fields_Join) (auto simp: list_all_iff token_def)
  with trim show "unquote_each (Fields (TrimSpace (drop 1 (take (close_paren v) v)))) = Some cs"
    unfolding k by (simp add: v)
  show "HasPrefix v ''(''" "CHR '')'' \<in> set v" by (simp_all add: HasPrefix_def v)
  show "drop (close_paren v + 1) v = rest" unfolding k by (simp add: v)
qed

lemma FormatInt_no_semicolon: "0 < n \<Longrightarrow> CHR '';'' \<notin> set (FormatInt n)"
  using digits_all[of "nat n"] by (auto simp: FormatInt_def list_all_iff is_digit_def byte_def)

lemma token_no_semicolon: "token s \<Longrightarrow> CHR '';'' \<notin> set (Quote p s)"
  using token_Quote_chars[of s "CHR '';''" p] unfolding token_def by blast

lemma parse_signatureParams:
  assumes "wf_metadata md"
  shows "parseSignatureParams (signatureParams p md) = Inr md"
proof -
  let ?c = "''created='' @ FormatInt (Created md)" and ?k = "''keyid='' @ Quote p (KeyID md)"
    and ?n = "''nonce='' @ Quote p (Nonce md)"
  have md: "Components md \<noteq> []" "list_all token (Components md)" "0 < Created md" "Created md < 2 ^ 63"
    "token (KeyID md)" "token (Nonce md)" "list_all token_char (KeyID md)" "list_all token_char (Nonce md)"
    using assms by (auto simp: wf_metadata_def token_def)
  have "signatureParams p md = component_list p (Components md) @ '';'' @ ?c @ '';'' @ ?k @ '';'' @ ?n"
    by (simp add: signatureParams_def component_list_def)
  note front = component_list_parses[OF md(1,2) this]
  have nosep: "CHR '';'' \<notin> set ?c" "CHR '';'' \<notin> set ?k" "CHR '';'' \<notin> set ?n"
    using FormatInt_no_semicolon[OF md(3)] token_no_semicolon[OF md(5)] token_no_semicolon[OF md(6)] by simp_all
  have split: "Split (CHR '';'') ('';'' @ ?c @ '';'' @ ?k @ '';'' @ ?n) = [[], ?c, ?k, ?n]"
    using Split_append[OF nosep(1), of "?k @ '';'' @ ?n"] Split_append[OF nosep(2), of ?n] Split_plain[OF nosep(3)] by simp
  have "parse_parameters [[], ?c, ?k, ?n] \<lparr>Components = Components md, Created = 0, KeyID = [], Nonce = []\<rparr> = Inr md"
    using md parameter_created[of "Created md"] parameter_quoted[of "''keyid''" "KeyID md" p]
      parameter_quoted[of "''nonce''" "Nonce md" p]
    by (simp add: SplitN2_def)
  then show ?thesis
    using md(3,5,6) front split
    by (simp add: parseSignatureParams_def Let_def close_paren_def token_def)
qed

lemma parse_setSignatureHeaders:
  assumes "wf_metadata md" and "length sig = SignatureSize"
  shows "parseSignatureHeaders (setSignatureHeaders p h md sig) = Inr (md, sig)"
proof -
  let ?e = "Std_EncodeToString sig"
  have "drop 1 (take (length ('':'' @ ?e @ '':'') - 1) ('':'' @ ?e @ '':'')) = ?e" by simp
  moreover have "('':'' @ ?e @ '':'') ! (length ('':'' @ ?e @ '':'') - 1) = CHR '':''" by (simp add: nth_append)
  ultimately show ?thesis
    using parse_signatureParams[OF assms(1), of p] assms(2) Std_roundtrip[of sig]
    by (simp add: parseSignatureHeaders_def setSignatureHeaders_def header_names signatureLabel_def HasPrefix_def
        TrimPrefix_def Let_def)
qed

lemma token_RawURL:
  assumes "bs \<noteq> []"
  shows "token (RawURL_EncodeToString bs)"
proof -
  have url: "list_all token_char b64_url" by (simp add: b64_url_def token_char_def visible_def byte_def)
  have "length b64_url = 64" by (simp add: b64_url_def)
  then have "\<forall>n\<in>set (sextets (map byte bs)). n < length b64_url" using sextets_less[of "map byte bs"] by auto
  then have "list_all token_char (RawURL_EncodeToString bs)"
    using url by (auto simp: RawURL_EncodeToString_def b64_raw_encode_def list_all_iff)
  moreover have "sextets (map byte bs) \<noteq> []" using assms by (cases "map byte bs" rule: sextets.cases) auto
  ultimately show ?thesis by (simp add: token_def RawURL_EncodeToString_def b64_raw_encode_def)
qed

end
