(* ===== verification/HttpSigned.thy ===== *)
theory HttpSigned
  imports HttpSignature Demo
begin

text \<open>
  What the signatures of \<^verbatim>\<open>internal/transport/http_signature.go\<close> guarantee: a signed message verifies
  at its receiver, and a signature covers method, target, body and agents without ambiguity.
\<close>

section \<open>Signed requests verify\<close>

text \<open>Documented sizes: an Ed25519 signature has 64 bytes.\<close>

definition signature_size :: "primitives \<Rightarrow> bool" where
  "signature_size P = (\<forall>k m. length (ed25519_Sign P k m) = SignatureSize)"

text \<open>
  What a server makes of a request for an absolute URL: the request line carries path and query, the
  host comes in its own field, and the scheme shows only in whether the connection uses TLS.
\<close>

definition server_view :: "http_request \<Rightarrow> http_request" where
  "server_view r = r\<lparr>rqURL := \<lparr>uScheme = [], uHost = [], uPath = (if uPath (rqURL r) = [] then ''/'' else uPath (rqURL r)),
       uRawQuery = uRawQuery (rqURL r)\<rparr>,
     rqHost := uHost (rqURL r), rqTLS := (uScheme (rqURL r) = ''https'')\<rparr>"

lemma server_view_fields [simp]:
  "rqMethod (server_view r) = rqMethod r" "rqHeader (server_view r) = rqHeader r" "rqBody (server_view r) = rqBody r"
  by (simp_all add: server_view_def)

lemma server_view_target:
  assumes "uScheme (rqURL r) = ''http'' \<or> uScheme (rqURL r) = ''https''" and "uHost (rqURL r) \<noteq> []"
    and "take 1 (uPath (rqURL r)) = ''/''"
  shows "requestTarget (server_view r) = requestTarget r"
  using assms by (auto simp: requestTarget_def server_view_def IsAbs_def URL_String_def RequestURI_def)

lemma requestTarget_update [simp]:
  "requestTarget (r\<lparr>rqHeader := h\<rparr>) = requestTarget r" "requestTarget (r\<lparr>rqBody := b\<rparr>) = requestTarget r"
  by (simp_all add: requestTarget_def)

definition request_metadata :: "primitives \<Rightarrow> gotime \<Rightarrow> bytes \<Rightarrow> Identity \<Rightarrow> signatureMetadata" where
  "request_metadata P t nb i = \<lparr>Components = requestComponents, Created = Unix t,
     KeyID = Fingerprint P (idPublicKey i), Nonce = identityNonce nb\<rparr>"

lemma request_metadata_fields [simp]:
  "Components (request_metadata P t nb i) = requestComponents" "Created (request_metadata P t nb i) = Unix t"
  "KeyID (request_metadata P t nb i) = Fingerprint P (idPublicKey i)" "Nonce (request_metadata P t nb i) = identityNonce nb"
  by (simp_all add: request_metadata_def)

lemma components_token: "list_all token requestComponents" "list_all token responseComponents"
  by (simp_all add: requestComponents_def responseComponents_def token_def token_char_def visible_def byte_def)

lemma token_Fingerprint: "sha256_size P \<Longrightarrow> token (Fingerprint P k)"
  unfolding Fingerprint_def by (rule token_RawURL) (metis list.size(3) sha256_size_def zero_neq_numeral)

lemma wf_request_metadata:
  assumes "sha256_size P" and "nb \<noteq> []" and "0 < Unix t" and "Unix t < 2 ^ 63"
  shows "wf_metadata (request_metadata P t nb i)" "wf_metadata (request_metadata P t nb i\<lparr>Components := responseComponents\<rparr>)"
  using assms components_token token_Fingerprint[of P] token_RawURL[of nb]
  by (simp_all add: wf_metadata_def request_metadata_def identityNonce_def requestComponents_def responseComponents_def)

lemma SignRequest_returns:
  assumes "SignRequest P ip t nb r i target = Inr signed"
  shows "\<exists>body h. rqBody r = Inr body \<and> target \<noteq> [] \<and> signed = r\<lparr>rqBody := Inr body,
      rqHeader := setSignatureHeaders ip h (request_metadata P t nb i)
        (ed25519_Sign P (idPrivateKey i) (requestSignatureBase ip (r\<lparr>rqBody := Inr body, rqHeader := h\<rparr>) (request_metadata P t nb i)))\<rparr> \<and>
    Header_Get h contentDigestHeader = contentDigest P body \<and> Header_Get h agentIDHeader = idAgentID i \<and>
    Header_Get h targetAgentIDHeader = target \<and> Header_Get h publicKeyHeader = RawURL_EncodeToString (idPublicKey i)"
  using assms
  by (auto simp: SignRequest_def Let_def setContentDigest_def request_metadata_def header_names split: sum.splits if_splits)

lemma requestSignatureBase_cong:
  assumes "rqMethod r = rqMethod r'" and "requestTarget r = requestTarget r'"
    and "\<And>k. k \<in> {contentDigestHeader, agentIDHeader, targetAgentIDHeader} \<Longrightarrow> Header_Get (rqHeader r) k = Header_Get (rqHeader r') k"
  shows "requestSignatureBase ip r md = requestSignatureBase ip r' md"
  using assms by (simp add: requestSignatureBase_def)

lemma setSignatureHeaders_other:
  "k \<in> {contentDigestHeader, agentIDHeader, targetAgentIDHeader, publicKeyHeader} \<Longrightarrow>
     Header_Get (setSignatureHeaders ip h md sig) k = Header_Get h k"
  by (auto simp: setSignatureHeaders_def header_names)

text \<open>
  For an HTTP or HTTPS URL with a host and a path, a signed request as the server sees it passes the verification for
  the signing agent, the target agent and the public key, and gives the nonce of the signature, at every reading of the
  clock within the skew of the time of signing (in whole seconds).
\<close>

lemma SignRequest_verifies:
  assumes "wf_identity i" and "sign_verifies P (idPrivateKey i)" and "signature_size P" and "sha256_size P"
    and "nb \<noteq> []" and "0 < Unix t" and "Unix t < 2 ^ 63"
    and "SignRequest P ip t nb r i target = Inr signed"
    and "uScheme (rqURL r) = ''http'' \<or> uScheme (rqURL r) = ''https''" and "uHost (rqURL r) \<noteq> []"
    and "take 1 (uPath (rqURL r)) = ''/''"
    and "\<bar>fromUnix (Unix t) - now\<bar> \<le> skew" and "0 < skew"
  shows "VerifyRequestForTarget P ip (server_view signed) (idAgentID i) target (idPublicKey i) now skew = Inr (identityNonce nb)"
proof -
  let ?md = "request_metadata P t nb i"
  obtain body h where s: "rqBody r = Inr body" "target \<noteq> []"
    "signed = r\<lparr>rqBody := Inr body, rqHeader := setSignatureHeaders ip h ?md
        (ed25519_Sign P (idPrivateKey i) (requestSignatureBase ip (r\<lparr>rqBody := Inr body, rqHeader := h\<rparr>) ?md))\<rparr>"
    "Header_Get h contentDigestHeader = contentDigest P body" "Header_Get h agentIDHeader = idAgentID i"
    "Header_Get h targetAgentIDHeader = target"
    using SignRequest_returns[OF assms(8)] by blast
  define sig where "sig = ed25519_Sign P (idPrivateKey i) (requestSignatureBase ip (r\<lparr>rqBody := Inr body, rqHeader := h\<rparr>) ?md)"
  have hd: "rqHeader signed = setSignatureHeaders ip h ?md sig" "rqBody signed = Inr body" using s(3) by (simp_all add: sig_def)
  have parsed: "parseSignatureHeaders (rqHeader signed) = Inr (?md, sig)"
    unfolding hd using wf_request_metadata(1)[OF assms(4-7)] assms(3)
    by (intro parse_setSignatureHeaders) (simp_all add: sig_def signature_size_def)
  have "requestTarget (server_view signed) = requestTarget signed" using assms(9-11) s(3) by (intro server_view_target) simp_all
  then have base: "requestSignatureBase ip (server_view signed) ?md = requestSignatureBase ip (r\<lparr>rqBody := Inr body, rqHeader := h\<rparr>) ?md"
    using setSignatureHeaders_other[of _ ip h ?md sig] hd(1)
    by (intro requestSignatureBase_cong) (auto simp: s(3))
  have "ed25519_Verify P (idPublicKey i) (requestSignatureBase ip (server_view signed) ?md) sig"
    unfolding base sig_def using assms(1,2) by (simp add: wf_identity_def sign_verifies_def)
  moreover have "\<not> fromUnix (Unix t) < now - skew" "\<not> fromUnix (Unix t) > now + skew" using assms(12) by linarith+
  moreover have "Header_Get (rqHeader signed) contentDigestHeader = contentDigest P body"
    "Header_Get (rqHeader signed) agentIDHeader = idAgentID i" "Header_Get (rqHeader signed) targetAgentIDHeader = target"
    unfolding hd using s(4-6) by (simp_all add: setSignatureHeaders_other)
  moreover have "idAgentID i \<noteq> []" using assms(1) by (simp add: wf_identity_def)
  ultimately show ?thesis
    unfolding VerifyRequestForTarget_def Let_def
    using parsed hd(2) s(2) assms(13) length_public_key[OF assms(1)]
    by (simp add: sameComponents_iff skew_or_default_def)
qed

section \<open>What a signature covers\<close>

lemma Split_Join:
  assumes "ws \<noteq> []" and "\<forall>w\<in>set ws. sep \<notin> set w"
  shows "Split sep (Join [sep] ws) = ws"
proof -
  have "Split sep (w @ concat (map (\<lambda>v. [sep] @ v) vs)) = w # vs" if "\<forall>w\<in>set (w # vs). sep \<notin> set w" for w vs
    using that by (induction vs arbitrary: w) (auto simp: Split_append Split_plain)
  moreover have "(@) [sep] = (#) sep" by (simp add: fun_eq_iff)
  ultimately show ?thesis using assms by (cases ws) (auto simp: Join_def)
qed

lemma line_inject: "line n v = line n v' \<longleftrightarrow> v = v'"
  by (simp add: line_def)

definition one_line :: "string \<Rightarrow> bool" where "one_line s = (CHR 0x0A \<notin> set s)"

definition one_line_request :: "http_request \<Rightarrow> bool" where
  \<comment> \<open>neither the request line nor a header field of a parsed HTTP request contains a newline\<close>
  "one_line_request r = (one_line (rqMethod r) \<and> one_line (requestTarget r) \<and>
     (\<forall>k. one_line (Header_Get (rqHeader r) k)))"

lemma requestSignatureBase_inject:
  assumes "requestSignatureBase ip r md = requestSignatureBase ip r' md'"
    and "one_line_request r" and "one_line_request r'" and "one_line (signatureParams ip md)" and "one_line (signatureParams ip md')"
  shows "rqMethod r = rqMethod r'" "requestTarget r = requestTarget r'" "signatureParams ip md = signatureParams ip md'"
    "Header_Get (rqHeader r) contentDigestHeader = Header_Get (rqHeader r') contentDigestHeader"
    "Header_Get (rqHeader r) agentIDHeader = Header_Get (rqHeader r') agentIDHeader"
    "Header_Get (rqHeader r) targetAgentIDHeader = Header_Get (rqHeader r') targetAgentIDHeader"
proof -
  let ?lines = "\<lambda>r md. [line ''@method'' (rqMethod r), line ''@target-uri'' (requestTarget r),
        line ''content-digest'' (Header_Get (rqHeader r) contentDigestHeader),
        line ''x-snw-agent-id'' (Header_Get (rqHeader r) agentIDHeader),
        line ''x-snw-target-agent-id'' (Header_Get (rqHeader r) targetAgentIDHeader),
        line ''@signature-params'' (signatureParams ip md)]"
  have "Split (CHR 0x0A) (requestSignatureBase ip r md) = ?lines r md"
    if "one_line_request r" "one_line (signatureParams ip md)" for r md
    unfolding requestSignatureBase_def newline_def using that
    by (intro Split_Join) (simp_all add: one_line_request_def one_line_def line_def)
  from this[OF assms(2,4)] this[OF assms(3,5)] assms(1) have "?lines r md = ?lines r' md'" by simp
  then show "rqMethod r = rqMethod r'" "requestTarget r = requestTarget r'" "signatureParams ip md = signatureParams ip md'"
    "Header_Get (rqHeader r) contentDigestHeader = Header_Get (rqHeader r') contentDigestHeader"
    "Header_Get (rqHeader r) agentIDHeader = Header_Get (rqHeader r') agentIDHeader"
    "Header_Get (rqHeader r) targetAgentIDHeader = Header_Get (rqHeader r') targetAgentIDHeader"
    by (simp_all only: list.inject line_inject)
qed

definition signed_bytes :: "(nat \<Rightarrow> bool) \<Rightarrow> http_request \<Rightarrow> string" where
  \<comment> \<open>the bytes over which the signature of a request is checked\<close>
  "signed_bytes ip r = (case parseSignatureHeaders (rqHeader r) of
     Inl _ \<Rightarrow> [] | Inr (metadata, _) \<Rightarrow> requestSignatureBase ip r metadata)"

lemma VerifyRequestForTarget_ok:
  assumes "VerifyRequestForTarget P ip r a b k now skew = Inr n"
  shows "\<exists>md sig body. parseSignatureHeaders (rqHeader r) = Inr (md, sig) \<and> Components md = requestComponents \<and>
    KeyID md = Fingerprint P k \<and> Nonce md = n \<and> Header_Get (rqHeader r) agentIDHeader = a \<and>
    (b \<noteq> [] \<longrightarrow> Header_Get (rqHeader r) targetAgentIDHeader = b) \<and>
    \<bar>fromUnix (Created md) - now\<bar> \<le> skew_or_default skew \<and> rqBody r = Inr body \<and>
    Header_Get (rqHeader r) contentDigestHeader = contentDigest P body \<and>
    ed25519_Verify P k (signed_bytes ip r) sig"
  using assms
  by (auto simp: VerifyRequestForTarget_def Let_def sameComponents_iff signed_bytes_def
      split: if_splits sum.splits)

lemma ParseInt64_range: "ParseInt64 v = Some n \<Longrightarrow> n < 2 ^ 63"
  unfolding ParseInt64_def Let_def case_prod_beta by (metis (no_types, lifting) option.distinct(1) option.inject)

lemma parse_parameters_Created:
  "parse_parameters ps md = Inr md' \<Longrightarrow> Created md < 2 ^ 63 \<Longrightarrow> Created md' < 2 ^ 63"
proof (induction ps md rule: parse_parameters.induct)
  case (2 p ps md)
  then show ?case
    by (auto dest: ParseInt64_range split: list.splits if_splits option.splits)
qed simp

lemma parseSignatureHeaders_Created:
  assumes "parseSignatureHeaders h = Inr (md, sig)"
  shows "0 < Created md" "Created md < 2 ^ 63"
proof -
  obtain v where "parseSignatureParams v = Inr md"
    using assms by (auto simp: parseSignatureHeaders_def Let_def split: if_splits sum.splits option.splits)
  then show "0 < Created md" "Created md < 2 ^ 63"
    by (auto simp: parseSignatureParams_def Let_def split: if_splits sum.splits option.splits dest!: parse_parameters_Created)
qed

lemma token_one_line: "list_all visible s \<Longrightarrow> one_line s"
  by (auto simp: one_line_def list_all_iff visible_def byte_def)

lemma signatureParams_one_line:
  assumes "wf_metadata md"
  shows "one_line (signatureParams ip md)"
proof -
  have q: "CHR 0x0A \<notin> set (Quote ip s)" if "token s" for s
    using token_one_line[OF token_Quote_visible[of s ip]] that by (simp add: token_def one_line_def)
  have "CHR 0x0A \<notin> set (Join '' '' (map (Quote ip) (Components md)))"
    using assms q by (auto simp: Join_def wf_metadata_def list_all_iff split: list.splits)
  moreover have "CHR 0x0A \<notin> set (FormatInt (Created md))"
    using assms FormatInt_visible[of "Created md"] token_one_line by (auto simp: wf_metadata_def one_line_def)
  ultimately show ?thesis using assms q by (simp add: signatureParams_def one_line_def wf_metadata_def)
qed

lemma contentDigest_inject: "contentDigest P x = contentDigest P y \<Longrightarrow> sha256 P x = sha256 P y"
  by (simp add: contentDigest_def) (metis Std_roundtrip option.inject)

text \<open>
  C34. A request signature covers what matters without ambiguity. If two requests verify under the same key
  and the bytes their signatures were checked over are the same, then they have the same method, target
  URI, signing agent, target agent and nonce, and bodies with the same digest: a signature cannot be moved to a
  request that differs in one of them. (HTTP allows no newline in a request line or header field; nonces
  are tokens, as the signer makes them.)
\<close>

theorem signature_covers_request:
  assumes "sha256_size P" and "one_line_request r" and "one_line_request r'" and "token n" and "token n'"
    and "VerifyRequestForTarget P ip r a b k now skew = Inr n"
    and "VerifyRequestForTarget P ip r' a' b' k now' skew' = Inr n'"
    and "signed_bytes ip r = signed_bytes ip r'"
  shows "rqMethod r = rqMethod r' \<and> requestTarget r = requestTarget r' \<and> a = a' \<and>
    Header_Get (rqHeader r) targetAgentIDHeader = Header_Get (rqHeader r') targetAgentIDHeader \<and> n = n' \<and>
    (\<exists>body body'. rqBody r = Inr body \<and> rqBody r' = Inr body' \<and> sha256 P body = sha256 P body')"
proof -
  obtain md sig body where v: "parseSignatureHeaders (rqHeader r) = Inr (md, sig)" "Components md = requestComponents"
    "KeyID md = Fingerprint P k" "Nonce md = n" "Header_Get (rqHeader r) agentIDHeader = a" "rqBody r = Inr body"
    "Header_Get (rqHeader r) contentDigestHeader = contentDigest P body"
    using VerifyRequestForTarget_ok[OF assms(6)] by blast
  obtain md' sig' body' where v': "parseSignatureHeaders (rqHeader r') = Inr (md', sig')" "Components md' = requestComponents"
    "KeyID md' = Fingerprint P k" "Nonce md' = n'" "Header_Get (rqHeader r') agentIDHeader = a'" "rqBody r' = Inr body'"
    "Header_Get (rqHeader r') contentDigestHeader = contentDigest P body'"
    using VerifyRequestForTarget_ok[OF assms(7)] by blast
  have wf: "wf_metadata md" "wf_metadata md'"
    using v v' assms(1,4,5) components_token(1) parseSignatureHeaders_Created[OF v(1)] parseSignatureHeaders_Created[OF v'(1)]
    by (auto simp: wf_metadata_def token_Fingerprint requestComponents_def)
  have "requestSignatureBase ip r md = requestSignatureBase ip r' md'" using assms(8) v(1) v'(1) by (simp add: signed_bytes_def)
  note same = requestSignatureBase_inject[OF this assms(2,3) signatureParams_one_line[OF wf(1)] signatureParams_one_line[OF wf(2)]]
  note eq = same(1-3) same(4)[unfolded v(7) v'(7)] same(5)[unfolded v(5) v'(5)] same(6)
  have "Inr md = (Inr md' :: go_error + signatureMetadata)"
    using parse_signatureParams[OF wf(1), of ip] parse_signatureParams[OF wf(2), of ip] unfolding eq(3) by (rule trans[OF sym])
  then have "n = n'" unfolding v(4)[symmetric] v'(4)[symmetric] by (simp only: sum.inject)
  then show ?thesis using eq(1,2,5,6) v(6) v'(6) contentDigest_inject[OF eq(4)] by blast
qed

section \<open>Responses\<close>

text \<open>A signed response passes verification within the allowed skew.\<close>

lemma SignResponse_verifies:
  assumes "wf_identity i" and "sign_verifies P (idPrivateKey i)" and "signature_size P" and "sha256_size P"
    and "nb \<noteq> []" and "0 < Unix t" and "Unix t < 2 ^ 63" and "\<bar>fromUnix (Unix t) - now\<bar> \<le> skew" and "0 < skew"
  shows "VerifyResponseForAgent P ip
      \<lparr>rsStatus = status, rsHeader = SignResponse P ip t nb h status body i, rsBody = Inr body\<rparr>
      (idAgentID i) (idPublicKey i) now skew = Inr ()"
proof -
  define md where "md = request_metadata P t nb i\<lparr>Components := responseComponents\<rparr>"
  define g where "g = Header_Set (Header_Set (setContentDigest P h body) agentIDHeader (idAgentID i)) publicKeyHeader
    (RawURL_EncodeToString (idPublicKey i))"
  define sig where "sig = ed25519_Sign P (idPrivateKey i) (responseSignatureBase ip status g md)"
  have signed: "SignResponse P ip t nb h status body i = setSignatureHeaders ip g md sig"
    by (simp add: SignResponse_def Let_def md_def g_def sig_def request_metadata_def)
  have parsed: "parseSignatureHeaders (setSignatureHeaders ip g md sig) = Inr (md, sig)"
    using wf_request_metadata(2)[OF assms(4-7)] assms(3)
    by (intro parse_setSignatureHeaders) (simp_all add: md_def sig_def signature_size_def)
  have get: "Header_Get (setSignatureHeaders ip g md sig) contentDigestHeader = contentDigest P body"
    "Header_Get (setSignatureHeaders ip g md sig) agentIDHeader = idAgentID i"
    by (simp_all add: setSignatureHeaders_other) (simp_all add: g_def setContentDigest_def header_names)
  have base: "responseSignatureBase ip status (setSignatureHeaders ip g md sig) md = responseSignatureBase ip status g md"
    by (simp add: responseSignatureBase_def setSignatureHeaders_other)
  have "ed25519_Verify P (idPublicKey i) (responseSignatureBase ip status g md) sig"
    unfolding sig_def using assms(1,2) by (simp add: wf_identity_def sign_verifies_def)
  moreover have "\<not> fromUnix (Unix t) < now - skew" "\<not> fromUnix (Unix t) > now + skew" using assms(8) by linarith+
  moreover have "Components md = responseComponents" "KeyID md = Fingerprint P (idPublicKey i)" "Created md = Unix t"
    by (simp_all add: md_def)
  ultimately show ?thesis
    unfolding VerifyResponseForAgent_def Let_def signed
    using parsed get base assms(9) length_public_key[OF assms(1)] by (simp add: sameComponents_iff skew_or_default_def)
qed

section \<open>A concrete signed request\<close>

definition fixed_primitives :: primitives where
  \<comment> \<open>primitives whose signatures have the documented size\<close>
  "fixed_primitives = clear_primitives\<lparr>
     ed25519_Sign := (\<lambda>k m. take 64 (ed25519_Public k @ m @ replicate 64 (CHR ''.''))),
     ed25519_Verify := (\<lambda>k m sg. sg = take 64 (k @ m @ replicate 64 (CHR ''.'')))\<rparr>"

lemma fixed_primitives_laws:
  "sign_verifies fixed_primitives k" "signature_size fixed_primitives" "sha256_size fixed_primitives"
  by (auto simp: sign_verifies_def signature_size_def sha256_size_def fixed_primitives_def clear_primitives_def
      SignatureSize_def min_def)

definition demo_request :: http_request where
  "demo_request = \<lparr>rqMethod = ''POST'', rqURL = \<lparr>uScheme = ''https'', uHost = ''bob:7443'', uPath = ''/a2a'', uRawQuery = []\<rparr>,
     rqHost = [], rqTLS = False, rqHeader = (\<lambda>_. []), rqBody = Inr ''hello''\<rparr>"

definition demo_sign :: "go_error + http_request" where
  "demo_sign = SignRequest fixed_primitives (\<lambda>_. False) (7 * Second) ''0123456789abcdef'' demo_request alice ''bob''"

definition demo_signed :: http_request where
  "demo_signed = (case demo_sign of Inr r \<Rightarrow> r | Inl _ \<Rightarrow> demo_request)"

lemma demo_sign_ok: "demo_sign = Inr demo_signed"
  by (simp add: demo_signed_def demo_sign_def SignRequest_def demo_request_def Let_def)

lemma demo_url: "uScheme (rqURL demo_request) = ''https''" "uHost (rqURL demo_request) = ''bob:7443''"
  "uPath (rqURL demo_request) = ''/a2a''"
  by (simp_all add: demo_request_def)

lemma Unix_seconds: "Unix (n * Second) = n" "fromUnix n = n * Second"
  by (simp_all add: Unix_def fromUnix_def Second_def)

lemma demo_verifies:
  "VerifyRequestForTarget fixed_primitives (\<lambda>_. False) (server_view demo_signed) ''alice'' ''bob'' (idPublicKey alice)
     (9 * Second) (5 * Minute) = Inr (identityNonce ''0123456789abcdef'')"
  using SignRequest_verifies[OF wf_demo_identities(1) fixed_primitives_laws _ _ _ demo_sign_ok[unfolded demo_sign_def],
      of "9 * Second" "5 * Minute"]
  by (simp add: demo_url Unix_seconds alice_def) (simp add: Second_def Minute_def)

lemma one_line_Std: "one_line (Std_EncodeToString bs)"
  using b64_std_chars[of "CHR 0x0A" bs] by (auto simp: one_line_def Std_EncodeToString_def b64_std_def)

lemma one_line_token: "token s \<Longrightarrow> one_line s"
  by (rule token_one_line) (auto simp: token_def token_char_def list_all_iff)

lemma one_line_append: "one_line (x @ y) \<longleftrightarrow> one_line x \<and> one_line y"
  by (simp add: one_line_def)

lemma demo_signed_one_line: "one_line_request (server_view demo_signed)"
proof -
  obtain body h sig where s: "demo_signed = demo_request\<lparr>rqBody := Inr body, rqHeader := setSignatureHeaders (\<lambda>_. False) h
      (request_metadata fixed_primitives (7 * Second) ''0123456789abcdef'' alice) sig\<rparr>"
    "h = Header_Set (Header_Set (Header_Set (setContentDigest fixed_primitives (\<lambda>_. []) body) agentIDHeader ''alice'') publicKeyHeader
      (RawURL_EncodeToString (idPublicKey alice))) targetAgentIDHeader ''bob''"
    by (simp add: demo_signed_def demo_sign_def SignRequest_def demo_request_def Let_def request_metadata_def alice_def)
  have md: "wf_metadata (request_metadata fixed_primitives (7 * Second) ''0123456789abcdef'' alice)"
    by (rule wf_request_metadata) (simp_all add: fixed_primitives_laws Unix_seconds)
  have key: "one_line (RawURL_EncodeToString (idPublicKey alice))"
    by (intro one_line_token token_RawURL) (simp add: alice_def)
  have "one_line (Header_Get (rqHeader demo_signed) k)" for k
    using signatureParams_one_line[OF md, of "\<lambda>_. False"] key one_line_Std
    by (simp add: s setSignatureHeaders_def setContentDigest_def contentDigest_def one_line_append signatureLabel_def Header_Get_def[of "\<lambda>_. []"])
      (simp add: one_line_def)
  moreover have "requestTarget (server_view demo_signed) = ''https://bob:7443/a2a''" "rqMethod demo_signed = ''POST''"
    by (simp_all add: s(1) server_view_def requestTarget_def IsAbs_def RequestURI_def demo_request_def)
  ultimately show ?thesis by (simp add: one_line_request_def) (simp add: one_line_def)
qed

theorem signature_covers_request_witness:
  "\<exists>body body'. rqBody (server_view demo_signed) = Inr body \<and> rqBody (server_view demo_signed) = Inr body' \<and>
     sha256 fixed_primitives body = sha256 fixed_primitives body'"
proof -
  have n: "token (identityNonce ''0123456789abcdef'')" unfolding identityNonce_def by (rule token_RawURL) simp
  from signature_covers_request[OF fixed_primitives_laws(3) demo_signed_one_line demo_signed_one_line n n demo_verifies demo_verifies refl]
  show ?thesis by blast
qed

end
