(* ===== verification/Capability.thy ===== *)
theory Capability
  imports Identity StoreOps GoNet "HOL-Library.Multiset"
begin

text \<open>
  \<^verbatim>\<open>internal/capability/capability.go\<close>: keys, challenges and sessions of local agents, and
  \<^verbatim>\<open>internal/registration/service.go\<close>: the registration of a local agent and its token.
\<close>

section \<open>Keys and challenges\<close>

record cap_key =
  kPublic :: bytes
  kPrivate :: bytes

definition FromPrivate :: "bytes \<Rightarrow> go_error + cap_key" where
  "FromPrivate private =
     (if length private \<noteq> PrivateKeySize then Inl (ErrMsg ''invalid capability private key'')
      else Inr \<lparr>kPublic = ed25519_Public private, kPrivate = private\<rparr>)"

definition GenerateKey :: "bytes \<Rightarrow> cap_key" where
  \<comment> \<open>of the private key made from the random source\<close>
  "GenerateKey private = \<lparr>kPublic = ed25519_Public private, kPrivate = private\<rparr>"

record Challenge =
  chBootID :: string
  chNonce :: string
  chAgentID :: string
  chEndpointDigest :: string
  chMethods :: "string list"
  chExpiresAt :: gotime

text \<open>\<open>json_challenge\<close> is \<^verbatim>\<open>json.Marshal\<close> of a challenge; it fails on a time outside the years 0 to 9999.\<close>

type_synonym json_challenge = "Challenge \<Rightarrow> bytes option"

definition canonical :: "json_challenge \<Rightarrow> Challenge \<Rightarrow> go_error + bytes" where
  "canonical J challenge =
     (case J (challenge\<lparr>chMethods := sort (chMethods challenge)\<rparr>) of
        None \<Rightarrow> Inl ErrMarshal
      | Some encoded \<Rightarrow> Inr (''snw-agent-link-capability-v1'' @ [CHR 0x00] @ encoded))"

definition Capability_Sign :: "primitives \<Rightarrow> json_challenge \<Rightarrow> cap_key \<Rightarrow> Challenge \<Rightarrow> go_error + bytes" where
  "Capability_Sign P J key challenge =
     (if length (kPrivate key) \<noteq> PrivateKeySize then Inl (ErrMsg ''capability private key is unavailable'')
      else case canonical J challenge of Inl e \<Rightarrow> Inl e | Inr content \<Rightarrow> Inr (ed25519_Sign P (kPrivate key) content))"

definition Capability_Verify :: "primitives \<Rightarrow> json_challenge \<Rightarrow> bytes \<Rightarrow> Challenge \<Rightarrow> bytes \<Rightarrow> go_error + unit" where
  "Capability_Verify P J public challenge signature =
     (if length public \<noteq> PublicKeySize \<or> length signature \<noteq> SignatureSize then Inl ErrCapabilitySignature
      else case canonical J challenge of
        Inl e \<Rightarrow> Inl e
      | Inr content \<Rightarrow> if \<not> ed25519_Verify P public content signature then Inl ErrCapabilitySignature else Inr ())"

definition PublicFingerprint :: "primitives \<Rightarrow> bytes \<Rightarrow> string" where
  \<comment> \<open>the trailing padding it trims is never there in the raw encoding\<close>
  "PublicFingerprint P public =
     rev (dropWhile (\<lambda>c. c = CHR ''='') (rev (RawURL_EncodeToString (sha256 P public))))"

section \<open>Sessions\<close>

record cap_session =
  seToken :: string
  sesAgentID :: string
  sesGeneration :: int
  sesMethods :: "string list"
  sesExpiresAt :: gotime

definition IssueSession :: "bytes \<Rightarrow> string \<Rightarrow> int \<Rightarrow> string list \<Rightarrow> gotime \<Rightarrow> duration \<Rightarrow> cap_session" where
  \<comment> \<open>the first argument is what the random source gives\<close>
  "IssueSession random agentID generation methods now lifetime =
     \<lparr>seToken = RawURL_EncodeToString random, sesAgentID = agentID, sesGeneration = generation,
      sesMethods = methods, sesExpiresAt = now + (if lifetime \<le> 0 then 15 * Minute else lifetime)\<rparr>"

definition Validate :: "cap_session \<Rightarrow> string \<Rightarrow> int \<Rightarrow> string \<Rightarrow> gotime \<Rightarrow> go_error + unit" where
  "Validate session agentID generation method now =
     (if sesAgentID session \<noteq> agentID then Inl ErrAgent
      else if sesGeneration session \<noteq> generation then Inl ErrGeneration
      else if \<not> now < sesExpiresAt session then Inl ErrExpired
      else if method \<in> set (sesMethods session) then Inr () else Inl ErrMethod)"

section \<open>Registration\<close>

record registration_input =
  riAgentID :: string
  riDisplayName :: string
  riLocalEndpoint :: string
  riAgentCardJSON :: bytes
  riIdentityPublicKey :: bytes
  riCapabilityPublicKey :: bytes
  riCapabilityGeneration :: int

definition newToken :: "bytes \<Rightarrow> string" where "newToken value = RawURL_EncodeToString value"

definition tokenHash :: "primitives \<Rightarrow> string \<Rightarrow> bytes" where "tokenHash P token = sha256 P token"

definition validateLocalEndpoint :: "weblib \<Rightarrow> string \<Rightarrow> go_error + unit" where
  "validateLocalEndpoint W raw =
     (case url_Parse W raw of
        None \<Rightarrow> Inl (ErrMsg ''parse local endpoint'')
      | Some endpoint \<Rightarrow>
          if pScheme endpoint \<noteq> ''http'' \<and> pScheme endpoint \<noteq> ''https''
          then Inl (ErrMsg ''local endpoint must use HTTP or HTTPS'')
          else if pHasUser endpoint \<or> pHostname endpoint = []
          then Inl (ErrMsg ''local endpoint must not contain credentials and must include a host'')
          else (case LookupIP W (pHostname endpoint) of
                  None \<Rightarrow> Inl (ErrMsg ''resolve local endpoint'')
                | Some addresses \<Rightarrow>
                    if addresses = [] then Inl (ErrMsg ''resolve local endpoint'')
                    else if list_ex (\<lambda>a. \<not> IsLoopback a) addresses
                    then Inl (ErrMsg ''local endpoint must resolve only to loopback addresses'')
                    else Inr ()))"

definition registration_of :: "primitives \<Rightarrow> registration_input \<Rightarrow> string \<Rightarrow> AgentRegistration" where
  "registration_of P input token =
     \<lparr>arAgentID = riAgentID input, arDisplayName = riDisplayName input, arLocalEndpoint = riLocalEndpoint input,
      arAgentCardJSON = riAgentCardJSON input, arIdentityPublicKey = riIdentityPublicKey input,
      arCapabilityPublicKey = riCapabilityPublicKey input, arCapabilityGeneration = riCapabilityGeneration input,
      arRegistrationTokenHash = tokenHash P token, arCreatedAt = zero_time, arUpdatedAt = zero_time\<rparr>"

definition Register :: "primitives \<Rightarrow> weblib \<Rightarrow> gotime \<Rightarrow> bytes \<Rightarrow> registration_input \<Rightarrow> (AgentRegistration \<times> string) op" where
  "Register P W now random input s =
     (if riAgentID input = [] \<or> riDisplayName input = [] \<or> riLocalEndpoint input = [] \<or>
         riAgentCardJSON input = [] \<or> riIdentityPublicKey input = []
      then (Inl (ErrMsg ''agent registration fields are required''), s)
      else and_then (validateLocalEndpoint W (riLocalEndpoint input), s) (\<lambda>_ s.
           let token = newToken random in
           and_then (RegisterAgent now (registration_of P input token) s) (\<lambda>_ s.
           and_then (GetAgentRegistration (riAgentID input) s, s) (\<lambda>stored s. (Inr (stored, token), s)))))"

definition Authenticate :: "primitives \<Rightarrow> string \<Rightarrow> string \<Rightarrow> store \<Rightarrow> go_error + AgentRegistration" where
  "Authenticate P agentID token s =
     (case GetAgentRegistration agentID s of
        Inl e \<Rightarrow> Inl e
      | Inr registration \<Rightarrow>
          if arRegistrationTokenHash registration \<noteq> tokenHash P token then Inl ErrInvalidRegistrationToken
          else Inr registration)"

section \<open>What they guarantee\<close>

lemma canonical_order:
  assumes "challenge' = challenge\<lparr>chMethods := methods\<rparr>" and "mset methods = mset (chMethods challenge)"
  shows "canonical J challenge' = canonical J challenge"
proof -
  have "sort methods = sort (chMethods challenge)" using assms(2) by (intro properties_for_sort) simp_all
  then show ?thesis by (simp add: canonical_def assms(1))
qed

text \<open>
  A signature made with a capability key verifies under its public key, for the challenge that was
  signed and for every challenge that lists the same methods in another order.
\<close>

lemma Capability_Sign_verifies:
  assumes "FromPrivate private = Inr key" and "sign_verifies P private" and "length sig = SignatureSize"
    and "Capability_Sign P J key challenge = Inr sig" and "mset methods = mset (chMethods challenge)"
  shows "Capability_Verify P J (kPublic key) (challenge\<lparr>chMethods := methods\<rparr>) sig = Inr ()"
proof -
  have k: "kPublic key = ed25519_Public private" "kPrivate key = private" "length private = PrivateKeySize"
    using assms(1) by (auto simp: FromPrivate_def split: if_splits)
  obtain content where c: "canonical J challenge = Inr content" "sig = ed25519_Sign P private content"
    using assms(4) k by (auto simp: Capability_Sign_def split: sum.splits if_splits)
  have "canonical J (challenge\<lparr>chMethods := methods\<rparr>) = Inr content" using canonical_order[OF refl assms(5)] c(1) by simp
  moreover have "length (kPublic key) = PublicKeySize" using k by (simp add: ed25519_Public_def PrivateKeySize_def PublicKeySize_def)
  ultimately show ?thesis
    using assms(2,3) k(1) c(2) by (simp add: Capability_Verify_def sign_verifies_def)
qed

text \<open>
  An issued session admits exactly the calls of its agent, at its generation of the key, to one of
  its methods, before the end of its life (15 minutes unless another life was asked for).
\<close>

lemma session_admits:
  "Validate (IssueSession random a g ms issued life) a' g' m now = Inr () \<longleftrightarrow>
     a' = a \<and> g' = g \<and> m \<in> set ms \<and> now < issued + (if life \<le> 0 then 15 * Minute else life)"
  by (auto simp: Validate_def IssueSession_def)

lemma Register_returns:
  assumes "Register P W now random input s = (Inr (stored, token), t)"
  shows "token = newToken random" "validateLocalEndpoint W (riLocalEndpoint input) = Inr ()"
    "GetAgentRegistration (riAgentID input) t = Inr stored" "t = snd (RegisterAgent now (registration_of P input token) s)"
    "GetAgentRegistration (riAgentID input) s = Inl ErrNotFound"
    "arRegistrationTokenHash stored = tokenHash P token" "arLocalEndpoint stored = riLocalEndpoint input"
    "arIdentityPublicKey stored = riIdentityPublicKey input"
  using assms
  by (auto simp: Register_def Let_def and_then_returns RegisterAgent_def GetAgentRegistration_def insert_row_Some_iff
      insert_row_None_iff by_key_append registration_of_def split: if_splits option.splits)

text \<open>
  A registered agent keeps its token. After a registration succeeded, and whatever is written to
  the store later, authentication as that agent succeeds with exactly those tokens that have the digest of the
  issued one, and gives the endpoint, which resolved to loopback addresses only, and the identity key
  of the registration.
\<close>

lemma registration_token_lasts:
  assumes "wf_store s" and "Register P W now random input s = (Inr (stored, token), t)"
    and "u = run (store_step P) ops t"
  shows "\<exists>r. (\<forall>tok. Authenticate P (riAgentID input) tok u =
        (if sha256 P tok = sha256 P token then Inr r else Inl ErrInvalidRegistrationToken)) \<and>
      arLocalEndpoint r = riLocalEndpoint input \<and> arIdentityPublicKey r = riIdentityPublicKey input \<and>
      (\<exists>url ips. url_Parse W (riLocalEndpoint input) = Some url \<and> LookupIP W (pHostname url) = Some ips \<and>
         ips \<noteq> [] \<and> list_all IsLoopback ips)"
proof -
  note reg = Register_returns[OF assms(2)]
  have "wf_store t" unfolding reg(4) using assms(1) by (rule wf_RegisterAgent)
  then have "keeps arAgentID registration_le (agent_registrations t) (agent_registrations u)"
    using store_le_run[of t P ops] unfolding assms(3) store_le_def by blast
  moreover have "by_key arAgentID (riAgentID input) (agent_registrations t) = Some stored"
    using reg(3) by (simp add: GetAgentRegistration_def split: option.splits)
  ultimately obtain r where r: "by_key arAgentID (riAgentID input) (agent_registrations u) = Some r" "registration_le stored r"
    using keepsD by metis
  have same: "arRegistrationTokenHash r = arRegistrationTokenHash stored" "arLocalEndpoint r = arLocalEndpoint stored"
    "arIdentityPublicKey r = arIdentityPublicKey stored"
    using r(2) unfolding registration_le_def by (cases r, cases stored, simp)+
  have "Authenticate P (riAgentID input) tok u =
      (if sha256 P tok = sha256 P token then Inr r else Inl ErrInvalidRegistrationToken)" for tok
    using r(1) same(1) reg(6) by (auto simp: Authenticate_def GetAgentRegistration_def tokenHash_def)
  moreover have "\<exists>url ips. url_Parse W (riLocalEndpoint input) = Some url \<and> LookupIP W (pHostname url) = Some ips \<and>
      ips \<noteq> [] \<and> list_all IsLoopback ips"
    using reg(2) by (auto simp: validateLocalEndpoint_def list_ex_iff list_all_iff split: option.splits if_splits)
  ultimately show ?thesis using same(2,3) reg(7,8) by auto
qed

section \<open>Concrete runs\<close>

definition demo_web :: weblib where
  "demo_web = \<lparr>url_Parse = (\<lambda>u. Some \<lparr>pScheme = ''http'', pHasUser = False, pHost = u, pHostname = u, pPort = []\<rparr>),
     LookupIP = (\<lambda>_. Some [[127, 0, 0, 1]]), netip_ParseAddr = (\<lambda>_. None), netip_ParsePrefix = (\<lambda>_. None)\<rparr>"

definition demo_registration :: registration_input where
  "demo_registration = \<lparr>riAgentID = ''alice'', riDisplayName = ''Alice'', riLocalEndpoint = ''localhost'', riAgentCardJSON = ''{}'',
     riIdentityPublicKey = ''key'', riCapabilityPublicKey = [], riCapabilityGeneration = 0\<rparr>"

lemma registration_token_lasts_witness:
  "\<exists>stored token t. Register clear_primitives demo_web 5 ''random'' demo_registration (empty_store None) = (Inr (stored, token), t) \<and>
     (\<exists>r. Authenticate clear_primitives ''alice'' token (run (store_step clear_primitives)
        [OpUpdateAgentCapability 6 ''alice'' ''cap'' 1] t) = Inr r \<and> arLocalEndpoint r = ''localhost'')"
proof -
  obtain stored token t where reg: "Register clear_primitives demo_web 5 ''random'' demo_registration (empty_store None) = (Inr (stored, token), t)"
    by (simp add: Register_def demo_registration_def validateLocalEndpoint_def demo_web_def IsLoopback_def To4_def Let_def
        RegisterAgent_def insert_row_def empty_store_def GetAgentRegistration_def registration_of_def)
  from registration_token_lasts[OF wf_store_empty reg refl, of "[OpUpdateAgentCapability 6 ''alice'' ''cap'' 1]"]
  show ?thesis using reg by (auto simp: demo_registration_def)
qed

definition demo_challenge :: Challenge where
  "demo_challenge = \<lparr>chBootID = ''boot'', chNonce = ''n'', chAgentID = ''alice'', chEndpointDigest = ''d'',
     chMethods = [''send'', ''list''], chExpiresAt = 0\<rparr>"

definition sized_primitives :: primitives where
  "sized_primitives = clear_primitives\<lparr>ed25519_Sign := (\<lambda>k m. take 64 (m @ replicate 64 (CHR ''.''))),
     ed25519_Verify := (\<lambda>k m sg. sg = take 64 (m @ replicate 64 (CHR ''.'')))\<rparr>"

end
