(* ===== verification/IdentityStore.thy ===== *)
theory IdentityStore
  imports Capability Demo
begin

text \<open>
  \<^verbatim>\<open>internal/identitystore/file.go\<close>: identities and capability keys as JSON files. The directory is a map
  from file names to contents. \<open>io\<close> says whether a file operation fails before the new file is renamed into
  place (the temporary file is removed then), \<open>chmod\<close> whether the last change of mode fails.
\<close>

type_synonym files = "string \<rightharpoonup> bytes"

record idrec =
  recAgentID :: string
  recPrivateKey :: string

record idjson =
  idrec_Marshal :: "idrec \<Rightarrow> bytes"
  idrec_Unmarshal :: "bytes \<Rightarrow> idrec option"

record io_env =
  ctx_err :: "go_error option"
  io_err :: "go_error option"
  chmod_err :: "go_error option"

definition Base :: "string \<Rightarrow> string" where
  \<comment> \<open>\<^verbatim>\<open>filepath.Base\<close> on Unix\<close>
  "Base p = (if p = [] then ''.''
     else let q = rev (dropWhile (\<lambda>c. c = CHR ''/'') (rev p));
              b = rev (takeWhile (\<lambda>c. c \<noteq> CHR ''/'') (rev q))
          in if b = [] then ''/'' else b)"

definition path :: "string \<Rightarrow> string" where "path agentID = Base agentID @ ''.json''"

definition capabilityPath :: "string \<Rightarrow> string" where "capabilityPath agentID = Base agentID @ ''.capability.json''"

definition writeSecret :: "io_env \<Rightarrow> string \<Rightarrow> bytes \<Rightarrow> files \<Rightarrow> (go_error, unit, files) outcome" where
  "writeSecret io name payload fs =
     (case io_err io of
        Some e \<Rightarrow> (Inl e, fs)
      | None \<Rightarrow> (case chmod_err io of None \<Rightarrow> Inr () | Some e \<Rightarrow> Inl e, fs(name \<mapsto> payload)))"

definition PutIdentity :: "idjson \<Rightarrow> io_env \<Rightarrow> Identity option \<Rightarrow> files \<Rightarrow> (go_error, unit, files) outcome" where
  \<comment> \<open>its write steps are those of writeSecret, written out again in the source\<close>
  "PutIdentity J io identity fs =
     (case ctx_err io of
        Some e \<Rightarrow> (Inl e, fs)
      | None \<Rightarrow>
          (case identity of
             None \<Rightarrow> (Inl (ErrMsg ''agent identity is required''), fs)
           | Some i \<Rightarrow>
               if TrimSpace (idAgentID i) = [] then (Inl (ErrMsg ''agent identity is required''), fs)
               else (let payload = idrec_Marshal J \<lparr>recAgentID = idAgentID i,
                           recPrivateKey = RawURL_EncodeToString (idPrivateKey i)\<rparr>
                     in writeSecret io (path (idAgentID i)) payload fs)))"

definition FileStore_GetIdentity :: "idjson \<Rightarrow> io_env \<Rightarrow> string \<Rightarrow> files \<Rightarrow> go_error + Identity" where
  "FileStore_GetIdentity J io agentID fs =
     (case ctx_err io of
        Some e \<Rightarrow> Inl e
      | None \<Rightarrow>
          if TrimSpace agentID = [] then Inl (ErrMsg ''agent id is required'')
          else (case (io_err io, fs (path agentID)) of
                  (Some e, _) \<Rightarrow> Inl e
                | (None, None) \<Rightarrow> Inl ErrIdentityNotFound
                | (None, Some data) \<Rightarrow>
                    (case idrec_Unmarshal J data of
                       None \<Rightarrow> Inl (ErrMsg ''decode agent identity'')
                     | Some v \<Rightarrow>
                         if recAgentID v \<noteq> agentID \<or> recPrivateKey v = [] then Inl (ErrMsg ''invalid agent identity record'')
                         else (case RawURL_DecodeString (recPrivateKey v) of
                                 None \<Rightarrow> Inl (ErrMsg ''invalid agent identity private key'')
                               | Some privateKey \<Rightarrow>
                                   if length privateKey \<noteq> PrivateKeySize then Inl (ErrMsg ''invalid agent identity private key'')
                                   else FromPrivateKey agentID privateKey))))"

definition PutCapabilityKey :: "idjson \<Rightarrow> io_env \<Rightarrow> string \<Rightarrow> cap_key \<Rightarrow> files \<Rightarrow> (go_error, unit, files) outcome" where
  "PutCapabilityKey J io agentID key fs =
     (case ctx_err io of
        Some e \<Rightarrow> (Inl e, fs)
      | None \<Rightarrow>
          if TrimSpace agentID = [] then (Inl (ErrMsg ''agent id is required''), fs)
          else writeSecret io (capabilityPath agentID)
                 (idrec_Marshal J \<lparr>recAgentID = agentID, recPrivateKey = RawURL_EncodeToString (kPrivate key)\<rparr>) fs)"

definition GetCapabilityKey :: "idjson \<Rightarrow> io_env \<Rightarrow> string \<Rightarrow> files \<Rightarrow> go_error + cap_key" where
  "GetCapabilityKey J io agentID fs =
     (case ctx_err io of
        Some e \<Rightarrow> Inl e
      | None \<Rightarrow>
          (case (io_err io, fs (capabilityPath agentID)) of
             (Some e, _) \<Rightarrow> Inl e
           | (None, None) \<Rightarrow> Inl ErrIdentityNotFound
           | (None, Some data) \<Rightarrow>
               (case idrec_Unmarshal J data of
                  None \<Rightarrow> Inl (ErrMsg ''invalid capability key record'')
                | Some v \<Rightarrow>
                    if recAgentID v \<noteq> agentID \<or> recPrivateKey v = [] then Inl (ErrMsg ''invalid capability key record'')
                    else (case RawURL_DecodeString (recPrivateKey v) of
                            None \<Rightarrow> Inl (ErrMsg ''invalid capability private key'')
                          | Some privateKey \<Rightarrow> FromPrivate privateKey))))"

section \<open>What was stored is read back\<close>

text \<open>The encoder's law for one record: it holds for every record of valid UTF-8.\<close>

definition json_restores :: "idjson \<Rightarrow> idrec \<Rightarrow> bool" where
  "json_restores J v = (idrec_Unmarshal J (idrec_Marshal J v) = Some v)"

lemma RawURL_nonempty: "bs \<noteq> [] \<Longrightarrow> RawURL_EncodeToString bs \<noteq> []"
  by (cases "map byte bs" rule: sextets.cases) (auto simp: RawURL_EncodeToString_def b64_raw_encode_def)

lemma key_nonempty: "length k = PrivateKeySize \<Longrightarrow> k \<noteq> []"
  by (auto simp: PrivateKeySize_def)

definition no_io_error :: io_env where
  "no_io_error = \<lparr>ctx_err = None, io_err = None, chmod_err = None\<rparr>"

text \<open>
  Storing an identity and reading it back gives the same identity, and storing a capability key and
  reading it back gives the same key; files of other names stay as they were.
\<close>

lemma identity_files_restored:
  assumes "json_restores J \<lparr>recAgentID = idAgentID i, recPrivateKey = RawURL_EncodeToString (idPrivateKey i)\<rparr>"
    and "json_restores J \<lparr>recAgentID = a, recPrivateKey = RawURL_EncodeToString (kPrivate key)\<rparr>"
    and "wf_identity i" and "TrimSpace (idAgentID i) \<noteq> []" and "TrimSpace a \<noteq> []"
    and "FromPrivate (kPrivate key) = Inr key"
  shows "(\<exists>fs'. PutIdentity J no_io_error (Some i) fs = (Inr (), fs') \<and>
      FileStore_GetIdentity J no_io_error (idAgentID i) fs' = Inr i \<and> (\<forall>n. n \<noteq> path (idAgentID i) \<longrightarrow> fs' n = fs n)) \<and>
    (\<exists>fs'. PutCapabilityKey J no_io_error a key fs = (Inr (), fs') \<and>
      GetCapabilityKey J no_io_error a fs' = Inr key \<and> (\<forall>n. n \<noteq> capabilityPath a \<longrightarrow> fs' n = fs n))"
proof -
  have k: "length (kPrivate key) = PrivateKeySize" using assms(6) by (auto simp: FromPrivate_def split: if_splits)
  have i: "length (idPrivateKey i) = PrivateKeySize" "idAgentID i \<noteq> []" "idPublicKey i = ed25519_Public (idPrivateKey i)"
    using assms(3) by (auto simp: wf_identity_def)
  then have "FromPrivateKey (idAgentID i) (idPrivateKey i) = Inr i" by (simp add: FromPrivateKey_def)
  with assms i k show ?thesis
    by (simp add: PutIdentity_def FileStore_GetIdentity_def PutCapabilityKey_def GetCapabilityKey_def writeSecret_def
        no_io_error_def json_restores_def RawURL_roundtrip RawURL_nonempty key_nonempty Let_def)
qed

definition demo_idjson :: idjson where
  "demo_idjson = \<lparr>idrec_Marshal = (\<lambda>v. recAgentID v @ '','' @ recPrivateKey v),
     idrec_Unmarshal = (\<lambda>b. let a = takeWhile (\<lambda>c. c \<noteq> CHR '','') b in
       Some \<lparr>recAgentID = a, recPrivateKey = drop (Suc (length a)) b\<rparr>)\<rparr>"

lemma demo_idjson_restores: "CHR '','' \<notin> set a \<Longrightarrow> json_restores demo_idjson \<lparr>recAgentID = a, recPrivateKey = k\<rparr>"
proof -
  assume "CHR '','' \<notin> set a"
  then have "takeWhile (\<lambda>c. c \<noteq> CHR '','') (a @ CHR '','' # k) = a" by (subst takeWhile_append2) auto
  then show ?thesis by (simp add: json_restores_def demo_idjson_def Let_def)
qed

lemma trim_alice: "TrimSpace ''alice'' \<noteq> []"
  by (simp add: TrimSpace_def trim_left.simps space_seqs_def)

lemma put_succeeds:
  "PutIdentity J io i fs = (Inr (), fs') \<Longrightarrow> io = no_io_error \<and> (\<exists>v. i = Some v \<and> TrimSpace (idAgentID v) \<noteq> [])"
  "PutCapabilityKey J io a key fs = (Inr (), fs') \<Longrightarrow> io = no_io_error \<and> TrimSpace a \<noteq> []"
  by (auto simp: PutIdentity_def PutCapabilityKey_def writeSecret_def no_io_error_def Let_def split: option.splits if_splits)

lemma GetIdentity_other_file: "fs (path a) = fs' (path a) \<Longrightarrow> FileStore_GetIdentity J io a fs = FileStore_GetIdentity J io a fs'"
  unfolding FileStore_GetIdentity_def by (simp only:)

lemma paths_differ: "path a \<noteq> capabilityPath a"
  by (simp add: path_def capabilityPath_def)

end
