(* ===== verification/Attachment.thy ===== *)
theory Attachment
  imports IdentityStore
begin

text \<open>
  \<^verbatim>\<open>internal/attachment/service.go\<close>: chunked uploads of blobs kept as files under one directory. For each blob there
  is a metadata file (its decoded value, or \<open>None\<close> when it does not decode), a part file and a final file.
  Failures of file operations are part of the environment: the operations are modelled with what they leave
  behind when one of their steps fails.
\<close>

section \<open>State\<close>

datatype attachment_state = StateUploading | StateCompleted | StateCancelled

record Metadata =
  mdBlobID :: string
  mdOwnerID :: string
  mdName :: string
  mdMediaType :: string
  mdSize :: int
  mdReceived :: int
  mdSHA256 :: string
  mdState :: attachment_state
  mdCreatedAt :: gotime
  mdUpdatedAt :: gotime

record attachment_service =
  maxBytes :: int
  chunkSize :: int

record blob_files =
  metas :: "string \<rightharpoonup> Metadata option"
  parts :: "string \<rightharpoonup> bytes"
  blobs :: "string \<rightharpoonup> bytes"

type_synonym 'a attachment_op = "blob_files \<Rightarrow> (go_error, 'a, blob_files) outcome"

text \<open>
  The environment of one call: what each step that touches a file returns (\<open>None\<close> is success), how many bytes a
  failing write has written, and whether a removal whose error is ignored takes effect.
\<close>

record file_env =
  fe_now :: gotime
  fe_meta :: "go_error option"     \<comment> \<open>writing the metadata file\<close>
  fe_read :: "go_error option"     \<comment> \<open>reading the metadata file\<close>
  fe_open :: "go_error option"     \<comment> \<open>opening or creating the part or blob file\<close>
  fe_write :: "(go_error \<times> nat) option"
  fe_close :: "go_error option"    \<comment> \<open>syncing and closing it\<close>
  fe_digest :: "go_error option"   \<comment> \<open>reading the file, for its digest or a range\<close>
  fe_rename :: "go_error option"
  fe_remove :: "string \<Rightarrow> bool"

definition NewService_attachment :: "int \<Rightarrow> int \<Rightarrow> attachment_service" where
  "NewService_attachment maxB chunk =
     \<lparr>maxBytes = (if maxB \<le> 0 then 2 ^ 30 else maxB), chunkSize = (if chunk \<le> 0 then 4 * 2 ^ 20 else chunk)\<rparr>"

definition byte_lower :: "char \<Rightarrow> char" where
  "byte_lower c = (if 65 \<le> byte c \<and> byte c \<le> 90 then unbyte (byte c + 32) else c)"

definition ToLower :: "string \<Rightarrow> string" where
  \<comment> \<open>on ASCII text\<close>
  "ToLower s = map byte_lower s"

definition writeMetadata :: "file_env \<Rightarrow> Metadata \<Rightarrow> unit attachment_op" where
  "writeMetadata E m fs =
     (case fe_meta E of Some e \<Rightarrow> (Inl e, fs) | None \<Rightarrow> (Inr (), fs\<lparr>metas := (metas fs)(mdBlobID m \<mapsto> Some m)\<rparr>))"

definition readMetadata :: "file_env \<Rightarrow> string \<Rightarrow> blob_files \<Rightarrow> go_error + Metadata" where
  "readMetadata E blobID fs =
     (if blobID = [] \<or> Base blobID \<noteq> blobID then Inl ErrAttachmentNotFound
      else case (metas fs blobID, fe_read E) of
        (None, _) \<Rightarrow> Inl ErrAttachmentNotFound
      | (Some _, Some e) \<Rightarrow> Inl e
      | (Some None, None) \<Rightarrow> Inl (ErrMsg ''invalid metadata'')
      | (Some (Some m), None) \<Rightarrow> Inr m)"

definition owned :: "file_env \<Rightarrow> string \<Rightarrow> string \<Rightarrow> blob_files \<Rightarrow> go_error + Metadata" where
  \<comment> \<open>the first steps of every operation on an existing blob\<close>
  "owned E ownerID blobID fs =
     (case readMetadata E blobID fs of
        Inl e \<Rightarrow> Inl e
      | Inr m \<Rightarrow> if mdOwnerID m \<noteq> ownerID then Inl ErrOwnerMismatch else Inr m)"

section \<open>Operations\<close>

definition Init ::
  "attachment_service \<Rightarrow> file_env \<Rightarrow> string \<Rightarrow> string \<Rightarrow> string \<Rightarrow> string \<Rightarrow> string \<Rightarrow> int \<Rightarrow> Metadata attachment_op" where
  \<comment> \<open>uid is the fresh identifier\<close>
  "Init S E uid ownerID name mediaType checksum sz fs =
     (if ownerID = [] \<or> name = [] \<or> sz < 0 \<or> sz > maxBytes S then (Inl ErrQuotaExceeded, fs)
      else if length checksum \<noteq> 64 then (Inl (ErrMsg ''attachment sha256 must be a 64-character hex digest''), fs)
      else if hex_DecodeString checksum = None then (Inl (ErrMsg ''attachment sha256 is not hexadecimal''), fs)
      else
        let metadata = \<lparr>mdBlobID = uid, mdOwnerID = ownerID, mdName = Base name, mdMediaType = mediaType, mdSize = sz,
              mdReceived = 0, mdSHA256 = ToLower checksum, mdState = StateUploading, mdCreatedAt = fe_now E,
              mdUpdatedAt = fe_now E\<rparr> in
        and_then (writeMetadata E metadata fs) (\<lambda>_ fs.
        if parts fs uid \<noteq> None \<or> fe_open E \<noteq> None
        then (Inl (ErrMsg ''create attachment part''),
              if fe_remove E (uid @ ''.json'') then fs\<lparr>metas := (metas fs)(uid := None)\<rparr> else fs)
        else (case fe_close E of None \<Rightarrow> Inr metadata | Some e \<Rightarrow> Inl e, fs\<lparr>parts := (parts fs)(uid \<mapsto> [])\<rparr>)))"

definition WriteAt :: "bytes \<Rightarrow> nat \<Rightarrow> bytes \<Rightarrow> bytes" where
  "WriteAt content off data =
     take off content @ replicate (off - length content) (CHR 0x00) @ data @ drop (off + length data) content"

definition PutChunk ::
  "attachment_service \<Rightarrow> file_env \<Rightarrow> string \<Rightarrow> string \<Rightarrow> int \<Rightarrow> bytes \<Rightarrow> Metadata attachment_op" where
  "PutChunk S E ownerID blobID off data fs =
     and_then (owned E ownerID blobID fs, fs) (\<lambda>m fs.
     if mdState m \<noteq> StateUploading then (Inl ErrAttachmentState, fs)
     else if off \<noteq> mdReceived m then (Inl ErrInvalidOffset, fs)
     else if int (length data) > chunkSize S \<or> mdReceived m + int (length data) > mdSize m then (Inl ErrQuotaExceeded, fs)
     else
       case (parts fs blobID, fe_open E) of
         (None, _) \<Rightarrow> (Inl (ErrMsg ''open attachment part''), fs)
       | (Some _, Some e) \<Rightarrow> (Inl e, fs)
       | (Some content, None) \<Rightarrow>
           (case fe_write E of
              Some (e, n) \<Rightarrow> (Inl e, fs\<lparr>parts := (parts fs)(blobID \<mapsto> WriteAt content (nat off) (take n data))\<rparr>)
            | None \<Rightarrow>
                let fs = fs\<lparr>parts := (parts fs)(blobID \<mapsto> WriteAt content (nat off) data)\<rparr> in
                (case fe_close E of
                   Some e \<Rightarrow> (Inl e, fs)
                 | None \<Rightarrow>
                     let m = m\<lparr>mdReceived := mdReceived m + int (length data), mdUpdatedAt := fe_now E\<rparr> in
                     and_then (writeMetadata E m fs) (\<lambda>_ fs. (Inr m, fs)))))"

definition fileDigest :: "primitives \<Rightarrow> bytes \<Rightarrow> string" where
  "fileDigest P content = hex_EncodeToString (sha256 P content)"

definition Complete :: "primitives \<Rightarrow> file_env \<Rightarrow> string \<Rightarrow> string \<Rightarrow> Metadata attachment_op" where
  "Complete P E ownerID blobID fs =
     and_then (owned E ownerID blobID fs, fs) (\<lambda>m fs.
     if mdState m \<noteq> StateUploading \<or> mdReceived m \<noteq> mdSize m then (Inl ErrAttachmentState, fs)
     else
       case (parts fs blobID, fe_digest E) of
         (None, _) \<Rightarrow> (Inl (ErrMsg ''open attachment part''), fs)
       | (Some _, Some e) \<Rightarrow> (Inl e, fs)
       | (Some content, None) \<Rightarrow>
           if fileDigest P content \<noteq> mdSHA256 m then (Inl ErrChecksum, fs)
           else (case fe_rename E of
                   Some e \<Rightarrow> (Inl e, fs)
                 | None \<Rightarrow>
                     let fs = fs\<lparr>parts := (parts fs)(blobID := None), blobs := (blobs fs)(blobID \<mapsto> content)\<rparr>;
                         m = m\<lparr>mdState := StateCompleted, mdUpdatedAt := fe_now E\<rparr> in
                     and_then (writeMetadata E m fs) (\<lambda>_ fs. (Inr m, fs))))"

definition Status :: "file_env \<Rightarrow> string \<Rightarrow> string \<Rightarrow> blob_files \<Rightarrow> go_error + Metadata" where
  "Status E ownerID blobID fs = owned E ownerID blobID fs"

definition Grant :: "file_env \<Rightarrow> string \<Rightarrow> string \<Rightarrow> string \<Rightarrow> string \<Rightarrow> string \<Rightarrow> duration \<Rightarrow> blob_files \<Rightarrow> go_error + AttachmentGrant" where
  "Grant E uid ownerID blobID targetAgentID contextID ttl fs =
     (case Status E ownerID blobID fs of
        Inl e \<Rightarrow> Inl e
      | Inr m \<Rightarrow>
          if mdState m \<noteq> StateCompleted \<or> targetAgentID = [] \<or> contextID = [] then Inl ErrAttachmentState
          else (let ttl = (if ttl \<le> 0 then 15 * Minute else ttl);
                    ttl = (if ttl > 24 * Hour then 24 * Hour else ttl)
                in Inr \<lparr>agGrantID = uid, agBlobID = mdBlobID m, agBlobURI = [], agOwnerAgentID = ownerID, agTargetAgentID = targetAgentID,
                     agContextID = contextID, agDigest = mdSHA256 m, agSize = mdSize m,
                     agExpiresAt = fe_now E + ttl, agRevokedAt = None, agCreatedAt = fe_now E, agUpdatedAt = fe_now E\<rparr>))"

definition ReadAt :: "bytes \<Rightarrow> nat \<Rightarrow> nat \<Rightarrow> bytes" where
  \<comment> \<open>into a zeroed buffer; reading past the end of the file is not an error here\<close>
  "ReadAt content start n =
     (let got = take n (drop start content) in got @ replicate (n - length got) (CHR 0x00))"

definition ReadRange ::
  "attachment_service \<Rightarrow> file_env \<Rightarrow> string \<Rightarrow> string \<Rightarrow> int \<Rightarrow> int \<Rightarrow> blob_files \<Rightarrow> go_error + Metadata \<times> bytes" where
  "ReadRange S E ownerID blobID start end fs =
     (case owned E ownerID blobID fs of
        Inl e \<Rightarrow> Inl e
      | Inr m \<Rightarrow>
          if mdState m \<noteq> StateCompleted then Inl ErrAttachmentState
          else if start < 0 \<or> end < start \<or> end \<ge> mdSize m \<or> end - start + 1 > chunkSize S then Inl ErrInvalidOffset
          else (case (blobs fs blobID, fe_open E, fe_digest E) of
                  (None, _, _) \<Rightarrow> Inl ErrAttachmentNotFound
                | (Some _, Some e, _) \<Rightarrow> Inl e
                | (Some _, None, Some e) \<Rightarrow> Inl e
                | (Some content, None, None) \<Rightarrow> Inr (m, ReadAt content (nat start) (nat (end - start + 1)))))"

definition Cancel :: "file_env \<Rightarrow> string \<Rightarrow> string \<Rightarrow> Metadata attachment_op" where
  "Cancel E ownerID blobID fs =
     and_then (owned E ownerID blobID fs, fs) (\<lambda>m fs.
     if mdState m = StateCompleted then (Inl ErrAttachmentState, fs)
     else
       let m = m\<lparr>mdState := StateCancelled, mdUpdatedAt := fe_now E\<rparr>;
           fs = (if fe_remove E (blobID @ ''.part'') then fs\<lparr>parts := (parts fs)(blobID := None)\<rparr> else fs) in
       and_then (writeMetadata E m fs) (\<lambda>_ fs. (Inr m, fs)))"

fun gc_each :: "file_env \<Rightarrow> gotime \<Rightarrow> string list \<Rightarrow> blob_files \<Rightarrow> blob_files" where
  "gc_each E cutoff [] fs = fs"
| "gc_each E cutoff (entry # entries) fs =
     (case readMetadata E entry fs of
        Inl _ \<Rightarrow> gc_each E cutoff entries fs
      | Inr m \<Rightarrow>
          if mdUpdatedAt m > cutoff then gc_each E cutoff entries fs
          else gc_each E cutoff entries
                 (let i = mdBlobID m;
                      fs = (if fe_remove E (i @ ''.json'') then fs\<lparr>metas := (metas fs)(i := None)\<rparr> else fs);
                      fs = (if fe_remove E (i @ ''.part'') then fs\<lparr>parts := (parts fs)(i := None)\<rparr> else fs)
                  in if fe_remove E (i @ ''.blob'') then fs\<lparr>blobs := (blobs fs)(i := None)\<rparr> else fs))"

definition GC :: "file_env \<Rightarrow> string list \<Rightarrow> duration \<Rightarrow> unit attachment_op" where
  \<comment> \<open>entries are the names of the metadata files in the directory, without their suffix\<close>
  "GC E entries retention fs =
     (let retention = (if retention \<le> 0 then 24 * Hour else retention)
      in (Inr (), gc_each E (fe_now E - retention) entries fs))"

end
