(* ===== verification/AttachmentProps.thy ===== *)
theory AttachmentProps
  imports Attachment
begin

text \<open>
  What the attachment service guarantees: an invariant of its directory that every operation keeps even when
  file operations fail, and that an upload in chunks gives back the uploaded bytes.
\<close>

section \<open>Invariant\<close>

definition wf_meta :: "primitives \<Rightarrow> attachment_service \<Rightarrow> blob_files \<Rightarrow> string \<Rightarrow> Metadata \<Rightarrow> bool" where
  "wf_meta P S fs i m =
     (mdBlobID m = i \<and> 0 \<le> mdReceived m \<and> mdReceived m \<le> mdSize m \<and> mdSize m \<le> maxBytes S \<and>
      (mdState m = StateUploading \<longrightarrow> (\<forall>c. parts fs i = Some c \<longrightarrow>
         mdReceived m \<le> int (length c) \<and> int (length c) \<le> mdSize m)) \<and>
      (mdState m = StateCompleted \<longrightarrow> (\<forall>c. blobs fs i = Some c \<longrightarrow>
         int (length c) = mdSize m \<and> fileDigest P c = mdSHA256 m)))"

definition attachment_inv :: "primitives \<Rightarrow> attachment_service \<Rightarrow> blob_files \<Rightarrow> bool" where
  "attachment_inv P S fs = (\<forall>i m. metas fs i = Some (Some m) \<longrightarrow> wf_meta P S fs i m)"

lemma attachment_invD: "attachment_inv P S fs \<Longrightarrow> metas fs i = Some (Some m) \<Longrightarrow> wf_meta P S fs i m"
  by (simp add: attachment_inv_def)

lemma owned_ok:
  "owned E a i fs = Inr m \<longleftrightarrow> i \<noteq> [] \<and> Base i = i \<and> fe_read E = None \<and> metas fs i = Some (Some m) \<and> mdOwnerID m = a"
  by (auto simp: owned_def readMetadata_def split: option.splits sum.splits if_splits)

lemma readMetadata_ok: "readMetadata E i fs = Inr m \<Longrightarrow> metas fs i = Some (Some m)"
  by (auto simp: readMetadata_def split: option.splits if_splits)

text \<open>Replacing the files of one blob keeps the invariant when they fit its metadata.\<close>

lemma attachment_inv_one:
  assumes "attachment_inv P S fs" and "\<And>j. j \<noteq> i \<Longrightarrow> metas fs' j = metas fs j \<and> parts fs' j = parts fs j \<and> blobs fs' j = blobs fs j"
    and "\<And>m. metas fs' i = Some (Some m) \<Longrightarrow> wf_meta P S fs' i m"
  shows "attachment_inv P S fs'"
  unfolding attachment_inv_def
proof (intro allI impI)
  fix j m assume m: "metas fs' j = Some (Some m)"
  show "wf_meta P S fs' j m"
  proof (cases "j = i")
    case True
    then show ?thesis using assms(3) m by blast
  next
    case False
    then show ?thesis using assms(1) assms(2)[of j] m by (auto simp: attachment_inv_def wf_meta_def)
  qed
qed

text \<open>Removing files keeps it.\<close>

lemma attachment_inv_fewer:
  assumes "attachment_inv P S fs" and "\<And>j. metas fs' j = metas fs j \<or> metas fs' j = None"
    and "\<And>j. parts fs' j = parts fs j \<or> parts fs' j = None" and "\<And>j. blobs fs' j = blobs fs j \<or> blobs fs' j = None"
  shows "attachment_inv P S fs'"
  unfolding attachment_inv_def
proof (intro allI impI)
  fix j m assume "metas fs' j = Some (Some m)"
  then have "wf_meta P S fs j m" using assms(1,2) by (metis attachment_invD option.distinct(1))
  then show "wf_meta P S fs' j m" using assms(3,4)[of j] by (auto simp: wf_meta_def)
qed

lemma length_WriteAt:
  "off \<le> length c \<Longrightarrow> length (WriteAt c off d) = max (length c) (off + length d)"
  by (auto simp: WriteAt_def)

section \<open>Operations keep it\<close>

lemma inv_Init:
  assumes "attachment_inv P S fs" and "parts fs uid = None"
  shows "attachment_inv P S (snd (Init S E uid a n t c sz fs))"
proof -
  let ?m = "\<lparr>mdBlobID = uid, mdOwnerID = a, mdName = Base n, mdMediaType = t, mdSize = sz, mdReceived = 0,
    mdSHA256 = ToLower c, mdState = StateUploading, mdCreatedAt = fe_now E, mdUpdatedAt = fe_now E\<rparr>"
  show ?thesis
  proof (cases "a = [] \<or> n = [] \<or> sz < 0 \<or> sz > maxBytes S \<or> length c \<noteq> 64 \<or> hex_DecodeString c = None \<or> fe_meta E \<noteq> None")
    case True
    then show ?thesis using assms by (auto simp: Init_def writeMetadata_def Let_def and_then_def)
  next
    case False
    then have "0 \<le> sz" "sz \<le> maxBytes S" by auto
    with False assms show ?thesis
      by (intro attachment_inv_one[OF assms(1), of uid])
        (auto simp: Init_def writeMetadata_def Let_def wf_meta_def split: if_splits)
  qed
qed

lemma inv_parts:
  assumes "attachment_inv P S fs" and "metas fs i = Some (Some m)" and "mdState m = StateUploading"
    and "mdReceived m \<le> int (length c)" and "int (length c) \<le> mdSize m"
  shows "attachment_inv P S (fs\<lparr>parts := (parts fs)(i \<mapsto> c)\<rparr>)"
  using assms(2-) attachment_invD[OF assms(1,2)]
  by (intro attachment_inv_one[OF assms(1), of i]) (auto simp: wf_meta_def)

lemma inv_writeMetadata:
  assumes "attachment_inv P S fs" and "mdBlobID m = i" and "wf_meta P S fs i m"
  shows "attachment_inv P S (snd (writeMetadata E m fs))"
proof (cases "fe_meta E")
  case None
  with assms(2,3) show ?thesis
    by (intro attachment_inv_one[OF assms(1), of i]) (auto simp: writeMetadata_def wf_meta_def)
qed (simp add: writeMetadata_def assms(1))

lemma inv_PutChunk:
  assumes "attachment_inv P S fs"
  shows "attachment_inv P S (snd (PutChunk S E a i off data fs))"
proof (cases "\<exists>m c. owned E a i fs = Inr m \<and> mdState m = StateUploading \<and> off = mdReceived m \<and> int (length data) \<le> chunkSize S \<and>
    mdReceived m + int (length data) \<le> mdSize m \<and> parts fs i = Some c \<and> fe_open E = None")
  case False
  then have "snd (PutChunk S E a i off data fs) = fs"
    by (auto simp: PutChunk_def and_then_def not_less split: sum.splits option.splits if_splits)
  with assms show ?thesis by simp
next
  case True
  then obtain m c where m: "owned E a i fs = Inr m" "mdState m = StateUploading" "off = mdReceived m"
    "int (length data) \<le> chunkSize S" "mdReceived m + int (length data) \<le> mdSize m" "parts fs i = Some c" "fe_open E = None" by blast
  have meta: "metas fs i = Some (Some m)" using m(1) owned_ok by blast
  have wf: "mdBlobID m = i" "0 \<le> mdReceived m" "mdReceived m \<le> int (length c)" "int (length c) \<le> mdSize m" "mdSize m \<le> maxBytes S"
    using attachment_invD[OF assms meta] m(2,6) by (auto simp: wf_meta_def)
  have len: "int (length (WriteAt c (nat off) d)) = max (int (length c)) (mdReceived m + int (length d))" for d
    using length_WriteAt[of "nat off" c d] wf(2,3) m(3) by linarith
  have written: "attachment_inv P S (fs\<lparr>parts := (parts fs)(i \<mapsto> WriteAt c (nat off) d)\<rparr>)" if "length d \<le> length data" for d
    using len[of d] wf m(5) that by (intro inv_parts[OF assms meta m(2)]) linarith+
  show ?thesis
  proof (cases "fe_write E")
    case (Some w)
    then show ?thesis
      using m written[of "take (snd w) data"] by (cases w) (simp add: PutChunk_def)
  next
    case None
    let ?fs = "fs\<lparr>parts := (parts fs)(i \<mapsto> WriteAt c (nat off) data)\<rparr>"
    let ?m = "m\<lparr>mdReceived := mdReceived m + int (length data), mdUpdatedAt := fe_now E\<rparr>"
    have "wf_meta P S ?fs i ?m" using len[of data] wf m(2,5) by (simp add: wf_meta_def)
    then have "attachment_inv P S (snd (writeMetadata E ?m ?fs))"
      using wf(1) written[OF order_refl] by (intro inv_writeMetadata[of P S ?fs ?m i]) simp_all
    then show ?thesis
      using m None written[OF order_refl] by (auto simp: PutChunk_def Let_def and_then_snd split: option.splits sum.splits)
  qed
qed

lemma inv_Complete:
  assumes "attachment_inv P S fs"
  shows "attachment_inv P S (snd (Complete P E a i fs))"
proof (cases "\<exists>m c. owned E a i fs = Inr m \<and> mdState m = StateUploading \<and> mdReceived m = mdSize m \<and> parts fs i = Some c \<and>
    fe_digest E = None \<and> fileDigest P c = mdSHA256 m \<and> fe_rename E = None")
  case False
  then have "snd (Complete P E a i fs) = fs"
    by (auto simp: Complete_def and_then_def split: sum.splits option.splits if_splits)
  with assms show ?thesis by simp
next
  case True
  then obtain m c where m: "owned E a i fs = Inr m" "mdState m = StateUploading" "mdReceived m = mdSize m" "parts fs i = Some c"
    "fe_digest E = None" "fileDigest P c = mdSHA256 m" "fe_rename E = None" by blast
  have meta: "metas fs i = Some (Some m)" using m(1) owned_ok by blast
  have wf: "mdBlobID m = i" "0 \<le> mdReceived m" "int (length c) = mdSize m" "mdSize m \<le> maxBytes S"
    using attachment_invD[OF assms meta] m(2-4) by (auto simp: wf_meta_def)
  let ?fs = "fs\<lparr>parts := (parts fs)(i := None), blobs := (blobs fs)(i \<mapsto> c)\<rparr>"
  let ?m = "m\<lparr>mdState := StateCompleted, mdUpdatedAt := fe_now E\<rparr>"
  have "attachment_inv P S ?fs"
    using meta wf m(2) attachment_invD[OF assms meta] by (intro attachment_inv_one[OF assms, of i]) (auto simp: wf_meta_def)
  moreover have "wf_meta P S ?fs i ?m" using wf m by (simp add: wf_meta_def)
  ultimately have "attachment_inv P S (snd (writeMetadata E ?m ?fs))"
    using wf(1) by (intro inv_writeMetadata[of P S ?fs ?m i]) simp_all
  then show ?thesis using m by (auto simp: Complete_def Let_def and_then_snd split: sum.splits)
qed

lemma inv_Cancel:
  assumes "attachment_inv P S fs"
  shows "attachment_inv P S (snd (Cancel E a i fs))"
proof (cases "\<exists>m. owned E a i fs = Inr m \<and> mdState m \<noteq> StateCompleted")
  case False
  then have "snd (Cancel E a i fs) = fs" by (auto simp: Cancel_def and_then_def split: sum.splits)
  with assms show ?thesis by simp
next
  case True
  then obtain m where m: "owned E a i fs = Inr m" "mdState m \<noteq> StateCompleted" by blast
  have wf: "wf_meta P S fs i m" using attachment_invD[OF assms] m(1) owned_ok by blast
  let ?fs = "if fe_remove E (i @ ''.part'') then fs\<lparr>parts := (parts fs)(i := None)\<rparr> else fs"
  let ?m = "m\<lparr>mdState := StateCancelled, mdUpdatedAt := fe_now E\<rparr>"
  have "attachment_inv P S ?fs"
    by (rule attachment_inv_fewer[OF assms]) auto
  then have "attachment_inv P S (snd (writeMetadata E ?m ?fs))"
    using wf by (intro inv_writeMetadata[of P S ?fs ?m i]) (simp_all add: wf_meta_def)
  then show ?thesis using m by (auto simp: Cancel_def Let_def and_then_snd split: sum.splits)
qed

lemma inv_gc_each: "attachment_inv P S fs \<Longrightarrow> attachment_inv P S (gc_each E cutoff entries fs)"
proof (induction entries arbitrary: fs)
  case (Cons entry entries)
  show ?case
  proof (cases "\<exists>m. readMetadata E entry fs = Inr m \<and> mdUpdatedAt m \<le> cutoff")
    case False
    then have "gc_each E cutoff (entry # entries) fs = gc_each E cutoff entries fs" by (auto split: sum.splits)
    with Cons show ?thesis by simp
  next
    case True
    then obtain m where m: "readMetadata E entry fs = Inr m" "mdUpdatedAt m \<le> cutoff" by blast
    let ?i = "mdBlobID m"
    let ?fs1 = "if fe_remove E (?i @ ''.json'') then fs\<lparr>metas := (metas fs)(?i := None)\<rparr> else fs"
    let ?fs2 = "if fe_remove E (?i @ ''.part'') then ?fs1\<lparr>parts := (parts ?fs1)(?i := None)\<rparr> else ?fs1"
    let ?fs3 = "if fe_remove E (?i @ ''.blob'') then ?fs2\<lparr>blobs := (blobs ?fs2)(?i := None)\<rparr> else ?fs2"
    have "attachment_inv P S ?fs3"
      by (rule attachment_inv_fewer[OF Cons.prems]) auto
    from Cons.IH[OF this] m show ?thesis by (simp add: Let_def not_less)
  qed
qed simp

section \<open>Reachable directories\<close>

inductive attachment_step :: "primitives \<Rightarrow> attachment_service \<Rightarrow> blob_files \<Rightarrow> blob_files \<Rightarrow> bool"
  for P S where
  init: "parts fs uid = None \<Longrightarrow> attachment_step P S fs (snd (Init S E uid a n t c sz fs))"
    \<comment> \<open>the identifier is fresh\<close>
| put: "attachment_step P S fs (snd (PutChunk S E a i off data fs))"
| complete: "attachment_step P S fs (snd (Complete P E a i fs))"
| cancel: "attachment_step P S fs (snd (Cancel E a i fs))"
| gc: "attachment_step P S fs (snd (GC E entries retention fs))"

inductive_cases attachment_stepE: "attachment_step P S fs fs'"

definition no_files :: blob_files where
  "no_files = \<lparr>metas = Map.empty, parts = Map.empty, blobs = Map.empty\<rparr>"

lemma inv_step: "attachment_step P S fs fs' \<Longrightarrow> attachment_inv P S fs \<Longrightarrow> attachment_inv P S fs'"
  by (induction rule: attachment_step.induct)
    (auto simp: GC_def Let_def inv_Init inv_PutChunk inv_Complete inv_Cancel inv_gc_each)

lemma inv_reachable: "(attachment_step P S)\<^sup>*\<^sup>* no_files fs \<Longrightarrow> attachment_inv P S fs"
proof (induction rule: rtranclp_induct)
  case base
  show ?case by (simp add: attachment_inv_def no_files_def)
qed (rule inv_step)

lemma ReadAt_inside: "start + n \<le> length c \<Longrightarrow> ReadAt c start n = take n (drop start c)"
  by (simp add: ReadAt_def Let_def)

text \<open>
  C38. Whatever operations came before, and whichever file operations failed in them, a range that the service
  hands out is a piece of a file that has the recorded size and the recorded SHA-256 digest: the asked-for bytes,
  no more than a chunk of them, and never a byte of padding.
\<close>

theorem ReadRange_verified:
  assumes "(attachment_step P S)\<^sup>*\<^sup>* no_files fs" and "ReadRange S E a i start end fs = Inr (m, content)"
  shows "\<exists>whole. blobs fs i = Some whole \<and> int (length whole) = mdSize m \<and> hex_EncodeToString (sha256 P whole) = mdSHA256 m \<and>
    mdOwnerID m = a \<and> 0 \<le> start \<and> start \<le> end \<and> end < mdSize m \<and>
    content = take (nat (end - start + 1)) (drop (nat start) whole) \<and> int (length content) = end - start + 1 \<and>
    int (length content) \<le> chunkSize S"
proof -
  obtain whole where r: "owned E a i fs = Inr m" "mdState m = StateCompleted" "0 \<le> start" "start \<le> end" "end < mdSize m"
    "end - start + 1 \<le> chunkSize S" "blobs fs i = Some whole" "content = ReadAt whole (nat start) (nat (end - start + 1))"
    using assms(2) by (auto simp: ReadRange_def split: sum.splits if_splits option.splits)
  have meta: "metas fs i = Some (Some m)" "mdOwnerID m = a" using r(1) unfolding owned_ok by auto
  have whole: "int (length whole) = mdSize m" "fileDigest P whole = mdSHA256 m"
    using attachment_invD[OF inv_reachable[OF assms(1)] meta(1)] r(2,7) by (auto simp: wf_meta_def)
  have "nat start + nat (end - start + 1) \<le> length whole" using r(3-5) whole(1) by linarith
  then have "content = take (nat (end - start + 1)) (drop (nat start) whole)" "length content = nat (end - start + 1)"
    using r(8) by (simp_all add: ReadAt_inside)
  with r whole meta(2) show ?thesis by (auto simp: fileDigest_def)
qed

section \<open>An upload in chunks\<close>

definition no_failure :: "gotime \<Rightarrow> file_env" where
  "no_failure now = \<lparr>fe_now = now, fe_meta = None, fe_read = None, fe_open = None, fe_write = None, fe_close = None,
     fe_digest = None, fe_rename = None, fe_remove = (\<lambda>_. True)\<rparr>"

lemma no_failure_simps [simp]:
  "fe_now (no_failure t) = t" "fe_meta (no_failure t) = None" "fe_read (no_failure t) = None" "fe_open (no_failure t) = None"
  "fe_write (no_failure t) = None" "fe_close (no_failure t) = None" "fe_digest (no_failure t) = None"
  "fe_rename (no_failure t) = None"
  by (simp_all add: no_failure_def)

fun put_chunks :: "attachment_service \<Rightarrow> file_env \<Rightarrow> string \<Rightarrow> string \<Rightarrow> int \<Rightarrow> bytes list \<Rightarrow> unit attachment_op" where
  \<comment> \<open>a client that sends one chunk after the other\<close>
  "put_chunks S E a i off [] fs = (Inr (), fs)"
| "put_chunks S E a i off (c # cs) fs =
     and_then (PutChunk S E a i off c fs) (\<lambda>_ fs. put_chunks S E a i (off + int (length c)) cs fs)"

definition uploading :: "string \<Rightarrow> string \<Rightarrow> int \<Rightarrow> string \<Rightarrow> bytes \<Rightarrow> blob_files \<Rightarrow> bool" where
  \<comment> \<open>the blob of this owner, size and digest with these bytes received so far\<close>
  "uploading a i sz digest c fs = (\<exists>m. metas fs i = Some (Some m) \<and> mdBlobID m = i \<and> mdOwnerID m = a \<and> mdSize m = sz \<and>
     mdSHA256 m = digest \<and> mdState m = StateUploading \<and> mdReceived m = int (length c) \<and> parts fs i = Some c)"

lemma PutChunk_appends:
  assumes "uploading a i sz digest c fs" and "i \<noteq> []" and "Base i = i" and "int (length d) \<le> chunkSize S"
    and "int (length c) + int (length d) \<le> sz"
  shows "\<exists>m fs'. PutChunk S (no_failure t) a i (int (length c)) d fs = (Inr m, fs') \<and> uploading a i sz digest (c @ d) fs'"
proof -
  obtain m where m: "metas fs i = Some (Some m)" "mdBlobID m = i" "mdOwnerID m = a" "mdSize m = sz" "mdSHA256 m = digest"
    "mdState m = StateUploading" "mdReceived m = int (length c)" "parts fs i = Some c"
    using assms(1) unfolding uploading_def by blast
  have "owned (no_failure t) a i fs = Inr m" using m assms(2,3) by (simp add: owned_ok)
  moreover have "WriteAt c (length c) d = c @ d" by (simp add: WriteAt_def)
  ultimately show ?thesis
    using m assms(4,5) by (auto simp: PutChunk_def Let_def writeMetadata_def uploading_def)
qed

lemma put_chunks_appends:
  assumes "uploading a i sz digest c fs" and "i \<noteq> []" and "Base i = i" and "list_all (\<lambda>d. int (length d) \<le> chunkSize S) cs"
    and "int (length c) + int (length (concat cs)) \<le> sz"
  shows "\<exists>fs'. put_chunks S (no_failure t) a i (int (length c)) cs fs = (Inr (), fs') \<and> uploading a i sz digest (c @ concat cs) fs'"
  using assms
proof (induction cs arbitrary: c fs)
  case (Cons d ds)
  obtain m fs1 where put: "PutChunk S (no_failure t) a i (int (length c)) d fs = (Inr m, fs1)" "uploading a i sz digest (c @ d) fs1"
    using PutChunk_appends[OF Cons.prems(1-3), of d S t] Cons.prems(4,5) by auto
  from Cons.IH[OF put(2) Cons.prems(2,3)] Cons.prems(4,5)
  obtain fs' where "put_chunks S (no_failure t) a i (int (length (c @ d))) ds fs1 = (Inr (), fs')"
    "uploading a i sz digest ((c @ d) @ concat ds) fs'" by auto
  with put(1) show ?case by (auto simp: add.commute)
qed auto

lemma ToLower_hex: "ToLower (hex_EncodeToString bs) = hex_EncodeToString bs"
proof -
  have lower: "list_all (\<lambda>c. byte_lower c = c) hex_digits" by (simp add: hex_digits_def byte_lower_def byte_def)
  have "length hex_digits = 16" by (simp add: hex_digits_def)
  then have d: "byte_lower (hex_digits ! n) = hex_digits ! n" if "n < 16" for n
    using lower that by (simp add: list_all_length)
  have "byte c div 16 < 16" for c using byte_less[of c] by (simp add: less_mult_imp_div_less)
  with d show ?thesis by (induction bs) (simp_all add: ToLower_def hex_EncodeToString_def)
qed

lemma Complete_uploaded:
  assumes "uploading a i (int (length c)) (fileDigest P c) c fs" and "i \<noteq> []" and "Base i = i"
  shows "\<exists>m fs'. Complete P (no_failure t) a i fs = (Inr m, fs') \<and> metas fs' i = Some (Some m) \<and> blobs fs' i = Some c \<and>
    mdOwnerID m = a \<and> mdState m = StateCompleted \<and> mdSize m = int (length c)"
proof -
  obtain m where m: "metas fs i = Some (Some m)" "mdBlobID m = i" "mdOwnerID m = a" "mdSize m = int (length c)" "mdSHA256 m = fileDigest P c"
    "mdState m = StateUploading" "mdReceived m = int (length c)" "parts fs i = Some c"
    using assms(1) unfolding uploading_def by blast
  have "owned (no_failure t) a i fs = Inr m" using m assms(2,3) by (simp add: owned_ok)
  with m show ?thesis by (auto simp: Complete_def Let_def writeMetadata_def)
qed

lemma upload_reads_back:
  assumes "sha256_size P" and "a \<noteq> []" and "n \<noteq> []" and "i \<noteq> []" and "Base i = i" and "parts fs i = None"
    and "concat chunks = data" and "list_all (\<lambda>d. int (length d) \<le> chunkSize S) chunks" and "int (length data) \<le> maxBytes S"
  shows "\<exists>m fs'. and_then (Init S (no_failure t) i a n ty (hex_EncodeToString (sha256 P data)) (int (length data)) fs) (\<lambda>_ fs.
      and_then (put_chunks S (no_failure t) a i 0 chunks fs) (\<lambda>_ fs. Complete P (no_failure t) a i fs)) = (Inr m, fs') \<and>
    (\<forall>start end. 0 \<le> start \<and> start \<le> end \<and> end < int (length data) \<and> end - start + 1 \<le> chunkSize S \<longrightarrow>
       ReadRange S (no_failure t) a i start end fs' = Inr (m, take (nat (end - start + 1)) (drop (nat start) data)))"
proof -
  let ?h = "hex_EncodeToString (sha256 P data)"
  have h: "length ?h = 64" "hex_DecodeString ?h \<noteq> None" using assms(1) by (simp_all add: length_hex sha256_size_def hex_roundtrip)
  obtain m1 fs1 where init: "Init S (no_failure t) i a n ty ?h (int (length data)) fs = (Inr m1, fs1)"
    "uploading a i (int (length data)) (fileDigest P data) [] fs1"
    using assms(2,3,6,9) h by (auto simp: Init_def writeMetadata_def Let_def uploading_def ToLower_hex fileDigest_def)
  obtain fs2 where put: "put_chunks S (no_failure t) a i 0 chunks fs1 = (Inr (), fs2)"
    "uploading a i (int (length data)) (fileDigest P data) data fs2"
    using put_chunks_appends[OF init(2) assms(4,5,8), of t] assms(7) by auto
  obtain m fs' where comp: "Complete P (no_failure t) a i fs2 = (Inr m, fs')" "metas fs' i = Some (Some m)" "blobs fs' i = Some data"
    "mdOwnerID m = a" "mdState m = StateCompleted" "mdSize m = int (length data)"
    using Complete_uploaded[OF put(2) assms(4,5), of t] by blast
  have own: "owned (no_failure t) a i fs' = Inr m" using comp assms(4,5) by (simp add: owned_ok)
  have "ReadRange S (no_failure t) a i start end fs' = Inr (m, take (nat (end - start + 1)) (drop (nat start) data))"
    if "0 \<le> start" "start \<le> end" "end < int (length data)" "end - start + 1 \<le> chunkSize S" for start "end"
  proof -
    have "nat start + nat (end - start + 1) \<le> length data" using that by linarith
    with that own comp show ?thesis by (simp add: ReadRange_def ReadAt_inside)
  qed
  with init(1) put(1) comp(1) show ?thesis by auto
qed

text \<open>
  C37. An upload gives back what was uploaded. When a client announces the size and the digest of its data, sends the
  data in consecutive chunks of at most the chunk size, however they are cut, and completes, every step succeeds;
  afterwards each range of at most a chunk reads exactly those bytes of the data.
\<close>

theorem upload_roundtrip:
  assumes "sha256_size P" and "a \<noteq> []" and "n \<noteq> []" and "i \<noteq> []" and "Base i = i" and "parts fs i = None"
    and "concat chunks = data" and "list_all (\<lambda>d. int (length d) \<le> chunkSize S) chunks" and "int (length data) \<le> maxBytes S"
  shows "\<exists>m fs'. and_then (Init S (no_failure t) i a n ty (hex_EncodeToString (sha256 P data)) (int (length data)) fs) (\<lambda>_ fs.
      and_then (put_chunks S (no_failure t) a i 0 chunks fs) (\<lambda>_ fs. Complete P (no_failure t) a i fs)) = (Inr m, fs') \<and>
    (\<forall>start end. 0 \<le> start \<and> start \<le> end \<and> end < int (length data) \<and> end - start + 1 \<le> chunkSize S \<longrightarrow>
       ReadRange S (no_failure t) a i start end fs' = Inr (m, take (nat (end - start + 1)) (drop (nat start) data)))"
  using assms by (rule upload_reads_back)

section \<open>A concrete upload\<close>

definition demo_service :: attachment_service where
  "demo_service = NewService_attachment 0 0"

lemma demo_service_simps [simp]: "maxBytes demo_service = 1073741824" "chunkSize demo_service = 4194304"
  by (simp_all add: demo_service_def NewService_attachment_def)

definition demo_upload :: "(go_error, Metadata, blob_files) outcome" where
  "demo_upload = and_then (Init demo_service (no_failure 1) ''b1'' ''alice'' ''hello.txt'' ''text/plain''
       (hex_EncodeToString (sha256 clear_primitives ''hello'')) 5 no_files) (\<lambda>_ fs.
     and_then (put_chunks demo_service (no_failure 1) ''alice'' ''b1'' 0 [''he'', ''llo''] fs) (\<lambda>_ fs.
     Complete clear_primitives (no_failure 1) ''alice'' ''b1'' fs))"

lemma demo_base: "Base ''b1'' = ''b1''"
  by (simp add: Base_def Let_def)

lemma demo_chunks: "concat [''he'', ''llo''] = ''hello''" "list_all (\<lambda>d. int (length d) \<le> chunkSize demo_service) [''he'', ''llo'']"
  "int (length ''hello'') \<le> maxBytes demo_service"
  by simp_all

theorem upload_roundtrip_witness:
  "\<exists>m fs. demo_upload = (Inr m, fs) \<and> ReadRange demo_service (no_failure 1) ''alice'' ''b1'' 1 3 fs = Inr (m, ''ell'')"
proof -
  obtain m fs where u: "demo_upload = (Inr m, fs)"
    "\<forall>start end. 0 \<le> start \<and> start \<le> end \<and> end < int (length ''hello'') \<and> end - start + 1 \<le> chunkSize demo_service \<longrightarrow>
       ReadRange demo_service (no_failure 1) ''alice'' ''b1'' start end fs = Inr (m, take (nat (end - start + 1)) (drop (nat start) ''hello''))"
    using upload_roundtrip[OF clear_primitives_laws(3) _ _ _ demo_base _ demo_chunks, of "''alice''" "''hello.txt''" no_files 1 "''text/plain''"]
    unfolding demo_upload_def by (auto simp: no_files_def)
  have "ReadRange demo_service (no_failure 1) ''alice'' ''b1'' 1 3 fs = Inr (m, ''ell'')" using u(2)[rule_format, of 1 3] by simp
  with u(1) show ?thesis by blast
qed

lemma put_chunks_reach: "(attachment_step P S)\<^sup>*\<^sup>* fs (snd (put_chunks S E a i off cs fs))"
proof (induction cs arbitrary: off fs)
  case (Cons c cs)
  have "attachment_step P S fs (snd (PutChunk S E a i off c fs))" by (rule attachment_step.put)
  with Cons show ?case
    by (auto simp: and_then_snd intro: converse_rtranclp_into_rtranclp split: sum.splits)
qed simp

lemma demo_upload_reachable: "(attachment_step clear_primitives demo_service)\<^sup>*\<^sup>* no_files (snd demo_upload)"
proof -
  let ?R = "(attachment_step clear_primitives demo_service)\<^sup>*\<^sup>*"
  let ?fs1 = "snd (Init demo_service (no_failure 1) ''b1'' ''alice'' ''hello.txt'' ''text/plain''
       (hex_EncodeToString (sha256 clear_primitives ''hello'')) 5 no_files)"
  let ?fs2 = "snd (put_chunks demo_service (no_failure 1) ''alice'' ''b1'' 0 [''he'', ''llo''] ?fs1)"
  have "?R no_files ?fs1" by (intro r_into_rtranclp attachment_step.init) (simp add: no_files_def)
  moreover have "?R ?fs1 ?fs2" by (rule put_chunks_reach)
  moreover have "?R ?fs2 (snd (Complete clear_primitives (no_failure 1) ''alice'' ''b1'' ?fs2))"
    by (intro r_into_rtranclp attachment_step.complete)
  ultimately show ?thesis
    unfolding demo_upload_def and_then_snd by (auto split: sum.splits)
qed

theorem ReadRange_verified_witness:
  "\<exists>m fs whole. demo_upload = (Inr m, fs) \<and> blobs fs ''b1'' = Some whole \<and> int (length whole) = mdSize m \<and>
     hex_EncodeToString (sha256 clear_primitives whole) = mdSHA256 m"
proof -
  obtain m fs where u: "demo_upload = (Inr m, fs)"
    "\<forall>start end. 0 \<le> start \<and> start \<le> end \<and> end < int (length ''hello'') \<and> end - start + 1 \<le> chunkSize demo_service \<longrightarrow>
       ReadRange demo_service (no_failure 1) ''alice'' ''b1'' start end fs = Inr (m, take (nat (end - start + 1)) (drop (nat start) ''hello''))"
    using upload_reads_back[OF clear_primitives_laws(3) _ _ _ demo_base _ demo_chunks, of "''alice''" "''hello.txt''" no_files 1 "''text/plain''"]
    unfolding demo_upload_def by (auto simp: no_files_def)
  have read: "ReadRange demo_service (no_failure 1) ''alice'' ''b1'' 1 3 fs = Inr (m, take (nat (3 - 1 + 1)) (drop (nat 1) ''hello''))"
    by (rule u(2)[rule_format]) simp
  have "(attachment_step clear_primitives demo_service)\<^sup>*\<^sup>* no_files fs" using demo_upload_reachable unfolding u(1) by (simp only: snd_conv)
  from ReadRange_verified[OF this read] u(1) show ?thesis by blast
qed

end
