(* ===== verification/BlobSignature.thy ===== *)
theory BlobSignature
  imports HttpSigned
begin

text \<open>
  \<^verbatim>\<open>internal/attachment/http_signature.go\<close>: the signature profile of blob requests and responses, with an
  expiry and the range among the covered components, and the byte ranges of blob requests.
\<close>

section \<open>Metadata\<close>

definition blobSignatureLabel :: string where "blobSignatureLabel = ''snw-blob''"

definition rangeHeader :: string where "rangeHeader = ''Range''"
definition contentRangeHeader :: string where "contentRangeHeader = ''Content-Range''"
definition etagHeader :: string where "etagHeader = ''Etag''"

lemmas blob_header_names = rangeHeader_def contentRangeHeader_def etagHeader_def header_names

record blobSignatureMetadata = signatureMetadata +
  Expires :: int

definition blobRequestComponents :: "string list" where
  "blobRequestComponents = [''@method'', ''@authority'', ''@path'', ''@query'', ''content-digest'', ''range'',
     ''x-snw-agent-id'', ''x-snw-target-agent-id'']"

definition blobResponseComponents :: "string list" where
  "blobResponseComponents = [''@status'', ''content-digest'', ''content-range'', ''etag'', ''x-snw-agent-id'']"

definition blobNonce :: "bytes \<Rightarrow> string" where "blobNonce value = RawURL_EncodeToString value"

definition newBlobSignatureMetadata :: "gotime \<Rightarrow> bytes \<Rightarrow> string list \<Rightarrow> string \<Rightarrow> blobSignatureMetadata" where
  \<comment> \<open>with the key ID that both callers set next\<close>
  "newBlobSignatureMetadata now random components keyID =
     \<lparr>Components = components, Created = Unix now, KeyID = keyID, Nonce = blobNonce random, Expires = Unix (now + 2 * Minute)\<rparr>"

definition blobContentDigest :: "primitives \<Rightarrow> bytes \<Rightarrow> string" where
  "blobContentDigest P body = ''sha-256=:'' @ Std_EncodeToString (sha256 P body) @ '':''"

definition blobSignatureParams :: "(nat \<Rightarrow> bool) \<Rightarrow> blobSignatureMetadata \<Rightarrow> string" where
  "blobSignatureParams isPrint metadata =
     ''('' @ Join '' '' (map (Quote isPrint) (Components metadata)) @ '');created='' @ FormatInt (Created metadata) @
     '';expires='' @ FormatInt (Expires metadata) @ '';keyid='' @ Quote isPrint (KeyID metadata) @
     '';nonce='' @ Quote isPrint (Nonce metadata)"

definition blobRequestSignatureBase :: "(nat \<Rightarrow> bool) \<Rightarrow> http_request \<Rightarrow> blobSignatureMetadata \<Rightarrow> string" where
  "blobRequestSignatureBase isPrint request metadata =
     (let authority = (if rqHost request = [] then uHost (rqURL request) else rqHost request);
          query = (if uRawQuery (rqURL request) \<noteq> [] then ''?'' @ uRawQuery (rqURL request) else []);
          get = Header_Get (rqHeader request)
      in Join newline
       [line ''@method'' (rqMethod request), line ''@authority'' authority, line ''@path'' (uPath (rqURL request)),
        line ''@query'' query, line ''content-digest'' (get contentDigestHeader), line ''range'' (get rangeHeader),
        line ''x-snw-agent-id'' (get agentIDHeader), line ''x-snw-target-agent-id'' (get targetAgentIDHeader),
        line ''@signature-params'' (blobSignatureParams isPrint metadata)])"

definition blobResponseSignatureBase :: "(nat \<Rightarrow> bool) \<Rightarrow> int \<Rightarrow> header \<Rightarrow> blobSignatureMetadata \<Rightarrow> string" where
  "blobResponseSignatureBase isPrint status headers metadata =
     Join newline
       [line ''@status'' (FormatInt status), line ''content-digest'' (Header_Get headers contentDigestHeader),
        line ''content-range'' (Header_Get headers contentRangeHeader), line ''etag'' (Header_Get headers etagHeader),
        line ''x-snw-agent-id'' (Header_Get headers agentIDHeader),
        line ''@signature-params'' (blobSignatureParams isPrint metadata)]"

definition setBlobSignatureHeaders :: "(nat \<Rightarrow> bool) \<Rightarrow> header \<Rightarrow> blobSignatureMetadata \<Rightarrow> bytes \<Rightarrow> header" where
  "setBlobSignatureHeaders isPrint headers metadata signature =
     Header_Set (Header_Set headers signatureInputHeader (blobSignatureLabel @ ''='' @ blobSignatureParams isPrint metadata))
       signatureHeader (blobSignatureLabel @ ''=:'' @ Std_EncodeToString signature @ '':'')"

section \<open>Parsing\<close>

fun parse_blob_parameters :: "string list \<Rightarrow> blobSignatureMetadata \<Rightarrow> go_error + blobSignatureMetadata" where
  "parse_blob_parameters [] metadata = Inr metadata"
| "parse_blob_parameters (parameter # parameters) metadata =
     (case SplitN2 (CHR ''='') (TrimSpace parameter) of
        [name, v] \<Rightarrow>
          if name = ''created'' \<or> name = ''expires'' then
            (case ParseInt64 v of None \<Rightarrow> Inl ErrBlobSignature
             | Some parsed \<Rightarrow> parse_blob_parameters parameters
                 (if name = ''created'' then metadata\<lparr>Created := parsed\<rparr> else metadata\<lparr>Expires := parsed\<rparr>))
          else if name = ''keyid'' \<or> name = ''nonce'' then
            (case Unquote v of None \<Rightarrow> Inl ErrBlobSignature
             | Some parsed \<Rightarrow> parse_blob_parameters parameters
                 (if name = ''keyid'' then metadata\<lparr>KeyID := parsed\<rparr> else metadata\<lparr>Nonce := parsed\<rparr>))
          else parse_blob_parameters parameters metadata
      | _ \<Rightarrow> parse_blob_parameters parameters metadata)"

definition parseBlobSignatureParams :: "string \<Rightarrow> go_error + blobSignatureMetadata" where
  "parseBlobSignatureParams v =
     (if \<not> HasPrefix v ''('' \<or> CHR '')'' \<notin> set v then Inl ErrBlobSignature
      else
        let closeParen = length (takeWhile (\<lambda>c. c \<noteq> CHR '')'') v) in
        case unquote_each (Fields (TrimSpace (drop 1 (take closeParen v)))) of
          None \<Rightarrow> Inl ErrBlobSignature
        | Some components \<Rightarrow>
            (case parse_blob_parameters (Split (CHR '';'') (drop (closeParen + 1) v))
                    \<lparr>Components = components, Created = 0, KeyID = [], Nonce = [], Expires = 0\<rparr> of
               Inl e \<Rightarrow> Inl e
             | Inr metadata \<Rightarrow>
                 if Created metadata = 0 \<or> Expires metadata = 0 \<or> KeyID metadata = [] \<or> Nonce metadata = []
                 then Inl ErrBlobSignature else Inr metadata))"

definition parseBlobSignatureHeaders :: "header \<Rightarrow> go_error + blobSignatureMetadata \<times> bytes" where
  "parseBlobSignatureHeaders headers =
     (let prefix = blobSignatureLabel @ ''=''; input = Header_Get headers signatureInputHeader;
          v = Header_Get headers signatureHeader in
      if \<not> HasPrefix input prefix \<or> \<not> HasPrefix v prefix then Inl ErrBlobSignature
      else (case parseBlobSignatureParams (TrimPrefix input prefix) of
              Inl e \<Rightarrow> Inl e
            | Inr metadata \<Rightarrow>
                (case Std_DecodeString (Trim (TrimPrefix v prefix) '':'') of
                   None \<Rightarrow> Inl ErrBlobSignature
                 | Some signature \<Rightarrow>
                     if length signature \<noteq> SignatureSize then Inl ErrBlobSignature else Inr (metadata, signature))))"

definition sameBlobComponents :: "string list \<Rightarrow> string list \<Rightarrow> bool" where
  "sameBlobComponents actual expected = (if length actual \<noteq> length expected then False else same_from actual expected)"

definition validBlobSignatureTime :: "blobSignatureMetadata \<Rightarrow> gotime \<Rightarrow> duration \<Rightarrow> bool" where
  "validBlobSignatureTime metadata now allowedSkew =
     (let skew = (if allowedSkew \<le> 0 then 5 * Minute else allowedSkew);
          created = fromUnix (Created metadata); expires = fromUnix (Expires metadata)
      in \<not> created < now - skew \<and> \<not> created > now + skew \<and> expires > now \<and> \<not> expires > created + 5 * Minute)"

section \<open>Signing and verification\<close>

definition SignBlobRequest ::
  "primitives \<Rightarrow> (nat \<Rightarrow> bool) \<Rightarrow> gotime \<Rightarrow> bytes \<Rightarrow> http_request \<Rightarrow> Identity \<Rightarrow> string \<Rightarrow> go_error + http_request" where
  "SignBlobRequest P isPrint sign_now random request signer targetAgentID =
     (if targetAgentID = [] then Inl ErrBlobSignature
      else case rqBody request of
        Inl e \<Rightarrow> Inl e
      | Inr body \<Rightarrow>
          (let h = Header_Set (rqHeader request) contentDigestHeader (blobContentDigest P body);
               h = Header_Set h agentIDHeader (idAgentID signer);
               h = Header_Set h targetAgentIDHeader targetAgentID;
               h = Header_Set h publicKeyHeader (RawURL_EncodeToString (idPublicKey signer));
               request = request\<lparr>rqBody := Inr body, rqHeader := h\<rparr>;
               metadata = newBlobSignatureMetadata sign_now random blobRequestComponents (Fingerprint P (idPublicKey signer));
               signature = ed25519_Sign P (idPrivateKey signer) (blobRequestSignatureBase isPrint request metadata)
           in Inr (request\<lparr>rqHeader := setBlobSignatureHeaders isPrint h metadata signature\<rparr>)))"

definition VerifyBlobRequest ::
  "primitives \<Rightarrow> (nat \<Rightarrow> bool) \<Rightarrow> http_request \<Rightarrow> string \<Rightarrow> string \<Rightarrow> bytes \<Rightarrow> gotime \<Rightarrow> duration \<Rightarrow> go_error + string" where
  "VerifyBlobRequest P isPrint request expectedAgentID expectedTargetAgentID pubKey now allowedSkew =
     (if expectedAgentID = [] \<or> expectedTargetAgentID = [] \<or> length pubKey \<noteq> PublicKeySize then Inl ErrBlobSignature
      else case parseBlobSignatureHeaders (rqHeader request) of
        Inl _ \<Rightarrow> Inl ErrBlobSignature
      | Inr (metadata, signature) \<Rightarrow>
          if \<not> sameBlobComponents (Components metadata) blobRequestComponents then Inl ErrBlobSignature
          else if Header_Get (rqHeader request) agentIDHeader \<noteq> expectedAgentID \<or>
                  Header_Get (rqHeader request) targetAgentIDHeader \<noteq> expectedTargetAgentID \<or>
                  KeyID metadata \<noteq> Fingerprint P pubKey \<or> \<not> validBlobSignatureTime metadata now allowedSkew
          then Inl ErrBlobSignature
          else case rqBody request of
            Inl e \<Rightarrow> Inl e
          | Inr body \<Rightarrow>
              if Header_Get (rqHeader request) contentDigestHeader \<noteq> blobContentDigest P body then Inl ErrBlobDigest
              else if \<not> ed25519_Verify P pubKey (blobRequestSignatureBase isPrint request metadata) signature
              then Inl ErrBlobSignature
              else Inr (Nonce metadata))"

definition SignBlobResponse ::
  "primitives \<Rightarrow> (nat \<Rightarrow> bool) \<Rightarrow> gotime \<Rightarrow> bytes \<Rightarrow> header \<Rightarrow> int \<Rightarrow> bytes \<Rightarrow> Identity \<Rightarrow> header" where
  "SignBlobResponse P isPrint sign_now random headers status body signer =
     (let h = Header_Set headers contentDigestHeader (blobContentDigest P body);
          h = Header_Set h agentIDHeader (idAgentID signer);
          h = Header_Set h publicKeyHeader (RawURL_EncodeToString (idPublicKey signer));
          metadata = newBlobSignatureMetadata sign_now random blobResponseComponents (Fingerprint P (idPublicKey signer));
          signature = ed25519_Sign P (idPrivateKey signer) (blobResponseSignatureBase isPrint status h metadata)
      in setBlobSignatureHeaders isPrint h metadata signature)"

definition VerifyBlobResponse ::
  "primitives \<Rightarrow> (nat \<Rightarrow> bool) \<Rightarrow> http_response \<Rightarrow> string \<Rightarrow> bytes \<Rightarrow> gotime \<Rightarrow> duration \<Rightarrow> go_error + unit" where
  "VerifyBlobResponse P isPrint response expectedAgentID pubKey now allowedSkew =
     (if expectedAgentID = [] \<or> length pubKey \<noteq> PublicKeySize then Inl ErrBlobSignature
      else if HasPrefix (Header_Get (rsHeader response) signatureInputHeader) ''snw-agent=''
      then (if Header_Get (rsHeader response) agentIDHeader \<noteq> expectedAgentID then Inl ErrBlobSignature
            else VerifyResponse P isPrint response pubKey now allowedSkew)
      else case parseBlobSignatureHeaders (rsHeader response) of
        Inl _ \<Rightarrow> Inl ErrBlobSignature
      | Inr (metadata, signature) \<Rightarrow>
          if \<not> sameBlobComponents (Components metadata) blobResponseComponents \<or>
             Header_Get (rsHeader response) agentIDHeader \<noteq> expectedAgentID \<or> KeyID metadata \<noteq> Fingerprint P pubKey \<or>
             \<not> validBlobSignatureTime metadata now allowedSkew
          then Inl ErrBlobSignature
          else case rsBody response of
            Inl e \<Rightarrow> Inl e
          | Inr body \<Rightarrow>
              if Header_Get (rsHeader response) contentDigestHeader \<noteq> blobContentDigest P body then Inl ErrBlobDigest
              else if \<not> ed25519_Verify P pubKey (blobResponseSignatureBase isPrint (rsStatus response) (rsHeader response) metadata) signature
              then Inl ErrBlobSignature
              else Inr ())"

section \<open>Ranges\<close>

definition ParseRange :: "string \<Rightarrow> int \<Rightarrow> int \<Rightarrow> go_error + int \<times> int" where
  "ParseRange v sz maxLength =
     (if sz \<le> 0 \<or> maxLength \<le> 0 \<or> \<not> HasPrefix v ''bytes='' \<or> CHR '','' \<in> set v then Inl ErrRange
      else case SplitN2 (CHR ''-'') (TrimPrefix v ''bytes='') of
        [first, second] \<Rightarrow>
          if first = [] then Inl ErrRange
          else (case ParseInt64 first of
                  None \<Rightarrow> Inl ErrRange
                | Some start \<Rightarrow>
                    if start < 0 \<or> start \<ge> sz then Inl ErrRange
                    else (case (if second \<noteq> [] then ParseInt64 second else Some (sz - 1)) of
                            None \<Rightarrow> Inl ErrRange
                          | Some end \<Rightarrow>
                              if end < start \<or> end \<ge> sz \<or> end - start + 1 > maxLength then Inl ErrRange
                              else Inr (start, end)))
      | _ \<Rightarrow> Inl ErrRange)"

definition ContentRange :: "int \<Rightarrow> int \<Rightarrow> int \<Rightarrow> string" where
  "ContentRange start end sz = ''bytes '' @ FormatInt start @ ''-'' @ FormatInt end @ ''/'' @ FormatInt sz"

section \<open>What is printed parses back\<close>

lemma sameBlobComponents_iff: "sameBlobComponents as es \<longleftrightarrow> as = es"
  using sameComponents_iff[of as es] by (simp add: sameBlobComponents_def sameComponents_def)

lemma number_parameter:
  assumes "0 < n" "n < 2 ^ 63" and "name = ''created'' \<or> name = ''expires''"
  shows "SplitN2 (CHR ''='') (TrimSpace (name @ ''='' @ FormatInt n)) = [name, FormatInt n]" "ParseInt64 (FormatInt n) = Some n"
proof -
  have ne: "FormatInt n \<noteq> []" using assms(1) by (simp add: FormatInt_def digits_nonempty)
  have "visible (last (FormatInt n))" using FormatInt_visible[of n] assms(1) ne by (simp add: list_all_iff)
  then have "TrimSpace (name @ ''='' @ FormatInt n) = name @ ''='' @ FormatInt n"
    using ne assms(3) by (intro TrimSpace_visible) (auto simp: visible_def byte_def)
  then show "SplitN2 (CHR ''='') (TrimSpace (name @ ''='' @ FormatInt n)) = [name, FormatInt n]"
    using SplitN2_at[of "CHR ''=''" name "FormatInt n"] assms(3) by auto
  show "ParseInt64 (FormatInt n) = Some n" using assms by (simp add: ParseInt64_FormatInt)
qed

lemma text_parameter:
  assumes "name = ''keyid'' \<or> name = ''nonce''" and "list_all token_char v"
  shows "SplitN2 (CHR ''='') (TrimSpace (name @ ''='' @ Quote p v)) = [name, Quote p v]" "Unquote (Quote p v) = Some v"
proof -
  have "TrimSpace (name @ ''='' @ Quote p v) = name @ ''='' @ Quote p v"
    using assms by (intro TrimSpace_visible) (auto simp: visible_def byte_def token_Quote)
  then show "SplitN2 (CHR ''='') (TrimSpace (name @ ''='' @ Quote p v)) = [name, Quote p v]"
    using SplitN2_at[of "CHR ''=''" name "Quote p v"] assms(1) by auto
  show "Unquote (Quote p v) = Some v" using assms(2) by (simp add: Unquote_Quote_plain token_plain)
qed

definition wf_blob_metadata :: "blobSignatureMetadata \<Rightarrow> bool" where
  "wf_blob_metadata metadata =
     (Components metadata \<noteq> [] \<and> list_all token (Components metadata) \<and> 0 < Created metadata \<and> Created metadata < 2 ^ 63 \<and>
      0 < Expires metadata \<and> Expires metadata < 2 ^ 63 \<and> token (KeyID metadata) \<and> token (Nonce metadata))"

lemma parse_blobSignatureParams:
  assumes "wf_blob_metadata md"
  shows "parseBlobSignatureParams (blobSignatureParams p md) = Inr md"
proof -
  let ?c = "''created'' @ ''='' @ FormatInt (Created md)" and ?e = "''expires'' @ ''='' @ FormatInt (Expires md)"
    and ?k = "''keyid'' @ ''='' @ Quote p (KeyID md)" and ?n = "''nonce'' @ ''='' @ Quote p (Nonce md)"
  have md: "Components md \<noteq> []" "list_all token (Components md)" "0 < Created md" "Created md < 2 ^ 63"
    "0 < Expires md" "Expires md < 2 ^ 63" "token (KeyID md)" "token (Nonce md)"
    "list_all token_char (KeyID md)" "list_all token_char (Nonce md)"
    using assms by (auto simp: wf_blob_metadata_def token_def)
  have "blobSignatureParams p md = component_list p (Components md) @ '';'' @ ?c @ '';'' @ ?e @ '';'' @ ?k @ '';'' @ ?n"
    by (simp add: blobSignatureParams_def component_list_def)
  note front = component_list_parses[OF md(1,2) this]
  have nosep: "CHR '';'' \<notin> set ?c" "CHR '';'' \<notin> set ?e" "CHR '';'' \<notin> set ?k" "CHR '';'' \<notin> set ?n"
    using FormatInt_no_semicolon[OF md(3)] FormatInt_no_semicolon[OF md(5)] token_no_semicolon[OF md(7)] token_no_semicolon[OF md(8)]
    by simp_all
  have split: "Split (CHR '';'') ('';'' @ ?c @ '';'' @ ?e @ '';'' @ ?k @ '';'' @ ?n) = [[], ?c, ?e, ?k, ?n]"
    using Split_append[OF nosep(1), of "?e @ '';'' @ ?k @ '';'' @ ?n"] Split_append[OF nosep(2), of "?k @ '';'' @ ?n"]
      Split_append[OF nosep(3), of ?n] Split_plain[OF nosep(4)] by simp
  have "parse_blob_parameters [[], ?c, ?e, ?k, ?n]
      \<lparr>Components = Components md, Created = 0, KeyID = [], Nonce = [], Expires = 0\<rparr> = Inr md"
    unfolding parse_blob_parameters.simps
    using number_parameter[OF md(3,4), of "''created''"] number_parameter[OF md(5,6), of "''expires''"]
      text_parameter[OF _ md(9), of "''keyid''" p] text_parameter[OF _ md(10), of "''nonce''" p]
    by (simp add: SplitN2_def[of _ "[]"])
  then show ?thesis
    using md(3,5,7,8) front split
    by (simp add: parseBlobSignatureParams_def Let_def close_paren_def token_def)
qed

lemma Trim_plain:
  assumes "c \<notin> set s"
  shows "Trim ([c] @ s @ [c]) [c] = s"
proof (cases "s = []")
  case False
  then have "dropWhile (\<lambda>x. x = c) (s @ [c]) = s @ [c]" "dropWhile (\<lambda>x. x = c) (rev s) = rev s"
    using assms hd_in_set[of s] hd_in_set[of "rev s"] by (auto simp: dropWhile_eq_self_iff)
  then show ?thesis by (simp add: Trim_def)
qed (simp add: Trim_def)

lemma Trim_colons: "Trim ('':'' @ Std_EncodeToString bs @ '':'') '':'' = Std_EncodeToString bs"
  by (rule Trim_plain) (use b64_std_chars[of "CHR '':''" bs] in \<open>auto simp: Std_EncodeToString_def b64_std_def\<close>)

lemma parse_setBlobSignatureHeaders:
  assumes "wf_blob_metadata md" and "length sig = SignatureSize"
  shows "parseBlobSignatureHeaders (setBlobSignatureHeaders p h md sig) = Inr (md, sig)"
  using parse_blobSignatureParams[OF assms(1), of p] assms(2) Std_roundtrip[of sig] Trim_colons[of sig]
  by (simp add: parseBlobSignatureHeaders_def setBlobSignatureHeaders_def header_names blobSignatureLabel_def HasPrefix_def
      TrimPrefix_def Let_def)

lemma blob_components_token: "list_all token blobRequestComponents" "list_all token blobResponseComponents"
  by (simp_all add: blobRequestComponents_def blobResponseComponents_def token_def token_char_def visible_def byte_def)

lemma wf_newBlobSignatureMetadata:
  assumes "sha256_size P" and "nb \<noteq> []" and "0 < Unix t" and "Unix (t + 2 * Minute) < 2 ^ 63" and "cs \<noteq> []" and "list_all token cs"
  shows "wf_blob_metadata (newBlobSignatureMetadata t nb cs (Fingerprint P k))"
proof -
  have "Unix t \<le> Unix (t + 2 * Minute)" unfolding Unix_def by (rule zdiv_mono1) (simp_all add: Minute_def)
  with assms show ?thesis
    by (auto simp: wf_blob_metadata_def newBlobSignatureMetadata_def blobNonce_def intro: token_Fingerprint token_RawURL)
qed

section \<open>Signed blob requests verify\<close>

lemma setBlobSignatureHeaders_other:
  "k \<in> {contentDigestHeader, agentIDHeader, targetAgentIDHeader, publicKeyHeader, rangeHeader, contentRangeHeader, etagHeader} \<Longrightarrow>
     Header_Get (setBlobSignatureHeaders ip h md sig) k = Header_Get h k"
  by (auto simp: setBlobSignatureHeaders_def blob_header_names)

lemma SignBlobRequest_returns:
  assumes "SignBlobRequest P ip t nb r i target = Inr signed"
    and "md = newBlobSignatureMetadata t nb blobRequestComponents (Fingerprint P (idPublicKey i))"
  shows "\<exists>body h. rqBody r = Inr body \<and> target \<noteq> [] \<and> signed = r\<lparr>rqBody := Inr body, rqHeader := setBlobSignatureHeaders ip h md
        (ed25519_Sign P (idPrivateKey i) (blobRequestSignatureBase ip (r\<lparr>rqBody := Inr body, rqHeader := h\<rparr>) md))\<rparr> \<and>
    Header_Get h contentDigestHeader = blobContentDigest P body \<and> Header_Get h agentIDHeader = idAgentID i \<and>
    Header_Get h targetAgentIDHeader = target \<and> Header_Get h publicKeyHeader = RawURL_EncodeToString (idPublicKey i)"
  using assms by (auto simp: SignBlobRequest_def Let_def header_names split: sum.splits if_splits)

lemma fromUnix_Unix: "fromUnix (Unix t) \<le> t" "t < fromUnix (Unix t) + Second"
proof -
  have "t = 1000000000 * (t div 1000000000) + t mod 1000000000" "0 \<le> t mod 1000000000" "t mod 1000000000 < 1000000000"
    by simp_all
  then show "fromUnix (Unix t) \<le> t" "t < fromUnix (Unix t) + Second"
    unfolding fromUnix_def Unix_def Second_def by linarith+
qed

lemma blob_time_valid:
  assumes "md = newBlobSignatureMetadata t nb cs k" and "t \<le> now" and "now < fromUnix (Unix (t + 2 * Minute))"
  shows "validBlobSignatureTime md now (5 * Minute)"
proof -
  note t = fromUnix_Unix[of t] and u = fromUnix_Unix(1)[of "t + 2 * Minute"]
  show ?thesis
    using t u assms(2,3) by (simp add: assms(1) validBlobSignatureTime_def newBlobSignatureMetadata_def Let_def Minute_def Second_def)
qed

text \<open>
  A signed blob request verifies at the owner: the request as the server sees it passes the
  verification for the receiver and the owner and gives the nonce, until the signature expires two
  minutes (in whole seconds) after it was made.
\<close>

lemma SignBlobRequest_verifies:
  assumes "wf_identity i" and "sign_verifies P (idPrivateKey i)" and "signature_size P" and "sha256_size P"
    and "nb \<noteq> []" and "0 < Unix t" and "Unix (t + 2 * Minute) < 2 ^ 63"
    and "SignBlobRequest P ip t nb r i target = Inr signed"
    and "uHost (rqURL r) \<noteq> []" and "rqHost r = []" and "uPath (rqURL r) \<noteq> []"
    and "t \<le> now" and "now < fromUnix (Unix (t + 2 * Minute))"
  shows "VerifyBlobRequest P ip (server_view signed) (idAgentID i) target (idPublicKey i) now (5 * Minute) = Inr (blobNonce nb)"
proof -
  define md where "md = newBlobSignatureMetadata t nb blobRequestComponents (Fingerprint P (idPublicKey i))"
  obtain body h where s: "rqBody r = Inr body" "target \<noteq> []"
    "signed = r\<lparr>rqBody := Inr body, rqHeader := setBlobSignatureHeaders ip h md
        (ed25519_Sign P (idPrivateKey i) (blobRequestSignatureBase ip (r\<lparr>rqBody := Inr body, rqHeader := h\<rparr>) md))\<rparr>"
    "Header_Get h contentDigestHeader = blobContentDigest P body" "Header_Get h agentIDHeader = idAgentID i"
    "Header_Get h targetAgentIDHeader = target"
    using SignBlobRequest_returns[OF assms(8) md_def] by blast
  define sig where "sig = ed25519_Sign P (idPrivateKey i) (blobRequestSignatureBase ip (r\<lparr>rqBody := Inr body, rqHeader := h\<rparr>) md)"
  have signed: "signed = r\<lparr>rqBody := Inr body, rqHeader := setBlobSignatureHeaders ip h md sig\<rparr>" using s(3) by (simp add: sig_def)
  have parsed: "parseBlobSignatureHeaders (setBlobSignatureHeaders ip h md sig) = Inr (md, sig)"
    using wf_newBlobSignatureMetadata[OF assms(4-7), of blobRequestComponents "idPublicKey i"] blob_components_token(1) assms(3)
    by (intro parse_setBlobSignatureHeaders) (simp_all add: md_def sig_def signature_size_def blobRequestComponents_def)
  have base: "blobRequestSignatureBase ip (server_view signed) md = blobRequestSignatureBase ip (r\<lparr>rqBody := Inr body, rqHeader := h\<rparr>) md"
    using assms(9-11) by (simp add: signed blobRequestSignatureBase_def server_view_def setBlobSignatureHeaders_other Let_def)
  have "ed25519_Verify P (idPublicKey i) (blobRequestSignatureBase ip (server_view signed) md) sig"
    unfolding base sig_def using assms(1,2) by (simp add: wf_identity_def sign_verifies_def)
  moreover have "validBlobSignatureTime md now (5 * Minute)" using blob_time_valid[OF md_def assms(12,13)] .
  moreover have "Components md = blobRequestComponents" "KeyID md = Fingerprint P (idPublicKey i)" "Nonce md = blobNonce nb"
    by (simp_all add: md_def newBlobSignatureMetadata_def)
  moreover have "rqHeader signed = setBlobSignatureHeaders ip h md sig" "rqBody signed = Inr body" by (simp_all add: signed)
  moreover have "idAgentID i \<noteq> []" using assms(1) by (simp add: wf_identity_def)
  ultimately show ?thesis
    unfolding VerifyBlobRequest_def
    using parsed s(2,4-6) length_public_key[OF assms(1)]
    by (simp add: sameBlobComponents_iff setBlobSignatureHeaders_other)
qed

section \<open>Ranges are within bounds\<close>

text \<open>
  A parsed range lies within the blob and within the limit on its length, for every header text; and the header
  that the receiver sends for a range within those bounds parses to that range.
\<close>

lemma ParseRange_bounds:
  "(\<forall>start end. ParseRange v sz limit = Inr (start, end) \<longrightarrow>
      0 \<le> start \<and> start \<le> end \<and> end < sz \<and> end - start + 1 \<le> limit) \<and>
   (0 \<le> a \<and> a \<le> b \<and> b < sz \<and> b - a + 1 \<le> limit \<and> sz \<le> 2 ^ 63 \<longrightarrow>
      ParseRange (''bytes='' @ FormatInt a @ ''-'' @ FormatInt b) sz limit = Inr (a, b))"
proof (intro conjI allI impI)
  fix start "end" assume "ParseRange v sz limit = Inr (start, end)"
  then show "0 \<le> start" "start \<le> end" "end < sz" "end - start + 1 \<le> limit"
    by (auto simp: ParseRange_def split: if_splits list.splits option.splits)
next
  assume r: "0 \<le> a \<and> a \<le> b \<and> b < sz \<and> b - a + 1 \<le> limit \<and> sz \<le> 2 ^ 63"
  have d: "list_all is_digit (FormatInt a)" "list_all is_digit (FormatInt b)" "FormatInt a \<noteq> []" "FormatInt b \<noteq> []"
    using r digits_all digits_nonempty by (auto simp: FormatInt_def)
  have "CHR ''-'' \<notin> set (FormatInt a)" "CHR '','' \<notin> set (FormatInt a)" "CHR '','' \<notin> set (FormatInt b)"
    using d by (auto simp: list_all_iff is_digit_def byte_def)
  with r d SplitN2_at[of "CHR ''-''" "FormatInt a" "FormatInt b"] ParseInt64_FormatInt[of a] ParseInt64_FormatInt[of b]
  show "ParseRange (''bytes='' @ FormatInt a @ ''-'' @ FormatInt b) sz limit = Inr (a, b)"
    by (simp add: ParseRange_def HasPrefix_def TrimPrefix_def)
qed

end
