(* ===== verification/Tailscale.thy ===== *)
theory Tailscale
  imports GoNet Identity
begin

text \<open>
  \<^verbatim>\<open>internal/tailscale/address.go\<close> and the decisions of \<^verbatim>\<open>internal/tailscale/whois.go\<close>: which addresses the
  daemon binds to and which peer identities it accepts. The Local API call behind \<^verbatim>\<open>WhoIs\<close> is a parameter.
\<close>

section \<open>Addresses\<close>

definition tailscaleIPv4 :: "ip \<times> nat" where "tailscaleIPv4 = ([100, 64, 0, 0], 10)"

definition tailscaleIPv6 :: "ip \<times> nat" where
  "tailscaleIPv6 = ([0xfd, 0x7a, 0x11, 0x5c, 0xa1, 0xe0, 0, 0, 0, 0, 0, 0, 0, 0, 0, 0], 48)"

definition DefaultAddressPolicy :: "(ip \<times> nat) list" where
  "DefaultAddressPolicy = [tailscaleIPv4, tailscaleIPv6]"

definition ValidateBindAddress :: "weblib \<Rightarrow> (ip \<times> nat) list \<Rightarrow> string \<Rightarrow> go_error + ip \<times> string" where
  "ValidateBindAddress W allowedPrefixes value =
     (case netip_ParseAddr W value of
        None \<Rightarrow> Inl ErrInvalidAddress
      | Some (a, zone) \<Rightarrow>
          let address = (Unmap a, zone) in
          if \<exists>prefix\<in>set allowedPrefixes. Contains prefix address then Inr address else Inl ErrNotTailscaleAddress)"

section \<open>Peer identities\<close>

record NodeIdentity =
  niNodeID :: string
  niStableNodeID :: string
  niNodeName :: string
  niUserID :: string
  niLoginName :: string
  niAddresses :: "string list"

type_synonym whois = "string \<Rightarrow> go_error + NodeIdentity"

definition owns_address :: "weblib \<Rightarrow> ip \<times> string \<Rightarrow> string \<Rightarrow> bool" where
  "owns_address W address raw =
     (let raw = TrimSpace raw in
      case netip_ParsePrefix W raw of
        Some prefix \<Rightarrow> Contains prefix address
      | None \<Rightarrow> netip_ParseAddr W (Trim raw ''[]'') = Some address)"

definition HasAddress :: "weblib \<Rightarrow> NodeIdentity \<Rightarrow> string \<Rightarrow> bool" where
  "HasAddress W identity remoteAddr =
     (let host = TrimSpace remoteAddr;
          host = (case SplitHostPort host of Some (parsedHost, _) \<Rightarrow> parsedHost | None \<Rightarrow> host)
      in case netip_ParseAddr W (Trim host ''[]'') of
           None \<Rightarrow> False
         | Some address \<Rightarrow> list_ex (owns_address W address) (niAddresses identity))"

record PeerExpectation =
  peNodeID :: string
  peStableNodeID :: string
  peNodeName :: string
  peUserID :: string
  peLoginName :: string

definition VerifyPeer :: "whois \<Rightarrow> string \<Rightarrow> PeerExpectation \<Rightarrow> go_error + unit" where
  "VerifyPeer provider remoteAddr expected =
     (case provider remoteAddr of
        Inl e \<Rightarrow> Inl e
      | Inr identity \<Rightarrow>
          if list_all (\<lambda>(e, a). e = [] \<or> a = e)
               [(peNodeID expected, niNodeID identity), (peStableNodeID expected, niStableNodeID identity),
                (peNodeName expected, niNodeName identity), (peUserID expected, niUserID identity),
                (peLoginName expected, niLoginName identity)]
          then Inr () else Inl ErrPeerIdentityMismatch)"

section \<open>The daemon binds to tailnet addresses only\<close>

definition octet_bits :: "nat \<Rightarrow> bool list" where
  "octet_bits b = map (\<lambda>i. b div 2 ^ i mod 2 = 1) [7, 6, 5, 4, 3, 2, 1, 0]"

lemma octet_value:
  assumes "p < 256"
  shows "p = horner_sum of_bool 2 (rev (octet_bits p))"
proof -
  have "p = horner_sum of_bool 2 (map (bit p) [0..<8])" using assms by (simp add: horner_sum_bit_eq_take_bit take_bit_eq_mod)
  also have "[0..<8] = [0, 1, 2, 3, 4, 5, 6, 7]" by code_simp
  also have "map (bit p) [0, 1, 2, 3, 4, 5, 6, 7] = rev (octet_bits p)"
    by (simp add: octet_bits_def bit_iff_odd odd_iff_mod_2_eq_one)
  finally show ?thesis .
qed

lemma octet_facts:
  "p < 256 \<Longrightarrow> octet_bits p = octet_bits 100 \<longleftrightarrow> p = 100"
  "q < 256 \<Longrightarrow> take 2 (octet_bits q) = take 2 (octet_bits 64) \<longleftrightarrow> 64 \<le> q \<and> q < 128"
proof -
  show "p < 256 \<Longrightarrow> octet_bits p = octet_bits 100 \<longleftrightarrow> p = 100" using octet_value[of p] octet_value[of 100] by auto
  have "take 2 (octet_bits n) = [odd (n div 128), odd (n div 64)]" for n by (simp add: octet_bits_def odd_iff_mod_2_eq_one)
  moreover have "even (q div 128) \<and> odd (q div 64) \<longleftrightarrow> 64 \<le> q \<and> q < 128" if "q < 256"
  proof -
    have "q div 128 = q div 64 div 2" using div_mult2_eq[of q 64 2] by simp
    moreover have "q div 64 = 0 \<or> q div 64 = 1 \<or> q div 64 = 2 \<or> q div 64 = 3" using that less_mult_imp_div_less[of q 4 64] by auto
    moreover have "q div 64 = 1 \<longleftrightarrow> 64 \<le> q \<and> q < 128" by auto
    ultimately show ?thesis by auto
  qed
  ultimately show "q < 256 \<Longrightarrow> take 2 (octet_bits q) = take 2 (octet_bits 64) \<longleftrightarrow> 64 \<le> q \<and> q < 128" by simp
qed

lemma ip_bits_Cons: "ip_bits (b # a) = octet_bits b @ ip_bits a"
  by (simp add: ip_bits_def octet_bits_def)

lemma Contains_tailscaleIPv4:
  assumes "\<forall>b\<in>set a. b < 256"
  shows "Contains tailscaleIPv4 (a, z) \<longleftrightarrow> z = [] \<and> length a = 4 \<and> a ! 0 = 100 \<and> 64 \<le> a ! 1 \<and> a ! 1 < 128"
proof (cases "length a = 4")
  case True
  then obtain p q r t where a: "a = [p, q, r, t]" by (auto simp: numeral_eq_Suc length_Suc_conv)
  have "length (octet_bits x) = 8" for x by (simp add: octet_bits_def)
  then have "take 10 (ip_bits (x # y # ys)) = octet_bits x @ take 2 (octet_bits y)" for x y ys
    by (simp add: ip_bits_Cons)
  then have "take 10 (ip_bits a) = take 10 (ip_bits [100, 64, 0, 0]) \<longleftrightarrow>
      octet_bits p = octet_bits 100 \<and> take 2 (octet_bits q) = take 2 (octet_bits 64)"
    by (simp add: a octet_bits_def)
  with assms show ?thesis by (auto simp: Contains_def tailscaleIPv4_def a octet_facts)
qed (simp add: Contains_def tailscaleIPv4_def)

lemma Contains_tailscaleIPv6:
  "Contains tailscaleIPv6 (a, z) \<longleftrightarrow>
     z = [] \<and> length a = 16 \<and> take 48 (ip_bits a) = take 48 (ip_bits (fst tailscaleIPv6))"
proof -
  have "length (fst tailscaleIPv6) = 16" "snd tailscaleIPv6 = 48" by (simp_all add: tailscaleIPv6_def)
  then show ?thesis by (simp add: Contains_def case_prod_beta)
qed

text \<open>
  A bind address is accepted exactly when it parses and, without an IPv4-in-IPv6 prefix, is a
  zone-free address in the range 100.64.0.0 to 100.127.255.255 or in the tailnet's IPv6 prefix; in
  particular the wildcard and loopback addresses are refused.
\<close>

lemma bind_address_accepted:
  assumes "netip_ParseAddr W v = Some (a, z)" and "\<forall>b\<in>set (Unmap a). b < 256"
  shows "ok (ValidateBindAddress W DefaultAddressPolicy v) \<longleftrightarrow> z = [] \<and>
    ((length (Unmap a) = 4 \<and> Unmap a ! 0 = 100 \<and> 64 \<le> Unmap a ! 1 \<and> Unmap a ! 1 < 128) \<or>
     (length (Unmap a) = 16 \<and> take 48 (ip_bits (Unmap a)) = take 48 (ip_bits (fst tailscaleIPv6))))"
proof -
  have "ok (ValidateBindAddress W DefaultAddressPolicy v) \<longleftrightarrow>
      Contains tailscaleIPv4 (Unmap a, z) \<or> Contains tailscaleIPv6 (Unmap a, z)"
    using assms(1) by (simp add: ValidateBindAddress_def DefaultAddressPolicy_def Let_def)
  then show ?thesis unfolding Contains_tailscaleIPv4[OF assms(2)] Contains_tailscaleIPv6 by blast
qed

end
