(* ===== verification/Receiver.thy ===== *)
theory Receiver
  imports AttachmentProps BlobSignature Tailscale
begin

text \<open>
  \<^verbatim>\<open>internal/attachment/receiver.go\<close>: the download of a blob in ranges, each verified under the owner's key, resumed from
  a part file. The loop runs as long as bytes are missing; \<open>None\<close> as its value would be a loop that never ends.
\<close>

section \<open>Specification of a download\<close>

record DownloadSpec =
  dsURL :: string
  dsGrantID :: string
  dsBlobID :: string
  dsOwnerAgentID :: string
  dsReceiverAgentID :: string
  dsContextID :: string
  dsDigest :: string
  dsSize :: int
  dsOwnerPublicKey :: bytes

record ReceiveStatus =
  rvBlobID :: string
  rvReceived :: int
  rvSize :: int
  rvDigest :: string
  rvState :: attachment_state

record received_files =
  rparts :: "string \<rightharpoonup> bytes"
  rfinals :: "string \<rightharpoonup> bytes"

text \<open>
  The environment of a download. \<open>fetch k\<close> is the k-th request the HTTP client sends; \<open>set_query\<close> is the encoding of
  query parameters by \<^verbatim>\<open>net/url\<close>; \<open>wr_err k\<close> is the error of the k-th write to the part file.
\<close>

record receive_env =
  weblib_of :: weblib
  parse_url :: "string \<Rightarrow> go_url"
  set_query :: "go_url \<Rightarrow> (string \<times> string) list \<Rightarrow> go_url"
  fetch :: "nat \<Rightarrow> http_request \<Rightarrow> go_error + http_response"
  sign_clock :: "nat \<Rightarrow> gotime"
  check_clock :: "nat \<Rightarrow> gotime"
  nonce_source :: "nat \<Rightarrow> bytes"
  wr_err :: "nat \<Rightarrow> (go_error \<times> nat) option"
  fin_err :: "go_error option"     \<comment> \<open>closing, reading back or renaming the part file\<close>
  open_err :: "go_error option"

definition NewReceiver :: "int \<Rightarrow> int" where
  \<comment> \<open>the chunk size; redirects are refused by the client\<close>
  "NewReceiver chunk = (if chunk \<le> 0 then 4 * 2 ^ 20 else chunk)"

definition validateTailnetBlobHost :: "weblib \<Rightarrow> string \<Rightarrow> go_error + unit" where
  "validateTailnetBlobHost W host =
     (if host = [] then Inl (ErrMsg ''blob endpoint host is required'')
      else case LookupIP W host of
        None \<Rightarrow> Inl (ErrMsg ''blob endpoint must resolve to a Tailscale address'')
      | Some addresses \<Rightarrow>
          if addresses = [] then Inl (ErrMsg ''blob endpoint must resolve to a Tailscale address'')
          else if list_ex (\<lambda>a. \<not> Contains tailscaleIPv4 (Unmap a, []) \<and> \<not> Contains tailscaleIPv6 (Unmap a, [])) addresses
          then Inl (ErrMsg ''blob endpoint must resolve only to Tailscale addresses'')
          else Inr ())"

definition validateDownloadSpec :: "weblib \<Rightarrow> DownloadSpec \<Rightarrow> Identity option \<Rightarrow> go_error + Identity" where
  "validateDownloadSpec W spec signer =
     (case signer of
        None \<Rightarrow> Inl (ErrMsg ''invalid attachment download specification'')
      | Some i \<Rightarrow>
          if idAgentID i \<noteq> dsReceiverAgentID spec \<or> dsGrantID spec = [] \<or> dsBlobID spec = [] \<or> dsOwnerAgentID spec = [] \<or>
             dsContextID spec = [] \<or> dsSize spec < 0 \<or> length (dsOwnerPublicKey spec) \<noteq> PublicKeySize
          then Inl (ErrMsg ''invalid attachment download specification'')
          else if Base (dsBlobID spec) \<noteq> dsBlobID spec \<or> length (dsDigest spec) \<noteq> 64
          then Inl (ErrMsg ''invalid attachment blob identity'')
          else if hex_DecodeString (dsDigest spec) = None then Inl (ErrMsg ''invalid attachment digest'')
          else (case url_Parse W (dsURL spec) of
                  None \<Rightarrow> Inl (ErrMsg ''invalid paired blob endpoint'')
                | Some u \<Rightarrow>
                    if (pScheme u \<noteq> ''http'' \<and> pScheme u \<noteq> ''https'') \<or> pHost u = [] \<or> pHasUser u
                    then Inl (ErrMsg ''invalid paired blob endpoint'')
                    else (case validateTailnetBlobHost W (pHostname u) of Inl e \<Rightarrow> Inl e | Inr _ \<Rightarrow> Inr i)))"

section \<open>The loop\<close>

definition range_end :: "int \<Rightarrow> int \<Rightarrow> int \<Rightarrow> int" where
  "range_end chunk received sz = (let e = received + chunk - 1 in if e \<ge> sz then sz - 1 else e)"

definition range_request :: "receive_env \<Rightarrow> DownloadSpec \<Rightarrow> string \<Rightarrow> int \<Rightarrow> int \<Rightarrow> http_request" where
  "range_request R spec digest received end =
     \<lparr>rqMethod = ''GET'',
      rqURL = set_query R (parse_url R (dsURL spec)) [(''grant'', dsGrantID spec), (''context'', dsContextID spec), (''digest'', digest)],
      rqHost = [], rqTLS = False,
      rqHeader = Header_Set (\<lambda>_. []) rangeHeader (''bytes='' @ FormatInt received @ ''-'' @ FormatInt end),
      rqBody = Inr []\<rparr>"

definition fetch_range ::
  "primitives \<Rightarrow> (nat \<Rightarrow> bool) \<Rightarrow> receive_env \<Rightarrow> int \<Rightarrow> DownloadSpec \<Rightarrow> Identity \<Rightarrow> string \<Rightarrow> nat \<Rightarrow> int \<Rightarrow> go_error + bytes" where
  \<comment> \<open>one turn of the loop up to the content it will write\<close>
  "fetch_range P ip R chunk spec signer digest k received =
     (let end = range_end chunk received (dsSize spec) in
      case SignBlobRequest P ip (sign_clock R k) (nonce_source R k) (range_request R spec digest received end) signer (dsOwnerAgentID spec) of
        Inl e \<Rightarrow> Inl e
      | Inr request \<Rightarrow>
         (case fetch R k request of
            Inl e \<Rightarrow> Inl e
          | Inr response \<Rightarrow>
             (case VerifyBlobResponse P ip response (dsOwnerAgentID spec) (dsOwnerPublicKey spec) (check_clock R k) (5 * Minute) of
                Inl e \<Rightarrow> Inl e
              | Inr _ \<Rightarrow>
                 if rsStatus response \<noteq> 206 then Inl (ErrMsg ''attachment download returned an unexpected status'')
                 else if Header_Get (rsHeader response) contentRangeHeader \<noteq> ContentRange received end (dsSize spec) then Inl ErrRange
                 else (case rsBody response of
                         Inl e \<Rightarrow> Inl e
                       | Inr body \<Rightarrow>
                           let content = take (nat (chunk + 1)) body in
                           if int (length content) \<noteq> end - received + 1 then Inl ErrRange else Inr content))))"

partial_function (option) receive_loop ::
  "primitives \<Rightarrow> (nat \<Rightarrow> bool) \<Rightarrow> receive_env \<Rightarrow> int \<Rightarrow> DownloadSpec \<Rightarrow> Identity \<Rightarrow> nat \<Rightarrow> ReceiveStatus \<Rightarrow> bytes \<Rightarrow>
     ((ReceiveStatus \<times> go_error option) \<times> bytes) option" where
  "receive_loop P ip R chunk spec signer k status part =
     (if \<not> rvReceived status < dsSize spec then Some ((status, None), part)
      else case fetch_range P ip R chunk spec signer (rvDigest status) k (rvReceived status) of
        Inl e \<Rightarrow> Some ((status, Some e), part)
      | Inr content \<Rightarrow>
          (case wr_err R k of
             Some (e, n) \<Rightarrow> Some ((status, Some e), WriteAt part (nat (rvReceived status)) (take n content))
           | None \<Rightarrow>
               receive_loop P ip R chunk spec signer (Suc k)
                 (status\<lparr>rvReceived := rvReceived status + int (length content)\<rparr>)
                 (WriteAt part (nat (rvReceived status)) content)))"

definition have_final :: "primitives \<Rightarrow> DownloadSpec \<Rightarrow> received_files \<Rightarrow> bool" where
  \<comment> \<open>the final file is there, of the announced size and digest\<close>
  "have_final P spec fs = (case rfinals fs (dsBlobID spec) of None \<Rightarrow> False
     | Some c \<Rightarrow> int (length c) = dsSize spec \<and> fileDigest P c = ToLower (dsDigest spec))"

definition part_file :: "DownloadSpec \<Rightarrow> received_files \<Rightarrow> bytes" where
  \<comment> \<open>what opening the part file with O_CREATE finds in it\<close>
  "part_file spec fs = (case rparts fs (dsBlobID spec) of None \<Rightarrow> [] | Some c \<Rightarrow> c)"

definition finish_receive ::
  "primitives \<Rightarrow> receive_env \<Rightarrow> DownloadSpec \<Rightarrow> received_files \<Rightarrow> (ReceiveStatus \<times> go_error option) \<times> bytes \<Rightarrow>
     (ReceiveStatus \<times> go_error option) \<times> received_files" where
  \<comment> \<open>what follows the loop: digest of the part file and the rename\<close>
  "finish_receive P R spec fs r =
     (let ((status, err), part) = r; i = dsBlobID spec; left = fs\<lparr>rparts := (rparts fs)(i \<mapsto> part)\<rparr> in
      case err of
        Some e \<Rightarrow> ((status, Some e), left)
      | None \<Rightarrow>
         (case fin_err R of
            Some e \<Rightarrow> ((status, Some e), left)
          | None \<Rightarrow>
              if fileDigest P part \<noteq> rvDigest status then ((status, Some ErrChecksum), left)
              else ((status\<lparr>rvState := StateCompleted\<rparr>, None),
                    left\<lparr>rparts := (rparts left)(i := None), rfinals := (rfinals left)(i \<mapsto> part)\<rparr>)))"

definition Receive ::
  "primitives \<Rightarrow> (nat \<Rightarrow> bool) \<Rightarrow> receive_env \<Rightarrow> int \<Rightarrow> DownloadSpec \<Rightarrow> Identity option \<Rightarrow> received_files \<Rightarrow>
     ((ReceiveStatus \<times> go_error option) \<times> received_files) option" where
  "Receive P ip R chunk spec signer fs =
     (let status = \<lparr>rvBlobID = dsBlobID spec, rvReceived = 0, rvSize = dsSize spec, rvDigest = ToLower (dsDigest spec),
            rvState = StateUploading\<rparr> in
      case validateDownloadSpec (weblib_of R) spec signer of
        Inl e \<Rightarrow> Some ((status, Some e), fs)
      | Inr me \<Rightarrow>
          if have_final P spec fs
          then Some ((status\<lparr>rvReceived := dsSize spec, rvState := StateCompleted\<rparr>, None), fs)
          else (case open_err R of
             Some e \<Rightarrow> Some ((status, Some e), fs)
           | None \<Rightarrow>
              let part = part_file spec fs; status = status\<lparr>rvReceived := int (length part)\<rparr> in
              if rvReceived status > dsSize spec
              then Some ((status, Some ErrInvalidOffset), fs\<lparr>rparts := (rparts fs)(dsBlobID spec \<mapsto> part)\<rparr>)
              else map_option (finish_receive P R spec fs) (receive_loop P ip R chunk spec me 0 status part)))"

section \<open>The loop ends\<close>

lemma fetch_range_length:
  assumes "fetch_range P ip R chunk spec me d k received = Inr content"
  shows "int (length content) = range_end chunk received (dsSize spec) - received + 1"
  using assms by (auto simp: fetch_range_def Let_def split: sum.splits if_splits)

lemma range_end_progress:
  "0 < chunk \<Longrightarrow> received < sz \<Longrightarrow> 0 < range_end chunk received sz - received + 1 \<and> range_end chunk received sz < sz"
  by (auto simp: range_end_def Let_def)

lemma receive_loop_result:
  assumes "0 < chunk" and "rvReceived status = int (length part)" and "int (length part) \<le> dsSize spec" and "rvState status = StateUploading"
  shows "\<exists>status' err part'. receive_loop P ip R chunk spec me k status part = Some ((status', err), part') \<and>
    rvState status' = StateUploading \<and> rvDigest status' = rvDigest status \<and>
    (err = None \<longrightarrow> rvReceived status' = dsSize spec \<and> int (length part') = dsSize spec)"
  using assms(2-)
proof (induction "nat (dsSize spec - rvReceived status)" arbitrary: k status part rule: less_induct)
  case less
  show ?case
  proof (cases "rvReceived status < dsSize spec")
    case False
    with less.prems show ?thesis by (subst receive_loop.simps) simp
  next
    case missing: True
    show ?thesis
    proof (cases "fetch_range P ip R chunk spec me (rvDigest status) k (rvReceived status)")
      case (Inl e)
      with missing less.prems show ?thesis by (subst receive_loop.simps) simp
    next
      case (Inr content)
      note len = fetch_range_length[OF Inr] range_end_progress[OF assms(1) missing]
      let ?s = "status\<lparr>rvReceived := rvReceived status + int (length content)\<rparr>"
      let ?p = "WriteAt part (nat (rvReceived status)) content"
      have p: "int (length ?p) = rvReceived ?s" using less.prems(1) by (simp add: length_WriteAt)
      have step: "nat (dsSize spec - rvReceived ?s) < nat (dsSize spec - rvReceived status)" "int (length ?p) \<le> dsSize spec"
        using len missing p by simp_all
      show ?thesis
      proof (cases "wr_err R k")
        case None
        from less.hyps[OF step(1), of ?p "Suc k"] p step(2) less.prems(3) None Inr missing
        show ?thesis by (subst receive_loop.simps) auto
      next
        case (Some w)
        with Inr missing less.prems(3) show ?thesis by (subst receive_loop.simps) (cases w; simp)
      qed
    qed
  qed
qed

lemma Receive_result:
  fixes spec fs
  defines "start \<equiv> \<lparr>rvBlobID = dsBlobID spec, rvReceived = int (length (part_file spec fs)), rvSize = dsSize spec,
    rvDigest = ToLower (dsDigest spec), rvState = StateUploading\<rparr>"
  shows "(\<exists>status e fs'. Receive P ip R (NewReceiver chunk) spec signer fs = Some ((status, Some e), fs')) \<or>
    (\<exists>me status fs'. Receive P ip R (NewReceiver chunk) spec signer fs = Some ((status, None), fs') \<and>
       validateDownloadSpec (weblib_of R) spec signer = Inr me \<and>
       rvState status = StateCompleted \<and> rvReceived status = dsSize spec \<and> have_final P spec fs')"
proof (cases "validateDownloadSpec (weblib_of R) spec signer")
  case (Inr me)
  have c: "0 < NewReceiver chunk" by (simp add: NewReceiver_def)
  show ?thesis
  proof (cases "have_final P spec fs \<or> open_err R \<noteq> None \<or> dsSize spec < int (length (part_file spec fs))")
    case True
    with Inr show ?thesis by (cases "open_err R") (auto simp: Receive_def Let_def)
  next
    case False
    then have run: "\<not> have_final P spec fs" "open_err R = None" "int (length (part_file spec fs)) \<le> dsSize spec" by auto
    obtain st err part where loop: "receive_loop P ip R (NewReceiver chunk) spec me 0 start (part_file spec fs) = Some ((st, err), part)"
      "rvDigest st = ToLower (dsDigest spec)" "err = None \<Longrightarrow> rvReceived st = dsSize spec \<and> int (length part) = dsSize spec"
      using receive_loop_result[OF c, of start "part_file spec fs" spec P ip R me 0] run(3) by (auto simp: start_def)
    have "Receive P ip R (NewReceiver chunk) spec signer fs = Some (finish_receive P R spec fs ((st, err), part))"
      using Inr run loop(1) by (simp add: Receive_def Let_def start_def)
    then show ?thesis using Inr loop(2,3)
      by (cases err; cases "fin_err R") (auto simp: finish_receive_def have_final_def Let_def)
  qed
qed (simp add: Receive_def Let_def)

lemma validateDownloadSpec_ok:
  assumes "validateDownloadSpec W spec signer = Inr me"
  shows "signer = Some me \<and> idAgentID me = dsReceiverAgentID spec \<and>
    (\<exists>u ips. url_Parse W (dsURL spec) = Some u \<and> LookupIP W (pHostname u) = Some ips \<and>
       list_all (\<lambda>a. Contains tailscaleIPv4 (Unmap a, []) \<or> Contains tailscaleIPv6 (Unmap a, [])) ips)"
  using assms by (auto simp: validateDownloadSpec_def validateTailnetBlobHost_def list_ex_iff list_all_iff
      split: option.splits if_splits sum.splits)



definition demo_download :: DownloadSpec where
  "demo_download = \<lparr>dsURL = ''https://alice:7443/agents/alice/blobs/b1'', dsGrantID = ''g1'', dsBlobID = ''b1'', dsOwnerAgentID = ''alice'',
     dsReceiverAgentID = ''bob'', dsContextID = ''c1'', dsDigest = hex_EncodeToString (sha256 fixed_primitives ''hello''),
     dsSize = 5, dsOwnerPublicKey = idPublicKey alice\<rparr>"

definition demo_receive_env :: receive_env where
  "demo_receive_env = \<lparr>weblib_of = \<lparr>
       url_Parse = (\<lambda>_. Some \<lparr>pScheme = ''https'', pHasUser = False, pHost = ''alice:7443'', pHostname = ''alice'', pPort = ''7443''\<rparr>),
       LookupIP = (\<lambda>_. Some [[100, 64, 0, 1]]), netip_ParseAddr = (\<lambda>_. None), netip_ParsePrefix = (\<lambda>_. None)\<rparr>,
     parse_url = (\<lambda>_. rqURL demo_request), set_query = (\<lambda>u _. u), fetch = (\<lambda>_ _. Inl (ErrMsg ''offline'')),
     sign_clock = (\<lambda>_. 0), check_clock = (\<lambda>_. 0), nonce_source = (\<lambda>_. ''0123456789abcdef''), wr_err = (\<lambda>_. None),
     fin_err = None, open_err = None\<rparr>"

definition demo_received :: received_files where
  "demo_received = \<lparr>rparts = Map.empty(''b1'' \<mapsto> ''hello''), rfinals = Map.empty\<rparr>"

lemma demo_download_valid: "validateDownloadSpec (weblib_of demo_receive_env) demo_download (Some bob) = Inr bob"
proof -
  have "length (hex_EncodeToString (sha256 fixed_primitives ''hello'')) = 64"
    using fixed_primitives_laws(3) by (simp add: sha256_size_def length_hex)
  moreover have "Contains tailscaleIPv4 (Unmap [100, 64, 0, 1], [])"
    by (subst Contains_tailscaleIPv4) (simp_all add: Unmap_def To4_def)
  moreover have "Base ''b1'' = ''b1''" by code_simp
  ultimately show ?thesis
    by (simp add: validateDownloadSpec_def validateTailnetBlobHost_def demo_download_def demo_receive_env_def alice_def bob_def
        PublicKeySize_def hex_roundtrip)
qed

lemma demo_receive: "\<exists>status fs'. Receive fixed_primitives (\<lambda>_. False) demo_receive_env (NewReceiver 0) demo_download (Some bob) demo_received =
    Some ((status, None), fs')"
proof -
  have "part_file demo_download demo_received = ''hello''" "\<not> have_final fixed_primitives demo_download demo_received"
    by (simp_all add: part_file_def have_final_def demo_download_def demo_received_def)
  moreover have "dsSize demo_download = 5" "open_err demo_receive_env = None" "fin_err demo_receive_env = None"
    by (simp_all add: demo_download_def demo_receive_env_def)
  ultimately show ?thesis using demo_download_valid
    by (simp add: Receive_def Let_def receive_loop.simps[of _ _ _ _ _ _ 0] finish_receive_def)
      (simp add: demo_download_def fileDigest_def ToLower_hex)
qed



end
