(* ===== verification/Gateway.thy ===== *)
theory Gateway
  imports Admission HttpSigned Receiver
begin

text \<open>
  \<^verbatim>\<open>internal/gateway\<close>: the handlers that remote agents reach. A request is let through for an active contact whose key,
  tailnet node and signature fit; a message is forwarded to the local agent once and answered from the stored response
  after that; a blob is served under a grant. Bodies of JSON documents are read by functions of \<open>gwjson\<close>; the
  A2A server library and the local agent behind it are the function \<open>sv_forward\<close>.
\<close>

section \<open>HTTP answers and queries\<close>

definition contentTypeHeader :: string where "contentTypeHeader = ''Content-Type''"

definition http_Error :: "string \<Rightarrow> int \<Rightarrow> http_response" where
  \<comment> \<open>\<^verbatim>\<open>http.Error\<close>\<close>
  "http_Error message code =
     \<lparr>rsStatus = code,
      rsHeader = Header_Set (Header_Set (\<lambda>_. []) contentTypeHeader ''text/plain; charset=utf-8'') ''X-Content-Type-Options'' ''nosniff'',
      rsBody = Inr (message @ newline)\<rparr>"

definition http_NotFound :: http_response where "http_NotFound = http_Error ''404 page not found'' 404"

definition LimitReader :: "go_error + bytes \<Rightarrow> nat \<Rightarrow> go_error + bytes" where
  \<comment> \<open>reading to the end through \<^verbatim>\<open>io.LimitReader\<close>\<close>
  "LimitReader body n = (case body of Inl e \<Rightarrow> Inl e | Inr content \<Rightarrow> Inr (take n content))"

definition bodyLimit :: nat where "bodyLimit = 16 * 2 ^ 20"

fun percent_decode :: "bool \<Rightarrow> string \<Rightarrow> string option" where
  \<comment> \<open>of a query component, where a plus is a space, or of a path\<close>
  "percent_decode query [] = Some []"
| "percent_decode query (c # s) =
     (if c = CHR 0x25 then
        (case s of h # l # rest \<Rightarrow>
           (case (hex_value h, hex_value l) of
              (Some x, Some y) \<Rightarrow> map_option (\<lambda>r. unbyte (16 * x + y) # r) (percent_decode query rest)
            | _ \<Rightarrow> None)
         | _ \<Rightarrow> None)
      else map_option (\<lambda>r. (if query \<and> c = CHR ''+'' then CHR '' '' else c) # r) (percent_decode query s))"

definition query_values :: "string \<Rightarrow> (string \<times> string) list" where
  \<comment> \<open>\<^verbatim>\<open>url.URL.Query\<close>: what does not decode is dropped\<close>
  "query_values raw = concat (map (\<lambda>pair.
     if pair = [] \<or> CHR '';'' \<in> set pair then []
     else let (k, v) = (case SplitN2 (CHR ''='') pair of [k, v] \<Rightarrow> (k, v) | _ \<Rightarrow> (pair, [])) in
       case (percent_decode True k, percent_decode True v) of (Some k, Some v) \<Rightarrow> [(k, v)] | _ \<Rightarrow> [])
     (Split (CHR ''&'') raw))"

definition Query_Get :: "go_url \<Rightarrow> string \<Rightarrow> string" where
  "Query_Get u k = (case map_of (query_values (uRawQuery u)) k of None \<Rightarrow> [] | Some v \<Rightarrow> v)"

definition URL_Path :: "go_url \<Rightarrow> string" where
  \<comment> \<open>the decoded path\<close>
  "URL_Path u = (case percent_decode False (uPath u) of Some p \<Rightarrow> p | None \<Rightarrow> uPath u)"

section \<open>The router\<close>

record gateway =
  gwWhois :: "whois option"
  gwRequireWhoIs :: bool
  gwAttachments :: attachment_service
  gwSigner :: "(http_request \<Rightarrow> go_error + Identity option) option"  \<comment> \<open>it may give no signer\<close>

definition NewRouter :: "go_error option \<Rightarrow> (http_request \<Rightarrow> go_error + Identity option) list \<Rightarrow> go_error + gateway" where
  \<comment> \<open>\<open>mkdir\<close> is the error of creating the attachment directory\<close>
  "NewRouter mkdir responseSigners =
     (case mkdir of
        Some e \<Rightarrow> Inl e
      | None \<Rightarrow> Inr \<lparr>gwWhois = None, gwRequireWhoIs = False, gwAttachments = NewService_attachment (2 ^ 30) (4 * 2 ^ 20),
          gwSigner = (case responseSigners of [] \<Rightarrow> None | r # _ \<Rightarrow> Some r)\<rparr>)"

definition NewRouterWithWhoIs ::
  "go_error option \<Rightarrow> whois option \<Rightarrow> (http_request \<Rightarrow> go_error + Identity option) list \<Rightarrow> go_error + gateway" where
  "NewRouterWithWhoIs mkdir provider responseSigners =
     (case provider of
        None \<Rightarrow> Inl (ErrMsg ''tailscale WhoIs provider is required'')
      | Some p \<Rightarrow>
          (case NewRouter mkdir responseSigners of
             Inl e \<Rightarrow> Inl e
           | Inr router \<Rightarrow> Inr (router\<lparr>gwWhois := Some p, gwRequireWhoIs := True\<rparr>)))"

definition SetAttachmentService :: "attachment_service option \<Rightarrow> gateway \<Rightarrow> gateway" where
  "SetAttachmentService service r = (case service of None \<Rightarrow> r | Some a \<Rightarrow> r\<lparr>gwAttachments := a\<rparr>)"

definition activeContactError :: "go_error + Contact \<Rightarrow> go_error option" where
  "activeContactError looked =
     (case looked of
        Inl e \<Rightarrow> Some e
      | Inr contact \<Rightarrow> if cState contact \<noteq> ContactStateActive then Some (ErrMsg ''contact is not active'') else None)"

definition remoteAddress :: "string \<Rightarrow> string" where
  \<comment> \<open>of the request's \<^verbatim>\<open>RemoteAddr\<close>\<close>
  "remoteAddress remoteAddr = (case SplitHostPort remoteAddr of Some (host, _) \<Rightarrow> host | None \<Rightarrow> remoteAddr)"

definition requestBaseURL :: "http_request \<Rightarrow> string" where
  "requestBaseURL req = (if rqTLS req then ''https'' else ''http'') @ ''://'' @ rqHost req"

definition reqWithTrimmedPath :: "http_request \<Rightarrow> string \<Rightarrow> string" where
  \<comment> \<open>the decoded path that the clone of the request gets\<close>
  "reqWithTrimmedPath req prefix = (let p = TrimPrefix (URL_Path (rqURL req)) prefix in if p = [] then ''/'' else p)"

section \<open>Who is let through\<close>

definition peer_check :: "weblib \<Rightarrow> gateway \<Rightarrow> string \<Rightarrow> Contact \<Rightarrow> bool" where
  "peer_check W r remoteAddr contact =
     (let source = remoteAddress remoteAddr in
      if gwRequireWhoIs r then
        (case gwWhois r of
           None \<Rightarrow> False
         | Some whois \<Rightarrow>
             if cRemoteNodeID contact = [] then False
             else (case whois source of
                     Inl _ \<Rightarrow> False
                   | Inr peer \<Rightarrow> niStableNodeID peer = cRemoteNodeID contact \<and> HasAddress W peer source))
      else
        (case gwWhois r of
           None \<Rightarrow> True
         | Some whois \<Rightarrow>
             if cRemoteNodeID contact = [] then True
             else (case whois source of
                     Inl _ \<Rightarrow> False
                   | Inr peer \<Rightarrow> niStableNodeID peer = cRemoteNodeID contact \<or> niNodeID peer = cRemoteNodeID contact)))"

definition authorized ::
  "primitives \<Rightarrow> (nat \<Rightarrow> bool) \<Rightarrow> weblib \<Rightarrow> gateway \<Rightarrow> clock \<Rightarrow> string \<Rightarrow> http_request \<Rightarrow> string \<Rightarrow> store \<Rightarrow>
     (bool \<times> http_request) \<times> store" where
  \<comment> \<open>\<open>c 0\<close> is the reading of the clock for the signature, \<open>c 1\<close> and \<open>c 2\<close> are the ones for the nonce\<close>
  "authorized P isPrint W r c remoteAddr req localAgentID s =
     (case LimitReader (rqBody req) bodyLimit of
        Inl _ \<Rightarrow> ((False, req), s)
      | Inr body \<Rightarrow>
          let req = req\<lparr>rqBody := Inr body\<rparr>; remoteAgentID = Header_Get (rqHeader req) agentIDHeader in
          if remoteAgentID = [] \<or> remoteAgentID = localAgentID then ((False, req), s)
          else (case GetContact localAgentID remoteAgentID s of
             Inl e \<Rightarrow> ((False, req), s)
           | Inr contact \<Rightarrow>
               if activeContactError (Inr contact) \<noteq> None then ((False, req), s)
               else (case RawURL_DecodeString (Header_Get (rqHeader req) publicKeyHeader) of
                  None \<Rightarrow> ((False, req), s)
                | Some key \<Rightarrow>
                    if length key \<noteq> PublicKeySize then ((False, req), s)
                    else if Fingerprint P key \<noteq> cRemoteAgentFingerprint contact then ((False, req), s)
                    else if \<not> peer_check W r remoteAddr contact then ((False, req), s)
                    else (case VerifyRequestForTarget P isPrint req remoteAgentID localAgentID key (c 0) (5 * Minute) of
                       Inl _ \<Rightarrow> ((False, req), s)
                     | Inr nonce \<Rightarrow>
                         (case ClaimReplayNonce localAgentID remoteAgentID nonce (c 1 + 5 * Minute) (c 2) s of
                            (Inl _, s) \<Rightarrow> ((False, req), s)
                          | (Inr claimed, s) \<Rightarrow> ((claimed, req), s))))))"

section \<open>The local agent behind the gateway\<close>

record forwarding_client =
  fcEndpoint :: string
  fcPinned :: ip              \<comment> \<open>the address every connection is made to\<close>
  fcPort :: string
  fcToken :: string
  fcSourceAgentID :: string

definition loopbackClient :: "weblib \<Rightarrow> string \<Rightarrow> parsed_url \<Rightarrow> bytes \<Rightarrow> string \<Rightarrow> go_error + forwarding_client" where
  "loopbackClient W raw endpoint ingressTokenHash sourceAgentID =
     (let port = (if pPort endpoint = [] then (if pScheme endpoint = ''https'' then ''443'' else ''80'') else pPort endpoint) in
      case LookupIP W (pHostname endpoint) of
        None \<Rightarrow> Inl (ErrMsg ''resolve local endpoint'')
      | Some addresses \<Rightarrow>
          if addresses = [] then Inl (ErrMsg ''resolve local endpoint'')
          else (case find IsLoopback addresses of
                  None \<Rightarrow> Inl (ErrMsg ''local endpoint must resolve to a loopback address'')
                | Some address \<Rightarrow> Inr \<lparr>fcEndpoint = raw, fcPinned = address, fcPort = port,
                    fcToken = RawURL_EncodeToString ingressTokenHash, fcSourceAgentID = sourceAgentID\<rparr>))"

definition newForwardingHandler :: "weblib \<Rightarrow> AgentRegistration \<Rightarrow> string \<Rightarrow> go_error + forwarding_client" where
  "newForwardingHandler W registration sourceAgentID =
     (case url_Parse W (arLocalEndpoint registration) of
        None \<Rightarrow> Inl (ErrMsg ''parse local endpoint'')
      | Some endpoint \<Rightarrow>
          if pScheme endpoint \<noteq> ''http'' \<and> pScheme endpoint \<noteq> ''https'' then Inl (ErrMsg ''local endpoint must use HTTP or HTTPS'')
          else if pHasUser endpoint \<or> pHostname endpoint = [] then Inl (ErrMsg ''local endpoint must not contain credentials'')
          else loopbackClient W (arLocalEndpoint registration) endpoint (arRegistrationTokenHash registration) sourceAgentID)"

definition ingress_RoundTrip :: "forwarding_client \<Rightarrow> http_request \<Rightarrow> http_request" where
  \<comment> \<open>the request that goes to the base transport\<close>
  "ingress_RoundTrip rt request =
     (let h = Header_Set (rqHeader request) ''X-Snw-Linkd-Ingress'' (fcToken rt);
          h = (if fcSourceAgentID rt \<noteq> [] then Header_Set h agentIDHeader (fcSourceAgentID rt) else h)
      in request\<lparr>rqHeader := h\<rparr>)"

section \<open>Messages\<close>

text \<open>
  What \<^verbatim>\<open>json.Unmarshal\<close> finds for the fields the gateway reads: of \<open>message\<close>, and of \<open>params\<close> its \<open>message\<close>;
  \<open>None\<close> outside stands for a document that does not fit.
\<close>

type_synonym message_field = "(string option \<times> string option option) option"

record gwjson =
  json_messageId :: "bytes \<Rightarrow> message_field"
  json_contextId :: "bytes \<Rightarrow> message_field"
  json_id :: "bytes \<Rightarrow> string option"
  json_result_id :: "bytes \<Rightarrow> string option"

definition inbound_field :: "message_field \<Rightarrow> bool \<Rightarrow> string" where
  "inbound_field envelope jsonRPC =
     (case envelope of
        None \<Rightarrow> []
      | Some (message, params) \<Rightarrow>
          (case (jsonRPC, params) of
             (True, Some (Some i)) \<Rightarrow> i
           | _ \<Rightarrow> (case message of Some i \<Rightarrow> i | None \<Rightarrow> [])))"

definition inboundMessageID :: "gwjson \<Rightarrow> bytes \<Rightarrow> bool \<Rightarrow> string" where
  "inboundMessageID J body jsonRPC = inbound_field (json_messageId J body) jsonRPC"

definition inboundContextID :: "gwjson \<Rightarrow> bytes \<Rightarrow> bool \<Rightarrow> string" where
  "inboundContextID J body jsonRPC = inbound_field (json_contextId J body) jsonRPC"

definition taskIDFromResponse :: "gwjson \<Rightarrow> bytes \<Rightarrow> string" where
  "taskIDFromResponse J body =
     (case json_id J body of
        Some i \<Rightarrow> if i \<noteq> [] then i else (case json_result_id J body of Some j \<Rightarrow> j | None \<Rightarrow> [])
      | None \<Rightarrow> (case json_result_id J body of Some j \<Rightarrow> j | None \<Rightarrow> []))"

text \<open>
  The environment of one call of the handler: \<open>sv_forward\<close> is the A2A server over the local agent (of the protocol,
  the decoded path and the request), \<open>sv_others k\<close> are the writes of other handlers between the k-th lookup and
  reservation, and \<open>sv_meanwhile\<close> the ones while the local agent works.
\<close>

record serve_env =
  sv_json :: gwjson
  sv_forward :: "bool \<Rightarrow> string \<Rightarrow> http_request \<Rightarrow> http_response"
  sv_task :: "nat \<Rightarrow> string"
  sv_now :: "nat \<Rightarrow> gotime"
  sv_inbox_now :: gotime
  sv_inbox_nonce :: bytes
  sv_nonce :: bytes
  sv_others :: "nat \<Rightarrow> store_op list"
  sv_meanwhile :: "store_op list"

definition keyEpoch :: int where "keyEpoch = 0"

definition dedup_answer :: "(nat \<Rightarrow> bool) \<Rightarrow> DeduplicationRecord \<Rightarrow> http_response" where
  "dedup_answer isPrint existing =
     (if ddResponseStatus existing > 0 \<and> ddResponseBody existing \<noteq> []
      then \<lparr>rsStatus = ddResponseStatus existing,
            rsHeader = (if ddResponseType existing \<noteq> [] then Header_Set (\<lambda>_. []) contentTypeHeader (ddResponseType existing) else (\<lambda>_. [])),
            rsBody = Inr (ddResponseBody existing)\<rparr>
      else \<lparr>rsStatus = 202, rsHeader = Header_Set (\<lambda>_. []) contentTypeHeader ''application/json'',
            rsBody = Inr ([CHR 0x7B] @ Quote isPrint ''id'' @ '':'' @ Quote isPrint (ddTaskID existing) @ '','' @
              Quote isPrint ''status'' @ '':'' @ [CHR 0x7B] @ Quote isPrint ''state'' @ '':'' @ Quote isPrint ''working'' @ [CHR 0x7D, CHR 0x7D])\<rparr>)"

definition forwardA2A :: "serve_env \<Rightarrow> http_request \<Rightarrow> string \<Rightarrow> bool \<Rightarrow> http_response" where
  "forwardA2A V req localAgentID jsonRPC =
     (if jsonRPC then sv_forward V True (reqWithTrimmedPath req (''/agents/'' @ localAgentID @ ''/a2a/jsonrpc'')) req
      else sv_forward V False (reqWithTrimmedPath req (''/agents/'' @ localAgentID @ ''/a2a/rest'')) req)"

definition response_bytes :: "http_response \<Rightarrow> bytes" where
  \<comment> \<open>the body in the recorder\<close>
  "response_bytes response = (case rsBody response of Inr b \<Rightarrow> b | Inl _ \<Rightarrow> [])"

definition record_inbox :: "primitives \<Rightarrow> serve_env \<Rightarrow> bytes \<Rightarrow> string \<Rightarrow> string \<Rightarrow> string \<Rightarrow> bool \<Rightarrow> unit op" where
  "record_inbox P V body remoteAgentID localAgentID messageID jsonRPC s =
     (let contextID = inboundContextID (sv_json V) body jsonRPC;
          contextID = (if contextID = [] then messageID else contextID) in
      if remoteAgentID \<noteq> [] \<and> contextID \<noteq> []
      then RecordInboxMessage P (sv_inbox_now V) (sv_inbox_nonce V)
             \<lparr>imMessageID = messageID, imTargetAgentID = localAgentID, imSourceAgentID = remoteAgentID, imContextID = contextID,
              imBody = body, imState = [], imReceivedAt = zero_time\<rparr> s
      else (Inr (), s))"

definition complete_message :: "primitives \<Rightarrow> serve_env \<Rightarrow> string \<Rightarrow> string \<Rightarrow> string \<Rightarrow> string \<Rightarrow> http_response \<Rightarrow> store \<Rightarrow> store" where
  \<comment> \<open>the error of CompleteScopedMessage is dropped\<close>
  "complete_message P V remoteAgentID localAgentID messageID reservation recorder s =
     (let responseBody = response_bytes recorder; actualTaskID = taskIDFromResponse (sv_json V) responseBody;
          actualTaskID = (if actualTaskID = [] then reservation else actualTaskID)
      in snd (CompleteScopedMessage P (sv_nonce V) remoteAgentID localAgentID keyEpoch messageID actualTaskID
                (rsStatus recorder) (Header_Get (rsHeader recorder) contentTypeHeader) responseBody s))"

definition serve_turn ::
  "primitives \<Rightarrow> (nat \<Rightarrow> bool) \<Rightarrow> serve_env \<Rightarrow> http_request \<Rightarrow> string \<Rightarrow> bool \<Rightarrow> nat \<Rightarrow> store \<Rightarrow>
     (http_request \<times> store) + ((http_response \<times> http_request list) \<times> store)" where
  \<comment> \<open>one activation of serveA2AWithDedup: its recursive call (\<open>Inl\<close>), or the answer, the requests that went to the local agent and the store\<close>
  "serve_turn P isPrint V req localAgentID jsonRPC k s =
     (case LimitReader (rqBody req) bodyLimit of
        Inl _ \<Rightarrow> Inr ((http_Error ''invalid request body'' 400, []), s)
      | Inr body \<Rightarrow>
          let req = req\<lparr>rqBody := Inr body\<rparr>; remoteAgentID = Header_Get (rqHeader req) agentIDHeader;
              messageID = inboundMessageID (sv_json V) body jsonRPC in
          if messageID = [] then Inr ((forwardA2A V req localAgentID jsonRPC, [req]), s)
          else (case GetScopedDeduplication P remoteAgentID localAgentID keyEpoch messageID s of
             Inr existing \<Rightarrow> Inr ((dedup_answer isPrint existing, []), s)
           | Inl _ \<Rightarrow>
              (case RecordScopedMessageOnce (sv_now V k) remoteAgentID localAgentID keyEpoch messageID (sv_task V k)
                      (run (store_step P) (sv_others V k) s) of
                 (Inl _, s) \<Rightarrow> Inr ((http_Error ''deduplication unavailable'' 500, []), s)
               | (Inr created, s) \<Rightarrow>
                   if \<not> created then Inl (req, s)
                   else (case record_inbox P V body remoteAgentID localAgentID messageID jsonRPC s of
                           (Inl _, s) \<Rightarrow> Inr ((http_Error ''inbox persistence unavailable'' 500, []), s)
                         | (Inr _, s) \<Rightarrow>
                             let recorder = forwardA2A V req localAgentID jsonRPC; s = run (store_step P) (sv_meanwhile V) s in
                             Inr ((recorder, [req]),
                               complete_message P V remoteAgentID localAgentID messageID (sv_task V k) recorder s)))))"

partial_function (option) serveA2AWithDedup ::
  "primitives \<Rightarrow> (nat \<Rightarrow> bool) \<Rightarrow> serve_env \<Rightarrow> http_request \<Rightarrow> string \<Rightarrow> bool \<Rightarrow> nat \<Rightarrow> store \<Rightarrow>
     ((http_response \<times> http_request list) \<times> store) option" where
  "serveA2AWithDedup P isPrint V req localAgentID jsonRPC k s =
     (case serve_turn P isPrint V req localAgentID jsonRPC k s of
        Inl (req, s) \<Rightarrow> serveA2AWithDedup P isPrint V req localAgentID jsonRPC (Suc k) s
      | Inr result \<Rightarrow> Some result)"

definition a2a :: "primitives \<Rightarrow> (nat \<Rightarrow> bool) \<Rightarrow> weblib \<Rightarrow> gateway \<Rightarrow> clock \<Rightarrow> (forwarding_client \<Rightarrow> serve_env) \<Rightarrow> string \<Rightarrow> http_request \<Rightarrow> store \<Rightarrow>
     ((http_response \<times> http_request list) \<times> store) option" where
  "a2a P isPrint W r c V remoteAddr req s =
     (let parts = Split (CHR ''/'') (Trim (URL_Path (rqURL req)) ''/'') in
      if length parts < 4 \<or> parts ! 0 \<noteq> ''agents'' then Some ((http_NotFound, []), s)
      else
       (let localAgentID = parts ! 1 in
        case GetAgentRegistration localAgentID s of
          Inl _ \<Rightarrow> Some ((http_NotFound, []), s)
        | Inr registration \<Rightarrow>
            if parts ! 2 = ''a2a'' \<and> (parts ! 3 = ''rest'' \<or> parts ! 3 = ''jsonrpc'') then
              (case authorized P isPrint W r c remoteAddr req localAgentID s of
                 ((False, req), s) \<Rightarrow> Some ((http_Error ''agent pairing is required'' 403, []), s)
               | ((True, req), s) \<Rightarrow>
                   (case newForwardingHandler W registration (Header_Get (rqHeader req) agentIDHeader) of
                      Inl _ \<Rightarrow> Some ((http_Error ''local agent endpoint is unavailable'' 502, []), s)
                    | Inr handler \<Rightarrow>
                        serveA2AWithDedup P isPrint (V handler) req localAgentID (parts ! 3 = ''jsonrpc'') 0 s))
            else Some ((http_NotFound, []), s)))"

section \<open>Blobs\<close>

record blob_env =
  be_files :: file_env
  be_now :: gotime
  be_sign_now :: gotime
  be_nonce :: bytes

definition responseSignerFor :: "gateway \<Rightarrow> http_request \<Rightarrow> Identity option" where
  "responseSignerFor r request =
     (case gwSigner r of None \<Rightarrow> None | Some resolve \<Rightarrow> (case resolve request of Inl _ \<Rightarrow> None | Inr signer \<Rightarrow> signer))"

definition signed_blob_headers ::
  "primitives \<Rightarrow> (nat \<Rightarrow> bool) \<Rightarrow> gateway \<Rightarrow> blob_env \<Rightarrow> http_request \<Rightarrow> header \<Rightarrow> int \<Rightarrow> bytes \<Rightarrow> header" where
  "signed_blob_headers P isPrint r B request headers status body =
     (case responseSignerFor r request of
        None \<Rightarrow> headers
      | Some signer \<Rightarrow> SignBlobResponse P isPrint (be_sign_now B) (be_nonce B) headers status body signer)"

definition writeBlobError ::
  "primitives \<Rightarrow> (nat \<Rightarrow> bool) \<Rightarrow> gateway \<Rightarrow> blob_env \<Rightarrow> http_request \<Rightarrow> int \<Rightarrow> string \<Rightarrow> http_response" where
  "writeBlobError P isPrint r B request status code =
     (let body = [CHR 0x7B] @ Quote isPrint ''code'' @ '':'' @ Quote isPrint code @ [CHR 0x7D] in
      \<lparr>rsStatus = status,
       rsHeader = signed_blob_headers P isPrint r B request (Header_Set (\<lambda>_. []) contentTypeHeader ''application/json'') status body,
       rsBody = Inr body\<rparr>)"

definition blob_caller ::
  "primitives \<Rightarrow> (nat \<Rightarrow> bool) \<Rightarrow> blob_env \<Rightarrow> http_request \<Rightarrow> string \<Rightarrow> store \<Rightarrow> (go_error, string, store) outcome" where
  \<comment> \<open>the checks of the caller up to the claim of the nonce; every refusal answers BLOB_FORBIDDEN\<close>
  "blob_caller P isPrint B request ownerAgentID s =
     (let remoteAgentID = Header_Get (rqHeader request) agentIDHeader; forbidden = (Inl (ErrMsg ''BLOB_FORBIDDEN''), s) in
      case GetContact ownerAgentID remoteAgentID s of
        Inl _ \<Rightarrow> forbidden
      | Inr contact \<Rightarrow>
          if remoteAgentID = [] \<or> remoteAgentID = ownerAgentID \<or> activeContactError (Inr contact) \<noteq> None then forbidden
          else (case RawURL_DecodeString (Header_Get (rqHeader request) publicKeyHeader) of
             None \<Rightarrow> forbidden
           | Some key \<Rightarrow>
               if length key \<noteq> PublicKeySize then forbidden
               else if Fingerprint P key \<noteq> cRemoteAgentFingerprint contact then forbidden
               else (case VerifyBlobRequest P isPrint request remoteAgentID ownerAgentID key (be_now B) (5 * Minute) of
                  Inl _ \<Rightarrow> forbidden
                | Inr nonce \<Rightarrow>
                    (case ClaimReplayNonce ownerAgentID remoteAgentID nonce (be_now B + 5 * Minute) (be_now B) s of
                       (Inl e, s) \<Rightarrow> (Inl (ErrMsg ''BLOB_FORBIDDEN''), s)
                     | (Inr claimed, s) \<Rightarrow> if \<not> claimed then (Inl (ErrMsg ''BLOB_FORBIDDEN''), s) else (Inr remoteAgentID, s)))))"

definition blob ::
  "primitives \<Rightarrow> (nat \<Rightarrow> bool) \<Rightarrow> gateway \<Rightarrow> blob_env \<Rightarrow> blob_files \<Rightarrow> http_request \<Rightarrow> string \<Rightarrow> string \<Rightarrow> store \<Rightarrow>
     http_response \<times> store" where
  "blob P isPrint r B files request ownerAgentID blobID s =
     (let failed = writeBlobError P isPrint r B request in
      case GetAgentRegistration ownerAgentID s of
        Inl _ \<Rightarrow> (http_NotFound, s)
      | Inr _ \<Rightarrow>
         (case blob_caller P isPrint B request ownerAgentID s of
            (Inl _, s) \<Rightarrow> (failed 403 ''BLOB_FORBIDDEN'', s)
          | (Inr remoteAgentID, s) \<Rightarrow>
             (case AuthorizeAttachmentGrant (Query_Get (rqURL request) ''grant'') blobID ownerAgentID remoteAgentID
                     (Query_Get (rqURL request) ''context'') (Query_Get (rqURL request) ''digest'') (be_now B) s of
                Inl _ \<Rightarrow> (failed 403 ''BLOB_FORBIDDEN'', s)
              | Inr grant \<Rightarrow>
                 (case ParseRange (Header_Get (rqHeader request) rangeHeader) (agSize grant) (chunkSize (gwAttachments r)) of
                    Inl _ \<Rightarrow> (failed 416 ''BLOB_RANGE_INVALID'', s)
                  | Inr (start, end) \<Rightarrow>
                     (case ReadRange (gwAttachments r) (be_files B) ownerAgentID blobID start end files of
                        Inl _ \<Rightarrow> (failed 404 ''BLOB_UNAVAILABLE'', s)
                      | Inr (metadata, content) \<Rightarrow>
                          if mdSHA256 metadata \<noteq> agDigest grant \<or> mdSize metadata \<noteq> agSize grant
                          then (failed 404 ''BLOB_UNAVAILABLE'', s)
                          else
                            let h = Header_Set (\<lambda>_. []) ''Accept-Ranges'' ''bytes'';
                                h = Header_Set h contentTypeHeader (mdMediaType metadata);
                                h = Header_Set h contentRangeHeader (ContentRange start end (mdSize metadata));
                                h = Header_Set h ''Content-Length'' (FormatInt (int (length content)));
                                h = Header_Set h etagHeader ([CHR 0x22] @ ''sha256:'' @ mdSHA256 metadata @ [CHR 0x22]);
                                h = Header_Set h ''Content-Disposition'' (''attachment; filename='' @ Quote isPrint (mdName metadata))
                            in (\<lparr>rsStatus = 206, rsHeader = signed_blob_headers P isPrint r B request h 206 content,
                                  rsBody = Inr content\<rparr>, s))))))"

section \<open>Agent cards\<close>

text \<open>Of the card of the A2A library the gateway publishes four fields; the others are kept in \<open>acPrivate\<close>.\<close>

record agent_card =
  acSupportedInterfaces :: "string list"
  acCapabilities :: string
  acName :: string
  acVersion :: string
  acPrivate :: string

definition publicAgentCard :: "agent_card \<Rightarrow> agent_card" where
  "publicAgentCard v = \<lparr>acSupportedInterfaces = acSupportedInterfaces v, acCapabilities = acCapabilities v,
     acName = acName v, acVersion = acVersion v, acPrivate = []\<rparr>"

definition TrimRight_slash :: "string \<Rightarrow> string" where
  "TrimRight_slash v = rev (dropWhile (\<lambda>c. c = CHR ''/'') (rev v))"

definition agentCard ::
  "primitives \<Rightarrow> (bytes \<Rightarrow> agent_card option) \<Rightarrow> (agent_card \<Rightarrow> bytes) \<Rightarrow> http_request \<Rightarrow> string \<Rightarrow> store \<Rightarrow> http_response" where
  \<comment> \<open>\<open>decodeAgentCard\<close> and the encoder of the JSON library are arguments\<close>
  "agentCard P decodeAgentCard encode req agentID s =
     (case GetAgentRegistration agentID s of
        Inl _ \<Rightarrow> http_NotFound
      | Inr registration \<Rightarrow>
          (case decodeAgentCard (arAgentCardJSON registration) of
             None \<Rightarrow> http_Error ''invalid agent card'' 500
           | Some v \<Rightarrow>
               let v = (if acSupportedInterfaces v = []
                     then v\<lparr>acSupportedInterfaces := [TrimRight_slash (requestBaseURL req) @ ''/agents/'' @ agentID @ ''/a2a/rest'']\<rparr>
                     else v);
                   h = (if length (arIdentityPublicKey registration) = PublicKeySize
                        then Header_Set (\<lambda>_. []) ''X-Snw-Agent-Key-Fingerprint'' (Fingerprint P (arIdentityPublicKey registration))
                        else (\<lambda>_. []))
               in \<lparr>rsStatus = 200, rsHeader = Header_Set h contentTypeHeader ''application/json'',
                   rsBody = Inr (encode (publicAgentCard v) @ newline)\<rparr>))"

definition health :: http_response where
  "health = \<lparr>rsStatus = 200, rsHeader = Header_Set (\<lambda>_. []) contentTypeHeader ''application/json'',
     rsBody = Inr ([CHR 0x7B, CHR 0x22] @ ''status'' @ [CHR 0x22] @ '':'' @ [CHR 0x22] @ ''ok'' @ [CHR 0x22, CHR 0x7D])\<rparr>"

end
