(* ===== verification/GatewayProps.thy ===== *)
theory GatewayProps
  imports Gateway
begin

text \<open>
  What the gateway ensures: whom it lets through, for how long a request is protected against replay, that traffic
  ends with the contact, and that a message is forwarded to the local agent at most once under every interleaving of
  handlers.
\<close>

section \<open>The decision\<close>

definition gateway_fits ::
  "primitives \<Rightarrow> (nat \<Rightarrow> bool) \<Rightarrow> weblib \<Rightarrow> gateway \<Rightarrow> gotime \<Rightarrow> string \<Rightarrow> http_request \<Rightarrow> string \<Rightarrow> store \<Rightarrow> string \<Rightarrow> bool" where
  \<comment> \<open>everything but the nonce, which is the last argument\<close>
  "gateway_fits P isPrint W r now remoteAddr req localAgentID s nonce =
     (case (LimitReader (rqBody req) bodyLimit, GetContact localAgentID (Header_Get (rqHeader req) agentIDHeader) s,
            RawURL_DecodeString (Header_Get (rqHeader req) publicKeyHeader)) of
        (Inr body, Inr contact, Some key) \<Rightarrow>
          Header_Get (rqHeader req) agentIDHeader \<notin> {[], localAgentID} \<and> CanCommunicate contact \<and>
          length key = PublicKeySize \<and> Fingerprint P key = cRemoteAgentFingerprint contact \<and>
          peer_check W r remoteAddr contact \<and>
          VerifyRequestForTarget P isPrint (req\<lparr>rqBody := Inr body\<rparr>) (Header_Get (rqHeader req) agentIDHeader) localAgentID key
            now (5 * Minute) = Inr nonce
      | _ \<Rightarrow> False)"

lemma activeContactError_iff: "activeContactError (Inr contact) = None \<longleftrightarrow> CanCommunicate contact"
  by (simp add: activeContactError_def CanCommunicate_def)

lemma authorized_unfits:
  assumes "\<And>nonce. \<not> gateway_fits P isPrint W r (c 0) remoteAddr req localAgentID s nonce"
  shows "\<exists>req'. authorized P isPrint W r c remoteAddr req localAgentID s = ((False, req'), s)"
  using assms
  by (cases "LimitReader (rqBody req) bodyLimit"; cases "GetContact localAgentID (Header_Get (rqHeader req) agentIDHeader) s";
      cases "RawURL_DecodeString (Header_Get (rqHeader req) publicKeyHeader)")
    (auto simp: authorized_def gateway_fits_def Let_def activeContactError_iff CanCommunicate_def activeContactError_def split: sum.split)

lemma authorized_fits:
  assumes "gateway_fits P isPrint W r (c 0) remoteAddr req localAgentID s nonce" and "wf_store s"
  shows "\<exists>body. LimitReader (rqBody req) bodyLimit = Inr body \<and> authorized P isPrint W r c remoteAddr req localAgentID s =
    ((\<not> nonce_live (localAgentID, Header_Get (rqHeader req) agentIDHeader, nonce) (c 2) s, req\<lparr>rqBody := Inr body\<rparr>),
     snd (ClaimReplayNonce localAgentID (Header_Get (rqHeader req) agentIDHeader) nonce (c 1 + 5 * Minute) (c 2) s))"
  using assms(1) ClaimReplayNonce_eq(1)[OF assms(2), of localAgentID "Header_Get (rqHeader req) agentIDHeader" nonce "c 1 + 5 * Minute" "c 2"]
  by (cases "LimitReader (rqBody req) bodyLimit"; cases "GetContact localAgentID (Header_Get (rqHeader req) agentIDHeader) s";
      cases "RawURL_DecodeString (Header_Get (rqHeader req) publicKeyHeader)")
    (auto simp: authorized_def gateway_fits_def Let_def activeContactError_def CanCommunicate_def split: prod.splits)

lemma gateway_fits_active:
  "gateway_fits P isPrint W r now remoteAddr req localAgentID s nonce \<Longrightarrow>
     contact_state localAgentID (Header_Get (rqHeader req) agentIDHeader) s = ContactStateActive"
  by (auto simp: gateway_fits_def contact_state_def CanCommunicate_def split: sum.splits option.splits)

section \<open>Traffic ends with the contact\<close>

definition target_agent :: "http_request \<Rightarrow> string" where
  "target_agent req = Split (CHR ''/'') (Trim (URL_Path (rqURL req)) ''/'') ! 1"

lemma authorized_inactive:
  assumes "contact_state a (Header_Get (rqHeader req) agentIDHeader) s \<noteq> ContactStateActive"
  shows "\<exists>req'. authorized P isPrint W r c remoteAddr req a s = ((False, req'), s)"
  using assms gateway_fits_active by (intro authorized_unfits) blast

lemma a2a_inactive:
  assumes "contact_state (target_agent req) (Header_Get (rqHeader req) agentIDHeader) s \<noteq> ContactStateActive"
  shows "\<exists>response. a2a P isPrint W r c V remoteAddr req s = Some ((response, []), s)"
proof -
  obtain req' where "authorized P isPrint W r c remoteAddr req (target_agent req) s = ((False, req'), s)"
    using authorized_inactive[OF assms, of P isPrint W r c remoteAddr] by blast
  then show ?thesis unfolding a2a_def Let_def target_agent_def by (auto split: sum.splits)
qed

interpretation a2a_active: active_gate
  "\<lambda>(r, c, V, remoteAddr, req) s. \<exists>response forwarded t.
     a2a P isPrint W r c V remoteAddr req s = Some ((response, forwarded), t) \<and> forwarded \<noteq> []"
  "\<lambda>(r, c, V, remoteAddr, req). (target_agent req, Header_Get (rqHeader req) agentIDHeader)" for P isPrint W
proof unfold_locales
  fix x s a b
  assume passed: "(case x of (r, c, V, remoteAddr, req) \<Rightarrow> \<lambda>s. \<exists>response forwarded t.
      a2a P isPrint W r c V remoteAddr req s = Some ((response, forwarded), t) \<and> forwarded \<noteq> []) s"
    and parties: "(case x of (r, c, V, remoteAddr, req) \<Rightarrow> (target_agent req, Header_Get (rqHeader req) agentIDHeader)) = (a, b)"
  obtain r c V remoteAddr req where x: "x = (r, c, V, remoteAddr, req)" by (cases x)
  have "(\<exists>response. a2a P isPrint W r c V remoteAddr req s = Some ((response, []), s)) \<or> contact_state a b s = ContactStateActive"
    using parties a2a_inactive[of req s P isPrint W r c V remoteAddr] unfolding x by auto
  then show "contact_state a b s = ContactStateActive" using passed unfolding x by auto
qed

lemma blob_caller_active:
  "fst (blob_caller P isPrint B request owner s) = Inr remote \<Longrightarrow>
     remote = Header_Get (rqHeader request) agentIDHeader \<and> contact_state owner remote s = ContactStateActive"
  by (auto simp: blob_caller_def Let_def contact_state_def activeContactError_def split: sum.splits option.splits if_splits prod.splits)

lemma blob_served_caller:
  assumes "rsStatus (fst (blob P isPrint r B files request owner i s)) = 206"
  shows "\<exists>remote. fst (blob_caller P isPrint B request owner s) = Inr remote"
proof (cases "fst (blob_caller P isPrint B request owner s)")
  case (Inl e)
  with assms show ?thesis
    by (cases "blob_caller P isPrint B request owner s")
      (auto simp: blob_def http_NotFound_def http_Error_def writeBlobError_def Let_def split: sum.splits)
qed simp

interpretation blob_active: active_gate
  "\<lambda>(r, B, files, request, owner, i) s. rsStatus (fst (blob P isPrint r B files request owner i s)) = 206"
  "\<lambda>(r, B, files, request, owner, i). (owner, Header_Get (rqHeader request) agentIDHeader)" for P isPrint
  by unfold_locales (use blob_served_caller blob_caller_active in fastforce)

section \<open>How long a request is protected against replay\<close>

definition request_nonce :: "http_request \<Rightarrow> string" where
  "request_nonce req = (case parseSignatureHeaders (rqHeader req) of Inr (metadata, _) \<Rightarrow> Nonce metadata | Inl _ \<Rightarrow> [])"

lemma VerifyRequest_nonce:
  "VerifyRequestForTarget P isPrint req a b key now skew = Inr nonce \<Longrightarrow> nonce = request_nonce req"
  by (auto simp: VerifyRequestForTarget_def request_nonce_def Let_def split: sum.splits if_splits)

lemma gateway_fits_nonce:
  "gateway_fits P isPrint W r now remoteAddr req a s nonce \<Longrightarrow> nonce = request_nonce req"
  by (auto simp: gateway_fits_def split: sum.splits option.splits dest!: VerifyRequest_nonce) (simp add: request_nonce_def)

lemma wf_authorized [wf_intros]:
  assumes "wf_store s"
  shows "wf_store (snd (authorized P isPrint W r c remoteAddr req a s))"
proof (cases "\<exists>nonce. gateway_fits P isPrint W r (c 0) remoteAddr req a s nonce")
  case True
  then obtain nonce where "gateway_fits P isPrint W r (c 0) remoteAddr req a s nonce" by blast
  from authorized_fits[where c=c, OF this assms] show ?thesis using wf_ClaimReplayNonce[OF assms] by auto
next
  case False
  then have "\<exists>req'. authorized P isPrint W r c remoteAddr req a s = ((False, req'), s)" by (intro authorized_unfits) blast
  then show ?thesis using assms by auto
qed

lemma authorized_claims:
  assumes "wf_store s" and "authorized P isPrint W r c remoteAddr req a s = ((True, req'), t)"
  shows "\<exists>q. by_key nonce_key (a, Header_Get (rqHeader req) agentIDHeader, request_nonce req) (replay_nonces t) = Some q \<and>
    millis (rnExpiresAt q) = millis (c 1 + 5 * Minute)"
proof -
  obtain nonce where fits: "gateway_fits P isPrint W r (c 0) remoteAddr req a s nonce"
    using authorized_unfits[of P isPrint W r c remoteAddr req a s] assms(2) by fastforce
  show ?thesis
    using authorized_fits[where c=c, OF fits assms(1)] assms(2) gateway_fits_nonce[OF fits] ClaimReplayNonce_eq(2)[OF assms(1)] by auto
qed

text \<open>
  C14. A request that the gateway let through is refused when it is sent again, whatever is written in
  between, for exactly five minutes from the reading of the clock at its first use: a copy that still fits when it comes again is
  let through if and only if those five minutes are over. The signature itself is accepted from five minutes before to five minutes
  after its time of creation, so a request dated ahead of the gateway's clock can pass twice.
\<close>

theorem gateway_replay_window:
  assumes "wf_store s" and "authorized P isPrint W r c remoteAddr req a s = ((True, req'), t)"
    and "T = c 1 + 5 * Minute"
    and "list_all (claims_before (a, Header_Get (rqHeader req) agentIDHeader, request_nonce req) T) ops"
    and "u = run (store_step P) ops t"
    and "gateway_fits P isPrint W r (c' 0) remoteAddr req a u nonce"
  shows "fst (fst (authorized P isPrint W r c' remoteAddr req a u)) \<longleftrightarrow> millis T \<le> millis (c' 2)"
proof -
  have wft: "wf_store t" using wf_authorized[OF assms(1), of P isPrint W r c remoteAddr req a] assms(2) by simp
  then have wfu: "wf_store u" unfolding assms(5) using store_history.inv_run by blast
  obtain q where q: "by_key nonce_key (a, Header_Get (rqHeader req) agentIDHeader, request_nonce req) (replay_nonces u) = Some q"
    "millis (rnExpiresAt q) = millis T"
    using authorized_claims[OF assms(1,2)] nonce_kept_run[OF wft _ _ assms(4)] unfolding assms(3,5) by metis
  then have "nonce_live (a, Header_Get (rqHeader req) agentIDHeader, nonce) (c' 2) u \<longleftrightarrow> millis (c' 2) < millis T"
    unfolding gateway_fits_nonce[OF assms(6)] by (simp add: nonce_live_def)
  then show ?thesis using authorized_fits[where c=c', OF assms(6) wfu] by auto
qed

definition demo_gateway :: gateway where
  "demo_gateway = \<lparr>gwWhois = None, gwRequireWhoIs = False, gwAttachments = NewService_attachment 0 0, gwSigner = None\<rparr>"

definition demo_web_unused :: weblib where
  "demo_web_unused = \<lparr>url_Parse = (\<lambda>_. None), LookupIP = (\<lambda>_. None), netip_ParseAddr = (\<lambda>_. None), netip_ParsePrefix = (\<lambda>_. None)\<rparr>"

definition demo_ahead :: http_request where
  \<comment> \<open>Bob's request to Alice, dated five minutes ahead\<close>
  "demo_ahead = server_view (case SignRequest fixed_primitives (\<lambda>_. False) (300 * Second) ''0123456789abcdef'' demo_request bob ''alice'' of
     Inr signed \<Rightarrow> signed | Inl _ \<Rightarrow> demo_request)"

lemma demo_ahead_verifies:
  assumes "0 \<le> now" and "now \<le> 600 * Second"
  shows "VerifyRequestForTarget fixed_primitives (\<lambda>_. False) demo_ahead ''bob'' ''alice'' (idPublicKey bob) now (5 * Minute) =
    Inr (identityNonce ''0123456789abcdef'')"
proof -
  obtain signed where s: "SignRequest fixed_primitives (\<lambda>_. False) (300 * Second) ''0123456789abcdef'' demo_request bob ''alice'' = Inr signed"
    by (simp add: SignRequest_def demo_request_def Let_def)
  have "VerifyRequestForTarget fixed_primitives (\<lambda>_. False) (server_view signed) (idAgentID bob) ''alice'' (idPublicKey bob) now (5 * Minute) =
      Inr (identityNonce ''0123456789abcdef'')"
    by (rule SignRequest_verifies[OF wf_demo_identities(2) fixed_primitives_laws _ _ _ s])
      (use assms in \<open>simp_all add: Unix_seconds demo_url\<close>, simp_all add: Second_def Minute_def)
  with s show ?thesis by (simp add: demo_ahead_def bob_def)
qed

lemma demo_ahead_headers:
  "Header_Get (rqHeader demo_ahead) agentIDHeader = ''bob''"
  "Header_Get (rqHeader demo_ahead) publicKeyHeader = RawURL_EncodeToString (idPublicKey bob)" "rqBody demo_ahead = Inr ''hello''"
  by (simp_all add: demo_ahead_def SignRequest_def demo_request_def Let_def setSignatureHeaders_def header_names bob_def)

lemma demo_ahead_fits:
  assumes "0 \<le> now" and "now \<le> 600 * Second" and "contacts s = contacts demo_active"
  shows "gateway_fits fixed_primitives (\<lambda>_. False) demo_web_unused demo_gateway now ''100.64.0.2:9'' demo_ahead ''alice'' s
    (identityNonce ''0123456789abcdef'')"
proof -
  have "GetContact ''alice'' ''bob'' s = GetContact ''alice'' ''bob'' demo_active" using assms(3) by (simp add: GetContact_def)
  moreover have "LimitReader (Inr ''hello'') bodyLimit = Inr ''hello''" by (simp add: LimitReader_def bodyLimit_def)
  moreover have same: "demo_ahead\<lparr>rqBody := Inr ''hello''\<rparr> = demo_ahead" using demo_ahead_headers(3) by (cases demo_ahead) simp
  moreover have "VerifyRequestForTarget fixed_primitives (\<lambda>_. False) (demo_ahead\<lparr>rqBody := Inr ''hello''\<rparr>) ''bob'' ''alice'' (idPublicKey bob) now
      (5 * Minute) = Inr (identityNonce ''0123456789abcdef'')" unfolding same by (rule demo_ahead_verifies[OF assms(1,2)])
  moreover have "Fingerprint fixed_primitives k = Fingerprint clear_primitives k" for k by (simp add: Fingerprint_def fixed_primitives_def)
  ultimately show ?thesis
    by (simp add: gateway_fits_def demo_ahead_headers GetContact_active RawURL_roundtrip CanCommunicate_def demo_contact_def
        peer_check_def demo_gateway_def bob_def PublicKeySize_def)
qed

theorem gateway_replay_window_witness:
  "\<exists>req' t. authorized fixed_primitives (\<lambda>_. False) demo_web_unused demo_gateway (\<lambda>_. 0) ''100.64.0.2:9'' demo_ahead ''alice'' demo_active =
       ((True, req'), t) \<and>
     fst (fst (authorized fixed_primitives (\<lambda>_. False) demo_web_unused demo_gateway (\<lambda>_. 6 * Minute) ''100.64.0.2:9'' demo_ahead ''alice'' t))"
proof -
  let ?n = "identityNonce ''0123456789abcdef''"
  have "gateway_fits fixed_primitives (\<lambda>_. False) demo_web_unused demo_gateway 0 ''100.64.0.2:9'' demo_ahead ''alice'' demo_active ?n"
    by (rule demo_ahead_fits) (simp_all add: Second_def)
  moreover have "\<not> nonce_live (''alice'', ''bob'', ?n) 0 demo_active" by (simp add: nonce_live_def demo_active_def empty_store_def)
  ultimately obtain req' t where first: "authorized fixed_primitives (\<lambda>_. False) demo_web_unused demo_gateway (\<lambda>_. 0) ''100.64.0.2:9''
      demo_ahead ''alice'' demo_active = ((True, req'), t)" and t: "t = snd (ClaimReplayNonce ''alice'' ''bob'' ?n (5 * Minute) 0 demo_active)"
    using authorized_fits[where c="\<lambda>_. 0", OF _ wf_demo_active] demo_ahead_headers(1) by fastforce
  have again: "gateway_fits fixed_primitives (\<lambda>_. False) demo_web_unused demo_gateway (6 * Minute) ''100.64.0.2:9'' demo_ahead ''alice'' t ?n"
    by (rule demo_ahead_fits) (simp_all add: Second_def Minute_def t ClaimReplayNonce_def Let_def case_prod_beta)
  have "fst (fst (authorized fixed_primitives (\<lambda>_. False) demo_web_unused demo_gateway (\<lambda>_. 6 * Minute) ''100.64.0.2:9'' demo_ahead ''alice'' t))"
    using gateway_replay_window[where c'="\<lambda>_. 6 * Minute", OF wf_demo_active first refl _ _ again, of "[]"]
    by (simp add: millis_def Minute_def)
  with first show ?thesis by blast
qed

end
