(* ===== verification/GatewayDedup.thy ===== *)
theory GatewayDedup
  imports GatewayProps
begin

text \<open>
  Concurrent handlers of \<^verbatim>\<open>serveA2AWithDedup\<close> as a step relation: each database statement is one atomic step, and between any two
  steps other handlers and other components may write. The handler of \<open>Gateway\<close> is a run of this machine.
\<close>

section \<open>The machine\<close>

record handling =
  hRequest :: http_request
  hBody :: bytes
  hLocalAgentID :: string
  hJsonRPC :: bool
  hEnv :: serve_env

definition hRemote :: "handling \<Rightarrow> string" where "hRemote h = Header_Get (rqHeader (hRequest h)) agentIDHeader"

definition hMessageID :: "handling \<Rightarrow> string" where "hMessageID h = inboundMessageID (sv_json (hEnv h)) (hBody h) (hJsonRPC h)"

definition hKey :: "handling \<Rightarrow> string \<times> string \<times> int \<times> string" where
  "hKey h = (hRemote h, hLocalAgentID h, keyEpoch, hMessageID h)"

datatype phase =
    Looking nat
  | Reserving nat
  | Recording string
  | Forwarding string
  | Completing string http_response
  | Completed http_response
  | Failed http_response
  | Answered http_response

record gw_state =
  gsStore :: store
  gsPhase :: "nat \<Rightarrow> phase"
  gsLog :: "nat list"        \<comment> \<open>handlers that forwarded their request, latest first\<close>

definition move :: "gw_state \<Rightarrow> nat \<Rightarrow> phase \<Rightarrow> store \<Rightarrow> gw_state" where
  "move g h p s = g\<lparr>gsStore := s, gsPhase := (gsPhase g)(h := p)\<rparr>"

inductive dedup_step :: "primitives \<Rightarrow> (nat \<Rightarrow> bool) \<Rightarrow> (nat \<Rightarrow> handling) \<Rightarrow> gw_state \<Rightarrow> gw_state \<Rightarrow> bool"
  for P isPrint H where
    hit: "gsPhase g h = Looking k \<Longrightarrow>
      GetScopedDeduplication P (hRemote (H h)) (hLocalAgentID (H h)) keyEpoch (hMessageID (H h)) (gsStore g) = Inr existing \<Longrightarrow>
      dedup_step P isPrint H g (move g h (Answered (dedup_answer isPrint existing)) (gsStore g))"
  | miss: "gsPhase g h = Looking k \<Longrightarrow>
      GetScopedDeduplication P (hRemote (H h)) (hLocalAgentID (H h)) keyEpoch (hMessageID (H h)) (gsStore g) = Inl e \<Longrightarrow>
      dedup_step P isPrint H g (move g h (Reserving k) (gsStore g))"
  | reserve: "gsPhase g h = Reserving k \<Longrightarrow>
      RecordScopedMessageOnce (sv_now (hEnv (H h)) k) (hRemote (H h)) (hLocalAgentID (H h)) keyEpoch (hMessageID (H h))
        (sv_task (hEnv (H h)) k) (gsStore g) = (Inr created, s) \<Longrightarrow>
      dedup_step P isPrint H g (move g h (if created then Recording (sv_task (hEnv (H h)) k) else Looking (Suc k)) s)"
  | inbox: "gsPhase g h = Recording task \<Longrightarrow>
      record_inbox P (hEnv (H h)) (hBody (H h)) (hRemote (H h)) (hLocalAgentID (H h)) (hMessageID (H h)) (hJsonRPC (H h)) (gsStore g) = (result, s) \<Longrightarrow>
      dedup_step P isPrint H g (move g h (if ok result then Forwarding task else Failed (http_Error ''inbox persistence unavailable'' 500)) s)"
  | forward: "gsPhase g h = Forwarding task \<Longrightarrow>
      dedup_step P isPrint H g
        ((move g h (Completing task (forwardA2A (hEnv (H h)) (hRequest (H h)) (hLocalAgentID (H h)) (hJsonRPC (H h)))) (gsStore g))
          \<lparr>gsLog := h # gsLog g\<rparr>)"
  | complete: "gsPhase g h = Completing task recorder \<Longrightarrow>
      dedup_step P isPrint H g (move g h (Completed recorder)
        (complete_message P (hEnv (H h)) (hRemote (H h)) (hLocalAgentID (H h)) (hMessageID (H h)) task recorder (gsStore g)))"
  | others: "dedup_step P isPrint H g (g\<lparr>gsStore := store_step P x (gsStore g)\<rparr>)"

inductive_cases dedup_stepE: "dedup_step P isPrint H g g'"

definition initial :: "gw_state \<Rightarrow> bool" where
  "initial g \<longleftrightarrow> (\<forall>h. gsPhase g h = Looking 0) \<and> gsLog g = []"

section \<open>A reservation has one owner\<close>

fun owns :: "phase \<Rightarrow> bool" where
  "owns (Recording _) = True"
| "owns (Forwarding _) = True"
| "owns (Completing _ _) = True"
| "owns (Completed _) = True"
| "owns (Failed _) = True"
| "owns _ = False"

fun forwarded :: "phase \<Rightarrow> bool" where
  "forwarded (Completing _ _) = True"
| "forwarded (Completed _) = True"
| "forwarded _ = False"

lemma forwarded_owns: "forwarded p \<Longrightarrow> owns p"
  by (cases p) simp_all

definition reserved :: "string \<times> string \<times> int \<times> string \<Rightarrow> store \<Rightarrow> bool" where
  "reserved k s \<longleftrightarrow> by_key scoped_key k (scoped_deduplication_records s) \<noteq> None"

definition dedup_inv :: "(nat \<Rightarrow> handling) \<Rightarrow> gw_state \<Rightarrow> bool" where
  "dedup_inv H g \<longleftrightarrow>
     (\<forall>h. owns (gsPhase g h) \<longrightarrow> reserved (hKey (H h)) (gsStore g)) \<and>
     (\<forall>h h'. owns (gsPhase g h) \<and> owns (gsPhase g h') \<and> hKey (H h) = hKey (H h') \<longrightarrow> h = h') \<and>
     distinct (gsLog g) \<and> (\<forall>h\<in>set (gsLog g). forwarded (gsPhase g h))"

lemma reserved_le: "store_le s t \<Longrightarrow> reserved k s \<Longrightarrow> reserved k t"
  unfolding reserved_def using keepsD[OF store_leD(6)] by fastforce

lemma le_record_inbox: "store_le s (snd (record_inbox P V body a b i j s))"
  by (simp add: record_inbox_def Let_def le_RecordInboxMessage store_le_refl)

lemma le_complete_message: "store_le s (complete_message P V a b i t r s)"
  by (simp add: complete_message_def Let_def le_CompleteScopedMessage)

lemma reserve_created:
  assumes "RecordScopedMessageOnce now a b e i t s = (Inr created, s')"
  shows "created \<longleftrightarrow> \<not> reserved (a, b, e, i) s" and "reserved (a, b, e, i) s'" and "store_le s s'"
  using assms le_RecordScopedMessageOnce[of s now a b e i t]
  by (auto simp: RecordScopedMessageOnce_def Let_def insert_ignore_eq reserved_def by_key_append scoped_key_def split: option.splits)

lemma inv_move:
  assumes "dedup_inv H g" and "store_le (gsStore g) s"
    and "owns p \<Longrightarrow> owns (gsPhase g h)" and "forwarded (gsPhase g h) \<Longrightarrow> forwarded p"
  shows "dedup_inv H (move g h p s)"
proof -
  have o: "owns (gsPhase (move g h p s) x) \<Longrightarrow> owns (gsPhase g x)" for x using assms(3) by (auto simp: move_def split: if_splits)
  have f: "forwarded (gsPhase g x) \<Longrightarrow> forwarded (gsPhase (move g h p s) x)" for x using assms(4) by (auto simp: move_def)
  have fields: "gsStore (move g h p s) = s" "gsLog (move g h p s) = gsLog g" by (simp_all add: move_def)
  show ?thesis using assms(1) o f reserved_le[OF assms(2)] unfolding dedup_inv_def fields by blast
qed

lemma inv_forward:
  assumes "dedup_inv H g" and "gsPhase g h = Forwarding task"
  shows "dedup_inv H ((move g h (Completing task r) (gsStore g))\<lparr>gsLog := h # gsLog g\<rparr>)"
proof -
  let ?g = "move g h (Completing task r) (gsStore g)"
  have fields: "gsLog ?g = gsLog g" "gsPhase ?g h = Completing task r" by (simp_all add: move_def)
  have "h \<notin> set (gsLog g)" using assms by (auto simp: dedup_inv_def)
  moreover have "dedup_inv H ?g" using assms by (intro inv_move) (simp_all add: store_le_refl)
  ultimately show ?thesis unfolding dedup_inv_def by (simp add: fields)
qed

lemma inv_reserve:
  assumes "dedup_inv H g" and "gsPhase g h = Reserving k"
    and "RecordScopedMessageOnce now (hRemote (H h)) (hLocalAgentID (H h)) keyEpoch (hMessageID (H h)) t (gsStore g) = (Inr created, s)"
  shows "dedup_inv H (move g h (if created then Recording t else Looking (Suc k)) s)"
proof (cases created)
  case True
  note r = reserve_created[OF assms(3)]
  have key: "hKey (H h) = (hRemote (H h), hLocalAgentID (H h), keyEpoch, hMessageID (H h))" by (simp add: hKey_def)
  have none: "owns (gsPhase g x) \<Longrightarrow> hKey (H x) \<noteq> hKey (H h) \<and> hKey (H h) \<noteq> hKey (H x)" for x
    using assms(1) r(1) True unfolding key dedup_inv_def by metis
  have log: "h \<notin> set (gsLog g)" using assms(1,2) by (auto simp: dedup_inv_def)
  show ?thesis
    using assms(1) True none log r(2) reserved_le[OF r(3)] unfolding dedup_inv_def key[symmetric] by (auto simp: move_def)
next
  case False
  with assms reserve_created(3)[OF assms(3)] show ?thesis by (intro inv_move) auto
qed

lemma inv_dedup_step: "dedup_step P isPrint H g g' \<Longrightarrow> dedup_inv H g \<Longrightarrow> dedup_inv H g'"
proof (induction rule: dedup_step.induct)
  case (reserve g h k created s)
  then show ?case by (intro inv_reserve) auto
next
  case (inbox g h task result s)
  then show ?case using le_record_inbox by (intro inv_move) (auto, metis snd_conv)
next
  case (forward g h task)
  then show ?case by (intro inv_forward)
next
  case (others g x)
  then show ?case using reserved_le[OF store_le_step] unfolding dedup_inv_def by auto
qed (auto intro!: inv_move simp: store_le_refl le_complete_message)

lemma dedup_inv_reachable: "(dedup_step P isPrint H)\<^sup>*\<^sup>* g g' \<Longrightarrow> dedup_inv H g \<Longrightarrow> dedup_inv H g'"
  by (induction rule: rtranclp_induct) (auto intro: inv_dedup_step)


section \<open>The handler is a run of the machine\<close>

lemma others_run: "(dedup_step P isPrint H)\<^sup>*\<^sup>* g (g\<lparr>gsStore := run (store_step P) ops (gsStore g)\<rparr>)"
proof (induction ops arbitrary: g)
  case (Cons x xs)
  have "dedup_step P isPrint H g (g\<lparr>gsStore := store_step P x (gsStore g)\<rparr>)" by (rule dedup_step.others)
  then show ?case using Cons.IH[of "g\<lparr>gsStore := store_step P x (gsStore g)\<rparr>"] by (simp add: converse_rtranclp_into_rtranclp)
qed simp

lemma LimitReader_again: "LimitReader body n = Inr b \<Longrightarrow> LimitReader (Inr b) n = Inr b"
  by (auto simp: LimitReader_def split: sum.splits)

definition handling_of :: "serve_env \<Rightarrow> http_request \<Rightarrow> bytes \<Rightarrow> string \<Rightarrow> bool \<Rightarrow> handling" where
  "handling_of V req body a j = \<lparr>hRequest = req\<lparr>rqBody := Inr body\<rparr>, hBody = body, hLocalAgentID = a, hJsonRPC = j, hEnv = V\<rparr>"

lemma handling_of_fields [simp]:
  "hRequest (handling_of V req body a j) = req\<lparr>rqBody := Inr body\<rparr>" "hBody (handling_of V req body a j) = body"
  "hLocalAgentID (handling_of V req body a j) = a" "hJsonRPC (handling_of V req body a j) = j" "hEnv (handling_of V req body a j) = V"
  "hRemote (handling_of V req body a j) = Header_Get (rqHeader req) agentIDHeader"
  "hMessageID (handling_of V req body a j) = inboundMessageID (sv_json V) body j"
  by (simp_all add: handling_of_def hRemote_def hMessageID_def)

text \<open>
  The turns of the handler: a lookup that finds the message, a reservation that another handler won, and the first
  delivery.
\<close>

lemma serve_turn_cases:
  fixes V req a
  defines "remote \<equiv> Header_Get (rqHeader req) agentIDHeader"
  assumes "LimitReader (rqBody req) bodyLimit = Inr body" and "mid = inboundMessageID (sv_json V) body j" and "mid \<noteq> []"
  obtains (hit) existing where "GetScopedDeduplication P remote a keyEpoch mid s = Inr existing"
      "serve_turn P isPrint V req a j k s = Inr ((dedup_answer isPrint existing, []), s)"
  | (lost) e s1 where "GetScopedDeduplication P remote a keyEpoch mid s = Inl e"
      "RecordScopedMessageOnce (sv_now V k) remote a keyEpoch mid (sv_task V k) (run (store_step P) (sv_others V k) s) = (Inr False, s1)"
      "serve_turn P isPrint V req a j k s = Inl (req\<lparr>rqBody := Inr body\<rparr>, s1)"
  | (refused) e e' s1 s2 where "GetScopedDeduplication P remote a keyEpoch mid s = Inl e"
      "RecordScopedMessageOnce (sv_now V k) remote a keyEpoch mid (sv_task V k) (run (store_step P) (sv_others V k) s) = (Inr True, s1)"
      "record_inbox P V body remote a mid j s1 = (Inl e', s2)"
      "serve_turn P isPrint V req a j k s = Inr ((http_Error ''inbox persistence unavailable'' 500, []), s2)"
  | (first) e s1 s2 response where "GetScopedDeduplication P remote a keyEpoch mid s = Inl e"
      "RecordScopedMessageOnce (sv_now V k) remote a keyEpoch mid (sv_task V k) (run (store_step P) (sv_others V k) s) = (Inr True, s1)"
      "record_inbox P V body remote a mid j s1 = (Inr (), s2)" "response = forwardA2A V (req\<lparr>rqBody := Inr body\<rparr>) a j"
      "serve_turn P isPrint V req a j k s = Inr ((response, [req\<lparr>rqBody := Inr body\<rparr>]),
         complete_message P V remote a mid (sv_task V k) response (run (store_step P) (sv_meanwhile V) s2))"
proof (cases "GetScopedDeduplication P remote a keyEpoch mid s")
  case (Inr existing)
  with hit assms show ?thesis by (simp add: serve_turn_def Let_def)
next
  case miss: (Inl e)
  obtain created s1 where r: "RecordScopedMessageOnce (sv_now V k) remote a keyEpoch mid (sv_task V k)
      (run (store_step P) (sv_others V k) s) = (Inr created, s1)" by (simp add: RecordScopedMessageOnce_def Let_def case_prod_beta)
  obtain result s2 where i: "record_inbox P V body remote a mid j s1 = (result, s2)" by (cases "record_inbox P V body remote a mid j s1")
  note turn = serve_turn_def[of P isPrint V req a j k s] assms(2) assms(3)[symmetric] assms(4) Let_def remote_def[symmetric]
  consider "\<not> created" | e' where "created" "result = Inl e'" | "created" "result = Inr ()" by (cases result) auto
  then show ?thesis
  proof cases
    case 1
    with miss r have "serve_turn P isPrint V req a j k s = Inl (req\<lparr>rqBody := Inr body\<rparr>, s1)" by (simp add: turn)
    with lost[OF miss] r 1 show ?thesis by simp
  next
    case 2
    with miss r i have "serve_turn P isPrint V req a j k s = Inr ((http_Error ''inbox persistence unavailable'' 500, []), s2)" by (simp add: turn)
    with refused[OF miss] r i 2 show ?thesis by simp
  next
    case 3
    with miss r i have "serve_turn P isPrint V req a j k s = Inr ((forwardA2A V (req\<lparr>rqBody := Inr body\<rparr>) a j, [req\<lparr>rqBody := Inr body\<rparr>]),
        complete_message P V remote a mid (sv_task V k) (forwardA2A V (req\<lparr>rqBody := Inr body\<rparr>) a j) (run (store_step P) (sv_meanwhile V) s2))"
      by (simp add: turn)
    with first[OF miss] r i 3 show ?thesis by simp
  qed
qed

lemma serve_induct [consumes 1, case_names stop again]:
  assumes "serveA2AWithDedup P isPrint V req a j k s = Some y"
    and "\<And>req k s y. serve_turn P isPrint V req a j k s = Inr y \<Longrightarrow> Q req k s y"
    and "\<And>req k s req' s' y. serve_turn P isPrint V req a j k s = Inl (req', s') \<Longrightarrow> Q req' (Suc k) s' y \<Longrightarrow> Q req k s y"
  shows "Q req k s y"
proof -
  define R where "R = (\<lambda>(((((((P', ip'), V'), req'), a'), j'), k'), s') y'.
    P' = P \<and> ip' = isPrint \<and> V' = V \<and> a' = a \<and> j' = j \<longrightarrow> Q req' k' s' y')"
  have "R (((((((P, isPrint), V), req), a), j), k), s) y"
  proof (rule serveA2AWithDedup.raw_induct[OF _ assms(1)], unfold R_def prod.case, intro impI, elim conjE, hypsubst)
    fix serve req' k' s' y'
    assume IH: "\<And>P' ip' V' req' a' j' k' s' y'. serve P' ip' V' req' a' j' k' s' = Some y' \<Longrightarrow>
        P' = P \<and> ip' = isPrint \<and> V' = V \<and> a' = a \<and> j' = j \<longrightarrow> Q req' k' s' y'"
      and turn: "(case serve_turn P isPrint V req' a j k' s' of Inl (req, s) \<Rightarrow> serve P isPrint V req a j (Suc k') s
        | Inr result \<Rightarrow> Some result) = Some y'"
    show "Q req' k' s' y'"
    proof (cases "serve_turn P isPrint V req' a j k' s'")
      case (Inl z)
      then obtain req1 s1 where z: "serve_turn P isPrint V req' a j k' s' = Inl (req1, s1)" by (cases z) auto
      then have "serve P isPrint V req1 a j (Suc k') s1 = Some y'" using turn by simp
      from IH[OF this] have "Q req1 (Suc k') s1 y'" by simp
      with z assms(3) show ?thesis by blast
    next
      case (Inr z)
      with turn assms(2) show ?thesis by simp
    qed
  qed
  then show ?thesis by (simp add: R_def)
qed

lemma move_fields [simp]:
  "gsStore (move g h p s) = s" "gsPhase (move g h p s) x = (if x = h then p else gsPhase g x)" "gsLog (move g h p s) = gsLog g"
  by (simp_all add: move_def)

lemma handling_of_again: "handling_of V (req\<lparr>rqBody := Inr body\<rparr>) body a j = handling_of V req body a j"
  by (simp add: handling_of_def)

lemma path_reserve:
  assumes "gsPhase g h = Looking k" and "H h = handling_of V req body a j"
    and "GetScopedDeduplication P (Header_Get (rqHeader req) agentIDHeader) a keyEpoch (inboundMessageID (sv_json V) body j) (gsStore g) = Inl e"
    and "RecordScopedMessageOnce (sv_now V k) (Header_Get (rqHeader req) agentIDHeader) a keyEpoch (inboundMessageID (sv_json V) body j)
       (sv_task V k) (run (store_step P) (sv_others V k) (gsStore g)) = (Inr created, s1)"
  shows "\<exists>g'. (dedup_step P isPrint H)\<^sup>*\<^sup>* g g' \<and> gsStore g' = s1 \<and> gsLog g' = gsLog g \<and>
    gsPhase g' h = (if created then Recording (sv_task V k) else Looking (Suc k))"
proof -
  let ?g1 = "move g h (Reserving k) (gsStore g)"
  let ?g2 = "?g1\<lparr>gsStore := run (store_step P) (sv_others V k) (gsStore g)\<rparr>"
  have "dedup_step P isPrint H g ?g1" using assms(1-3) by (intro dedup_step.miss[where e=e]) simp_all
  moreover have "(dedup_step P isPrint H)\<^sup>*\<^sup>* ?g1 ?g2" using others_run[of P isPrint H ?g1 "sv_others V k"] by simp
  moreover have "dedup_step P isPrint H ?g2 (move ?g2 h (if created then Recording (sv_task V k) else Looking (Suc k)) s1)"
    using assms(4) dedup_step.reserve[of ?g2 h k H created s1 P isPrint] by (cases created) (simp_all add: assms(2))
  ultimately have "(dedup_step P isPrint H)\<^sup>*\<^sup>* g (move ?g2 h (if created then Recording (sv_task V k) else Looking (Suc k)) s1)"
    by (meson converse_rtranclp_into_rtranclp rtranclp.rtrancl_into_rtrancl)
  then show ?thesis by (intro exI[of _ "move ?g2 h (if created then Recording (sv_task V k) else Looking (Suc k)) s1"]) simp
qed

lemma path_first:
  assumes "gsPhase g h = Recording task" and "H h = handling_of V req body a j"
    and "record_inbox P V body (Header_Get (rqHeader req) agentIDHeader) a (inboundMessageID (sv_json V) body j) j (gsStore g) = (Inr (), s2)"
    and "response = forwardA2A V (req\<lparr>rqBody := Inr body\<rparr>) a j"
    and "t = complete_message P V (Header_Get (rqHeader req) agentIDHeader) a (inboundMessageID (sv_json V) body j) task response
       (run (store_step P) (sv_meanwhile V) s2)"
  shows "\<exists>g'. (dedup_step P isPrint H)\<^sup>*\<^sup>* g g' \<and> gsStore g' = t \<and> gsLog g' = h # gsLog g \<and> gsPhase g' h = Completed response"
proof -
  let ?g1 = "move g h (Forwarding task) s2"
  let ?g2 = "(move ?g1 h (Completing task response) s2)\<lparr>gsLog := h # gsLog g\<rparr>"
  let ?g3 = "?g2\<lparr>gsStore := run (store_step P) (sv_meanwhile V) s2\<rparr>"
  have "dedup_step P isPrint H g ?g1"
    using assms(1,3) dedup_step.inbox[of g h task P H "Inr ()" s2 isPrint] by (simp add: ok_def assms(2))
  moreover have "dedup_step P isPrint H ?g1 ?g2"
    using dedup_step.forward[of ?g1 h task P isPrint H] by (simp add: assms(2,4))
  moreover have "(dedup_step P isPrint H)\<^sup>*\<^sup>* ?g2 ?g3" using others_run[of P isPrint H ?g2 "sv_meanwhile V"] by simp
  moreover have "dedup_step P isPrint H ?g3 (move ?g3 h (Completed response) t)"
    using dedup_step.complete[of ?g3 h task response P isPrint H] by (simp add: assms(2,5))
  ultimately have "(dedup_step P isPrint H)\<^sup>*\<^sup>* g (move ?g3 h (Completed response) t)"
    by (meson converse_rtranclp_into_rtranclp rtranclp.rtrancl_into_rtrancl)
  then show ?thesis by (intro exI[of _ "move ?g3 h (Completed response) t"]) simp
qed

text \<open>A handler that returns has taken a path of the machine, from its first lookup to one of the three ends.\<close>

lemma serve_path:
  assumes "serveA2AWithDedup P isPrint V req a j k s = Some y"
    and "LimitReader (rqBody req) bodyLimit = Inr body" and "inboundMessageID (sv_json V) body j \<noteq> []"
    and "H h = handling_of V req body a j" and "gsPhase g h = Looking k" and "gsStore g = s"
  shows "\<exists>g'. (dedup_step P isPrint H)\<^sup>*\<^sup>* g g' \<and> gsStore g' = snd y \<and>
    (snd (fst y) = [] \<and> gsLog g' = gsLog g \<and> gsPhase g' h \<in> {Answered (fst (fst y)), Failed (fst (fst y))} \<or>
     snd (fst y) = [hRequest (H h)] \<and> gsLog g' = h # gsLog g \<and> gsPhase g' h = Completed (fst (fst y)))"
  using assms
proof (induction arbitrary: g rule: serve_induct)
  case (stop req k s y)
  show ?case
    using stop(2) refl[of "inboundMessageID (sv_json V) body j"] stop(3)
  proof (cases rule: serve_turn_cases[where P=P and a=a and s=s and isPrint=isPrint and k=k])
    case (hit existing)
    have "dedup_step P isPrint H g (move g h (Answered (dedup_answer isPrint existing)) s)"
      using hit(1) stop(4-6) dedup_step.hit[of g h k P H existing isPrint] by simp
    moreover have "y = ((dedup_answer isPrint existing, []), s)" using hit(2) stop(1) by simp
    ultimately show ?thesis by (intro exI[of _ "move g h (Answered (dedup_answer isPrint existing)) s"]) auto
  next
    case (lost e s1)
    with stop(1) show ?thesis by simp
  next
    case (refused e e' s1 s2)
    obtain g1 where g1: "(dedup_step P isPrint H)\<^sup>*\<^sup>* g g1" "gsStore g1 = s1" "gsLog g1 = gsLog g" "gsPhase g1 h = Recording (sv_task V k)"
      using path_reserve[where H=H and isPrint=isPrint, OF stop(5,4) refused(1)[folded stop(6)] refused(2)[folded stop(6)]] by auto
    let ?r = "http_Error ''inbox persistence unavailable'' 500"
    have "dedup_step P isPrint H g1 (move g1 h (Failed ?r) s2)"
      using g1(2,4) refused(3) dedup_step.inbox[of g1 h "sv_task V k" P H "Inl e'" s2 isPrint] by (simp add: stop(4) ok_def)
    moreover have "y = ((?r, []), s2)" using refused(4) stop(1) by simp
    ultimately show ?thesis using g1(1,3) by (intro exI[of _ "move g1 h (Failed ?r) s2"]) auto
  next
    case (first e s1 s2 response)
    obtain g1 where g1: "(dedup_step P isPrint H)\<^sup>*\<^sup>* g g1" "gsStore g1 = s1" "gsLog g1 = gsLog g" "gsPhase g1 h = Recording (sv_task V k)"
      using path_reserve[where H=H and isPrint=isPrint, OF stop(5,4) first(1)[folded stop(6)] first(2)[folded stop(6)]] by auto
    obtain g2 where g2: "(dedup_step P isPrint H)\<^sup>*\<^sup>* g1 g2" "gsStore g2 = snd y" "gsLog g2 = h # gsLog g1" "gsPhase g2 h = Completed response"
      using path_first[where H=H and isPrint=isPrint, OF g1(4) stop(4) first(3)[folded g1(2)] first(4) refl] first(5) stop(1) by auto
    moreover have "fst y = (response, [hRequest (H h)])" using first(5) stop(1,4) by auto
    ultimately show ?thesis using g1(1,3) by (intro exI[of _ g2]) (auto intro: rtranclp_trans)
  qed
next
  case (again req k s req' s' y)
  show ?case
    using again(3) refl[of "inboundMessageID (sv_json V) body j"] again(4)
  proof (cases rule: serve_turn_cases[where P=P and a=a and s=s and isPrint=isPrint and k=k])
    case (lost e s1)
    then have n: "req' = req\<lparr>rqBody := Inr body\<rparr>" "s' = s1" using again(1) by auto
    obtain g1 where g1: "(dedup_step P isPrint H)\<^sup>*\<^sup>* g g1" "gsStore g1 = s1" "gsLog g1 = gsLog g" "gsPhase g1 h = Looking (Suc k)"
      using path_reserve[where H=H and isPrint=isPrint, OF again(6,5) lost(1)[folded again(7)] lost(2)[folded again(7)]] by auto
    have h': "H h = handling_of V req' body a j" using again(5) by (simp add: n handling_of_again)
    have "LimitReader (rqBody req') bodyLimit = Inr body" using LimitReader_again[OF again(3)] by (simp add: n)
    from again(2)[OF this again(4) h' g1(4)] g1 n(2) show ?thesis by (metis rtranclp_trans)
  qed (use again(1) in simp_all)
qed

section \<open>Retries are answered from the store\<close>

lemma serve_first_completes:
  assumes "serveA2AWithDedup P isPrint V req a j k s = Some y" and "snd (fst y) \<noteq> []"
    and "LimitReader (rqBody req) bodyLimit = Inr body" and "inboundMessageID (sv_json V) body j \<noteq> []"
  shows "\<exists>task s1. snd y = complete_message P V (Header_Get (rqHeader req) agentIDHeader) a (inboundMessageID (sv_json V) body j) task (fst (fst y)) s1 \<and>
    reserved (Header_Get (rqHeader req) agentIDHeader, a, keyEpoch, inboundMessageID (sv_json V) body j) s1 \<and> aead s1 = aead s"
  using assms
proof (induction rule: serve_induct)
  case (stop req k s y)
  show ?case
    using stop(3) refl[of "inboundMessageID (sv_json V) body j"] stop(4)
  proof (cases rule: serve_turn_cases[where P=P and a=a and s=s and isPrint=isPrint and k=k])
    case (first e s1 s2 response)
    let ?u = "run (store_step P) (sv_meanwhile V) s2"
    note r = reserve_created[OF first(2)]
    have "store_le s1 ?u" using le_record_inbox[of s1] first(3) store_le_run store_le_trans by (metis snd_conv)
    then have "reserved (Header_Get (rqHeader req) agentIDHeader, a, keyEpoch, inboundMessageID (sv_json V) body j) ?u" "aead ?u = aead s"
      using reserved_le r(2,3) store_leD(7) store_le_run by metis+
    moreover have "y = ((response, [req\<lparr>rqBody := Inr body\<rparr>]), complete_message P V (Header_Get (rqHeader req) agentIDHeader) a
        (inboundMessageID (sv_json V) body j) (sv_task V k) response ?u)" using first(5) stop(1) by simp
    ultimately show ?thesis by auto
  qed (use stop(1,2) in auto)
next
  case (again req k s req' s' y)
  show ?case
    using again(4) refl[of "inboundMessageID (sv_json V) body j"] again(5)
  proof (cases rule: serve_turn_cases[where P=P and a=a and s=s and isPrint=isPrint and k=k])
    case (lost e s1)
    then have n: "req' = req\<lparr>rqBody := Inr body\<rparr>" "s' = s1" using again(1) by auto
    have "aead s1 = aead s" using reserve_created(3)[OF lost(2)] store_leD(7) store_le_run by metis
    moreover have "LimitReader (rqBody req') bodyLimit = Inr body" using LimitReader_again[OF again(4)] by (simp add: n)
    ultimately show ?thesis using again(2)[OF again(3) _ again(5)] n by simp
  qed (use again(1) in simp_all)
qed

lemma GetScoped_completed:
  assumes "reserved (a, b, e, i) s" and "seal_opens P" and "length nonce = NonceSize"
    and "\<forall>key. aead s = Some key \<longrightarrow> length key = 32" and "body \<noteq> []"
  shows "\<exists>r. by_key scoped_key (a, b, e, i) (scoped_deduplication_records (snd (CompleteScopedMessage P nonce a b e i task st ct body s))) = Some r \<and>
    (\<forall>u. by_key scoped_key (a, b, e, i) (scoped_deduplication_records u) = Some r \<and> aead u = aead s \<longrightarrow>
       (\<exists>d. GetScopedDeduplication P a b e i u = Inr d \<and> ddResponseStatus d = st \<and> ddResponseType d = ct \<and> ddResponseBody d = body))"
proof -
  obtain q where q: "by_key scoped_key (a, b, e, i) (scoped_deduplication_records s) = Some q" using assms(1) by (auto simp: reserved_def)
  then have key: "ddSourceAgentID q = a" "ddTargetAgentID q = b" "ddAgentKeyEpoch q = e" "ddMessageID q = i"
    by (auto dest!: by_key_SomeD simp: scoped_key_def)
  have row: "by_key scoped_key (a, b, e, i) (fst (update_rows (\<lambda>r. ddSourceAgentID r = a \<and> ddTargetAgentID r = b \<and> ddAgentKeyEpoch r = e \<and> ddMessageID r = i)
      (\<lambda>r. r\<lparr>ddTaskID := task, ddResponseStatus := st, ddResponseType := ct, ddResponseBody := c\<rparr>) (scoped_deduplication_records s))) =
      Some (q\<lparr>ddTaskID := task, ddResponseStatus := st, ddResponseType := ct, ddResponseBody := c\<rparr>)" for c
    using q key by (subst by_key_update) (simp_all add: scoped_key_def)
  show ?thesis
  proof (cases "aead s")
    case None
    then show ?thesis using row by (auto simp: CompleteScopedMessage_def case_prod_beta Let_def GetScopedDeduplication_def)
  next
    case (Some key)
    then obtain c where c: "Encrypt P key nonce body (scopedDedupAssociatedData a b e i) = Inr c"
      using Encrypt_ok_iff[of P key nonce body "scopedDedupAssociatedData a b e i"] assms(4) by (auto simp: ok_iff)
    then have "c \<noteq> []" using assms(3) by (auto simp: Encrypt_def NonceSize_def split: sum.splits)
    then show ?thesis using row Some c Decrypt_Encrypt[OF assms(2,3) c] assms(5)
      by (auto simp: CompleteScopedMessage_def case_prod_beta Let_def GetScopedDeduplication_def)
  qed
qed

fun completes :: "string \<times> string \<times> int \<times> string \<Rightarrow> store_op \<Rightarrow> bool" where
  "completes k (OpCompleteScopedMessage n a b e i task st ct body) = ((a, b, e, i) = k)"
| "completes k _ = False"

lemma scoped_frame:
  assumes "\<nexists>t a b e i k. x = OpRecordScopedMessageOnce t a b e i k" and "\<nexists>n a b e i k st ct body. x = OpCompleteScopedMessage n a b e i k st ct body"
  shows "scoped_deduplication_records (store_step P x s) = scoped_deduplication_records s"
  using assms
  by (cases x)
    (auto simp: state_eqs CreatePairingRequest_eq ValidateAndConsumePairingRequest_def MarkOutboxDelivered_def
      ValidateAndConsumePairingRequestForAgent_def EnqueueOutbox_def CancelOutbox_def RecordInboxMessage_def ClaimReplayNonce_def
      MarkInboxMessageRead_def CreateAttachmentGrant_def RecordMessageOnce_def
      Let_def case_prod_beta split: sum.splits option.splits)

lemma scoped_kept_step:
  assumes "by_key scoped_key k (scoped_deduplication_records s) = Some r" and "\<not> completes k x"
  shows "by_key scoped_key k (scoped_deduplication_records (store_step P x s)) = Some r"
proof (cases "(\<exists>t a b e i k. x = OpRecordScopedMessageOnce t a b e i k) \<or> (\<exists>n a b e i k st ct body. x = OpCompleteScopedMessage n a b e i k st ct body)")
  case True
  then show ?thesis
  proof (elim disjE exE)
    fix t a b e i task
    assume "x = OpRecordScopedMessageOnce t a b e i task"
    with assms(1) show ?thesis
      by (auto simp: RecordScopedMessageOnce_def Let_def case_prod_beta insert_ignore_def by_key_append)
  next
    fix n a b e i task st ct body
    assume x: "x = OpCompleteScopedMessage n a b e i task st ct body"
    have "scoped_key r = k" using assms(1) by (auto dest: by_key_SomeD)
    with assms x show ?thesis
      by (auto simp: CompleteScopedMessage_def Let_def case_prod_beta by_key_update scoped_key_def split: sum.splits)
  qed
next
  case False
  with assms(1) show ?thesis using scoped_frame[of x P s] by auto
qed

lemma scoped_kept_run:
  "by_key scoped_key k (scoped_deduplication_records s) = Some r \<Longrightarrow> \<not> list_ex (completes k) ops \<Longrightarrow>
     by_key scoped_key k (scoped_deduplication_records (run (store_step P) ops s)) = Some r"
  by (induction ops arbitrary: s) (auto intro: scoped_kept_step)

lemma serve_hit:
  assumes "LimitReader (rqBody req) bodyLimit = Inr body" and "inboundMessageID (sv_json V) body j = mid" and "mid \<noteq> []"
    and "GetScopedDeduplication P (Header_Get (rqHeader req) agentIDHeader) a keyEpoch mid u = Inr d"
  shows "serveA2AWithDedup P isPrint V req a j k u = Some ((dedup_answer isPrint d, []), u)"
  using assms by (subst serveA2AWithDedup.simps) (simp add: serve_turn_def Let_def)

text \<open>
  C12. After a message was forwarded and answered with a body, every retry of it is answered from the store with the
  same status, content type and body, and is not forwarded: whatever is written in between other than another completion of the same
  message, over either protocol binding, and with the database encrypted or not.
\<close>

theorem retry_answered:
  assumes "key = (Header_Get (rqHeader req) agentIDHeader, a, keyEpoch, inboundMessageID (sv_json V) body j)"
    and "serveA2AWithDedup P isPrint V req a j k s = Some ((response, fwd), t)" and "fwd \<noteq> []"
    and "LimitReader (rqBody req) bodyLimit = Inr body" and "inboundMessageID (sv_json V) body j \<noteq> []"
    and "seal_opens P" and "length (sv_nonce V) = NonceSize" and "\<forall>key. aead s = Some key \<longrightarrow> length key = 32"
    and "0 < rsStatus response" and "response_bytes response \<noteq> []"
    and "u = run (store_step P) ops t" and "\<not> list_ex (completes key) ops"
    and "LimitReader (rqBody req') bodyLimit = Inr body'" and "inboundMessageID (sv_json V') body' j' = inboundMessageID (sv_json V) body j"
    and "Header_Get (rqHeader req') agentIDHeader = Header_Get (rqHeader req) agentIDHeader"
  shows "\<exists>again. serveA2AWithDedup P isPrint V' req' a j' k' u = Some ((again, []), u) \<and> rsStatus again = rsStatus response \<and>
    Header_Get (rsHeader again) contentTypeHeader = Header_Get (rsHeader response) contentTypeHeader \<and>
    rsBody again = Inr (response_bytes response)"
proof -
  let ?mid = "inboundMessageID (sv_json V) body j" and ?remote = "Header_Get (rqHeader req) agentIDHeader"
  obtain task s1 where s1: "t = complete_message P V ?remote a ?mid task response s1" "reserved (?remote, a, keyEpoch, ?mid) s1" "aead s1 = aead s"
    using serve_first_completes[OF assms(2) _ assms(4,5)] assms(3) by auto
  have k1: "\<forall>key. aead s1 = Some key \<longrightarrow> length key = 32" using assms(8) s1(3) by simp
  obtain r where r: "by_key scoped_key (?remote, a, keyEpoch, ?mid) (scoped_deduplication_records t) = Some r"
    and stored: "\<And>u. by_key scoped_key (?remote, a, keyEpoch, ?mid) (scoped_deduplication_records u) = Some r \<Longrightarrow> aead u = aead s1 \<Longrightarrow>
      \<exists>d. GetScopedDeduplication P ?remote a keyEpoch ?mid u = Inr d \<and> ddResponseStatus d = rsStatus response \<and>
        ddResponseType d = Header_Get (rsHeader response) contentTypeHeader \<and> ddResponseBody d = response_bytes response"
    using GetScoped_completed[OF s1(2) assms(6,7) k1 assms(10)] unfolding s1(1) complete_message_def Let_def by metis
  have "aead u = aead s1"
    using store_leD(7)[OF store_le_run[of t P ops]] store_leD(7)[OF le_complete_message] by (simp add: assms(11) s1(1))
  moreover have "by_key scoped_key (?remote, a, keyEpoch, ?mid) (scoped_deduplication_records u) = Some r"
    unfolding assms(11) by (rule scoped_kept_run[OF r assms(12)[unfolded assms(1)]])
  ultimately obtain d where d: "GetScopedDeduplication P ?remote a keyEpoch ?mid u = Inr d" "ddResponseStatus d = rsStatus response"
      "ddResponseType d = Header_Get (rsHeader response) contentTypeHeader" "ddResponseBody d = response_bytes response"
    using stored by blast
  have "serveA2AWithDedup P isPrint V' req' a j' k' u = Some ((dedup_answer isPrint d, []), u)"
    by (rule serve_hit[OF assms(13,14,5)]) (simp add: assms(15) d(1))
  then show ?thesis using d(2-4) assms(9,10) by (simp add: dedup_answer_def) (simp add: Header_Get_def)
qed

section \<open>The handler returns\<close>

lemma serve_readable_returns:
  assumes "LimitReader (rqBody req) bodyLimit = Inr body"
    and "\<And>u. store_le s u \<Longrightarrow> reserved (Header_Get (rqHeader req) agentIDHeader, a, keyEpoch, inboundMessageID (sv_json V) body j) u \<Longrightarrow>
      ok (GetScopedDeduplication P (Header_Get (rqHeader req) agentIDHeader) a keyEpoch (inboundMessageID (sv_json V) body j) u)"
  shows "\<exists>y. serveA2AWithDedup P isPrint V req a j k s = Some y"
proof (cases "serve_turn P isPrint V req a j k s")
  case (Inl z)
  have mid: "inboundMessageID (sv_json V) body j \<noteq> []" using Inl assms(1) by (auto simp: serve_turn_def Let_def)
  show ?thesis
    using assms(1) refl[of "inboundMessageID (sv_json V) body j"] mid
  proof (cases rule: serve_turn_cases[where P=P and a=a and s=s and isPrint=isPrint and k=k])
    case (lost e s1)
    have "store_le s s1" using reserve_created(3)[OF lost(2)] store_le_run store_le_trans by blast
    then obtain d where "GetScopedDeduplication P (Header_Get (rqHeader req) agentIDHeader) a keyEpoch (inboundMessageID (sv_json V) body j) s1 = Inr d"
      using assms(2) reserve_created(2)[OF lost(2)] by (auto simp: ok_iff)
    then have "serveA2AWithDedup P isPrint V (req\<lparr>rqBody := Inr body\<rparr>) a j (Suc k) s1 = Some ((dedup_answer isPrint d, []), s1)"
      using LimitReader_again[OF assms(1)] mid by (intro serve_hit[where body=body]) simp_all
    then show ?thesis using lost(3) by (subst serveA2AWithDedup.simps) simp
  qed (use Inl in simp_all)
next
  case (Inr y)
  then show ?thesis by (subst serveA2AWithDedup.simps) simp
qed

lemma serve_unreadable_diverges:
  assumes "LimitReader (rqBody req) bodyLimit = Inr body" and "inboundMessageID (sv_json V) body j \<noteq> []"
    and "reserved (Header_Get (rqHeader req) agentIDHeader, a, keyEpoch, inboundMessageID (sv_json V) body j) s" and "\<And>n. sv_others V n = []"
    and "\<not> ok (GetScopedDeduplication P (Header_Get (rqHeader req) agentIDHeader) a keyEpoch (inboundMessageID (sv_json V) body j) s)"
  shows "serveA2AWithDedup P isPrint V req a j k s = None"
proof -
  let ?remote = "Header_Get (rqHeader req) agentIDHeader"
  have turn: "serve_turn P isPrint V q a j n s = Inl (q\<lparr>rqBody := Inr body\<rparr>, s)"
    if "LimitReader (rqBody q) bodyLimit = Inr body" "Header_Get (rqHeader q) agentIDHeader = ?remote" for q n
  proof -
    have "RecordScopedMessageOnce (sv_now V n) ?remote a keyEpoch (inboundMessageID (sv_json V) body j) (sv_task V n) s = (Inr False, s)"
      using assms(3) by (auto simp: RecordScopedMessageOnce_def Let_def insert_ignore_eq reserved_def scoped_key_def)
    with that assms(2,4,5) show ?thesis by (auto simp: serve_turn_def Let_def ok_def split: sum.splits)
  qed
  have "serveA2AWithDedup P isPrint V req a j k s \<noteq> Some y" for y
  proof
    assume "serveA2AWithDedup P isPrint V req a j k s = Some y"
    then have "LimitReader (rqBody req) bodyLimit = Inr body \<longrightarrow> Header_Get (rqHeader req) agentIDHeader = r \<longrightarrow> s = t \<longrightarrow> False"
      if "t = s" "r = ?remote" for t r
      using turn that
    proof (induction rule: serve_induct)
      case (again q n u q' u' z)
      then show ?case using LimitReader_again by fastforce
    qed auto
    from this[OF refl refl] show False using assms(1) by simp
  qed
  then show ?thesis using option.exhaust by blast
qed


section \<open>A concrete message\<close>

definition demo_json :: gwjson where
  "demo_json = \<lparr>json_messageId = (\<lambda>b. Some (Some b, None)), json_contextId = (\<lambda>_. None), json_id = (\<lambda>_. Some ''task''), json_result_id = (\<lambda>_. None)\<rparr>"

definition demo_serve :: serve_env where
  "demo_serve = \<lparr>sv_json = demo_json,
     sv_forward = (\<lambda>_ _ _. \<lparr>rsStatus = 200, rsHeader = Header_Set (\<lambda>_. []) contentTypeHeader ''application/json'', rsBody = Inr ''done''\<rparr>),
     sv_task = (\<lambda>_. ''reserved''), sv_now = (\<lambda>_. 0), sv_inbox_now = 0, sv_inbox_nonce = ''0123456789ab'', sv_nonce = ''0123456789ab'',
     sv_others = (\<lambda>_. []), sv_meanwhile = []\<rparr>"

definition demo_message_request :: http_request where
  "demo_message_request = demo_request\<lparr>rqHeader := Header_Set (\<lambda>_. []) agentIDHeader ''bob'', rqBody := Inr ''m1''\<rparr>"

lemma demo_message_facts:
  "LimitReader (rqBody demo_message_request) bodyLimit = Inr ''m1''" "inboundMessageID (sv_json demo_serve) ''m1'' False = ''m1''"
  "Header_Get (rqHeader demo_message_request) agentIDHeader = ''bob''" "length (sv_nonce demo_serve) = NonceSize"
  by (simp_all add: demo_message_request_def LimitReader_def bodyLimit_def demo_serve_def demo_json_def inboundMessageID_def inbound_field_def NonceSize_def)

lemma demo_served:
  "\<exists>t fwd response. serveA2AWithDedup clear_primitives (\<lambda>_. False) demo_serve demo_message_request ''alice'' False 0 (empty_store None) =
     Some ((response, fwd), t) \<and> fwd \<noteq> [] \<and> rsStatus response = 200 \<and> response_bytes response = ''done''"
proof -
  let ?req = "demo_message_request\<lparr>rqBody := Inr ''m1''\<rparr>"
  have inbox: "ok (fst (record_inbox clear_primitives demo_serve ''m1'' ''bob'' ''alice'' ''m1'' False s))" if "aead s = None" for s
    using that by (simp add: record_inbox_def RecordInboxMessage_def Let_def ok_def)
  have answer: "rsStatus (forwardA2A demo_serve ?req ''alice'' False) = 200" "response_bytes (forwardA2A demo_serve ?req ''alice'' False) = ''done''"
    by (simp_all add: forwardA2A_def demo_serve_def response_bytes_def)
  have none: "GetScopedDeduplication clear_primitives ''bob'' ''alice'' keyEpoch ''m1'' (empty_store None) = Inl ErrNotFound"
    by (simp add: GetScopedDeduplication_def empty_store_def)
  have fresh: "\<not> reserved (''bob'', ''alice'', keyEpoch, ''m1'') (empty_store None)" "aead (empty_store None) = None" "sv_others demo_serve 0 = []"
    by (simp_all add: reserved_def empty_store_def demo_serve_def)
  show ?thesis
    using demo_message_facts(1) demo_message_facts(2)[symmetric] list.distinct(2)
  proof (cases rule: serve_turn_cases[where P=clear_primitives and a="''alice''" and s="empty_store None" and isPrint="\<lambda>_. False" and k=0])
    case (refused e e' s1 s2)
    then have "aead s1 = None" using reserve_created(3)[OF refused(2)] store_leD(7) fresh by fastforce
    with inbox[of s1] refused(3) show ?thesis by (simp add: demo_message_facts ok_def)
  next
    case (lost e s1)
    then show ?thesis using reserve_created(1)[OF lost(2)] fresh by (simp add: demo_message_facts)
  next
    case (first e s1 s2 response)
    then show ?thesis using answer by (simp add: serveA2AWithDedup.simps[of _ _ _ _ _ _ 0])
  qed (simp_all add: none demo_message_facts)
qed


theorem retry_answered_witness:
  "\<exists>t again. snd ` set_option (serveA2AWithDedup clear_primitives (\<lambda>_. False) demo_serve demo_message_request ''alice'' False 0 (empty_store None)) = {t} \<and>
     serveA2AWithDedup clear_primitives (\<lambda>_. False) demo_serve demo_message_request ''alice'' False 0 t = Some ((again, []), t) \<and>
     rsStatus again = 200 \<and> rsBody again = Inr ''done''"
proof -
  obtain t fwd response where first: "serveA2AWithDedup clear_primitives (\<lambda>_. False) demo_serve demo_message_request ''alice'' False 0 (empty_store None) =
      Some ((response, fwd), t)" "fwd \<noteq> []" "rsStatus response = 200" "response_bytes response = ''done''" using demo_served by blast
  have "\<exists>again. serveA2AWithDedup clear_primitives (\<lambda>_. False) demo_serve demo_message_request ''alice'' False 0 t = Some ((again, []), t) \<and>
      rsStatus again = rsStatus response \<and> Header_Get (rsHeader again) contentTypeHeader = Header_Get (rsHeader response) contentTypeHeader \<and>
      rsBody again = Inr (response_bytes response)"
    by (rule retry_answered[OF refl first(1,2) demo_message_facts(1) _ clear_primitives_laws(2) demo_message_facts(4), where ops="[]"])
      (use demo_message_facts first(3,4) in \<open>simp_all add: empty_store_def\<close>)
  with first show ?thesis by auto
qed


end
