(* ===== verification/SSE.thy ===== *)
theory SSE
  imports Gateway
begin

text \<open>
  \<^verbatim>\<open>internal/transport/sse.go\<close> and \<^verbatim>\<open>response.go\<close>: event streams whose events are signed one by one and linked by a hash chain,
  and the middleware that signs responses. A nil signer is \<open>None\<close>.
\<close>

section \<open>Byte strings\<close>

definition TrimSuffix :: "string \<Rightarrow> string \<Rightarrow> string" where
  "TrimSuffix v suffix = (if HasSuffix v suffix then take (length v - length suffix) v else v)"

fun replace_crlf :: "string \<Rightarrow> string" where
  \<comment> \<open>\<^verbatim>\<open>bytes.ReplaceAll\<close> of CR LF by LF\<close>
  "replace_crlf (a # b # s) = (if a = CHR 0x0D \<and> b = CHR 0x0A then CHR 0x0A # replace_crlf s else a # replace_crlf (b # s))"
| "replace_crlf s = s"

fun split_blank :: "string \<Rightarrow> string \<Rightarrow> string list" where
  \<comment> \<open>\<^verbatim>\<open>bytes.Split\<close> at two line feeds; the first argument is the piece read so far\<close>
  "split_blank acc (a # b # s) =
     (if a = CHR 0x0A \<and> b = CHR 0x0A then acc # split_blank [] s else split_blank (acc @ [a]) (b # s))"
| "split_blank acc s = [acc @ s]"

definition ParseUint64 :: "string \<Rightarrow> nat option" where
  "ParseUint64 v = (if v \<noteq> [] \<and> list_all is_digit v \<and> decimal v < 2 ^ 64 then Some (nat (decimal v)) else None)"

section \<open>Signed events\<close>

definition sseSignatureDomain :: string where "sseSignatureDomain = ''snw-agent-link-sse-v1'' @ [CHR 0x00]"

record SignedSSEEvent =
  evCursor :: string
  evHash :: string
  evSignature :: string

record SSEEventSigner =
  esSigner :: Identity
  esPreviousHash :: bytes

definition NewSSEEventSignerWithPreviousHash :: "Identity option \<Rightarrow> bytes \<Rightarrow> go_error + SSEEventSigner" where
  "NewSSEEventSignerWithPreviousHash signer previousHash =
     (case signer of
        None \<Rightarrow> Inl (ErrMsg ''SSE signer with a valid Ed25519 key is required'')
      | Some i \<Rightarrow>
          if length (idPublicKey i) \<noteq> PublicKeySize \<or> length (idPrivateKey i) \<noteq> PrivateKeySize
          then Inl (ErrMsg ''SSE signer with a valid Ed25519 key is required'')
          else if length previousHash \<noteq> 0 \<and> length previousHash \<noteq> 32 then Inl ErrSSEHashChain
          else Inr \<lparr>esSigner = i, esPreviousHash = previousHash\<rparr>)"

definition NewSSEEventSigner :: "Identity option \<Rightarrow> go_error + SSEEventSigner" where
  "NewSSEEventSigner signer = NewSSEEventSignerWithPreviousHash signer []"

definition validateSSECursor :: "string \<Rightarrow> go_error + unit" where
  "validateSSECursor cursor =
     (if cursor = [] \<or> CHR 0x0D \<in> set cursor \<or> CHR 0x0A \<in> set cursor then Inl ErrInvalidSSECursor else Inr ())"

definition sseHashInput :: "bytes \<Rightarrow> bytes \<Rightarrow> string \<Rightarrow> bytes" where
  "sseHashInput previousHash event cursor = sseSignatureDomain @ previousHash @ [CHR 0x00] @ cursor @ [CHR 0x00] @ event"

definition sseEventHash :: "primitives \<Rightarrow> bytes \<Rightarrow> bytes \<Rightarrow> string \<Rightarrow> bytes" where
  "sseEventHash P previousHash event cursor = sha256 P (sseHashInput previousHash event cursor)"

definition sseSigningBytes :: "bytes \<Rightarrow> string \<Rightarrow> bytes \<Rightarrow> bytes" where
  "sseSigningBytes event cursor hash = sseSignatureDomain @ cursor @ [CHR 0x00] @ hash @ [CHR 0x00] @ event"

definition SSE_Sign :: "primitives \<Rightarrow> SSEEventSigner \<Rightarrow> bytes \<Rightarrow> string \<Rightarrow> go_error + SignedSSEEvent \<times> SSEEventSigner" where
  "SSE_Sign P signer event cursor =
     (case validateSSECursor cursor of
        Inl e \<Rightarrow> Inl e
      | Inr _ \<Rightarrow>
          let hash = sseEventHash P (esPreviousHash signer) event cursor;
              signature = ed25519_Sign P (idPrivateKey (esSigner signer)) (sseSigningBytes event cursor hash)
          in Inr (\<lparr>evCursor = cursor, evHash = RawURL_EncodeToString hash, evSignature = RawURL_EncodeToString signature\<rparr>,
               signer\<lparr>esPreviousHash := hash\<rparr>))"

definition normalizeSSEEvent :: "bytes \<Rightarrow> bytes" where
  "normalizeSSEEvent event =
     (if HasSuffix event [CHR 0x0A, CHR 0x0A] then event
      else (if \<not> HasSuffix event [CHR 0x0A] then event @ [CHR 0x0A] else event) @ [CHR 0x0A])"

definition cursorPrefix :: string where "cursorPrefix = '': snw-cursor=''"
definition hashPrefix :: string where "hashPrefix = '': snw-hash=''"
definition signaturePrefix :: string where "signaturePrefix = '': snw-signature=''"

definition Frame :: "primitives \<Rightarrow> SSEEventSigner \<Rightarrow> bytes \<Rightarrow> string \<Rightarrow> go_error + bytes \<times> SSEEventSigner" where
  "Frame P signer event cursor =
     (let event = normalizeSSEEvent event in
      case SSE_Sign P signer event cursor of
        Inl e \<Rightarrow> Inl e
      | Inr (signed, signer) \<Rightarrow>
          Inr (cursorPrefix @ evCursor signed @ newline @ hashPrefix @ evHash signed @ newline @
               signaturePrefix @ evSignature signed @ newline @ event @
               (if \<not> HasSuffix event [CHR 0x0A, CHR 0x0A]
                then (if \<not> HasSuffix event [CHR 0x0A] then newline else []) @ newline else []), signer))"

definition VerifySSEEvent :: "primitives \<Rightarrow> bytes \<Rightarrow> SignedSSEEvent \<Rightarrow> bytes \<Rightarrow> bytes \<Rightarrow> go_error + bytes" where
  "VerifySSEEvent P event signed previousHash pubKey =
     (if length pubKey \<noteq> PublicKeySize then Inl ErrSSESignature
      else if length previousHash \<noteq> 0 \<and> length previousHash \<noteq> 32 then Inl ErrSSEHashChain
      else case validateSSECursor (evCursor signed) of
        Inl e \<Rightarrow> Inl e
      | Inr _ \<Rightarrow>
         (case RawURL_DecodeString (evHash signed) of
            None \<Rightarrow> Inl ErrSSEHashChain
          | Some hash \<Rightarrow>
              if length hash \<noteq> 32 then Inl ErrSSEHashChain
              else if hash \<noteq> sseEventHash P previousHash event (evCursor signed) then Inl ErrSSEHashChain
              else (case RawURL_DecodeString (evSignature signed) of
                      None \<Rightarrow> Inl ErrSSESignature
                    | Some signature \<Rightarrow>
                        if length signature \<noteq> SignatureSize \<or>
                           \<not> ed25519_Verify P pubKey (sseSigningBytes event (evCursor signed) hash) signature
                        then Inl ErrSSESignature else Inr hash)))"

definition validateParsedSSEMetadata :: "SignedSSEEvent \<Rightarrow> go_error + unit" where
  "validateParsedSSEMetadata signed =
     (if evCursor signed = [] \<or> evHash signed = [] \<or> evSignature signed = [] then Inl ErrInvalidSSEEvent
      else validateSSECursor (evCursor signed))"

lemma rest_shorter: "rest \<noteq> [] \<Longrightarrow> length rest - Suc (length (takeWhile Q rest)) < length rest"
  by (cases rest) auto

lemma length_dropWhile_takeWhile: "length (dropWhile Q xs) = length xs - length (takeWhile Q xs)"
  by (metis length_drop dropWhile_eq_drop)

function parse_frame_lines :: "SignedSSEEvent \<Rightarrow> bytes \<Rightarrow> go_error + bytes \<times> SignedSSEEvent" where
  \<comment> \<open>the loop of ParseSignedSSEFrame over the rest of the frame\<close>
  "parse_frame_lines signed rest =
     (if rest = [] then Inl ErrInvalidSSEEvent
      else if CHR 0x0A \<notin> set rest then Inl ErrInvalidSSEEvent
      else
        let text = TrimSuffix (takeWhile (\<lambda>c. c \<noteq> CHR 0x0A) rest) [CHR 0x0D];
            after = drop 1 (dropWhile (\<lambda>c. c \<noteq> CHR 0x0A) rest) in
        if HasPrefix text cursorPrefix then parse_frame_lines (signed\<lparr>evCursor := TrimPrefix text cursorPrefix\<rparr>) after
        else if HasPrefix text hashPrefix then parse_frame_lines (signed\<lparr>evHash := TrimPrefix text hashPrefix\<rparr>) after
        else if HasPrefix text signaturePrefix then parse_frame_lines (signed\<lparr>evSignature := TrimPrefix text signaturePrefix\<rparr>) after
        else (case validateParsedSSEMetadata signed of Inl e \<Rightarrow> Inl e | Inr _ \<Rightarrow> Inr (rest, signed)))"
  by pat_completeness auto

termination
  by (relation "measure (\<lambda>(signed, rest). length rest)") (auto simp: length_dropWhile_takeWhile rest_shorter)

definition ParseSignedSSEFrame :: "bytes \<Rightarrow> go_error + bytes \<times> SignedSSEEvent" where
  "ParseSignedSSEFrame frame = parse_frame_lines \<lparr>evCursor = [], evHash = [], evSignature = []\<rparr> frame"

section \<open>Streams\<close>

definition sseStreamCursor :: "string \<Rightarrow> nat \<Rightarrow> string" where
  "sseStreamCursor start index =
     (if start = [] then ''cursor-'' @ FormatInt (int index + 1)
      else case ParseUint64 start of
        Some v \<Rightarrow> digits ((v + index + 1) mod 2 ^ 64)
      | None \<Rightarrow> start @ ''-'' @ FormatInt (int index + 1))"

fun sign_parts :: "primitives \<Rightarrow> SSEEventSigner \<Rightarrow> string \<Rightarrow> nat \<Rightarrow> bytes list \<Rightarrow> go_error + bytes list" where
  "sign_parts P signer start eventIndex [] = Inr []"
| "sign_parts P signer start eventIndex (part # rest) =
     (if TrimSpace part = [] then sign_parts P signer start eventIndex rest
      else case Frame P signer (part @ [CHR 0x0A, CHR 0x0A]) (sseStreamCursor start eventIndex) of
        Inl e \<Rightarrow> Inl e
      | Inr (frame, signer) \<Rightarrow>
          (case sign_parts P signer start (Suc eventIndex) rest of
             Inl e \<Rightarrow> Inl e
           | Inr frames \<Rightarrow> Inr (frame # frames)))"

definition SignSSEStream :: "primitives \<Rightarrow> bytes \<Rightarrow> Identity option \<Rightarrow> string \<Rightarrow> go_error + bytes" where
  "SignSSEStream P stream signer initialCursor =
     (case NewSSEEventSigner signer of
        Inl e \<Rightarrow> Inl e
      | Inr eventSigner \<Rightarrow>
          (case sign_parts P eventSigner initialCursor 0 (split_blank [] (replace_crlf stream)) of
             Inl e \<Rightarrow> Inl e
           | Inr frames \<Rightarrow> Inr (concat frames)))"

section \<open>The response signing middleware\<close>

record responseCapture =
  rcHeader :: header
  rcBody :: bytes
  rcStatus :: int
  rcWroteHeader :: bool

definition newResponseCapture :: responseCapture where
  "newResponseCapture = \<lparr>rcHeader = (\<lambda>_. []), rcBody = [], rcStatus = 0, rcWroteHeader = False\<rparr>"

definition capture_WriteHeader :: "int \<Rightarrow> responseCapture \<Rightarrow> responseCapture" where
  "capture_WriteHeader status capture =
     (if rcWroteHeader capture then capture else capture\<lparr>rcStatus := status, rcWroteHeader := True\<rparr>)"

definition capture_Write :: "bytes \<Rightarrow> responseCapture \<Rightarrow> responseCapture" where
  "capture_Write data capture =
     (let capture = (if \<not> rcWroteHeader capture then capture_WriteHeader 200 capture else capture)
      in capture\<lparr>rcBody := rcBody capture @ data\<rparr>)"

definition capture_Flush :: "responseCapture \<Rightarrow> responseCapture" where
  "capture_Flush capture = (if \<not> rcWroteHeader capture then capture_WriteHeader 200 capture else capture)"

definition statusCode :: "responseCapture \<Rightarrow> int" where
  "statusCode capture = (if rcStatus capture = 0 then 200 else rcStatus capture)"

function size_digits :: "nat \<Rightarrow> string \<Rightarrow> string" where
  \<comment> \<open>the loop of stringSize; the second argument is the written end of the buffer\<close>
  "size_digits n written = (if n = 0 then written else size_digits (n div 10) (unbyte (48 + n mod 10) # written))"
  by pat_completeness auto

termination
  by (relation "measure fst") auto

definition stringSize :: "nat \<Rightarrow> string" where
  "stringSize n = (if n = 0 then ''0'' else size_digits n [])"

definition commitResponse :: "responseCapture \<Rightarrow> http_response" where
  "commitResponse capture =
     (let status = statusCode capture;
          sz = (if status = 204 \<or> status = 304 \<or> (100 \<le> status \<and> status < 200) then ''0'' else stringSize (length (rcBody capture)))
      in \<lparr>rsStatus = status, rsHeader = Header_Set (rcHeader capture) ''Content-Length'' sz, rsBody = Inr (rcBody capture)\<rparr>)"

datatype writer_op = SetHeader string string | AddHeaders header | WriteStatus int | WriteBytes bytes | FlushWriter

fun capture_op :: "writer_op \<Rightarrow> responseCapture \<Rightarrow> responseCapture" where
  "capture_op (SetHeader k v) capture = capture\<lparr>rcHeader := Header_Set (rcHeader capture) k v\<rparr>"
| "capture_op (AddHeaders h) capture = capture\<lparr>rcHeader := (\<lambda>k. rcHeader capture k @ h k)\<rparr>"
| "capture_op (WriteStatus status) capture = capture_WriteHeader status capture"
| "capture_op (WriteBytes data) capture = capture_Write data capture"
| "capture_op FlushWriter capture = capture_Flush capture"

fun contains :: "string \<Rightarrow> string \<Rightarrow> bool" where
  "contains sub [] = (sub = [])"
| "contains sub (c # s) = (HasPrefix (c # s) sub \<or> contains sub s)"

definition sseSignedHeader :: string where "sseSignedHeader = ''X-Snw-Sse-Signed''"

definition signed_capture ::
  "primitives \<Rightarrow> (nat \<Rightarrow> bool) \<Rightarrow> gotime \<Rightarrow> bytes \<Rightarrow> Identity \<Rightarrow> string \<Rightarrow> responseCapture \<Rightarrow> http_response" where
  \<comment> \<open>from the captured response to the committed one\<close>
  "signed_capture P isPrint sign_now nonce_bytes signer lastEventID captured =
     (case (if HasPrefix (ToLower (Header_Get (rcHeader captured) contentTypeHeader)) ''text/event-stream'' \<and> rcBody captured \<noteq> []
            then (case SignSSEStream P (rcBody captured) (Some signer) lastEventID of
                    Inl e \<Rightarrow> Inl e
                  | Inr signedBody \<Rightarrow>
                      Inr (captured\<lparr>rcBody := signedBody, rcHeader := Header_Set (rcHeader captured) sseSignedHeader ''ed25519-hash-chain-v1''\<rparr>))
            else Inr captured) of
        Inl _ \<Rightarrow> http_Error ''SSE response signing failed'' 500
      | Inr captured \<Rightarrow>
          commitResponse (captured\<lparr>rcHeader := SignResponse P isPrint sign_now nonce_bytes (rcHeader captured) (statusCode captured)
            (rcBody captured) signer\<rparr>))"

definition NewResponseSigningMiddleware ::
  "primitives \<Rightarrow> (nat \<Rightarrow> bool) \<Rightarrow> gotime \<Rightarrow> bytes \<Rightarrow> (http_request \<Rightarrow> go_error + Identity option) option \<Rightarrow>
     (http_request \<Rightarrow> writer_op list) \<Rightarrow> http_request \<Rightarrow> writer_op list + http_response" where
  \<comment> \<open>\<open>Inl\<close> is the wrapped handler writing to the caller itself\<close>
  "NewResponseSigningMiddleware P isPrint sign_now nonce_bytes resolve handler request =
     (if contains ''/blobs/'' (URL_Path (rqURL request)) then Inl (handler request)
      else case resolve of
        None \<Rightarrow> Inl (handler request)
      | Some resolver \<Rightarrow>
          (case resolver request of
             Inl _ \<Rightarrow> Inr (http_Error ''response signer unavailable'' 500)
           | Inr None \<Rightarrow> Inl (handler request)
           | Inr (Some signer) \<Rightarrow>
               Inr (signed_capture P isPrint sign_now nonce_bytes signer (Header_Get (rqHeader request) ''Last-Event-Id'')
                 (run capture_op (handler request) newResponseCapture))))"

definition SignResponseMiddleware ::
  "primitives \<Rightarrow> (nat \<Rightarrow> bool) \<Rightarrow> gotime \<Rightarrow> bytes \<Rightarrow> (http_request \<Rightarrow> writer_op list) \<Rightarrow> Identity option \<Rightarrow> http_request \<Rightarrow>
     writer_op list + http_response" where
  "SignResponseMiddleware P isPrint sign_now nonce_bytes handler signer request =
     (case signer of
        None \<Rightarrow> Inl (handler request)
      | Some i \<Rightarrow> NewResponseSigningMiddleware P isPrint sign_now nonce_bytes (Some (\<lambda>_. Inr (Some i))) handler request)"

section \<open>Round trippers\<close>

text \<open>\<^verbatim>\<open>internal/transport/signing.go\<close>; the base transport is an argument, \<open>claim_json\<close> is the encoder of the claim.\<close>

record VerifyingRoundTripper =
  vrPublicKey :: bytes
  vrExpectedAgent :: string
  vrAllowedSkew :: duration

definition Verifying_RoundTrip ::
  "primitives \<Rightarrow> (nat \<Rightarrow> bool) \<Rightarrow> gotime \<Rightarrow> (http_request \<Rightarrow> go_error + http_response) \<Rightarrow> VerifyingRoundTripper \<Rightarrow> http_request \<Rightarrow>
     go_error + http_response" where
  "Verifying_RoundTrip P isPrint now base rt request =
     (case base request of
        Inl e \<Rightarrow> Inl e
      | Inr response \<Rightarrow>
          if length (vrPublicKey rt) = PublicKeySize
          then (case VerifyResponseForAgent P isPrint response (vrExpectedAgent rt) (vrPublicKey rt) now (vrAllowedSkew rt) of
                  Inl e \<Rightarrow> Inl e
                | Inr _ \<Rightarrow> Inr response)
          else Inr response)"

record SignedRoundTripper =
  srIdentity :: "Identity option"
  srTargetAgent :: string

definition Signed_RoundTrip ::
  "primitives \<Rightarrow> (nat \<Rightarrow> bool) \<Rightarrow> gotime \<Rightarrow> bytes \<Rightarrow> (http_request \<Rightarrow> go_error + http_response) \<Rightarrow> SignedRoundTripper \<Rightarrow> http_request \<Rightarrow>
     go_error + http_response" where
  "Signed_RoundTrip P isPrint sign_now nonce_bytes base rt request =
     (case srIdentity rt of
        None \<Rightarrow> Inl (ErrMsg ''signing identity is required'')
      | Some i \<Rightarrow>
          (case SignRequest P isPrint sign_now nonce_bytes request i (srTargetAgent rt) of
             Inl e \<Rightarrow> Inl e
           | Inr clone \<Rightarrow> base clone))"

definition EnvelopeForRequest ::
  "primitives \<Rightarrow> (string \<times> string \<times> string \<times> string \<Rightarrow> bytes option) \<Rightarrow> gotime \<Rightarrow> string \<Rightarrow> Identity \<Rightarrow> string \<Rightarrow> string \<Rightarrow> string \<Rightarrow> bytes \<Rightarrow>
     go_error + SignedEnvelope" where
  "EnvelopeForRequest P claim_json now nonce i targetAgent method urlPath body =
     (case claim_json (method, urlPath, targetAgent, hex_EncodeToString (sha256 P body)) of
        None \<Rightarrow> Inl ErrMarshal
      | Some claimed \<Rightarrow> Inr (Sign P now nonce i (idAgentID i) ''http-request'' claimed))"

end
