(* ===== verification/SSEProps.thy ===== *)
theory SSEProps
  imports SSE
begin

text \<open>
  A signed stream parses and verifies event by event, and two streams that verify to the same hash are the same.
\<close>

section \<open>Numbers as text\<close>

declare size_digits.simps [simp del]

lemma size_digits_eq: "0 < n \<Longrightarrow> size_digits n written = digits n @ written"
proof (induction n written rule: size_digits.induct)
  case (1 n written)
  have step: "size_digits n written = size_digits (n div 10) (unbyte (48 + n mod 10) # written)"
    using 1(2) by (subst size_digits.simps) simp
  show ?case
  proof (cases "n < 10")
    case True
    then have "size_digits (n div 10) (unbyte (48 + n mod 10) # written) = unbyte (48 + n) # written" by (subst size_digits.simps) simp
    with step True show ?thesis by (simp add: digits.simps[of n])
  next
    case False
    with 1 have "size_digits (n div 10) (unbyte (48 + n mod 10) # written) = digits (n div 10) @ unbyte (48 + n mod 10) # written" by simp
    with step False show ?thesis by (simp add: digits.simps[of n])
  qed
qed

lemma stringSize_FormatInt: "stringSize n = FormatInt (int n)"
proof (cases "n = 0")
  case True
  moreover have "digits 0 = ''0''" by code_simp
  ultimately show ?thesis by (simp add: stringSize_def FormatInt_def)
next
  case False
  then show ?thesis by (simp add: stringSize_def FormatInt_def size_digits_eq)
qed

section \<open>Frames parse\<close>

declare parse_frame_lines.simps [simp del]

definition no_line_end :: "string \<Rightarrow> bool" where
  "no_line_end l \<longleftrightarrow> CHR 0x0A \<notin> set l \<and> CHR 0x0D \<notin> set l"

definition plain_event :: "bytes \<Rightarrow> bool" where
  \<comment> \<open>the first line of the event is not taken for metadata of the frame\<close>
  "plain_event e \<longleftrightarrow> CHR 0x0A \<in> set e \<and>
     list_all (\<lambda>p. \<not> HasPrefix (TrimSuffix (takeWhile (\<lambda>c. c \<noteq> CHR 0x0A) e) [CHR 0x0D]) p) [cursorPrefix, hashPrefix, signaturePrefix]"

lemma no_line_end_append [simp]: "no_line_end (a @ b) \<longleftrightarrow> no_line_end a \<and> no_line_end b"
  by (auto simp: no_line_end_def)

lemma no_line_end_prefixes [simp]: "no_line_end cursorPrefix" "no_line_end hashPrefix" "no_line_end signaturePrefix"
  by (simp_all add: no_line_end_def cursorPrefix_def hashPrefix_def signaturePrefix_def)

lemma TrimSuffix_no_cr: "CHR 0x0D \<notin> set l \<Longrightarrow> TrimSuffix l [CHR 0x0D] = l"
proof (cases l rule: rev_cases)
  case (snoc ys y)
  assume "CHR 0x0D \<notin> set l"
  with snoc show ?thesis by (auto simp: TrimSuffix_def HasSuffix_def HasPrefix_def)
qed (simp add: TrimSuffix_def HasSuffix_def)

lemma line_end_at:
  assumes "CHR 0x0A \<notin> set l"
  shows "takeWhile (\<lambda>c. c \<noteq> CHR 0x0A) (l @ CHR 0x0A # rest) = l" "dropWhile (\<lambda>c. c \<noteq> CHR 0x0A) (l @ CHR 0x0A # rest) = CHR 0x0A # rest"
  using assms by (induction l) auto

lemma parse_metadata_line:
  assumes "no_line_end l"
  shows "parse_frame_lines sg (l @ newline @ rest) =
    (if HasPrefix l cursorPrefix then parse_frame_lines (sg\<lparr>evCursor := TrimPrefix l cursorPrefix\<rparr>) rest
     else if HasPrefix l hashPrefix then parse_frame_lines (sg\<lparr>evHash := TrimPrefix l hashPrefix\<rparr>) rest
     else if HasPrefix l signaturePrefix then parse_frame_lines (sg\<lparr>evSignature := TrimPrefix l signaturePrefix\<rparr>) rest
     else (case validateParsedSSEMetadata sg of Inl e \<Rightarrow> Inl e | Inr _ \<Rightarrow> Inr (l @ newline @ rest, sg)))"
proof -
  have "takeWhile (\<lambda>c. c \<noteq> CHR 0x0A) (l @ newline @ rest) = l" "drop 1 (dropWhile (\<lambda>c. c \<noteq> CHR 0x0A) (l @ newline @ rest)) = rest"
    using line_end_at[of l rest] assms by (auto simp: no_line_end_def newline_def)
  moreover have "TrimSuffix l [CHR 0x0D] = l" using assms by (simp add: TrimSuffix_no_cr no_line_end_def)
  moreover have "CHR 0x0A \<in> set (l @ newline @ rest)" "newline \<noteq> []" by (simp_all add: newline_def)
  ultimately show ?thesis by (subst parse_frame_lines.simps) (simp add: Let_def)
qed

lemma prefix_facts:
  "HasPrefix (p @ s) p" "TrimPrefix (p @ s) p = s" "\<not> HasPrefix (hashPrefix @ s) cursorPrefix"
  "\<not> HasPrefix (signaturePrefix @ s) cursorPrefix" "\<not> HasPrefix (signaturePrefix @ s) hashPrefix"
  by (simp_all add: HasPrefix_def TrimPrefix_def cursorPrefix_def hashPrefix_def signaturePrefix_def)

lemma parse_frame:
  assumes "no_line_end c" and "no_line_end h" and "no_line_end g" and "plain_event e" and "c \<noteq> []" and "h \<noteq> []" and "g \<noteq> []"
  shows "ParseSignedSSEFrame (cursorPrefix @ c @ newline @ hashPrefix @ h @ newline @ signaturePrefix @ g @ newline @ e) =
    Inr (e, \<lparr>evCursor = c, evHash = h, evSignature = g\<rparr>)"
proof -
  let ?s = "\<lparr>evCursor = c, evHash = h, evSignature = g\<rparr>"
  have "parse_frame_lines ?s e = Inr (e, ?s)"
    using assms by (subst parse_frame_lines.simps) (auto simp: plain_event_def validateParsedSSEMetadata_def validateSSECursor_def no_line_end_def Let_def)
  moreover have "parse_frame_lines sg ((cursorPrefix @ c) @ newline @ r) = parse_frame_lines (sg\<lparr>evCursor := c\<rparr>) r" for sg r
    using assms(1) by (subst parse_metadata_line) (simp_all add: prefix_facts)
  moreover have "parse_frame_lines sg ((hashPrefix @ h) @ newline @ r) = parse_frame_lines (sg\<lparr>evHash := h\<rparr>) r" for sg r
    using assms(2) by (subst parse_metadata_line) (simp_all add: prefix_facts)
  moreover have "parse_frame_lines sg ((signaturePrefix @ g) @ newline @ r) = parse_frame_lines (sg\<lparr>evSignature := g\<rparr>) r" for sg r
    using assms(3) by (subst parse_metadata_line) (simp_all add: prefix_facts)
  ultimately show ?thesis by (simp add: ParseSignedSSEFrame_def)
qed

section \<open>Frames verify\<close>

lemma no_line_end_RawURL:
  assumes "bs \<noteq> []"
  shows "no_line_end (RawURL_EncodeToString bs)" "RawURL_EncodeToString bs \<noteq> []"
proof -
  have "\<not> token_char (CHR 0x0A)" "\<not> token_char (CHR 0x0D)" by (simp_all add: token_char_def visible_def byte_def)
  then show "no_line_end (RawURL_EncodeToString bs)" "RawURL_EncodeToString bs \<noteq> []"
    using token_RawURL[OF assms] by (auto simp: token_def no_line_end_def list_all_iff)
qed

lemma Frame_verifies:
  assumes "wf_identity (esSigner S)" and "sign_verifies P (idPrivateKey (esSigner S))" and "signature_size P" and "sha256_size P"
    and "length (esPreviousHash S) \<in> {0, 32}" and "HasSuffix event [CHR 0x0A, CHR 0x0A]" and "plain_event event"
    and "no_line_end cursor" and "cursor \<noteq> []"
  shows "\<exists>frame signed S'. Frame P S event cursor = Inr (frame, S') \<and> ParseSignedSSEFrame frame = Inr (event, signed) \<and> evCursor signed = cursor \<and>
    VerifySSEEvent P event signed (esPreviousHash S) (idPublicKey (esSigner S)) = Inr (esPreviousHash S') \<and>
    esSigner S' = esSigner S \<and> length (esPreviousHash S') = 32"
proof -
  let ?h = "sseEventHash P (esPreviousHash S) event cursor"
  let ?g = "ed25519_Sign P (idPrivateKey (esSigner S)) (sseSigningBytes event cursor ?h)"
  have len: "length ?h = 32" "length ?g = SignatureSize" using assms(3,4) by (simp_all add: sseEventHash_def sha256_size_def signature_size_def)
  then have ne: "?h \<noteq> []" "?g \<noteq> []" by (auto simp: SignatureSize_def)
  have sign: "SSE_Sign P S event cursor = Inr (\<lparr>evCursor = cursor, evHash = RawURL_EncodeToString ?h, evSignature = RawURL_EncodeToString ?g\<rparr>,
      S\<lparr>esPreviousHash := ?h\<rparr>)"
    using assms(8,9) by (simp add: SSE_Sign_def validateSSECursor_def no_line_end_def Let_def)
  have "ParseSignedSSEFrame (cursorPrefix @ cursor @ newline @ hashPrefix @ RawURL_EncodeToString ?h @ newline @ signaturePrefix @ RawURL_EncodeToString ?g @ newline @ event) =
      Inr (event, \<lparr>evCursor = cursor, evHash = RawURL_EncodeToString ?h, evSignature = RawURL_EncodeToString ?g\<rparr>)"
    using parse_frame assms(7-9) no_line_end_RawURL ne by blast
  moreover have "VerifySSEEvent P event \<lparr>evCursor = cursor, evHash = RawURL_EncodeToString ?h, evSignature = RawURL_EncodeToString ?g\<rparr>
      (esPreviousHash S) (idPublicKey (esSigner S)) = Inr ?h"
    using assms(1,2,5,8,9) len length_public_key[OF assms(1)]
    by (auto simp: VerifySSEEvent_def validateSSECursor_def no_line_end_def RawURL_roundtrip wf_identity_def sign_verifies_def)
  ultimately show ?thesis
    using sign assms(6) len by (simp add: Frame_def normalizeSSEEvent_def)
qed

fun verify_chain :: "primitives \<Rightarrow> bytes \<Rightarrow> bytes \<Rightarrow> (bytes \<times> SignedSSEEvent) list \<Rightarrow> go_error + bytes" where
  \<comment> \<open>a reader that checks the events in order, each against the hash of the one before\<close>
  "verify_chain P pubKey previousHash [] = Inr previousHash"
| "verify_chain P pubKey previousHash ((event, signed) # events) =
     (case VerifySSEEvent P event signed previousHash pubKey of Inl e \<Rightarrow> Inl e | Inr hash \<Rightarrow> verify_chain P pubKey hash events)"

lemma no_line_end_digits: "no_line_end (digits n)"
proof -
  have "\<not> is_digit (CHR 0x0A)" "\<not> is_digit (CHR 0x0D)" by (simp_all add: is_digit_def byte_def)
  then show ?thesis using digits_all[of n] by (auto simp: no_line_end_def list_all_iff)
qed

lemma sseStreamCursor_ok:
  assumes "no_line_end start"
  shows "no_line_end (sseStreamCursor start n)" "sseStreamCursor start n \<noteq> []"
  using assms no_line_end_digits digits_nonempty by (auto simp: sseStreamCursor_def FormatInt_def split: option.splits) (simp_all add: no_line_end_def)

lemma sign_parts_verifies:
  assumes "wf_identity (esSigner S)" and "sign_verifies P (idPrivateKey (esSigner S))" and "signature_size P" and "sha256_size P"
    and "length (esPreviousHash S) \<in> {0, 32}" and "no_line_end start"
    and "\<forall>p\<in>set ps. TrimSpace p \<noteq> [] \<longrightarrow> plain_event (p @ [CHR 0x0A, CHR 0x0A])"
  shows "\<exists>frames evs. sign_parts P S start n ps = Inr frames \<and> map ParseSignedSSEFrame frames = map Inr evs \<and>
    map fst evs = map (\<lambda>p. p @ [CHR 0x0A, CHR 0x0A]) (filter (\<lambda>p. TrimSpace p \<noteq> []) ps) \<and>
    map (evCursor \<circ> snd) evs = map (sseStreamCursor start) [n..<n + length evs] \<and>
    ok (verify_chain P (idPublicKey (esSigner S)) (esPreviousHash S) evs)"
  using assms
proof (induction ps arbitrary: S n)
  case Nil
  then show ?case by (auto simp: ok_def)
next
  case (Cons p ps)
  show ?case
  proof (cases "TrimSpace p = []")
    case True
    with Cons.IH[of S n] Cons.prems show ?thesis by simp
  next
    case False
    let ?e = "p @ [CHR 0x0A, CHR 0x0A]"
    have e: "HasSuffix ?e [CHR 0x0A, CHR 0x0A]" "plain_event ?e" using Cons.prems(7) False by (simp_all add: HasSuffix_def HasPrefix_def)
    obtain frame signed S' where f: "Frame P S ?e (sseStreamCursor start n) = Inr (frame, S')" "ParseSignedSSEFrame frame = Inr (?e, signed)"
      "evCursor signed = sseStreamCursor start n"
      "VerifySSEEvent P ?e signed (esPreviousHash S) (idPublicKey (esSigner S)) = Inr (esPreviousHash S')"
      "esSigner S' = esSigner S" "length (esPreviousHash S') = 32"
      using Frame_verifies[OF Cons.prems(1-5) e sseStreamCursor_ok[OF Cons.prems(6)]] by blast
    have prems: "wf_identity (esSigner S')" "sign_verifies P (idPrivateKey (esSigner S'))" "length (esPreviousHash S') \<in> {0, 32}"
      "\<forall>p\<in>set ps. TrimSpace p \<noteq> [] \<longrightarrow> plain_event (p @ [CHR 0x0A, CHR 0x0A])" using Cons.prems f(5,6) by simp_all
    obtain frames evs where ih: "sign_parts P S' start (Suc n) ps = Inr frames" "map ParseSignedSSEFrame frames = map Inr evs"
      "map fst evs = map (\<lambda>p. p @ [CHR 0x0A, CHR 0x0A]) (filter (\<lambda>p. TrimSpace p \<noteq> []) ps)"
      "map (evCursor \<circ> snd) evs = map (sseStreamCursor start) [Suc n..<Suc n + length evs]"
      "ok (verify_chain P (idPublicKey (esSigner S)) (esPreviousHash S') evs)"
      using Cons.IH[OF prems(1,2) Cons.prems(3,4) prems(3) Cons.prems(6) prems(4), of "Suc n"] unfolding f(5) by blast
    have upt: "[n..<n + length ((?e, signed) # evs)] = n # [Suc n..<Suc n + length evs]" by (simp only: upt_conv_Cons list.size) simp
    have "map (evCursor \<circ> snd) ((?e, signed) # evs) = map (sseStreamCursor start) [n..<n + length ((?e, signed) # evs)]"
      unfolding upt by (simp only: list.map comp_apply snd_conv f(3) ih(4))
    moreover have "sign_parts P S start n (p # ps) = Inr (frame # frames)" using False f(1) ih(1) by simp
    moreover have "map ParseSignedSSEFrame (frame # frames) = map Inr ((?e, signed) # evs)"
      "map fst ((?e, signed) # evs) = map (\<lambda>p. p @ [CHR 0x0A, CHR 0x0A]) (filter (\<lambda>p. TrimSpace p \<noteq> []) (p # ps))"
      "ok (verify_chain P (idPublicKey (esSigner S)) (esPreviousHash S) ((?e, signed) # evs))" using False f(2,4) ih(2,3,5) by simp_all
    ultimately show ?thesis by blast
  qed
qed

text \<open>
  C35. A stream that was signed event by event can be read back: it is the concatenation of frames, one for every non-blank
  event of the stream and in their order; each frame parses to the event's bytes with the next cursor, and the events verify one after the other
  under the signer's public key along the hash chain. This holds for every stream whose events do not open with a comment line that
  looks like the frame's own metadata.
\<close>

theorem signed_stream_verifies:
  assumes "wf_identity i" and "sign_verifies P (idPrivateKey i)" and "signature_size P" and "sha256_size P" and "no_line_end start"
    and "events = filter (\<lambda>p. TrimSpace p \<noteq> []) (split_blank [] (replace_crlf stream))"
    and "\<forall>p\<in>set events. plain_event (p @ [CHR 0x0A, CHR 0x0A])"
  shows "\<exists>frames evs. SignSSEStream P stream (Some i) start = Inr (concat frames) \<and> map ParseSignedSSEFrame frames = map Inr evs \<and>
    map fst evs = map (\<lambda>p. p @ [CHR 0x0A, CHR 0x0A]) events \<and>
    map (evCursor \<circ> snd) evs = map (sseStreamCursor start) [0..<length events] \<and>
    ok (verify_chain P (idPublicKey i) [] evs)"
proof -
  let ?S = "\<lparr>esSigner = i, esPreviousHash = []\<rparr>"
  have new: "NewSSEEventSigner (Some i) = Inr ?S"
    using length_public_key[OF assms(1)] assms(1) by (simp add: NewSSEEventSigner_def NewSSEEventSignerWithPreviousHash_def wf_identity_def)
  obtain frames evs where "sign_parts P ?S start 0 (split_blank [] (replace_crlf stream)) = Inr frames" "map ParseSignedSSEFrame frames = map Inr evs"
    "map fst evs = map (\<lambda>p. p @ [CHR 0x0A, CHR 0x0A]) events" "map (evCursor \<circ> snd) evs = map (sseStreamCursor start) [0..<length evs]"
    "ok (verify_chain P (idPublicKey i) [] evs)"
    using sign_parts_verifies[of ?S P start "split_blank [] (replace_crlf stream)" 0] assms by auto
  moreover from this(3) have "length evs = length events" by (metis length_map)
  ultimately show ?thesis using new by (auto simp: SignSSEStream_def)
qed

section \<open>The chain binds the stream\<close>

fun hash_inputs :: "primitives \<Rightarrow> bytes \<Rightarrow> (bytes \<times> SignedSSEEvent) list \<Rightarrow> bytes list" where
  \<comment> \<open>what the reader hashes\<close>
  "hash_inputs P previousHash [] = []"
| "hash_inputs P previousHash ((event, signed) # events) =
     sseHashInput previousHash event (evCursor signed) # hash_inputs P (sseEventHash P previousHash event (evCursor signed)) events"

lemma VerifySSEEvent_hash:
  "VerifySSEEvent P event signed prev key = Inr h \<Longrightarrow> h = sseEventHash P prev event (evCursor signed) \<and> length h = 32"
  by (auto simp: VerifySSEEvent_def split: if_splits sum.splits option.splits)

lemma append_NUL_inject:
  assumes "CHR 0x00 \<notin> set a" and "CHR 0x00 \<notin> set b"
  shows "a @ CHR 0x00 # x = b @ CHR 0x00 # y \<longleftrightarrow> a = b \<and> x = y"
  using assms by (induction a arbitrary: b) (case_tac b; auto)+

lemma sseHashInput_inject:
  assumes "sseHashInput p e c = sseHashInput p' e' c'" and "length p = length p'" and "CHR 0x00 \<notin> set c" and "CHR 0x00 \<notin> set c'"
  shows "p = p' \<and> e = e' \<and> c = c'"
  using assms append_NUL_inject[OF assms(3,4), of e e'] by (simp add: sseHashInput_def)

definition same_content :: "(bytes \<times> SignedSSEEvent) list \<Rightarrow> (bytes \<times> SignedSSEEvent) list \<Rightarrow> bool" where
  "same_content xs ys \<longleftrightarrow> map (\<lambda>(e, g). (e, evCursor g)) xs = map (\<lambda>(e, g). (e, evCursor g)) ys"

lemma chain_binds:
  assumes "verify_chain P key p xs = Inr h" and "verify_chain P key p' ys = Inr h" and "length xs = length ys" and "length p = length p'"
    and "\<forall>(e, g)\<in>set (xs @ ys). CHR 0x00 \<notin> set (evCursor g)"
    and "\<And>x y. x \<in> set (hash_inputs P p xs) \<Longrightarrow> y \<in> set (hash_inputs P p' ys) \<Longrightarrow> sha256 P x = sha256 P y \<Longrightarrow> x = y"
  shows "p = p' \<and> same_content xs ys"
  using assms
proof (induction xs arbitrary: p p' ys)
  case Nil
  then show ?case by (simp add: same_content_def)
next
  case (Cons x xs)
  obtain e g where x: "x = (e, g)" by (cases x)
  obtain e' g' ys' where ys: "ys = (e', g') # ys'" using Cons.prems(3) by (cases ys) auto
  let ?h = "sseEventHash P p e (evCursor g)" and ?h' = "sseEventHash P p' e' (evCursor g')"
  have v: "VerifySSEEvent P e g p key = Inr ?h" "length ?h = 32" "VerifySSEEvent P e' g' p' key = Inr ?h'" "length ?h' = 32"
    using Cons.prems(1,2) by (auto simp: x ys split: sum.splits dest!: VerifySSEEvent_hash)
  have rest: "verify_chain P key ?h xs = Inr h" "verify_chain P key ?h' ys' = Inr h" using Cons.prems(1,2) v by (auto simp: x ys)
  have "?h = ?h' \<and> same_content xs ys'"
    using Cons.prems(3,5,6) v(2,4) rest by (intro Cons.IH) (auto simp: x ys)
  then have "sseHashInput p e (evCursor g) = sseHashInput p' e' (evCursor g')"
    using Cons.prems(6) by (auto simp: x ys sseEventHash_def)
  then have "p = p' \<and> e = e' \<and> evCursor g = evCursor g'"
    using Cons.prems(4,5) by (intro sseHashInput_inject) (auto simp: x ys)
  with \<open>?h = ?h' \<and> same_content xs ys'\<close> show ?case by (simp add: x ys same_content_def)
qed

text \<open>
  C36. The hash chain binds the whole stream: when two streams of equally many events verify from the same starting hash
  and arrive at the same hash, they have the same events with the same cursors in the same order, so an event that was
  changed, exchanged with another or replaced is noticed by the next hash at the latest; unless SHA-256 collides on two of the very inputs
  that were hashed. Cursors contain no NUL byte.
\<close>

theorem stream_tamper_evident:
  assumes "verify_chain P key p xs = Inr h" and "verify_chain P key p ys = Inr h" and "length xs = length ys"
    and "\<forall>(e, g)\<in>set (xs @ ys). CHR 0x00 \<notin> set (evCursor g)"
  shows "same_content xs ys \<or>
    (\<exists>x\<in>set (hash_inputs P p xs). \<exists>y\<in>set (hash_inputs P p ys). x \<noteq> y \<and> sha256 P x = sha256 P y)"
  using chain_binds[OF assms(1-3) refl assms(4)] by blast

section \<open>Responses of the middleware verify\<close>

lemma sign_parts_ok:
  assumes "no_line_end start"
  shows "ok (sign_parts P S start n ps)"
proof (induction ps arbitrary: S n)
  case (Cons p ps)
  have "ok (validateSSECursor (sseStreamCursor start n))"
    using sseStreamCursor_ok[OF assms, of n] by (auto simp: validateSSECursor_def no_line_end_def ok_def)
  then obtain f S' where "Frame P S (p @ [CHR 0x0A, CHR 0x0A]) (sseStreamCursor start n) = Inr (f, S')"
    by (auto simp: Frame_def SSE_Sign_def Let_def ok_iff)
  then show ?case using Cons.IH[of S n] Cons.IH[of S' "Suc n"] by (auto simp: ok_iff)
qed (simp add: ok_def)

lemma SignSSEStream_ok: "wf_identity i \<Longrightarrow> no_line_end start \<Longrightarrow> ok (SignSSEStream P stream (Some i) start)"
  using sign_parts_ok[of start P "\<lparr>esSigner = i, esPreviousHash = []\<rparr>" 0 "split_blank [] (replace_crlf stream)"] length_public_key[of i]
  by (auto simp: SignSSEStream_def NewSSEEventSigner_def NewSSEEventSignerWithPreviousHash_def wf_identity_def ok_iff)

lemma VerifyResponse_content_length:
  "VerifyResponseForAgent P isPrint \<lparr>rsStatus = st, rsHeader = Header_Set h ''Content-Length'' v, rsBody = b\<rparr> a k now skew =
   VerifyResponseForAgent P isPrint \<lparr>rsStatus = st, rsHeader = h, rsBody = b\<rparr> a k now skew"
proof -
  have gets: "Header_Get (Header_Set h ''Content-Length'' v) agentIDHeader = Header_Get h agentIDHeader"
    "Header_Get (Header_Set h ''Content-Length'' v) contentDigestHeader = Header_Get h contentDigestHeader"
    "Header_Get (Header_Set h ''Content-Length'' v) signatureInputHeader = Header_Get h signatureInputHeader"
    "Header_Get (Header_Set h ''Content-Length'' v) signatureHeader = Header_Get h signatureHeader"
    by (simp_all add: header_names)
  show ?thesis
    by (unfold VerifyResponseForAgent_def parseSignatureHeaders_def responseSignatureBase_def http_response.select_convs gets) (rule refl)
qed

text \<open>
  Whatever the wrapped handler writes, the response that the signing middleware commits for a resolved signer passes the
  verification of the remote side for that agent within the allowed skew, event streams with their re-written body included, as long
  as the resume cursor of the request is free of line breaks.
\<close>

lemma middleware_response_verifies:
  assumes "wf_identity i" and "sign_verifies P (idPrivateKey i)" and "signature_size P" and "sha256_size P"
    and "nb \<noteq> []" and "0 < Unix t" and "Unix t < 2 ^ 63" and "\<bar>fromUnix (Unix t) - now\<bar> \<le> skew" and "0 < skew"
    and "resolver request = Inr (Some i)" and "\<not> contains ''/blobs/'' (URL_Path (rqURL request))"
    and "no_line_end (Header_Get (rqHeader request) ''Last-Event-Id'')"
  shows "\<exists>response. NewResponseSigningMiddleware P isPrint t nb (Some resolver) handler request = Inr response \<and>
    VerifyResponseForAgent P isPrint response (idAgentID i) (idPublicKey i) now skew = Inr ()"
proof -
  have committed: "VerifyResponseForAgent P isPrint (commitResponse (c\<lparr>rcHeader := SignResponse P isPrint t nb (rcHeader c) (statusCode c) (rcBody c) i\<rparr>))
      (idAgentID i) (idPublicKey i) now skew = Inr ()" for c
    using SignResponse_verifies[OF assms(1-9), of isPrint "statusCode c" "rcHeader c" "rcBody c"]
    by (cases "rcStatus c = 0") (simp_all add: commitResponse_def Let_def VerifyResponse_content_length statusCode_def)
  have "VerifyResponseForAgent P isPrint (signed_capture P isPrint t nb i (Header_Get (rqHeader request) ''Last-Event-Id'') c)
      (idAgentID i) (idPublicKey i) now skew = Inr ()" for c
  proof -
    obtain body where "SignSSEStream P (rcBody c) (Some i) (Header_Get (rqHeader request) ''Last-Event-Id'') = Inr body"
      using SignSSEStream_ok[OF assms(1,12), of P "rcBody c"] by (auto simp: ok_iff)
    then show ?thesis
      using committed[of c] committed[of "c\<lparr>rcBody := body, rcHeader := Header_Set (rcHeader c) sseSignedHeader ''ed25519-hash-chain-v1''\<rparr>"]
      by (simp add: signed_capture_def)
  qed
  with assms(10,11) show ?thesis by (simp add: NewResponseSigningMiddleware_def)
qed

section \<open>A concrete stream\<close>

definition demo_stream :: bytes where
  "demo_stream = ''data: a'' @ newline @ newline @ ''data: b'' @ newline @ newline"

lemma demo_stream_parts: "filter (\<lambda>p. TrimSpace p \<noteq> []) (split_blank [] (replace_crlf demo_stream)) = [''data: a'', ''data: b'']"
  by code_simp

lemma demo_stream_plain: "\<forall>p\<in>set [''data: a'', ''data: b'']. plain_event (p @ [CHR 0x0A, CHR 0x0A])"
  by code_simp

theorem signed_stream_verifies_witness:
  "\<exists>frames evs. SignSSEStream fixed_primitives demo_stream (Some alice) [] = Inr (concat frames) \<and> length evs = 2 \<and>
     map ParseSignedSSEFrame frames = map Inr evs \<and> ok (verify_chain fixed_primitives (idPublicKey alice) [] evs)"
proof -
  have "no_line_end []" by (simp add: no_line_end_def)
  from signed_stream_verifies[OF wf_demo_identities(1) fixed_primitives_laws this demo_stream_parts[symmetric] demo_stream_plain]
  obtain frames evs where "SignSSEStream fixed_primitives demo_stream (Some alice) [] = Inr (concat frames)"
    "map ParseSignedSSEFrame frames = map Inr evs" "map fst evs = map (\<lambda>p. p @ [CHR 0x0A, CHR 0x0A]) [''data: a'', ''data: b'']"
    "ok (verify_chain fixed_primitives (idPublicKey alice) [] evs)" by blast
  moreover from this(3) have "length evs = 2" by (metis length_map length_Cons list.size(3) numeral_2_eq_2)
  ultimately show ?thesis by blast
qed

lemma demo_chain:
  "\<exists>g h. verify_chain fixed_primitives (idPublicKey alice) [] [(''data: a'' @ newline @ newline, g)] = Inr h \<and> evCursor g = ''cursor-1''"
proof -
  have suffix: "HasSuffix (''data: a'' @ newline @ newline) [CHR 0x0A, CHR 0x0A]" "plain_event (''data: a'' @ newline @ newline)"
    "no_line_end ''cursor-1''" by code_simp+
  have laws: "wf_identity (esSigner \<lparr>esSigner = alice, esPreviousHash = []\<rparr>)"
    "sign_verifies fixed_primitives (idPrivateKey (esSigner \<lparr>esSigner = alice, esPreviousHash = []\<rparr>))"
    "length (esPreviousHash \<lparr>esSigner = alice, esPreviousHash = []\<rparr>) \<in> {0, 32}" "''cursor-1'' \<noteq> []"
    using wf_demo_identities(1) fixed_primitives_laws(1) by simp_all
  obtain g h where "VerifySSEEvent fixed_primitives (''data: a'' @ newline @ newline) g [] (idPublicKey alice) = Inr h" "evCursor g = ''cursor-1''"
    using Frame_verifies[OF laws(1,2) fixed_primitives_laws(2,3) laws(3) suffix laws(4)] by auto
  then show ?thesis by (intro exI[of _ g] exI[of _ h]) simp
qed

theorem stream_tamper_evident_witness:
  "\<exists>g h. verify_chain fixed_primitives (idPublicKey alice) [] [(''data: a'' @ newline @ newline, g)] = Inr h \<and>
     (same_content [(''data: a'' @ newline @ newline, g)] [(''data: a'' @ newline @ newline, g)] \<or>
      (\<exists>x\<in>set (hash_inputs fixed_primitives [] [(''data: a'' @ newline @ newline, g)]).
        \<exists>y\<in>set (hash_inputs fixed_primitives [] [(''data: a'' @ newline @ newline, g)]). x \<noteq> y \<and> sha256 fixed_primitives x = sha256 fixed_primitives y))"
proof -
  obtain g h where g: "verify_chain fixed_primitives (idPublicKey alice) [] [(''data: a'' @ newline @ newline, g)] = Inr h" "evCursor g = ''cursor-1''"
    using demo_chain by blast
  then have "\<forall>(e, g)\<in>set ([(''data: a'' @ newline @ newline, g)] @ [(''data: a'' @ newline @ newline, g)]). CHR 0x00 \<notin> set (evCursor g)" by simp
  from stream_tamper_evident[OF g(1) g(1) refl this] g(1) show ?thesis by blast
qed

end
