(* ===== verification/Ipc.thy ===== *)
theory Ipc
  imports Model GoNet
begin

text \<open>
  \<^verbatim>\<open>internal/ipc\<close>: the request/response protocol between the command line client and the daemon
  (\<^verbatim>\<open>protocol.go\<close>), one connection of the server (\<^verbatim>\<open>server.go\<close>) and one call of the client
  (\<^verbatim>\<open>client.go\<close>). A connection is what the peer has written to it; JSON is a parameter.
\<close>

section \<open>Protocol\<close>

definition ProtocolVersion :: string where "ProtocolVersion = ''1.0''"

record Request =
  iqVersion :: string
  iqRequestID :: string
  iqMethod :: string
  iqParams :: bytes

record ResponseError =
  reCode :: string
  reMessage :: string

record Response =
  rsVersion :: string
  rsRequestID :: string
  rsResult :: bytes
  rsError :: "ResponseError option"

definition errorCode :: "go_error \<Rightarrow> string" where
  "errorCode err =
     (if err = ErrInvalidRequest then ''invalid_request''
      else if err = ErrMethodNotFound then ''method_not_found''
      else ''internal_error'')"

text \<open>
  The encoders. A request that does not decode leaves the fields read so far in the target, so decoding gives
  the request and whether there was an error; \<open>Error_text\<close> is the text of an error.
\<close>

record ipcjson =
  Request_Encode :: "Request \<Rightarrow> bytes"
  Request_Decode :: "bytes \<Rightarrow> Request \<times> bool"
  Response_Encode :: "Response \<Rightarrow> bytes"
  Response_Decode :: "bytes \<Rightarrow> Response option"
  Error_text :: "go_error \<Rightarrow> string"

section \<open>Server\<close>

definition NewServer_limit :: "int \<Rightarrow> int" where
  "NewServer_limit maxRequestBytes = (if maxRequestBytes \<le> 0 then 2 ^ 20 else maxRequestBytes)"

definition errorResponse :: "ipcjson \<Rightarrow> string \<Rightarrow> go_error \<Rightarrow> Response" where
  "errorResponse J requestID err =
     \<lparr>rsVersion = ProtocolVersion, rsRequestID = requestID, rsResult = [],
      rsError = Some \<lparr>reCode = errorCode err, reMessage = Error_text J err\<rparr>\<rparr>"

definition serveConnection ::
  "ipcjson \<Rightarrow> ('r \<Rightarrow> bytes option) \<Rightarrow> (Request \<Rightarrow> 's \<Rightarrow> (go_error, 'r, 's) outcome) \<Rightarrow> int \<Rightarrow> bytes \<Rightarrow> 's \<Rightarrow> Response \<times> 's" where
  \<comment> \<open>the second argument is json.Marshal of a result\<close>
  "serveConnection J marshal HandleIPC limit sent s =
     (case Request_Decode J (take (nat limit) sent) of
        (request, failed) \<Rightarrow>
          if failed then (errorResponse J (iqRequestID request) ErrInvalidRequest, s)
          else if iqVersion request \<noteq> ProtocolVersion \<or> iqRequestID request = [] \<or> iqMethod request = []
          then (errorResponse J (iqRequestID request) ErrInvalidRequest, s)
          else (case HandleIPC request s of
                  (Inl err, s) \<Rightarrow> (errorResponse J (iqRequestID request) err, s)
                | (Inr result, s) \<Rightarrow>
                    (case marshal result of
                       None \<Rightarrow> (errorResponse J (iqRequestID request) ErrMarshal, s)
                     | Some payload \<Rightarrow>
                         (\<lparr>rsVersion = ProtocolVersion, rsRequestID = iqRequestID request, rsResult = payload,
                           rsError = None\<rparr>, s))))"

section \<open>Client\<close>

datatype call_error = CallFailed go_error | RemoteError ResponseError

definition IsRemoteError :: "call_error \<Rightarrow> string \<Rightarrow> bool" where
  "IsRemoteError err code = (case err of RemoteError e \<Rightarrow> reCode e = code | CallFailed _ \<Rightarrow> False)"

definition RemoteError_Error :: "ResponseError \<Rightarrow> string" where
  "RemoteError_Error e = reCode e @ '': '' @ reMessage e"

definition Call ::
  "ipcjson \<Rightarrow> bytes option \<Rightarrow> (bytes \<Rightarrow> 's \<Rightarrow> (go_error, bytes, 's) outcome) \<Rightarrow> (bytes \<Rightarrow> 'v option) option \<Rightarrow> string \<Rightarrow> string \<Rightarrow> 's \<Rightarrow>
   (call_error + 'v option) \<times> 's" where
  \<comment> \<open>params is json.Marshal of the parameters; exchange dials, sends the bytes and reads the answer; decode is
      json.Unmarshal into the result, None when the caller gives no result; requestID is the fresh identifier\<close>
  "Call J params exchange decode requestID method s =
     (if method = [] then (Inl (CallFailed ErrInvalidRequest), s)
      else case params of
        None \<Rightarrow> (Inl (CallFailed ErrMarshal), s)
      | Some payload \<Rightarrow>
          (let request = \<lparr>iqVersion = ProtocolVersion, iqRequestID = requestID, iqMethod = method, iqParams = payload\<rparr>
           in case exchange (Request_Encode J request) s of
                (Inl err, s) \<Rightarrow> (Inl (CallFailed err), s)
              | (Inr answer, s) \<Rightarrow>
                  (case Response_Decode J answer of
                     None \<Rightarrow> (Inl (CallFailed (ErrMsg ''read IPC response'')), s)
                   | Some response \<Rightarrow>
                       if rsVersion response \<noteq> ProtocolVersion \<or> rsRequestID response \<noteq> requestID
                       then (Inl (CallFailed ErrInvalidRequest), s)
                       else (case rsError response of
                               Some e \<Rightarrow> (Inl (RemoteError e), s)
                             | None \<Rightarrow>
                                 (case decode of
                                    None \<Rightarrow> (Inr None, s)
                                  | Some unmarshal \<Rightarrow>
                                      if rsResult response = [] then (Inr None, s)
                                      else (case unmarshal (rsResult response) of
                                              None \<Rightarrow> (Inl (CallFailed (ErrMsg ''decode IPC result'')), s)
                                            | Some v \<Rightarrow> (Inr (Some v), s)))))))"

section \<open>A call over a connection\<close>

text \<open>The laws of the encoders for the request and the response of one call: decoding undoes encoding.\<close>

definition ipc_restores :: "ipcjson \<Rightarrow> Request \<Rightarrow> Response \<Rightarrow> bool" where
  "ipc_restores J request response \<longleftrightarrow>
     Request_Decode J (Request_Encode J request) = (request, False) \<and>
     Response_Decode J (Response_Encode J response) = Some response"

definition over_connection ::
  "ipcjson \<Rightarrow> ('r \<Rightarrow> bytes option) \<Rightarrow> (Request \<Rightarrow> 's \<Rightarrow> (go_error, 'r, 's) outcome) \<Rightarrow> int \<Rightarrow> bytes \<Rightarrow> 's \<Rightarrow> (go_error, bytes, 's) outcome" where
  \<comment> \<open>the client's connection leads to serveConnection\<close>
  "over_connection J marshal HandleIPC limit sent s =
     (case serveConnection J marshal HandleIPC limit sent s of (response, s) \<Rightarrow> (Inr (Response_Encode J response), s))"

definition answer_of :: "ipcjson \<Rightarrow> ('r \<Rightarrow> bytes option) \<Rightarrow> string \<Rightarrow> go_error + 'r \<Rightarrow> Response" where
  "answer_of J marshal requestID outcome =
     (case outcome of
        Inl err \<Rightarrow> errorResponse J requestID err
      | Inr result \<Rightarrow>
          (case marshal result of
             None \<Rightarrow> errorResponse J requestID ErrMarshal
           | Some payload \<Rightarrow> \<lparr>rsVersion = ProtocolVersion, rsRequestID = requestID, rsResult = payload, rsError = None\<rparr>))"

lemma serveConnection_answers:
  assumes "Request_Decode J (take (nat limit) sent) = (request, False)" and "iqVersion request = ProtocolVersion"
    and "iqRequestID request \<noteq> []" and "iqMethod request \<noteq> []"
  shows "serveConnection J marshal H limit sent s =
    (answer_of J marshal (iqRequestID request) (fst (H request s)), snd (H request s))"
  using assms by (simp add: serveConnection_def answer_of_def split: prod.splits sum.splits option.splits)

lemma serveConnection_refuses:
  assumes "Request_Decode J (take (nat limit) sent) = (request, failed)"
    and "failed \<or> iqVersion request \<noteq> ProtocolVersion \<or> iqRequestID request = [] \<or> iqMethod request = []"
  shows "serveConnection J marshal H limit sent s = (errorResponse J (iqRequestID request) ErrInvalidRequest, s)"
  using assms by (auto simp: serveConnection_def)

text \<open>
  A call of the client that reaches the server within its size limit runs the handler once, on the request the
  caller made, and gives the caller what the handler gave: its result as decoded from the encoding of it, or
  its error with the code of the error and its text. The state is the one the handler left.
\<close>

lemma ipc_call_returns:
  assumes "request = \<lparr>iqVersion = ProtocolVersion, iqRequestID = rid, iqMethod = meth, iqParams = payload\<rparr>"
    and "H request s = (outcome, t)" and "rid \<noteq> []" and "meth \<noteq> []"
    and "int (length (Request_Encode J request)) \<le> limit"
    and "ipc_restores J request (answer_of J marshal rid outcome)"
    and "\<And>result. outcome = Inr result \<Longrightarrow>
      \<exists>encoded. marshal result = Some encoded \<and> encoded \<noteq> [] \<and> unmarshal encoded = Some (view result)"
  shows "Call J (Some payload) (over_connection J marshal H limit) (Some unmarshal) rid meth s =
    (case outcome of
       Inl err \<Rightarrow> Inl (RemoteError \<lparr>reCode = errorCode err, reMessage = Error_text J err\<rparr>)
     | Inr result \<Rightarrow> Inr (Some (view result)), t)"
proof -
  let ?sent = "Request_Encode J request"
  have "take (nat limit) ?sent = ?sent" using assms(5) by simp
  moreover have "Request_Decode J ?sent = (request, False)" using assms(6) by (simp add: ipc_restores_def)
  ultimately have "serveConnection J marshal H limit ?sent s = (answer_of J marshal rid outcome, t)"
    using serveConnection_answers[of J limit ?sent request marshal H s] assms(1-4) by simp
  then have ex: "over_connection J marshal H limit ?sent s = (Inr (Response_Encode J (answer_of J marshal rid outcome)), t)"
    by (simp add: over_connection_def)
  have dec: "Response_Decode J (Response_Encode J (answer_of J marshal rid outcome)) = Some (answer_of J marshal rid outcome)"
    using assms(6) by (simp add: ipc_restores_def)
  show ?thesis
  proof (cases outcome)
    case (Inl err)
    then show ?thesis using assms(4) ex dec by (simp add: Call_def Let_def assms(1)[symmetric] answer_of_def errorResponse_def)
  next
    case (Inr result)
    with assms(7) obtain encoded where "marshal result = Some encoded" "encoded \<noteq> []" "unmarshal encoded = Some (view result)" by blast
    then show ?thesis using Inr assms(4) ex dec by (simp add: Call_def Let_def assms(1)[symmetric] answer_of_def)
  qed
qed

end
