(* ===== verification/ManagementTypes.thy ===== *)
theory ManagementTypes
  imports Ipc Attachment PairingMoves
begin

text \<open>
  \<^verbatim>\<open>internal/management/types.go\<close>: the parameters and results of the methods the daemon serves to local
  programs, and the state and the environment of the handler of \<^verbatim>\<open>handler.go\<close>.
\<close>

section \<open>Status\<close>

record RuntimeStatus =
  rtVersion :: string
  rtTailscaleAddress :: string
  rtTailscaleNodeID :: string
  rtTailscaleStableNodeID :: string
  rtTailscaleLoggedIn :: bool
  rtTailscaleLocalAPIReady :: bool
  rtTailscaleWhoIsReady :: bool
  rtHostFingerprint :: string
  rtGatewayListening :: bool

record DoctorCheck =
  dcName :: string
  dcOK :: bool
  dcMessage :: string

record DoctorResult =
  doOK :: bool
  doChecks :: "DoctorCheck list"

section \<open>Agents and capabilities\<close>

record AgentRegisterParams =
  rpAgentID :: string
  rpDisplayName :: string
  rpLocalEndpoint :: string
  rpAgentCard :: bytes

record AgentRegisterResult =
  rrRegistration :: AgentRegistration
  rrRegistrationToken :: string

record AgentEnsureParams =
  epAgentID :: string
  epDisplayName :: string
  epLocalEndpoint :: string
  epAgentCard :: bytes
  epRegistrationToken :: string

record AgentEnsureResult =
  erRegistration :: AgentRegistration
  erRegistrationToken :: string
  erCreated :: bool

record CapabilityChallengeParams =
  cpAgentID :: string
  cpRegistrationToken :: string
  cpEndpointDigest :: string
  cpMethods :: "string list"

record CapabilityExchangeParams =
  xpAgentID :: string
  xpChallenge :: Challenge
  xpSignature :: bytes

record CapabilityRotateParams =
  roAgentID :: string
  roRegistrationToken :: string

record CapabilityRotateResult =
  rorAgentID :: string
  rorPublicKey :: bytes
  rorGeneration :: int

section \<open>Attachments and mailbox\<close>

record AttachmentInitParams =
  inAgentID :: string
  inRegistrationToken :: string
  inCapabilitySession :: string
  inName :: string
  inMediaType :: string
  inSize :: int
  inSHA256 :: string

record AttachmentChunkParams =
  ckAgentID :: string
  ckRegistrationToken :: string
  ckCapabilitySession :: string
  ckBlobID :: string
  ckOffset :: int
  ckData :: bytes

record AttachmentBlobParams =
  blAgentID :: string
  blRegistrationToken :: string
  blCapabilitySession :: string
  blBlobID :: string

record AttachmentGrantParams =
  gpAgentID :: string
  gpRegistrationToken :: string
  gpCapabilitySession :: string
  gpBlobID :: string
  gpTargetAgentID :: string
  gpContextID :: string
  gpTTLSeconds :: int

record MailboxListParams =
  mlAgentID :: string
  mlSourceAgentID :: string
  mlRegistrationToken :: string
  mlCapabilitySession :: string
  mlUnreadOnly :: bool
  mlContextID :: string
  mlLimit :: int

record MailboxReadParams =
  mrAgentID :: string
  mrSourceAgentID :: string
  mrRegistrationToken :: string
  mrCapabilitySession :: string
  mrMessageID :: string

section \<open>Pairing and contacts\<close>

record PairInviteParams =
  ivLocalAgentID :: string
  ivRemoteAgentID :: string
  ivLocalHostFingerprint :: string
  ivTailscaleAddress :: string
  ivTailscaleNodeID :: string
  ivTTL :: duration

record PairAcceptParams =
  acLocalAgentID :: string
  acInviteID :: string
  acLocalHostFingerprint :: string
  acTailscaleAddress :: string
  acTailscaleNodeID :: string
  acInvite :: PairingInvite

record PairApproveParams =
  apLocalAgentID :: string
  apAcceptance :: PairingAcceptance
  apExpectedHostFingerprint :: string
  apExpectedAgentFingerprint :: string

record PairConfirmParams =
  cfLocalAgentID :: string
  cfConfirmation :: PairingConfirmation

record PairActivateParams =
  avLocalAgentID :: string
  avReceipt :: PairingActivationReceipt

record ContactParams =
  coLocalAgentID :: string
  coRemoteAgentID :: string
  coReason :: string

record ApplyRevocationParams =
  arvLocalAgentID :: string
  arvNotice :: RevocationNotice

section \<open>Messages\<close>

record MessageSendParams =
  smSourceAgentID :: string
  smTargetAgentID :: string
  smRegistrationToken :: string
  smCapabilitySession :: string
  smContextID :: string
  smMessageID :: string
  smPayload :: bytes

record MessageStatusParams =
  msSourceAgentID :: string
  msRegistrationToken :: string
  msCapabilitySession :: string
  msMessageID :: string

type_synonym MessageCancelParams = MessageStatusParams \<comment> \<open>the two types have the same fields\<close>

section \<open>Results of the methods\<close>

datatype ipc_result =
    RStatus RuntimeStatus
  | RRegister AgentRegisterResult
  | REnsure AgentEnsureResult
  | RChallenge Challenge
  | RSession cap_session
  | RRotate CapabilityRotateResult
  | RAttachment Metadata
  | RGrant AttachmentGrant
  | RInboxItems "InboxMessage list"
  | RInbox InboxMessage
  | RAgents "AgentRegistration list"
  | RInvite PairingInvite
  | RAcceptance PairingAcceptance
  | RConfirmation PairingConfirmation
  | RActivation PairingActivationReceipt
  | RContacts "Contact list"
  | RNotice RevocationNotice
  | RMessage OutboxMessage
  | RDoctor DoctorResult
  | REmpty

section \<open>State and environment of the handler\<close>

text \<open>
  The handler holds the services. Identities and capability keys are in the file store, as the daemon builds it, so the
  identity provider is always one of capability keys too.
\<close>

record handler =
  hReady :: bool \<comment> \<open>store, registrations, pairing and identities are all set\<close>
  hBootID :: string
  hAttachments :: "attachment_service option"

record mstate =
  mStore :: store
  mFiles :: files
  mBlobs :: blob_files
  mChallenges :: "string \<rightharpoonup> Challenge"
  mSessions :: "string \<rightharpoonup> cap_session"

type_synonym 'a mop = "mstate \<Rightarrow> (go_error, 'a, mstate) outcome"

text \<open>What \<^verbatim>\<open>json.Unmarshal\<close> into an \<^verbatim>\<open>any\<close> gives; a number is a mantissa and an exponent, an object lists its keys in order.\<close>

datatype json_value = JNull | JBool bool | JNumber int int | JString string | JArray "json_value list"
  | JObject "(string \<times> json_value) list"

record params_json =
  dec_value :: "bytes \<Rightarrow> json_value option"
  dec_register :: "bytes \<Rightarrow> AgentRegisterParams option"
  dec_ensure :: "bytes \<Rightarrow> AgentEnsureParams option"
  dec_challenge :: "bytes \<Rightarrow> CapabilityChallengeParams option"
  dec_exchange :: "bytes \<Rightarrow> CapabilityExchangeParams option"
  dec_rotate :: "bytes \<Rightarrow> CapabilityRotateParams option"
  dec_init :: "bytes \<Rightarrow> AttachmentInitParams option"
  dec_chunk :: "bytes \<Rightarrow> AttachmentChunkParams option"
  dec_blob :: "bytes \<Rightarrow> AttachmentBlobParams option"
  dec_grant :: "bytes \<Rightarrow> AttachmentGrantParams option"
  dec_list :: "bytes \<Rightarrow> MailboxListParams option"
  dec_read :: "bytes \<Rightarrow> MailboxReadParams option"
  dec_invite :: "bytes \<Rightarrow> PairInviteParams option"
  dec_accept :: "bytes \<Rightarrow> PairAcceptParams option"
  dec_approve :: "bytes \<Rightarrow> PairApproveParams option"
  dec_confirm :: "bytes \<Rightarrow> PairConfirmParams option"
  dec_activate :: "bytes \<Rightarrow> PairActivateParams option"
  dec_contact :: "bytes \<Rightarrow> ContactParams option"
  dec_revocation :: "bytes \<Rightarrow> ApplyRevocationParams option"
  dec_send :: "bytes \<Rightarrow> MessageSendParams option"
  dec_status :: "bytes \<Rightarrow> MessageStatusParams option"

text \<open>
  The environment of one request: the libraries, the readings of the clock and the random values in the order of
  their use, the outcome of file operations, the answer of the status provider (\<open>None\<close> when there is none) and
  the texts of errors.
\<close>

record ipc_env =
  ieLib :: lib
  ieWeb :: weblib
  ieIdJson :: idjson
  ieChallenge :: json_challenge
  ieParams :: params_json
  ieText :: "go_error \<Rightarrow> string"
  ieClk :: clock
  ieUuid :: "nat \<Rightarrow> string"
  ieRnd :: "nat \<Rightarrow> bytes"
  iePair :: "nat \<Rightarrow> env"
  ieIO :: "nat \<Rightarrow> io_env"
  ieFile :: file_env
  ieStatus :: "RuntimeStatus option"

abbreviation ieP :: "ipc_env \<Rightarrow> primitives" where "ieP E \<equiv> prim (ieLib E)"

definition on_store :: "'a op \<Rightarrow> 'a mop" where
  "on_store f st = (case f (mStore st) of (r, s) \<Rightarrow> (r, st\<lparr>mStore := s\<rparr>))"

definition on_files :: "(files \<Rightarrow> (go_error, 'a, files) outcome) \<Rightarrow> 'a mop" where
  "on_files f st = (case f (mFiles st) of (r, fs) \<Rightarrow> (r, st\<lparr>mFiles := fs\<rparr>))"

definition on_blobs :: "'a attachment_op \<Rightarrow> 'a mop" where
  "on_blobs f st = (case f (mBlobs st) of (r, fs) \<Rightarrow> (r, st\<lparr>mBlobs := fs\<rparr>))"

definition as_invalid :: "go_error + 'a \<Rightarrow> go_error + 'a" where
  \<comment> \<open>any error becomes an invalid request\<close>
  "as_invalid r = (case r of Inl _ \<Rightarrow> Inl ErrInvalidRequest | Inr x \<Rightarrow> Inr x)"

end
