(* ===== verification/Daemon.thy ===== *)
theory Daemon
  imports ManagementTypes Tailscale SSE
begin

text \<open>
  \<^verbatim>\<open>internal/daemon\<close>: the configuration (\<^verbatim>\<open>config.go\<close>), the key of the encrypted outbox (\<^verbatim>\<open>keys.go\<close>) and what
  \<^verbatim>\<open>daemon.go\<close> computes itself: the runtime status and the signer of a response. The Local API request of
  \<^verbatim>\<open>internal/tailscale/whois.go\<close> is here too. File paths are those of Unix.
\<close>

section \<open>File paths\<close>

fun clean_elements :: "bool \<Rightarrow> string list \<Rightarrow> string list \<Rightarrow> string list" where
  \<comment> \<open>the second argument holds the elements kept so far, the last one first\<close>
  "clean_elements rooted kept [] = rev kept"
| "clean_elements rooted kept (e # es) =
     (if e = [] \<or> e = ''.'' then clean_elements rooted kept es
      else if e = ''..''
      then (if kept \<noteq> [] \<and> hd kept \<noteq> ''..'' then clean_elements rooted (tl kept) es
            else if rooted then clean_elements rooted kept es
            else clean_elements rooted (e # kept) es)
      else clean_elements rooted (e # kept) es)"

definition IsAbs :: "string \<Rightarrow> bool" where "IsAbs p = HasPrefix p ''/''"

definition Clean :: "string \<Rightarrow> string" where
  "Clean p = (let s = Join ''/'' (clean_elements (IsAbs p) [] (Split (CHR ''/'') p))
     in if IsAbs p then ''/'' @ s else if s = [] then ''.'' else s)"

definition filepath_Join :: "string \<Rightarrow> string \<Rightarrow> string" where
  "filepath_Join a b = (if a = [] \<and> b = [] then [] else Clean (Join ''/'' (filter (\<lambda>e. e \<noteq> []) [a, b])))"

definition filepath_Abs :: "string option \<Rightarrow> string \<Rightarrow> string option" where
  \<comment> \<open>the first argument is the working directory, when it can be found\<close>
  "filepath_Abs getwd p = (if IsAbs p then Some (Clean p) else map_option (\<lambda>wd. filepath_Join wd p) getwd)"

definition filepath_Dir :: "string \<Rightarrow> string" where
  "filepath_Dir p = Clean (rev (dropWhile (\<lambda>c. c \<noteq> CHR ''/'') (rev p)))"

section \<open>Configuration\<close>

record host_env =
  goos :: string
  getwd :: "string option"
  home_dir :: "string option"
  temp_dir :: string
  addr_String :: "ip \<times> string \<Rightarrow> string"

definition DefaultGatewayPort :: int where "DefaultGatewayPort = 7443"

record Config =
  cfgDataDir :: string
  cfgDatabasePath :: string
  cfgIdentityDir :: string
  cfgIPCEndpoint :: string
  cfgTailscaleBindIP :: string
  cfgTailscaleLocalAPISocket :: string
  cfgGatewayPort :: int
  cfgHostFingerprint :: string
  cfgVersion :: string

definition pipe_prefix :: string where "pipe_prefix = [CHR 0x5C, CHR 0x5C, CHR ''.'', CHR 0x5C] @ ''pipe'' @ [CHR 0x5C]"

definition defaultTailscaleLocalAPISocket :: "host_env \<Rightarrow> string" where
  "defaultTailscaleLocalAPISocket h =
     (if goos h = ''windows'' then pipe_prefix @ ''ProtectedPrefix'' @ [CHR 0x5C] @ ''Administrators'' @ [CHR 0x5C] @ ''Tailscale'' @ [CHR 0x5C] @ ''tailscaled''
      else if goos h = ''darwin'' then ''/var/run/tailscaled.socket''
      else ''/var/run/tailscale/tailscaled.sock'')"

definition defaultDataDir :: "host_env \<Rightarrow> string" where
  "defaultDataDir h =
     (case home_dir h of
        Some home \<Rightarrow> if home \<noteq> [] then filepath_Join home ''.snw-agent-link'' else filepath_Join (temp_dir h) ''snw-agent-link''
      | None \<Rightarrow> filepath_Join (temp_dir h) ''snw-agent-link'')"

definition defaultIPCEndpoint :: "host_env \<Rightarrow> string \<Rightarrow> string" where
  "defaultIPCEndpoint h dataDir =
     (if goos h = ''windows'' then pipe_prefix @ ''snw-agent-link'' else filepath_Join dataDir ''snw-agent-link.sock'')"

definition DefaultConfig :: "host_env \<Rightarrow> string \<Rightarrow> Config" where
  "DefaultConfig h dataDir =
     (let dataDir = TrimSpace dataDir;
          dataDir = (if dataDir = [] then defaultDataDir h else dataDir)
      in \<lparr>cfgDataDir = dataDir, cfgDatabasePath = filepath_Join dataDir ''agent-link.sqlite3'',
          cfgIdentityDir = filepath_Join dataDir ''identities'', cfgIPCEndpoint = defaultIPCEndpoint h dataDir,
          cfgTailscaleBindIP = [], cfgTailscaleLocalAPISocket = defaultTailscaleLocalAPISocket h,
          cfgGatewayPort = DefaultGatewayPort, cfgHostFingerprint = [], cfgVersion = ''dev''\<rparr>)"

definition validTailscaleLocalAPIEndpoint :: "host_env \<Rightarrow> string \<Rightarrow> bool" where
  "validTailscaleLocalAPIEndpoint h endpoint =
     (if goos h = ''windows'' then HasPrefix endpoint pipe_prefix \<and> length endpoint > length pipe_prefix
      else IsAbs endpoint)"

definition config_paths :: "host_env \<Rightarrow> Config \<Rightarrow> go_error + Config" where
  \<comment> \<open>the first part of Validate: the paths and their defaults\<close>
  "config_paths h c =
     (let dir = TrimSpace (cfgDataDir c) in
      if dir = [] then Inl (ErrMsg ''data directory is required'')
      else case (if IsAbs dir then Some dir else filepath_Abs (getwd h) dir) of
        None \<Rightarrow> Inl (ErrMsg ''resolve data directory'')
      | Some dir \<Rightarrow> Inr (c\<lparr>cfgDataDir := dir,
          cfgDatabasePath := (if cfgDatabasePath c = [] then filepath_Join dir ''agent-link.sqlite3'' else cfgDatabasePath c),
          cfgIdentityDir := (if cfgIdentityDir c = [] then filepath_Join dir ''identities'' else cfgIdentityDir c),
          cfgIPCEndpoint := (if cfgIPCEndpoint c = [] then defaultIPCEndpoint h dir else cfgIPCEndpoint c),
          cfgTailscaleLocalAPISocket := (if TrimSpace (cfgTailscaleLocalAPISocket c) = [] then defaultTailscaleLocalAPISocket h
            else cfgTailscaleLocalAPISocket c)\<rparr>))"

definition Config_Validate :: "weblib \<Rightarrow> host_env \<Rightarrow> Config \<Rightarrow> go_error + Config" where
  "Config_Validate W h c =
     (case config_paths h c of
        Inl e \<Rightarrow> Inl e
      | Inr c \<Rightarrow>
      if \<not> validTailscaleLocalAPIEndpoint h (cfgTailscaleLocalAPISocket c)
      then Inl (ErrMsg ''tailscale Local API endpoint must be an absolute socket path or named pipe'')
      else
      let c = c\<lparr>cfgGatewayPort := (if cfgGatewayPort c = 0 then DefaultGatewayPort else cfgGatewayPort c)\<rparr> in
      if cfgGatewayPort c < 1 \<or> cfgGatewayPort c > 65535 then Inl (ErrMsg ''gateway port must be between 1 and 65535'')
      else if TrimSpace (cfgTailscaleBindIP c) = [] then Inl (ErrMsg ''tailscale bind IP is required'')
      else case ValidateBindAddress W DefaultAddressPolicy (cfgTailscaleBindIP c) of
        Inl e \<Rightarrow> Inl e
      | Inr _ \<Rightarrow> Inr (c\<lparr>cfgVersion := (if TrimSpace (cfgVersion c) = [] then ''dev'' else cfgVersion c)\<rparr>))"

definition BindAddress :: "weblib \<Rightarrow> Config \<Rightarrow> go_error + ip \<times> string" where
  "BindAddress W c = ValidateBindAddress W DefaultAddressPolicy (cfgTailscaleBindIP c)"

definition AddrPort_String :: "host_env \<Rightarrow> ip \<times> string \<Rightarrow> nat \<Rightarrow> string" where
  "AddrPort_String h address port =
     (if length (fst address) = 4 then addr_String h address @ '':'' @ digits port
      else ''['' @ addr_String h address @ '']:'' @ digits port)"

definition GatewayAddress :: "weblib \<Rightarrow> host_env \<Rightarrow> Config \<Rightarrow> go_error + string" where
  "GatewayAddress W h c =
     (case BindAddress W c of
        Inl e \<Rightarrow> Inl e
      | Inr address \<Rightarrow> Inr (AddrPort_String h address (nat (cfgGatewayPort c mod 2 ^ 16))))"

definition daemon_directories :: "host_env \<Rightarrow> Config \<Rightarrow> string list" where
  "daemon_directories h c = [cfgDataDir c, cfgIdentityDir c, filepath_Dir (cfgDatabasePath c)] @
     (if goos h \<noteq> ''windows'' then [filepath_Dir (cfgIPCEndpoint c)] else [])"

definition dirMode :: nat where "dirMode = 7 * 64"

fun EnsureDirectories :: "host_env \<Rightarrow> (string \<Rightarrow> go_error option) \<Rightarrow> (string \<Rightarrow> go_error option) \<Rightarrow> string list \<Rightarrow> (string \<rightharpoonup> nat) \<Rightarrow>
    (go_error, unit, string \<rightharpoonup> nat) outcome" where
  \<comment> \<open>over the list of directories; the state maps a directory to its mode, the two functions give the errors of
      creating a directory and of changing its mode. A directory that exists keeps its mode when it is created; only the listed
      directories are followed, not the parents that are created with them.\<close>
  "EnsureDirectories h mkdir chmod [] dirs = (Inr (), dirs)"
| "EnsureDirectories h mkdir chmod (d # ds) dirs =
     (case mkdir d of
        Some e \<Rightarrow> (Inl e, dirs)
      | None \<Rightarrow>
          let dirs = (if dirs d = None then dirs(d \<mapsto> dirMode) else dirs) in
          if goos h \<noteq> ''windows''
          then (case chmod d of
                  Some e \<Rightarrow> (Inl e, dirs)
                | None \<Rightarrow> EnsureDirectories h mkdir chmod ds (dirs(d \<mapsto> dirMode)))
          else EnsureDirectories h mkdir chmod ds dirs)"

section \<open>The outbox key\<close>

record key_file =
  kfRegular :: bool \<comment> \<open>a regular file that is not a symbolic link\<close>
  kfMode :: nat
  kfData :: bytes

definition keyMode :: nat where "keyMode = 6 * 64"

text \<open>
  The environment of attempt \<open>n\<close>: errors of the file operations, the random bytes, and the file that another process
  put there between the read and the creation. A failing write leaves a prefix of the key behind.
\<close>

record key_env =
  ky_lstat :: "nat \<Rightarrow> go_error option"
  ky_read :: "nat \<Rightarrow> go_error option"
  ky_random :: "nat \<Rightarrow> bytes"
  ky_meanwhile :: "nat \<Rightarrow> key_file option"
  ky_create :: "nat \<Rightarrow> go_error option"
  ky_write :: "nat \<Rightarrow> (go_error \<times> nat) option"
  ky_close :: "nat \<Rightarrow> go_error option"

partial_function (option) loadOrCreateOutboxKey ::
  "host_env \<Rightarrow> key_env \<Rightarrow> nat \<Rightarrow> key_file option \<Rightarrow> ((go_error + bytes) \<times> key_file option) option" where
  "loadOrCreateOutboxKey h K n file =
     (case (ky_lstat K n, file) of
        (Some e, _) \<Rightarrow> Some (Inl e, file)
      | (None, Some f) \<Rightarrow>
          if \<not> kfRegular f then Some (Inl (ErrMsg ''outbox key must be a regular non-symlink file''), file)
          else if goos h \<noteq> ''windows'' \<and> kfMode f \<noteq> keyMode then Some (Inl (ErrMsg ''outbox key permissions must be 0600''), file)
          else (case ky_read K n of
                  Some e \<Rightarrow> Some (Inl e, file)
                | None \<Rightarrow> if length (kfData f) \<noteq> 32 then Some (Inl (ErrMsg ''outbox key must contain 32 bytes''), file)
                    else Some (Inr (kfData f), file))
      | (None, None) \<Rightarrow>
          (case ky_meanwhile K n of
             Some f \<Rightarrow> loadOrCreateOutboxKey h K (n + 1) (Some f)
           | None \<Rightarrow>
               (case ky_create K n of
                  Some e \<Rightarrow> Some (Inl e, None)
                | None \<Rightarrow>
                    let key = ky_random K n; new = (\<lambda>data. Some \<lparr>kfRegular = True, kfMode = keyMode, kfData = data\<rparr>) in
                    (case ky_write K n of
                       Some (e, k) \<Rightarrow> Some (Inl e, new (take k key))
                     | None \<Rightarrow> (case ky_close K n of Some e \<Rightarrow> Some (Inl e, new key) | None \<Rightarrow> Some (Inr key, new key))))))"

section \<open>Tailscale Local API\<close>

record whois_payload =
  wpNodeID :: bytes
  wpStableID :: string
  wpName :: string
  wpAddresses :: "string list"
  wpUserID :: bytes
  wpLoginName :: string

record whois_json =
  wj_payload :: "bytes \<Rightarrow> whois_payload option"
  wj_string :: "bytes \<Rightarrow> string option"
  wj_number :: "bytes \<Rightarrow> string option"

definition identifierString :: "whois_json \<Rightarrow> bytes \<Rightarrow> string" where
  "identifierString J raw =
     (if raw = [] \<or> raw = ''null'' then []
      else case wj_string J raw of
        Some v \<Rightarrow> v
      | None \<Rightarrow> (case wj_number J raw of Some v \<Rightarrow> v | None \<Rightarrow> []))"

definition QueryEscape :: "string \<Rightarrow> string" where
  "QueryEscape s = concat (map (\<lambda>c. if is_digit c \<or> (65 \<le> byte c \<and> byte c \<le> 90) \<or> (97 \<le> byte c \<and> byte c \<le> 122) \<or> c \<in> set ''-_.~'' then [c]
     else if c = CHR '' '' then ''+''
     else [CHR 0x25, hex_upper ! (byte c div 16), hex_upper ! (byte c mod 16)]) s)"

definition localAPIBase :: string where "localAPIBase = ''http://local-tailscaled.sock''"

definition LocalAPI_WhoIs :: "whois_json \<Rightarrow> (string \<Rightarrow> go_error + int \<times> bytes) \<Rightarrow> whois" where
  \<comment> \<open>of the client that NewLocalAPISocketClient makes; the second argument sends a GET request for a URL and gives
      the status and the body of the answer\<close>
  "LocalAPI_WhoIs J get remoteAddr =
     (case get (localAPIBase @ ''/localapi/v0/whois?addr='' @ QueryEscape remoteAddr) of
        Inl e \<Rightarrow> Inl e
      | Inr (status, body) \<Rightarrow>
          if status \<noteq> 200 then Inl (ErrMsg ''tailscale whois returned another status'')
          else case wj_payload J body of
            None \<Rightarrow> Inl (ErrMsg ''decode tailscale whois'')
          | Some payload \<Rightarrow> Inr \<lparr>niNodeID = identifierString J (wpNodeID payload), niStableNodeID = wpStableID payload,
              niNodeName = wpName payload, niUserID = identifierString J (wpUserID payload),
              niLoginName = wpLoginName payload, niAddresses = wpAddresses payload\<rparr>)"

section \<open>Runtime status and response signers\<close>

record daemon_state =
  dsListening :: bool
  dsNodeID :: string
  dsStableNodeID :: string
  dsProvider :: "whois option"
  dsLocalAPIReady :: bool
  dsWhoIsReady :: bool

definition RuntimeStatus_now :: "weblib \<Rightarrow> host_env \<Rightarrow> Config \<Rightarrow> daemon_state \<Rightarrow> RuntimeStatus" where
  "RuntimeStatus_now W h c d =
     (let gatewayAddress = GatewayAddress W h c;
          (nodeID, stableNodeID, localAPIReady, whoIsReady) =
            (case dsProvider d of
               None \<Rightarrow> (dsNodeID d, dsStableNodeID d, dsLocalAPIReady d, dsWhoIsReady d)
             | Some localAPI \<Rightarrow>
                 (case localAPI (case gatewayAddress of Inr a \<Rightarrow> a | Inl _ \<Rightarrow> cfgTailscaleBindIP c) of
                    Inl _ \<Rightarrow> ([], [], False, False)
                  | Inr liveNode \<Rightarrow> (niNodeID liveNode, niStableNodeID liveNode, True,
                      TrimSpace (niNodeID liveNode) \<noteq> [] \<or> TrimSpace (niStableNodeID liveNode) \<noteq> [])))
      in \<lparr>rtVersion = cfgVersion c, rtTailscaleAddress = (case gatewayAddress of Inr a \<Rightarrow> a | Inl _ \<Rightarrow> []),
          rtTailscaleNodeID = nodeID, rtTailscaleStableNodeID = stableNodeID,
          rtTailscaleLoggedIn = (localAPIReady \<and> (nodeID \<noteq> [] \<or> stableNodeID \<noteq> [])),
          rtTailscaleLocalAPIReady = localAPIReady, rtTailscaleWhoIsReady = whoIsReady,
          rtHostFingerprint = cfgHostFingerprint c, rtGatewayListening = dsListening d\<rparr>)"

definition response_signer :: "idjson \<Rightarrow> io_env \<Rightarrow> files \<Rightarrow> http_request \<Rightarrow> go_error + Identity option" where
  \<comment> \<open>the signer that Run gives to the router: the identity of the agent named in the path\<close>
  "response_signer J io fs request =
     (case Split (CHR ''/'') (Trim (URL_Path (rqURL request)) ''/'') of
        first # agentID # _ \<Rightarrow>
          if first \<noteq> ''agents'' then Inr None
          else (case FileStore_GetIdentity J io agentID fs of Inl e \<Rightarrow> Inl e | Inr i \<Rightarrow> Inr (Some i))
      | _ \<Rightarrow> Inr None)"

section \<open>What the daemon starts with\<close>

lemma IsAbs_slash [simp]: "IsAbs (CHR ''/'' # s)"
  by (simp add: IsAbs_def HasPrefix_def)

lemma IsAbs_Clean: "IsAbs p \<Longrightarrow> IsAbs (Clean p)"
  by (simp add: Clean_def Let_def)

lemma IsAbs_append: "IsAbs p \<Longrightarrow> IsAbs (p @ q)"
  by (cases p) (auto simp: IsAbs_def HasPrefix_def)

lemma IsAbs_Join: "IsAbs p \<Longrightarrow> IsAbs (filepath_Join p q)"
proof -
  assume "IsAbs p"
  then have "p \<noteq> []" "IsAbs (Join ''/'' (filter (\<lambda>e. e \<noteq> []) [p, q]))"
    by (auto simp: Join_def IsAbs_append) (auto simp: IsAbs_def HasPrefix_def)
  then show ?thesis by (simp add: filepath_Join_def IsAbs_Clean)
qed

lemma config_paths_dir:
  assumes "config_paths h c = Inr v" and "\<And>wd. getwd h = Some wd \<Longrightarrow> IsAbs wd"
  shows "IsAbs (cfgDataDir v)" "cfgTailscaleBindIP v = cfgTailscaleBindIP c" "cfgGatewayPort v = cfgGatewayPort c"
  using assms by (auto simp: config_paths_def Let_def filepath_Abs_def intro: IsAbs_Join split: if_splits option.splits)

text \<open>
  C21. A configuration that passes validation is safe to start with: the data directory is absolute, the gateway port is
  between 1 and 65535 (the default when none was given) and is not cut off in the gateway address, the Local API
  endpoint is a local socket, and the gateway listens on a zone-free address of the tailnet: 100.64.0.0 to
  100.127.255.255 or the tailnet's IPv6 prefix.
\<close>

theorem config_validated:
  assumes "Config_Validate W h c = Inr v" and "\<And>wd. getwd h = Some wd \<Longrightarrow> IsAbs wd"
    and "\<And>a z. netip_ParseAddr W (cfgTailscaleBindIP c) = Some (a, z) \<Longrightarrow> \<forall>b\<in>set (Unmap a). b < 256"
  shows "IsAbs (cfgDataDir v) \<and> 1 \<le> cfgGatewayPort v \<and> cfgGatewayPort v \<le> 65535 \<and>
    cfgGatewayPort v = (if cfgGatewayPort c = 0 then 7443 else cfgGatewayPort c) \<and>
    validTailscaleLocalAPIEndpoint h (cfgTailscaleLocalAPISocket v) \<and>
    (\<exists>a. GatewayAddress W h v = Inr (AddrPort_String h (a, []) (nat (cfgGatewayPort v))) \<and>
      ((length a = 4 \<and> a ! 0 = 100 \<and> 64 \<le> a ! 1 \<and> a ! 1 < 128) \<or>
       (length a = 16 \<and> take 48 (ip_bits a) = take 48 (ip_bits (fst tailscaleIPv6)))))"
proof -
  obtain c1 where c1: "config_paths h c = Inr c1" using assms(1) by (auto simp: Config_Validate_def split: sum.splits)
  note paths = config_paths_dir[OF c1 assms(2)]
  have v: "cfgDataDir v = cfgDataDir c1" "cfgTailscaleBindIP v = cfgTailscaleBindIP c"
    "cfgGatewayPort v = (if cfgGatewayPort c = 0 then 7443 else cfgGatewayPort c)"
    "1 \<le> cfgGatewayPort v" "cfgGatewayPort v \<le> 65535" "validTailscaleLocalAPIEndpoint h (cfgTailscaleLocalAPISocket v)"
    "ok (ValidateBindAddress W DefaultAddressPolicy (cfgTailscaleBindIP c))"
    using assms(1) c1 paths(2,3) by (auto simp: Config_Validate_def Let_def DefaultGatewayPort_def split: sum.splits if_splits)
  obtain a z where p: "netip_ParseAddr W (cfgTailscaleBindIP c) = Some (a, z)"
    using v(7) by (auto simp: ValidateBindAddress_def split: option.splits)
  note tailnet = bind_address_accepted[OF p assms(3)[OF p]]
  have bound: "BindAddress W v = Inr (Unmap a, z)"
    using v(7) p by (auto simp: BindAddress_def v(2) ValidateBindAddress_def Let_def split: if_splits)
  have "cfgGatewayPort v mod 2 ^ 16 = cfgGatewayPort v" using v(4,5) by simp
  then have "GatewayAddress W h v = Inr (AddrPort_String h (Unmap a, z) (nat (cfgGatewayPort v)))"
    by (simp add: GatewayAddress_def bound)
  with v paths(1) tailnet show ?thesis by auto
qed

definition demo_host :: host_env where
  "demo_host = \<lparr>goos = ''linux'', getwd = None, home_dir = Some ''/home/a'', temp_dir = ''/tmp'', addr_String = (\<lambda>_. ''100.64.0.7'')\<rparr>"

theorem config_validated_witness:
  "\<exists>v. Config_Validate \<lparr>url_Parse = (\<lambda>_. None), LookupIP = (\<lambda>_. None), netip_ParseAddr = (\<lambda>_. Some ([100, 64, 0, 7], [])),
       netip_ParsePrefix = (\<lambda>_. None)\<rparr> demo_host ((DefaultConfig demo_host ''/d'')\<lparr>cfgTailscaleBindIP := ''100.64.0.7'', cfgGatewayPort := 0\<rparr>) = Inr v \<and>
     cfgGatewayPort v = 7443 \<and> IsAbs (cfgDataDir v)"
proof -
  let ?W = "\<lparr>url_Parse = (\<lambda>_. None), LookupIP = (\<lambda>_. None), netip_ParseAddr = (\<lambda>_. Some ([100, 64, 0, 7], [])), netip_ParsePrefix = (\<lambda>_. None)\<rparr>"
  let ?c = "(DefaultConfig demo_host ''/d'')\<lparr>cfgTailscaleBindIP := ''100.64.0.7'', cfgGatewayPort := 0\<rparr>"
  have trim: "TrimSpace ''/d'' = ''/d''" "TrimSpace ''100.64.0.7'' = ''100.64.0.7''" "TrimSpace ''dev'' = ''dev''"
    "TrimSpace ''/var/run/tailscale/tailscaled.sock'' = ''/var/run/tailscale/tailscaled.sock''"
    by (rule TrimSpace_visible; simp add: visible_def byte_def)+
  have "ok (ValidateBindAddress ?W DefaultAddressPolicy ''100.64.0.7'')"
    by (subst bind_address_accepted[of _ _ "[100, 64, 0, 7]" "[]"]) (simp_all add: Unmap_def To4_def)
  then obtain bound where bound: "ValidateBindAddress ?W DefaultAddressPolicy ''100.64.0.7'' = Inr bound" unfolding ok_iff by (rule exE)
  have c: "cfgDataDir ?c = ''/d''" "cfgTailscaleLocalAPISocket ?c = ''/var/run/tailscale/tailscaled.sock''"
    by (simp_all add: DefaultConfig_def Let_def trim(1) demo_host_def defaultTailscaleLocalAPISocket_def)
  have "\<exists>v. config_paths demo_host ?c = Inr v \<and> cfgTailscaleLocalAPISocket v = ''/var/run/tailscale/tailscaled.sock'' \<and>
      cfgTailscaleBindIP v = ''100.64.0.7'' \<and> cfgGatewayPort v = 0"
    by (simp add: config_paths_def Let_def c trim)
  then obtain v where v: "Config_Validate ?W demo_host ?c = Inr v"
    using bound by (auto simp: Config_Validate_def validTailscaleLocalAPIEndpoint_def trim demo_host_def DefaultGatewayPort_def Let_def)
  from config_validated[OF v] v show ?thesis by (auto simp: demo_host_def Unmap_def To4_def)
qed

section \<open>The outbox key\<close>

text \<open>
  Loading the key ends after at most one retry, a key that is given has 32 bytes, and once a key was given, every later
  load without file errors gives the same one and leaves the file alone.
\<close>

lemma loadOrCreateOutboxKey_stable:
  assumes "\<And>n. length (ky_random K n) = 32"
  shows "\<exists>r file'. loadOrCreateOutboxKey h K n file = Some (r, file') \<and>
    (\<forall>key. r = Inr key \<longrightarrow> length key = 32 \<and>
      (\<forall>K' m. ky_lstat K' m = None \<and> ky_read K' m = None \<longrightarrow> loadOrCreateOutboxKey h K' m file' = Some (Inr key, file')))"
proof -
  have found: "\<exists>r. loadOrCreateOutboxKey h K n (Some f) = Some (r, Some f) \<and>
      (\<forall>key. r = Inr key \<longrightarrow> length key = 32 \<and>
        (\<forall>K' m. ky_lstat K' m = None \<and> ky_read K' m = None \<longrightarrow> loadOrCreateOutboxKey h K' m (Some f) = Some (Inr key, Some f)))" for n f
    by (subst (1 2) loadOrCreateOutboxKey.simps) (auto split: option.splits)
  have created: "loadOrCreateOutboxKey h K' m (Some \<lparr>kfRegular = True, kfMode = keyMode, kfData = key\<rparr>) =
      Some (Inr key, Some \<lparr>kfRegular = True, kfMode = keyMode, kfData = key\<rparr>)"
    if "ky_lstat K' m = None" "ky_read K' m = None" "length key = 32" for K' m key
    using that by (subst loadOrCreateOutboxKey.simps) simp
  show ?thesis
  proof (cases "file")
    case (Some f)
    then show ?thesis using found[of n f] by blast
  next
    case None
    show ?thesis
    proof (cases "ky_lstat K n = None \<and> ky_meanwhile K n \<noteq> None")
      case True
      then obtain f where "ky_lstat K n = None" "ky_meanwhile K n = Some f" by auto
      then have "loadOrCreateOutboxKey h K n file = loadOrCreateOutboxKey h K (n + 1) (Some f)"
        by (subst loadOrCreateOutboxKey.simps) (simp add: None)
      then show ?thesis using found[of "n + 1" f] by simp blast
    next
      case False
      then show ?thesis
        using assms created by (subst loadOrCreateOutboxKey.simps) (auto simp: None Let_def split: option.splits prod.splits)
    qed
  qed
qed

end
