(* ===== verification/Router.thy ===== *)
theory Router
  imports GatewayDedup SSEProps Daemon
begin

text \<open>
  The gateway as a whole: the routes of \<^verbatim>\<open>Router.Handler\<close> (\<^verbatim>\<open>internal/gateway/router.go\<close>) as
  \<^verbatim>\<open>http.ServeMux\<close> matches them, the response signing middleware around them, the production router that
  \<^verbatim>\<open>internal/daemon/daemon.go\<close> builds, and the exchange of a signed request and its signed response between two
  daemons.
\<close>

section \<open>Matching a path\<close>

definition cleanPath :: "string \<Rightarrow> string" where
  "cleanPath p =
     (if p = [] then ''/''
      else let p = (if take 1 p \<noteq> ''/'' then ''/'' @ p else p); np = Clean p in
        if last p = CHR ''/'' \<and> np \<noteq> ''/'' then np @ ''/'' else np)"

definition pathUnescape :: "string \<Rightarrow> string" where
  "pathUnescape p = (case percent_decode False p of Some v \<Rightarrow> v | None \<Rightarrow> p)"

definition path_segments :: "string \<Rightarrow> string list" where
  \<comment> \<open>as the mux reads them one after the other: decoded, a final slash is a segment of its own\<close>
  "path_segments p = (let raw = Split (CHR ''/'') (drop 1 p) in
     map pathUnescape (butlast raw) @ [if last raw = [] then ''/'' else pathUnescape (last raw)])"

datatype route = HealthRoute | CardRoute string | BlobRoute string string | A2ARoute

definition wildcard :: "string \<Rightarrow> bool" where
  \<comment> \<open>a single wildcard does not match a final slash\<close>
  "wildcard segment = (segment \<noteq> ''/'')"

definition match_get :: "string list \<Rightarrow> route option" where
  \<comment> \<open>the patterns that \<^verbatim>\<open>Handler\<close> registers for GET\<close>
  "match_get segments =
     (if segments = [''healthz''] then Some HealthRoute
      else case segments of
        [first, agentID, cardFile] \<Rightarrow>
          if first = ''agents'' \<and> wildcard agentID \<and> cardFile = ''agent-card.json'' then Some (CardRoute agentID) else None
      | [first, agentID, kind, blobID] \<Rightarrow>
          if first = ''agents'' \<and> wildcard agentID \<and> kind = ''blobs'' \<and> wildcard blobID then Some (BlobRoute agentID blobID) else None
      | _ \<Rightarrow> None)"

definition match_any :: "string list \<Rightarrow> route option" where
  \<comment> \<open>the pattern \<^verbatim>\<open>/agents/\<close> for every method\<close>
  "match_any segments = (case segments of first # _ # _ \<Rightarrow> if first = ''agents'' then Some A2ARoute else None | _ \<Rightarrow> None)"

definition match_route :: "string \<Rightarrow> string \<Rightarrow> route option" where
  "match_route m p =
     (case (if m = ''GET'' \<or> m = ''HEAD'' then match_get (path_segments p) else None) of
        Some route \<Rightarrow> Some route
      | None \<Rightarrow> match_any (path_segments p))"

definition exactMatch :: "route option \<Rightarrow> string \<Rightarrow> bool" where
  \<comment> \<open>the pattern that ends in a slash is matched exactly by a path of two segments, the second empty\<close>
  "exactMatch n p =
     (case n of
        None \<Rightarrow> False
      | Some A2ARoute \<Rightarrow> p \<noteq> [] \<and> last p = CHR ''/'' \<and> length (filter (\<lambda>c. c = CHR ''/'') p) = 2
      | Some _ \<Rightarrow> True)"

definition slash_redirect :: "string \<Rightarrow> string \<Rightarrow> bool" where
  "slash_redirect m p = (\<not> exactMatch (match_route m p) p \<and> \<not> HasSuffix p ''/'' \<and> exactMatch (match_route m (p @ ''/'')) (p @ ''/''))"

definition escape_path :: "string \<Rightarrow> string" where
  \<comment> \<open>the path of \<^verbatim>\<open>url.URL.String\<close> for a decoded path\<close>
  "escape_path s = concat (map (\<lambda>c. if path_unescaped c \<or> c \<in> set '',/;'' then [c]
     else [CHR 0x25, hex_upper ! (byte c div 16), hex_upper ! (byte c mod 16)]) s)"

definition redirect_url :: "http_request \<Rightarrow> string \<Rightarrow> string" where
  "redirect_url req p = escape_path p @ (if uRawQuery (rqURL req) = [] then [] else ''?'' @ uRawQuery (rqURL req))"

datatype mux_result = MuxRoute route | MuxRedirect string | MuxNotAllowed | MuxNotFound

definition match_or_refuse :: "string \<Rightarrow> string \<Rightarrow> mux_result" where
  "match_or_refuse m p =
     (case match_route m p of
        Some route \<Rightarrow> MuxRoute route
      | None \<Rightarrow>
          if match_get (path_segments p) \<noteq> None \<or> (\<not> HasSuffix p ''/'' \<and> match_get (path_segments (p @ ''/'')) \<noteq> None)
          then MuxNotAllowed else MuxNotFound)"

definition findHandler :: "http_request \<Rightarrow> mux_result" where
  "findHandler req =
     (let escaped = uPath (rqURL req); p = (if rqMethod req = ''CONNECT'' then escaped else cleanPath escaped) in
      if slash_redirect (rqMethod req) p then MuxRedirect (redirect_url req (cleanPath (URL_Path (rqURL req)) @ ''/''))
      else if p \<noteq> escaped then MuxRedirect (redirect_url req p)
      else match_or_refuse (rqMethod req) p)"

section \<open>The handler\<close>

text \<open>
  What the handlers of one request find: \<open>mx_redirect\<close> is \<^verbatim>\<open>http.RedirectHandler\<close>, whose status and body differ
  between releases of the library; the other components are those of the single handlers.
\<close>

record mux_env =
  mx_redirect :: "http_request \<Rightarrow> string \<Rightarrow> http_response"
  mx_remoteAddr :: string
  mx_clock :: clock
  mx_serve :: "forwarding_client \<Rightarrow> serve_env"
  mx_blob :: blob_env
  mx_files :: blob_files
  mx_card :: "bytes \<Rightarrow> agent_card option"
  mx_encode :: "agent_card \<Rightarrow> bytes"

definition method_not_allowed :: http_response where
  "method_not_allowed = (let e = http_Error ''Method Not Allowed'' 405 in e\<lparr>rsHeader := Header_Set (rsHeader e) ''Allow'' ''GET, HEAD''\<rparr>)"

definition bad_request_uri :: http_response where
  "bad_request_uri = \<lparr>rsStatus = 400, rsHeader = Header_Set (\<lambda>_. []) ''Connection'' ''close'', rsBody = Inr []\<rparr>"

definition ServeMux ::
  "primitives \<Rightarrow> (nat \<Rightarrow> bool) \<Rightarrow> weblib \<Rightarrow> gateway \<Rightarrow> mux_env \<Rightarrow> http_request \<Rightarrow> store \<Rightarrow>
     ((http_response \<times> http_request list) \<times> store) option" where
  "ServeMux P isPrint W r M req s =
     (if RequestURI (rqURL req) = ''*'' then Some ((bad_request_uri, []), s)
      else case findHandler req of
        MuxRedirect url \<Rightarrow> Some ((mx_redirect M req url, []), s)
      | MuxNotAllowed \<Rightarrow> Some ((method_not_allowed, []), s)
      | MuxNotFound \<Rightarrow> Some ((http_NotFound, []), s)
      | MuxRoute HealthRoute \<Rightarrow> Some ((health, []), s)
      | MuxRoute (CardRoute agentID) \<Rightarrow> Some ((agentCard P (mx_card M) (mx_encode M) req agentID s, []), s)
      | MuxRoute (BlobRoute agentID blobID) \<Rightarrow>
          (case blob P isPrint r (mx_blob M) (mx_files M) req agentID blobID s of (response, s) \<Rightarrow> Some ((response, []), s))
      | MuxRoute A2ARoute \<Rightarrow> a2a P isPrint W r (mx_clock M) (mx_serve M) (mx_remoteAddr M) req s)"

definition copyResponse :: "http_response \<Rightarrow> writer_op list" where
  \<comment> \<open>what writing a recorded answer does to the response writer; every handler's answer is written like this\<close>
  "copyResponse recorder = [AddHeaders (rsHeader recorder), WriteStatus (rsStatus recorder), WriteBytes (response_bytes recorder)]"

definition written :: "writer_op list + http_response \<Rightarrow> http_response" where
  \<comment> \<open>the answer, where a handler wrote to the caller itself\<close>
  "written result =
     (case result of
        Inl ops \<Rightarrow> let capture = run capture_op ops newResponseCapture in
          \<lparr>rsStatus = statusCode capture, rsHeader = rcHeader capture, rsBody = Inr (rcBody capture)\<rparr>
      | Inr response \<Rightarrow> response)"

definition Handler ::
  "primitives \<Rightarrow> (nat \<Rightarrow> bool) \<Rightarrow> weblib \<Rightarrow> gateway \<Rightarrow> mux_env \<Rightarrow> gotime \<Rightarrow> bytes \<Rightarrow> http_request \<Rightarrow> store \<Rightarrow>
     ((http_response \<times> http_request list) \<times> store) option" where
  \<comment> \<open>the mux inside the response signing middleware; a resolver that fails keeps the mux from running\<close>
  "Handler P isPrint W r M sign_now nonce req s =
     (case gwSigner r of
        None \<Rightarrow> ServeMux P isPrint W r M req s
      | Some resolve \<Rightarrow>
          (let signed = (\<lambda>ops. written (NewResponseSigningMiddleware P isPrint sign_now nonce (Some resolve) (\<lambda>_. ops) req)) in
           if \<not> contains ''/blobs/'' (URL_Path (rqURL req)) \<and> \<not> ok (resolve req) then Some ((signed [], []), s)
           else map_option (\<lambda>((response, forwarded), s). ((signed (copyResponse response), forwarded), s)) (ServeMux P isPrint W r M req s)))"

end
