(* ===== verification/RouterProps.thy ===== *)
theory RouterProps
  imports Router
begin

text \<open>
  The gateway as a whole: plain paths reach the handler they name, and a request that one agent's daemon signs is
  forwarded once by the other's gateway, whose signed answer the first one accepts.
\<close>

section \<open>Plain paths\<close>

definition plain_segment :: "string \<Rightarrow> bool" where
  "plain_segment s = (s \<notin> {[], ''.'', ''..''} \<and> CHR ''/'' \<notin> set s \<and> CHR 0x25 \<notin> set s)"

definition path_of :: "string list \<Rightarrow> string" where
  "path_of segments = concat (map (\<lambda>s. ''/'' @ s) segments)"

lemma path_of_simps: "path_of [] = []" "path_of (s # ss) = CHR ''/'' # s @ path_of ss" "path_of (xs @ ys) = path_of xs @ path_of ys"
  by (simp_all add: path_of_def)

lemma path_of_Join: "ss \<noteq> [] \<Longrightarrow> path_of ss = CHR ''/'' # Join ''/'' ss"
  unfolding path_of_def Join_def by (cases ss) simp_all

lemma percent_decode_plain: "CHR 0x25 \<notin> set p \<Longrightarrow> percent_decode False p = Some p"
  by (induction p) auto

lemma path_of_decoded: "list_all plain_segment ss \<Longrightarrow> percent_decode False (path_of ss) = Some (path_of ss)"
  by (rule percent_decode_plain) (auto simp: path_of_def plain_segment_def list_all_iff)

lemma URL_Path_plain: "uPath u = path_of ss \<Longrightarrow> list_all plain_segment ss \<Longrightarrow> URL_Path u = path_of ss"
  by (simp add: URL_Path_def path_of_decoded)

lemma Split_path_of:
  assumes "list_all plain_segment ss" and "ss \<noteq> []"
  shows "Split (CHR ''/'') (Join ''/'' ss) = ss" "Split (CHR ''/'') (path_of ss) = [] # ss"
proof -
  show "Split (CHR ''/'') (Join ''/'' ss) = ss" using assms by (intro Split_Join) (auto simp: plain_segment_def list_all_iff)
  with assms(2) show "Split (CHR ''/'') (path_of ss) = [] # ss" by (simp add: path_of_Join)
qed

lemma last_segment: "plain_segment s \<Longrightarrow> last s \<noteq> CHR ''/''"
  using last_in_set[of s] by (metis (no_types, lifting) insertCI plain_segment_def)

lemma last_path_of: "list_all plain_segment ss \<Longrightarrow> ss \<noteq> [] \<Longrightarrow> last (path_of ss) \<noteq> CHR ''/''"
proof (induction ss)
  case (Cons s ss)
  then have "last s \<noteq> CHR ''/''" "s \<noteq> []" using last_segment[of s] by (simp_all add: plain_segment_def)
  with Cons show ?case by (cases ss) (simp_all add: path_of_simps)
qed simp

lemma clean_elements_plain: "list_all plain_segment ss \<Longrightarrow> clean_elements rooted kept ss = rev kept @ ss"
  by (induction ss arbitrary: kept) (auto simp: plain_segment_def)

lemma cleanPath_path_of:
  assumes "list_all plain_segment ss" and "ss \<noteq> []"
  shows "cleanPath (path_of ss) = path_of ss"
proof -
  obtain p where p: "path_of ss = CHR ''/'' # p" using assms(2) by (cases ss) (simp_all add: path_of_simps)
  have "Clean (path_of ss) = path_of ss"
  proof -
    have "Split (CHR ''/'') (path_of ss) = [] # ss" using assms by (rule Split_path_of(2))
    then have "clean_elements True [] (Split (CHR ''/'') (path_of ss)) = ss" using clean_elements_plain[OF assms(1), of True "[]"] by simp
    moreover have "Daemon.IsAbs (path_of ss)" by (simp add: p)
    ultimately show ?thesis using assms(2) by (simp add: Clean_def Let_def path_of_Join)
  qed
  with last_path_of[OF assms] p show ?thesis by (simp add: cleanPath_def Let_def)
qed

lemma pathUnescape_plain: "plain_segment s \<Longrightarrow> pathUnescape s = s"
  by (simp add: pathUnescape_def percent_decode_plain plain_segment_def)

lemma path_segments_path_of:
  assumes "list_all plain_segment ss" and "ss \<noteq> []"
  shows "path_segments (path_of ss) = ss" "path_segments (path_of ss @ ''/'') = ss @ [''/'']"
proof -
  have each: "\<forall>s\<in>set ss. pathUnescape s = s" using assms(1) pathUnescape_plain by (simp add: list_all_iff)
  have "\<forall>s\<in>set ss. s \<noteq> []" using assms(1) by (simp add: list_all_iff plain_segment_def)
  then have u: "map pathUnescape (butlast ss) = butlast ss" "pathUnescape (last ss) = last ss" "last ss \<noteq> []" "map pathUnescape ss = ss"
    using assms(2) each by (simp_all add: map_idI in_set_butlastD)
  have d: "drop 1 (path_of ss) = Join ''/'' ss" "drop 1 (path_of ss @ ''/'') = Join ''/'' ss @ ''/''" using assms(2) by (simp_all add: path_of_Join)
  show "path_segments (path_of ss) = ss"
    using assms(2) u by (simp add: path_segments_def Let_def d(1)[simplified] Split_path_of(1)[OF assms])
  have "Split (CHR ''/'') (Join ''/'' (ss @ [[]])) = ss @ [[]]"
    by (rule Split_Join) (use assms(1) in \<open>auto simp: plain_segment_def list_all_iff\<close>)
  moreover have "Join ''/'' (ss @ [[]]) = Join ''/'' ss @ ''/''" using assms(2) by (cases ss) (simp_all add: Join_def)
  ultimately have "Split (CHR ''/'') (drop 1 (path_of ss @ ''/'')) = ss @ [[]]" unfolding d(2) by simp
  then show "path_segments (path_of ss @ ''/'') = ss @ [''/'']" using u(4) by (simp add: path_segments_def Let_def)
qed

lemma slashes_path_of: "list_all plain_segment ss \<Longrightarrow> length (filter (\<lambda>c. c = CHR ''/'') (path_of ss)) = length ss"
  by (induction ss) (auto simp: path_of_simps plain_segment_def filter_empty_conv)

lemma Trim_path_of:
  assumes "list_all plain_segment ss" and "ss \<noteq> []"
  shows "Trim (path_of ss) ''/'' = Join ''/'' ss"
proof -
  obtain c t ts where ss: "ss = (c # t) # ts" "c \<noteq> CHR ''/''"
    using assms by (cases ss; cases "hd ss") (auto simp: plain_segment_def)
  then have l: "Join ''/'' ss \<noteq> []" "hd (Join ''/'' ss) \<noteq> CHR ''/''" by (simp_all add: Join_def)
  have "last (Join ''/'' ss) \<noteq> CHR ''/''" using last_path_of[OF assms] l(1) assms(2) by (simp add: path_of_Join)
  then have "dropWhile (\<lambda>c. c = CHR ''/'') (Join ''/'' ss) = Join ''/'' ss"
    "dropWhile (\<lambda>c. c = CHR ''/'') (rev (Join ''/'' ss)) = rev (Join ''/'' ss)"
    using l by (simp_all add: dropWhile_eq_self_iff hd_rev)
  then show ?thesis using assms(2) by (simp add: Trim_def path_of_Join)
qed

lemma Split_Trim_path_of:
  assumes "list_all plain_segment ss" and "ss \<noteq> []"
  shows "Split (CHR ''/'') (Trim (path_of ss) ''/'') = ss"
  using assms by (simp add: Trim_path_of Split_path_of)

lemma Split_middle: "Split sep (u @ sep # v) = Split sep u @ Split sep v"
proof (induction u)
  case (Cons c u)
  then show ?case using Split_nonempty[of sep u] by (auto split: list.splits)
qed simp

lemma contains_split: "contains sub s \<Longrightarrow> \<exists>u v. s = u @ sub @ v"
proof (induction s)
  case (Cons c s)
  show ?case
  proof (cases "HasPrefix (c # s) sub")
    case True
    then show ?thesis unfolding HasPrefix_def by (metis append_Nil append_take_drop_id)
  next
    case False
    with Cons show ?thesis by (metis append_Cons contains.simps(2))
  qed
qed simp

lemma no_blobs:
  assumes "list_all plain_segment ss" and "ss \<noteq> []" and "''blobs'' \<notin> set ss"
  shows "\<not> contains ''/blobs/'' (path_of ss)"
proof
  assume "contains ''/blobs/'' (path_of ss)"
  then obtain u v where "path_of ss = u @ CHR ''/'' # (''blobs'' @ CHR ''/'' # v)" using contains_split by fastforce
  then have "[] # ss = Split (CHR ''/'') u @ ''blobs'' # Split (CHR ''/'') v"
    using Split_path_of(2)[OF assms(1,2)] by (simp add: Split_middle Split_append)
  then have "''blobs'' \<in> set ([] # ss)" by simp
  with assms(3) show False by simp
qed

section \<open>Which handler a plain path reaches\<close>

lemma exact_plain:
  "list_all plain_segment ss \<Longrightarrow> length ss \<ge> 2 \<Longrightarrow> \<not> exactMatch (Some A2ARoute) (path_of ss) \<and> \<not> exactMatch (Some A2ARoute) (path_of ss @ ''/'')"
  using last_path_of[of ss] slashes_path_of[of ss] by (cases "ss = []") (auto simp: exactMatch_def)

lemma match_get_slash: "match_get (ss @ [''/'']) = None"
  by (auto simp: match_get_def wildcard_def split: list.splits if_splits)

lemma findHandler_agents:
  assumes "list_all plain_segment (x # ops)" and "uPath (rqURL req) = path_of (''agents'' # x # ops)"
    and "match_get (''agents'' # x # ops) = None"
  shows "findHandler req = MuxRoute A2ARoute"
proof -
  let ?ss = "''agents'' # x # ops"
  have plain: "list_all plain_segment ?ss" using assms(1) by (simp add: plain_segment_def)
  have m: "match_route m (path_of ?ss) = Some A2ARoute" "match_route m (path_of ?ss @ ''/'') = Some A2ARoute" for m
    using path_segments_path_of[OF plain list.distinct(2)] assms(3) match_get_slash[of ?ss]
    unfolding match_route_def by (simp_all add: match_any_def)
  then have "\<not> slash_redirect m (path_of ?ss)" for m
    using exact_plain[OF plain] by (simp add: slash_redirect_def)
  then show ?thesis
    using m cleanPath_path_of[OF plain] assms(2) by (simp add: findHandler_def match_or_refuse_def Let_def)
qed

section \<open>A signed request at the gateway\<close>

definition expected_peer :: "primitives \<Rightarrow> weblib \<Rightarrow> whois \<Rightarrow> string \<Rightarrow> Identity \<Rightarrow> string \<Rightarrow> store \<Rightarrow> bool" where
  \<comment> \<open>the target has an active contact with the caller's key, and the request comes from the contact's node\<close>
  "expected_peer P W whois remoteAddr caller target s =
     (case (GetContact target (idAgentID caller) s, whois (remoteAddress remoteAddr)) of
        (Inr contact, Inr peer) \<Rightarrow>
          CanCommunicate contact \<and> cRemoteAgentFingerprint contact = Fingerprint P (idPublicKey caller) \<and>
          cRemoteNodeID contact \<noteq> [] \<and> niStableNodeID peer = cRemoteNodeID contact \<and>
          HasAddress W peer (remoteAddress remoteAddr)
      | _ \<Rightarrow> False)"

lemma signed_headers:
  assumes "SignRequest P ip t nb r0 i target = Inr signed"
  shows "Header_Get (rqHeader signed) agentIDHeader = idAgentID i" "rqBody signed = rqBody r0" "rqURL signed = rqURL r0"
    "Header_Get (rqHeader signed) publicKeyHeader = RawURL_EncodeToString (idPublicKey i)"
proof -
  obtain body h where "rqBody r0 = Inr body" and s: "signed = r0\<lparr>rqBody := Inr body, rqHeader := setSignatureHeaders ip h
      (request_metadata P t nb i) (ed25519_Sign P (idPrivateKey i)
        (requestSignatureBase ip (r0\<lparr>rqBody := Inr body, rqHeader := h\<rparr>) (request_metadata P t nb i)))\<rparr>"
    "Header_Get h agentIDHeader = idAgentID i" "Header_Get h publicKeyHeader = RawURL_EncodeToString (idPublicKey i)"
    using SignRequest_returns[OF assms] by blast
  then show "Header_Get (rqHeader signed) agentIDHeader = idAgentID i" "rqBody signed = rqBody r0" "rqURL signed = rqURL r0"
    "Header_Get (rqHeader signed) publicKeyHeader = RawURL_EncodeToString (idPublicKey i)"
    by (simp_all add: setSignatureHeaders_other)
qed

lemma signed_other_header:
  assumes "SignRequest P ip t nb r0 i target = Inr signed"
    and "k \<notin> {contentDigestHeader, agentIDHeader, targetAgentIDHeader, publicKeyHeader, signatureInputHeader, signatureHeader}"
  shows "Header_Get (rqHeader signed) k = Header_Get (rqHeader r0) k"
  using assms
  by (auto simp: SignRequest_def Let_def setContentDigest_def setSignatureHeaders_def split: sum.splits if_splits)

lemma server_view_body: "rqBody r = Inr body \<Longrightarrow> (server_view r)\<lparr>rqBody := Inr body\<rparr> = server_view r"
  by (cases r) (simp add: server_view_def)

lemma LimitReader_short: "length body \<le> bodyLimit \<Longrightarrow> LimitReader (Inr body) bodyLimit = Inr body"
  by (simp add: LimitReader_def)

lemma signed_request_fits:
  assumes "wf_identity i" and "sign_verifies P (idPrivateKey i)" and "signature_size P" and "sha256_size P"
    and "nb \<noteq> []" and "0 < Unix t" and "Unix t < 2 ^ 63"
    and signed: "SignRequest P ip t nb r0 i target = Inr signed"
    and "uScheme (rqURL r0) = ''http'' \<or> uScheme (rqURL r0) = ''https''" and "uHost (rqURL r0) \<noteq> []"
    and "take 1 (uPath (rqURL r0)) = ''/''" and now: "\<bar>fromUnix (Unix t) - now\<bar> \<le> 5 * Minute"
    and body: "rqBody r0 = Inr body" "length body \<le> bodyLimit"
    and gateway: "gwRequireWhoIs r" "gwWhois r = Some whois" and peer: "expected_peer P W whois remoteAddr i target s"
    and "idAgentID i \<noteq> target"
  shows "gateway_fits P ip W r now remoteAddr (server_view signed) target s (identityNonce nb)"
proof -
  have "(0::int) < 5 * Minute" by (simp add: Minute_def)
  note verified = SignRequest_verifies[OF assms(1-11) now this]
  obtain contact p where c: "GetContact target (idAgentID i) s = Inr contact" "whois (remoteAddress remoteAddr) = Inr p" "CanCommunicate contact"
    "cRemoteAgentFingerprint contact = Fingerprint P (idPublicKey i)" "cRemoteNodeID contact \<noteq> []"
    "niStableNodeID p = cRemoteNodeID contact" "HasAddress W p (remoteAddress remoteAddr)"
    using peer by (auto simp: expected_peer_def split: sum.splits)
  have "idAgentID i \<noteq> []" using assms(1) by (auto simp: wf_identity_def)
  then show ?thesis
    using c gateway verified length_public_key[OF assms(1)] assms(18) body LimitReader_short[OF body(2)]
    by (simp add: gateway_fits_def signed_headers[OF signed] RawURL_roundtrip peer_check_def server_view_body)
qed

text \<open>A message that is new to the gateway, or has no identity, goes to the local agent.\<close>

lemma Encrypt_key: "length key = 32 \<Longrightarrow> Encrypt P key nonce p ad \<noteq> Inl e"
  using Encrypt_ok_iff[of P key nonce p ad] by auto

lemma serve_forwards:
  assumes "LimitReader (rqBody req) bodyLimit = Inr body" and "mid = inboundMessageID (sv_json V) body j"
    and "mid = [] \<or> \<not> reserved (Header_Get (rqHeader req) agentIDHeader, a, keyEpoch, mid) s"
    and "sv_others V 0 = []" and "\<forall>key. aead s = Some key \<longrightarrow> length key = 32" and "Header_Get (rqHeader req) agentIDHeader \<noteq> []" and "a \<noteq> []"
  shows "\<exists>u. serveA2AWithDedup P ip V req a j 0 s = Some ((forwardA2A V (req\<lparr>rqBody := Inr body\<rparr>) a j, [req\<lparr>rqBody := Inr body\<rparr>]), u)"
proof (cases "mid = []")
  case True
  then show ?thesis using assms(1,2) by (simp add: serveA2AWithDedup.simps[of _ _ _ _ _ _ 0] serve_turn_def Let_def)
next
  case False
  have fresh: "\<not> reserved (Header_Get (rqHeader req) agentIDHeader, a, keyEpoch, mid) s" using assms(3) False by blast
  have miss: "\<exists>e. GetScopedDeduplication P (Header_Get (rqHeader req) agentIDHeader) a keyEpoch mid s = Inl e"
    using fresh by (auto simp: GetScopedDeduplication_def reserved_def split: option.splits)
  from assms(1,2) False show ?thesis
  proof (cases rule: serve_turn_cases[where P=P and a=a and s=s and isPrint=ip and k=0])
    case (refused e e' s1 s2)
    have "aead s1 = aead s" using reserve_created(3)[OF refused(2)] store_leD(7) assms(4) by fastforce
    then have "ok (fst (record_inbox P V body (Header_Get (rqHeader req) agentIDHeader) a mid j s1))"
      using assms(5-7) False Encrypt_key by (auto simp: record_inbox_def RecordInboxMessage_def Let_def split: option.split sum.split)
    with refused(3) show ?thesis by (simp add: ok_def)
  next
    case (lost e s1)
    with reserve_created(1)[OF lost(2)] fresh assms(4) show ?thesis by simp
  next
    case (first e s1 s2 response)
    then show ?thesis by (simp add: serveA2AWithDedup.simps[of _ _ _ _ _ _ 0])
  qed (use miss in auto)
qed

section \<open>The whole gateway\<close>

lemma NewRouterWithWhoIs_fields:
  "NewRouterWithWhoIs mkdir (Some whois) [resolve] = Inr r \<Longrightarrow>
     gwRequireWhoIs r \<and> gwWhois r = Some whois \<and> gwSigner r = Some resolve"
  by (auto simp: NewRouterWithWhoIs_def NewRouter_def split: option.splits)

lemma response_signer_agents:
  assumes "list_all plain_segment (x # ops)" and "uPath (rqURL req) = path_of (''agents'' # x # ops)"
    and "FileStore_GetIdentity J io x fs = Inr identity"
  shows "response_signer J io fs req = Inr (Some identity)"
proof -
  have "list_all plain_segment (''agents'' # x # ops)" using assms(1) by (simp add: plain_segment_def)
  then show ?thesis
    using assms(2,3) by (simp add: response_signer_def URL_Path_plain Split_Trim_path_of)
qed

lemma captured_copy: "run capture_op (copyResponse response) newResponseCapture =
    \<lparr>rcHeader = rsHeader response, rcBody = response_bytes response, rcStatus = rsStatus response, rcWroteHeader = True\<rparr>"
  by (simp add: copyResponse_def newResponseCapture_def capture_WriteHeader_def capture_Write_def)

definition event_stream :: "http_response \<Rightarrow> bool" where
  "event_stream response = HasPrefix (ToLower (Header_Get (rsHeader response) contentTypeHeader)) ''text/event-stream''"

text \<open>
  What the gateway commits for an agent's path: the answer of the mux, signed by the agent. Refusals are signed like
  everything else.
\<close>

lemma Handler_signs:
  assumes "wf_identity i" and "sign_verifies P (idPrivateKey i)" and "signature_size P" and "sha256_size P"
    and "nb \<noteq> []" and "0 < Unix t" and "Unix t < 2 ^ 63" and "\<bar>fromUnix (Unix t) - now\<bar> \<le> skew" and "0 < skew"
    and "gwSigner r = Some resolve" and "resolve req = Inr (Some i)" and "\<not> contains ''/blobs/'' (URL_Path (rqURL req))"
    and "no_line_end (Header_Get (rqHeader req) ''Last-Event-Id'')"
    and "ServeMux P ip W r M req s = Some ((answer, fwd), u)" and "rsStatus answer \<noteq> 0"
  shows "\<exists>response. Handler P ip W r M t nb req s = Some ((response, fwd), u) \<and>
    VerifyResponseForAgent P ip response (idAgentID i) (idPublicKey i) now skew = Inr () \<and>
    (\<not> event_stream answer \<longrightarrow> rsStatus response = rsStatus answer \<and> rsBody response = Inr (response_bytes answer))"
proof -
  obtain response where r: "NewResponseSigningMiddleware P ip t nb (Some resolve) (\<lambda>_. copyResponse answer) req = Inr response"
    "VerifyResponseForAgent P ip response (idAgentID i) (idPublicKey i) now skew = Inr ()"
    using middleware_response_verifies[where handler="\<lambda>_. copyResponse answer" and resolver=resolve and request=req, OF assms(1-9,11,12,13)] by blast
  have "rsStatus response = rsStatus answer \<and> rsBody response = Inr (response_bytes answer)" if "\<not> event_stream answer"
    using r(1) that assms(11,12,15)
    by (auto simp: NewResponseSigningMiddleware_def captured_copy signed_capture_def event_stream_def commitResponse_def Let_def statusCode_def)
  then show ?thesis using assms(10,11,14) r by (simp add: Handler_def Let_def written_def)
qed

text \<open>
  C10. An exchange between two paired agents, from end to end. A request that a caller's daemon signs for an agent's REST
  endpoint passes the other daemon's production gateway when the agent is registered with a reachable local endpoint, the caller is
  its active contact, calls from the contact's node and with the pinned key, and the nonce is new: a message that is new is forwarded to the
  local agent exactly once and unchanged, the response carries the local agent's status and body, and the caller, which verifies the response
  under the agent's key, accepts it.
\<close>

theorem signed_exchange:
  assumes keys: "wf_identity i" "sign_verifies P (idPrivateKey i)" "wf_identity j" "sign_verifies P (idPrivateKey j)"
      "signature_size P" "sha256_size P" "idAgentID i \<noteq> idAgentID j"
    and request: "uScheme (rqURL r0) = ''http'' \<or> uScheme (rqURL r0) = ''https''" "uHost (rqURL r0) \<noteq> []"
      "uPath (rqURL r0) = path_of ([''agents'', idAgentID j, ''a2a'', ''rest''] @ ops)" "list_all plain_segment (idAgentID j # ops)"
      "''blobs'' \<notin> set (idAgentID j # ops)" "rqBody r0 = Inr body" "length body \<le> bodyLimit"
      "no_line_end (Header_Get (rqHeader r0) ''Last-Event-Id'')"
    and signed: "SignRequest P ip t nb r0 i (idAgentID j) = Inr signed" "nb \<noteq> []" "0 < Unix t" "Unix t < 2 ^ 63"
    and gateway: "NewRouterWithWhoIs mkdir (Some whois) [response_signer J io fs] = Inr r"
      "FileStore_GetIdentity J io (idAgentID j) fs = Inr j" "wf_store s" "\<forall>key. aead s = Some key \<longrightarrow> length key = 32"
      "GetAgentRegistration (idAgentID j) s = Inr registration" "newForwardingHandler W registration (idAgentID i) = Inr handler"
      "expected_peer P W whois (mx_remoteAddr M) i (idAgentID j) s" "\<bar>fromUnix (Unix t) - mx_clock M 0\<bar> \<le> 5 * Minute"
      "\<not> nonce_live (idAgentID j, idAgentID i, identityNonce nb) (mx_clock M 2) s"
    and message: "V = mx_serve M handler" "mid = inboundMessageID (sv_json V) body False" "sv_others V 0 = []"
      "mid = [] \<or> \<not> reserved (idAgentID i, idAgentID j, keyEpoch, mid) s"
    and answer: "answer = sv_forward V False (if ops = [] then ''/'' else path_of ops) (server_view signed)" "rsStatus answer \<noteq> 0"
    and client: "nb' \<noteq> []" "0 < Unix t'" "Unix t' < 2 ^ 63" "\<bar>fromUnix (Unix t') - now\<bar> \<le> skew" "0 < skew"
      "network = (\<lambda>rq. case Handler P ip W r M t' nb' (server_view rq) s of Some ((response, _), _) \<Rightarrow> Inr response | None \<Rightarrow> Inl (ErrMsg ''no response''))"
  shows "\<exists>response u. Handler P ip W r M t' nb' (server_view signed) s = Some ((response, [server_view signed]), u) \<and>
    (\<not> event_stream answer \<longrightarrow> rsStatus response = rsStatus answer \<and> rsBody response = Inr (response_bytes answer)) \<and>
    Verifying_RoundTrip P ip now
      (Signed_RoundTrip P ip t nb network \<lparr>srIdentity = Some i, srTargetAgent = idAgentID j\<rparr>)
      \<lparr>vrPublicKey = idPublicKey j, vrExpectedAgent = idAgentID j, vrAllowedSkew = skew\<rparr> r0 = Inr response"
proof -
  let ?req = "server_view signed" and ?tail = "''a2a'' # ''rest'' # ops"
  have plain: "list_all plain_segment (idAgentID j # ?tail)" "list_all plain_segment (''agents'' # idAgentID j # ?tail)"
    using request(4) by (simp_all add: plain_segment_def)
  have url: "uPath (rqURL ?req) = path_of (''agents'' # idAgentID j # ?tail)"
    using request(3) by (simp add: server_view_def signed_headers[OF signed(1)] path_of_simps)
  have decoded: "URL_Path (rqURL ?req) = path_of (''agents'' # idAgentID j # ?tail)" by (rule URL_Path_plain[OF url plain(2)])
  note router = NewRouterWithWhoIs_fields[OF gateway(1)]
  have body: "rqBody ?req = Inr body" "LimitReader (rqBody ?req) bodyLimit = Inr body" "?req\<lparr>rqBody := Inr body\<rparr> = ?req"
    using request(6,7) by (simp_all add: signed_headers[OF signed(1)] LimitReader_short server_view_body)
  have ids: "Header_Get (rqHeader ?req) agentIDHeader = idAgentID i" "idAgentID i \<noteq> []" "idAgentID j \<noteq> []"
    using keys(1,3) by (simp_all add: signed_headers[OF signed(1)] wf_identity_def)
  have "take 1 (uPath (rqURL r0)) = ''/''" using request(3) by (simp add: path_of_simps)
  then have fits: "gateway_fits P ip W r (mx_clock M 0) (mx_remoteAddr M) ?req (idAgentID j) s (identityNonce nb)"
    using signed_request_fits[OF keys(1,2,5,6) signed(2-4,1) request(1,2) _ gateway(8) request(6,7) _ _ gateway(7) keys(7)] router by blast
  define s1 where "s1 = snd (ClaimReplayNonce (idAgentID j) (idAgentID i) (identityNonce nb) (mx_clock M 1 + 5 * Minute) (mx_clock M 2) s)"
  have admitted: "authorized P ip W r (mx_clock M) (mx_remoteAddr M) ?req (idAgentID j) s = ((True, ?req), s1)"
    using authorized_fits[where c="mx_clock M", OF fits gateway(3)] gateway(9) body ids(1) by (auto simp: s1_def)
  have s1: "aead s1 = aead s" "reserved k s1 = reserved k s" for k
    by (simp_all add: s1_def ClaimReplayNonce_def Let_def case_prod_beta reserved_def)
  obtain u where "serveA2AWithDedup P ip V ?req (idAgentID j) False 0 s1 = Some ((forwardA2A V ?req (idAgentID j) False, [?req]), u)"
    using serve_forwards[OF body(2) message(2), where a="idAgentID j" and s=s1 and P=P and ip=ip] message(3,4) gateway(4) s1 ids body(3) by auto
  moreover have "reqWithTrimmedPath ?req (''/agents/'' @ idAgentID j @ ''/a2a/rest'') = (if ops = [] then ''/'' else path_of ops)"
    by (cases ops) (simp_all add: reqWithTrimmedPath_def decoded TrimPrefix_def HasPrefix_def path_of_simps Let_def)
  ultimately have "a2a P ip W r (mx_clock M) (mx_serve M) (mx_remoteAddr M) ?req s = Some ((answer, [?req]), u)"
    using gateway(5,6) admitted ids(1) message(1) answer(1)
    by (simp add: a2a_def decoded Split_Trim_path_of[OF plain(2)] Let_def forwardA2A_def)
  moreover have "findHandler ?req = MuxRoute A2ARoute"
    by (rule findHandler_agents[OF plain(1) url]) (auto simp: match_get_def split: list.splits)
  moreover have "RequestURI (rqURL ?req) \<noteq> ''*''" by (simp add: RequestURI_def url path_of_simps)
  ultimately have mux: "ServeMux P ip W r M ?req s = Some ((answer, [?req]), u)" by (simp add: ServeMux_def)
  have signer: "response_signer J io fs ?req = Inr (Some j)" by (rule response_signer_agents[OF plain(1) url gateway(2)])
  have "\<not> contains ''/blobs/'' (URL_Path (rqURL ?req))"
    unfolding decoded by (rule no_blobs[OF plain(2)]) (use request(5) in auto)
  moreover have "no_line_end (Header_Get (rqHeader ?req) ''Last-Event-Id'')"
    using request(8) signed_other_header[OF signed(1), of "''Last-Event-Id''"] by (simp add: header_names)
  ultimately obtain response where r: "Handler P ip W r M t' nb' ?req s = Some ((response, [?req]), u)"
    "VerifyResponseForAgent P ip response (idAgentID j) (idPublicKey j) now skew = Inr ()"
    "\<not> event_stream answer \<longrightarrow> rsStatus response = rsStatus answer \<and> rsBody response = Inr (response_bytes answer)"
    using Handler_signs[OF keys(3-6) client(1-5), of r "response_signer J io fs" ?req] router signer mux answer(2) by blast
  then show ?thesis
    using signed(1) client(6) length_public_key[OF keys(3)] by (simp add: Verifying_RoundTrip_def Signed_RoundTrip_def)
qed

section \<open>A concrete exchange\<close>

definition demo_web_local :: weblib where
  "demo_web_local = demo_web\<lparr>netip_ParseAddr := (\<lambda>_. Some ([100, 64, 0, 2], []))\<rparr>"

definition demo_node :: NodeIdentity where
  "demo_node = \<lparr>niNodeID = ''n1'', niStableNodeID = ''node-b'', niNodeName = [], niUserID = [], niLoginName = [], niAddresses = [''100.64.0.2'']\<rparr>"

definition demo_alice_files :: files where
  "demo_alice_files = snd (PutIdentity demo_idjson no_io_error (Some alice) (\<lambda>_. None))"

definition demo_hosted :: store where
  \<comment> \<open>Alice's agent is registered at her daemon and Bob is its active contact\<close>
  "demo_hosted = (empty_store None)\<lparr>
     contacts := [(demo_contact ContactStateActive)\<lparr>cRemoteNodeID := ''node-b'', cRemoteAgentFingerprint := Fingerprint fixed_primitives (idPublicKey bob)\<rparr>],
     agent_registrations := [\<lparr>arAgentID = ''alice'', arDisplayName = ''Alice'', arLocalEndpoint = ''localhost'', arAgentCardJSON = [],
       arIdentityPublicKey = [], arCapabilityPublicKey = [], arCapabilityGeneration = 0, arRegistrationTokenHash = ''hash'',
       arCreatedAt = 0, arUpdatedAt = 0\<rparr>]\<rparr>"

definition demo_mux :: mux_env where
  "demo_mux = \<lparr>mx_redirect = (\<lambda>_ _. http_NotFound), mx_remoteAddr = ''100.64.0.2:9'', mx_clock = (\<lambda>_. 8 * Second), mx_serve = (\<lambda>_. demo_serve),
     mx_blob = \<lparr>be_files = no_failure 1, be_now = 0, be_sign_now = 0, be_nonce = []\<rparr>, mx_files = no_files,
     mx_card = (\<lambda>_. None), mx_encode = (\<lambda>_. [])\<rparr>"

definition demo_post :: http_request where
  "demo_post = \<lparr>rqMethod = ''POST'',
     rqURL = \<lparr>uScheme = ''https'', uHost = ''alice:7443'', uPath = path_of [''agents'', ''alice'', ''a2a'', ''rest'', ''message:send''], uRawQuery = []\<rparr>,
     rqHost = [], rqTLS = False, rqHeader = (\<lambda>_. []), rqBody = Inr ''m1''\<rparr>"

lemma demo_alice_identity: "FileStore_GetIdentity demo_idjson no_io_error ''alice'' demo_alice_files = Inr alice"
proof -
  obtain key where "FromPrivate (demo_key (CHR ''c'')) = Inr key" "kPrivate key = demo_key (CHR ''c'')"
    by (simp add: FromPrivate_def demo_key_def PrivateKeySize_def)
  with identity_files_restored[OF demo_idjson_restores demo_idjson_restores wf_demo_identities(1) _ trim_alice, of key "\<lambda>_. None"] trim_alice
  show ?thesis by (auto simp: alice_def demo_alice_files_def)
qed

lemma demo_hosted_facts:
  "wf_store demo_hosted" "aead demo_hosted = None" "\<not> reserved k demo_hosted" "\<not> nonce_live n T demo_hosted"
  "\<exists>registration handler. GetAgentRegistration ''alice'' demo_hosted = Inr registration \<and>
     newForwardingHandler demo_web_local registration ''bob'' = Inr handler"
  "expected_peer fixed_primitives demo_web_local (\<lambda>_. Inr demo_node) (mx_remoteAddr demo_mux) bob ''alice'' demo_hosted"
  by (simp_all add: demo_hosted_def empty_store_def wf_store_def unique_key_def reserved_def nonce_live_def GetAgentRegistration_def
      newForwardingHandler_def loopbackClient_def demo_web_local_def demo_web_def IsLoopback_def To4_def Let_def
      expected_peer_def GetContact_def contact_key_def demo_contact_def bob_def CanCommunicate_def demo_node_def HasAddress_def owns_address_def)

theorem signed_exchange_witness:
  "\<exists>r signed response u. NewRouterWithWhoIs None (Some (\<lambda>_. Inr demo_node)) [response_signer demo_idjson no_io_error demo_alice_files] = Inr r \<and>
     SignRequest fixed_primitives (\<lambda>_. False) (7 * Second) ''0123456789abcdef'' demo_post bob ''alice'' = Inr signed \<and>
     Handler fixed_primitives (\<lambda>_. False) demo_web_local r demo_mux (9 * Second) ''fedcba9876543210'' (server_view signed) demo_hosted =
       Some ((response, [server_view signed]), u) \<and> rsStatus response = 200 \<and> rsBody response = Inr ''done''"
proof -
  obtain r where r: "NewRouterWithWhoIs None (Some (\<lambda>_. Inr demo_node)) [response_signer demo_idjson no_io_error demo_alice_files] = Inr r"
    by (simp add: NewRouterWithWhoIs_def NewRouter_def)
  obtain signed where signed: "SignRequest fixed_primitives (\<lambda>_. False) (7 * Second) ''0123456789abcdef'' demo_post bob (idAgentID alice) = Inr signed"
    by (simp add: SignRequest_def demo_post_def Let_def alice_def)
  obtain registration handler where reg: "GetAgentRegistration (idAgentID alice) demo_hosted = Inr registration"
    "newForwardingHandler demo_web_local registration (idAgentID bob) = Inr handler"
    using demo_hosted_facts(5) by (auto simp: alice_def bob_def)
  have answer: "sv_forward (mx_serve demo_mux handler) False p q = \<lparr>rsStatus = 200, rsHeader = Header_Set (\<lambda>_. []) contentTypeHeader ''application/json'',
      rsBody = Inr ''done''\<rparr>" for p q by (simp add: demo_mux_def demo_serve_def)
  have stream: "\<not> event_stream (sv_forward (mx_serve demo_mux handler) False p q)" for p q
    by (simp add: answer event_stream_def) (simp add: HasPrefix_def ToLower_def)
  have plain: "list_all plain_segment (idAgentID alice # [''message:send''])" by (simp add: plain_segment_def alice_def)
  have times: "\<bar>fromUnix (Unix (7 * Second)) - mx_clock demo_mux 0\<bar> \<le> 5 * Minute" "\<bar>fromUnix (Unix (9 * Second)) - 9 * Second\<bar> \<le> 5 * Minute"
    "(0::int) < 5 * Minute" "0 < Unix (7 * Second)" "Unix (7 * Second) < 2 ^ 63" "0 < Unix (9 * Second)" "Unix (9 * Second) < 2 ^ 63"
    by (simp_all add: Unix_seconds demo_mux_def) (simp_all add: Second_def Minute_def)
  have url: "uScheme (rqURL demo_post) = ''http'' \<or> uScheme (rqURL demo_post) = ''https''" "uHost (rqURL demo_post) \<noteq> []"
    "uPath (rqURL demo_post) = path_of ([''agents'', idAgentID alice, ''a2a'', ''rest''] @ [''message:send''])"
    "''blobs'' \<notin> set (idAgentID alice # [''message:send''])" "rqBody demo_post = Inr ''m1''" "length ''m1'' \<le> bodyLimit"
    "no_line_end (Header_Get (rqHeader demo_post) ''Last-Event-Id'')"
    by (simp_all add: demo_post_def alice_def bodyLimit_def Header_Get_def no_line_end_def)
  have peer: "expected_peer fixed_primitives demo_web_local (\<lambda>_. Inr demo_node) (mx_remoteAddr demo_mux) bob (idAgentID alice) demo_hosted"
    "FileStore_GetIdentity demo_idjson no_io_error (idAgentID alice) demo_alice_files = Inr alice" "idAgentID bob \<noteq> idAgentID alice"
    "\<forall>key. aead demo_hosted = Some key \<longrightarrow> length key = 32" "sv_others (mx_serve demo_mux handler) 0 = []"
    using demo_hosted_facts(2,6) demo_alice_identity by (simp_all add: alice_def bob_def demo_mux_def demo_serve_def)
  have status: "rsStatus (sv_forward (mx_serve demo_mux handler) False p q) \<noteq> 0" for p q by (simp add: answer)
  obtain response u where "Handler fixed_primitives (\<lambda>_. False) demo_web_local r demo_mux (9 * Second) ''fedcba9876543210'' (server_view signed) demo_hosted =
       Some ((response, [server_view signed]), u)" "rsStatus response = 200" "rsBody response = Inr ''done''"
    using signed_exchange[OF wf_demo_identities(2) fixed_primitives_laws(1) wf_demo_identities(1) fixed_primitives_laws(1,2,3) peer(3)
        url(1-3) plain url(4-7) signed _ times(4,5) r peer(2) demo_hosted_facts(1) peer(4) reg peer(1) times(1) demo_hosted_facts(4)
        refl refl peer(5) disjI2[OF demo_hosted_facts(3)] refl status _ times(6,7,2,3) refl, where nb'="''fedcba9876543210''"]
      stream by (auto simp: answer response_bytes_def)
  with r signed show ?thesis by (auto simp: alice_def)
qed

end
