(* ===== verification/Lifecycle.thy ===== *)
theory Lifecycle
  imports Daemon
begin

text \<open>
  The life of the daemon process (\<^verbatim>\<open>Run\<close>, \<^verbatim>\<open>Close\<close> and \<^verbatim>\<open>runDeliveryWorker\<close> of \<^verbatim>\<open>internal/daemon/daemon.go\<close>,
  \<^verbatim>\<open>Serve\<close> and \<^verbatim>\<open>Close\<close> of \<^verbatim>\<open>internal/ipc/server.go\<close>) as steps of its goroutines: Run, the delivery worker, the IPC server with its
  watcher, the HTTP server, and whoever calls Close. The handlers of single connections change none of this state and
  have no steps here.
\<close>

section \<open>State\<close>

datatype resource = Absent | Open | Closed
datatype worker = NoWorker | Waiting | Working | Stopped
datatype ipc_serve = IpcNone | IpcStarting | IpcServing | IpcEnded
datatype http_serve = HttpNone | HttpServing | HttpClosed | HttpFailed go_error

datatype run_pc =
  RunStart | RunWhoIs | RunKey | RunOpen | RunIdentities | RunAttachments | RunWorker | RunIpc | RunRouter | RunListen | RunServing
| RunClosing "go_error option" \<comment> \<open>calling Close before returning the result\<close>
| RunReturned "go_error option"

datatype close_pc = CloseCancel | CloseWait | CloseGateway | CloseIpc | CloseDatabase | CloseDone

text \<open>The fields that Close copies under the lock.\<close>

record close_view =
  cvCancel :: bool
  cvGateway :: bool
  cvIpc :: bool
  cvDatabase :: bool

record daemon =
  dmStatus :: daemon_state
  dmOuter :: bool              \<comment> \<open>the context given to Run is done\<close>
  dmCancelled :: bool          \<comment> \<open>the context of the run was cancelled\<close>
  dmCancelSet :: bool          \<comment> \<open>\<^verbatim>\<open>daemon.cancel\<close>\<close>
  dmRun :: run_pc
  dmDatabase :: resource
  dmWorker :: worker
  dmPasses :: "resource list"  \<comment> \<open>the database at the beginning and at the end of every delivery pass\<close>
  dmIpcServer :: bool
  dmIpcServe :: ipc_serve
  dmIpcListener :: resource
  dmIpcWatcher :: bool         \<comment> \<open>the goroutine that closes the IPC server with the context\<close>
  dmGateway :: bool
  dmListener :: resource
  dmHttp :: http_serve         \<comment> \<open>the server, and what it put into \<^verbatim>\<open>serveErr\<close>\<close>
  dmClose :: "close_pc option" \<comment> \<open>\<^verbatim>\<open>closeOnce\<close> and where its function stands\<close>
  dmView :: close_view
  dmCloseResult :: "go_error list"

definition New :: "weblib \<Rightarrow> host_env \<Rightarrow> Config \<Rightarrow> go_error + Config \<times> daemon" where
  "New W h config =
     (case Config_Validate W h config of
        Inl e \<Rightarrow> Inl e
      | Inr validated \<Rightarrow> Inr (validated,
          \<lparr>dmStatus = \<lparr>dsListening = False, dsNodeID = [], dsStableNodeID = [], dsProvider = None, dsLocalAPIReady = False, dsWhoIsReady = False\<rparr>,
           dmOuter = False, dmCancelled = False, dmCancelSet = False, dmRun = RunStart, dmDatabase = Absent, dmWorker = NoWorker, dmPasses = [],
           dmIpcServer = False, dmIpcServe = IpcNone, dmIpcListener = Absent, dmIpcWatcher = False, dmGateway = False, dmListener = Absent,
           dmHttp = HttpNone, dmClose = None, dmView = \<lparr>cvCancel = False, cvGateway = False, cvIpc = False, cvDatabase = False\<rparr>, dmCloseResult = []\<rparr>))"

text \<open>
  What Run finds: the configuration, the results of the operating system and of the constructors it calls, and the
  errors of closing (without \<^verbatim>\<open>http.ErrServerClosed\<close> and \<^verbatim>\<open>net.ErrClosed\<close>, which Close drops).
\<close>

record run_env =
  reNilContext :: bool
  reWeb :: weblib
  reHost :: host_env
  reConfig :: Config
  reMkdir :: "string \<Rightarrow> go_error option"
  reChmod :: "string \<Rightarrow> go_error option"
  reDirs :: "string \<rightharpoonup> nat"
  reWhoIs :: whois
  reKeys :: key_env
  reKeyFile :: "key_file option"
  reOpen :: "go_error option"
  reIdentities :: "go_error option"
  reAttachments :: "go_error option"
  reRouter :: "go_error option"
  reListen :: "string \<Rightarrow> go_error option"
  reIpcListen :: "go_error option"
  reCloseErrors :: "close_pc \<Rightarrow> go_error list"

definition cancelled :: "daemon \<Rightarrow> bool" where "cancelled d = (dmOuter d \<or> dmCancelled d)"

section \<open>Run\<close>

definition returns :: "go_error option \<Rightarrow> daemon \<Rightarrow> daemon" where
  \<comment> \<open>with the deferred cancel\<close>
  "returns result d = d\<lparr>dmRun := RunReturned result, dmCancelled := True\<rparr>"

definition fails :: "go_error \<Rightarrow> daemon \<Rightarrow> daemon" where
  "fails e d = d\<lparr>dmRun := RunClosing (Some e)\<rparr>"

definition Run_start :: "run_env \<Rightarrow> daemon \<Rightarrow> daemon" where
  "Run_start E d =
     (if reNilContext E then d\<lparr>dmRun := RunReturned (Some (ErrMsg ''daemon context is required''))\<rparr>
      else case EnsureDirectories (reHost E) (reMkdir E) (reChmod E) (daemon_directories (reHost E) (reConfig E)) (reDirs E) of
        (Inl e, _) \<Rightarrow> d\<lparr>dmRun := RunReturned (Some e)\<rparr>
      | (Inr _, _) \<Rightarrow> d\<lparr>dmCancelSet := True, dmStatus := (dmStatus d)\<lparr>dsProvider := Some (reWhoIs E)\<rparr>, dmRun := RunWhoIs\<rparr>)"

definition Run_whois :: "run_env \<Rightarrow> daemon \<Rightarrow> daemon" where
  "Run_whois E d =
     (case GatewayAddress (reWeb E) (reHost E) (reConfig E) of
        Inl e \<Rightarrow> returns (Some (ErrMsg ''resolve Tailscale gateway address for WhoIs'')) d
      | Inr whoIsAddress \<Rightarrow>
          (case reWhoIs E whoIsAddress of
             Inl e \<Rightarrow> returns (Some (ErrMsg ''tailscale Local API WhoIs unavailable'')) d
           | Inr localNode \<Rightarrow>
               if TrimSpace (niNodeID localNode) = [] \<and> TrimSpace (niStableNodeID localNode) = []
               then returns (Some (ErrMsg ''tailscale Local API WhoIs returned no node identity'')) d
               else d\<lparr>dmStatus := (dmStatus d)\<lparr>dsNodeID := niNodeID localNode, dsStableNodeID := niStableNodeID localNode,
                        dsLocalAPIReady := True, dsWhoIsReady := True\<rparr>, dmRun := RunKey\<rparr>))"

definition Run_listen :: "run_env \<Rightarrow> daemon \<Rightarrow> daemon" where
  "Run_listen E d =
     (case GatewayAddress (reWeb E) (reHost E) (reConfig E) of
        Inl e \<Rightarrow> fails e d
      | Inr address \<Rightarrow>
          (case reListen E address of
             Some e \<Rightarrow> fails (ErrMsg ''listen on Tailscale gateway'') d
           | None \<Rightarrow> d\<lparr>dmGateway := True, dmListener := Open, dmStatus := (dmStatus d)\<lparr>dsListening := True\<rparr>,
               dmHttp := HttpServing, dmRun := RunServing\<rparr>))"

definition close_begin :: "daemon \<Rightarrow> daemon" where
  \<comment> \<open>the first call of Close, up to the release of the lock\<close>
  "close_begin d = d\<lparr>dmStatus := (dmStatus d)\<lparr>dsListening := False\<rparr>,
     dmView := \<lparr>cvCancel = dmCancelSet d, cvGateway = dmGateway d, cvIpc = dmIpcServer d, cvDatabase = (dmDatabase d \<noteq> Absent)\<rparr>,
     dmClose := Some CloseCancel\<rparr>"

definition Run_step :: "run_env \<Rightarrow> daemon \<Rightarrow> daemon option" where
  \<comment> \<open>the next step of Run outside its final select; \<open>None\<close> when it cannot go on\<close>
  "Run_step E d =
     (case dmRun d of
        RunStart \<Rightarrow> Some (Run_start E d)
      | RunWhoIs \<Rightarrow> Some (Run_whois E d)
      | RunKey \<Rightarrow>
          map_option (\<lambda>(result, _). case result of Inl e \<Rightarrow> returns (Some e) d | Inr outboxKey \<Rightarrow> d\<lparr>dmRun := RunOpen\<rparr>)
            (loadOrCreateOutboxKey (reHost E) (reKeys E) 0 (reKeyFile E))
      | RunOpen \<Rightarrow>
          Some (case reOpen E of Some e \<Rightarrow> returns (Some e) d | None \<Rightarrow> d\<lparr>dmDatabase := Open, dmRun := RunIdentities\<rparr>)
      | RunIdentities \<Rightarrow> Some (case reIdentities E of Some e \<Rightarrow> fails e d | None \<Rightarrow> d\<lparr>dmRun := RunAttachments\<rparr>)
      | RunAttachments \<Rightarrow> Some (case reAttachments E of Some e \<Rightarrow> fails e d | None \<Rightarrow> d\<lparr>dmRun := RunWorker\<rparr>)
      | RunWorker \<Rightarrow> Some (d\<lparr>dmWorker := Waiting, dmRun := RunIpc\<rparr>)
      | RunIpc \<Rightarrow> Some (d\<lparr>dmIpcServer := True, dmIpcServe := IpcStarting, dmRun := RunRouter\<rparr>)
      | RunRouter \<Rightarrow> Some (case reRouter E of Some e \<Rightarrow> fails e d | None \<Rightarrow> d\<lparr>dmRun := RunListen\<rparr>)
      | RunListen \<Rightarrow> Some (Run_listen E d)
      | RunClosing result \<Rightarrow>
          (if dmClose d = None then Some (close_begin d)
           else if dmClose d = Some CloseDone then Some (returns result d) else None)
      | _ \<Rightarrow> None)"

definition Run_select_done :: "daemon \<Rightarrow> daemon option" where
  "Run_select_done d = (if dmRun d = RunServing \<and> dmOuter d then Some (d\<lparr>dmCancelled := True, dmRun := RunClosing None\<rparr>) else None)"

definition Run_select_error :: "daemon \<Rightarrow> daemon option" where
  "Run_select_error d =
     (if dmRun d \<noteq> RunServing then None
      else case dmHttp d of
        HttpClosed \<Rightarrow> Some (returns None d)
      | HttpFailed e \<Rightarrow> Some (d\<lparr>dmCancelled := True, dmRun := RunClosing (Some (ErrMsg ''gateway server''))\<rparr>)
      | _ \<Rightarrow> None)"

section \<open>Close\<close>

definition Close_step :: "run_env \<Rightarrow> daemon \<Rightarrow> daemon option" where
  "Close_step E d =
     (case dmClose d of
        Some CloseCancel \<Rightarrow> Some (d\<lparr>dmCancelled := dmCancelled d \<or> cvCancel (dmView d), dmClose := Some CloseWait\<rparr>)
      | Some CloseWait \<Rightarrow>
          (if dmWorker d = Waiting \<or> dmWorker d = Working then None else Some (d\<lparr>dmClose := Some CloseGateway\<rparr>))
      | Some CloseGateway \<Rightarrow>
          Some (if cvGateway (dmView d)
                then d\<lparr>dmListener := Closed, dmCloseResult := dmCloseResult d @ reCloseErrors E CloseGateway, dmClose := Some CloseIpc\<rparr>
                else d\<lparr>dmClose := Some CloseIpc\<rparr>)
      | Some CloseIpc \<Rightarrow>
          Some (if cvIpc (dmView d) \<and> dmIpcListener d = Open
                then d\<lparr>dmIpcListener := Closed, dmCloseResult := dmCloseResult d @ reCloseErrors E CloseIpc, dmClose := Some CloseDatabase\<rparr>
                else d\<lparr>dmClose := Some CloseDatabase\<rparr>)
      | Some CloseDatabase \<Rightarrow>
          Some (if cvDatabase (dmView d)
                then d\<lparr>dmDatabase := Closed, dmCloseResult := dmCloseResult d @ reCloseErrors E CloseDatabase, dmClose := Some CloseDone\<rparr>
                else d\<lparr>dmClose := Some CloseDone\<rparr>)
      | _ \<Rightarrow> None)"

section \<open>The other goroutines\<close>

definition worker_tick :: "daemon \<Rightarrow> daemon option" where
  \<comment> \<open>the ticker fires and a pass over the outbox begins\<close>
  "worker_tick d = (if dmWorker d = Waiting then Some (d\<lparr>dmWorker := Working, dmPasses := dmPasses d @ [dmDatabase d]\<rparr>) else None)"

definition worker_done :: "daemon \<Rightarrow> daemon option" where
  "worker_done d = (if dmWorker d = Working then Some (d\<lparr>dmWorker := Waiting, dmPasses := dmPasses d @ [dmDatabase d]\<rparr>) else None)"

definition worker_exit :: "daemon \<Rightarrow> daemon option" where
  "worker_exit d = (if dmWorker d = Waiting \<and> cancelled d then Some (d\<lparr>dmWorker := Stopped\<rparr>) else None)"

definition ipc_listens :: "run_env \<Rightarrow> daemon \<Rightarrow> daemon option" where
  \<comment> \<open>the error of Serve is dropped\<close>
  "ipc_listens E d =
     (if dmIpcServe d \<noteq> IpcStarting then None
      else Some (case reIpcListen E of
        Some e \<Rightarrow> d\<lparr>dmIpcServe := IpcEnded\<rparr>
      | None \<Rightarrow> d\<lparr>dmIpcListener := Open, dmIpcWatcher := True, dmIpcServe := IpcServing\<rparr>))"

definition ipc_watches :: "daemon \<Rightarrow> daemon option" where
  "ipc_watches d =
     (if dmIpcWatcher d \<and> cancelled d
      then Some (d\<lparr>dmIpcWatcher := False, dmIpcListener := (if dmIpcListener d = Open then Closed else dmIpcListener d)\<rparr>)
      else None)"

definition ipc_stops :: "bool \<Rightarrow> daemon \<Rightarrow> daemon option" where
  \<comment> \<open>Accept fails: with the closed listener, or otherwise, and then the listener stays as it is\<close>
  "ipc_stops failing d =
     (if dmIpcServe d = IpcServing \<and> (failing \<or> dmIpcListener d = Closed) then Some (d\<lparr>dmIpcServe := IpcEnded\<rparr>) else None)"

definition http_ends :: "daemon \<Rightarrow> daemon option" where
  "http_ends d = (if dmHttp d = HttpServing \<and> dmListener d = Closed then Some (d\<lparr>dmHttp := HttpClosed\<rparr>) else None)"

definition http_fails :: "go_error \<Rightarrow> daemon \<Rightarrow> daemon option" where
  "http_fails e d = (if dmHttp d = HttpServing then Some (d\<lparr>dmHttp := HttpFailed e\<rparr>) else None)"

datatype label =
  RunStep | RunDone | RunError | CloseCalled | CloseStep | OuterCancel | WorkerTick | WorkerDone | WorkerExit
| IpcListen | IpcWatch | IpcStop bool | HttpEnd | HttpFail go_error

fun daemon_step :: "run_env \<Rightarrow> label \<Rightarrow> daemon \<Rightarrow> daemon option" where
  "daemon_step E RunStep d = Run_step E d"
| "daemon_step E RunDone d = Run_select_done d"
| "daemon_step E RunError d = Run_select_error d"
| "daemon_step E CloseCalled d = (if dmClose d = None then Some (close_begin d) else None)"
| "daemon_step E CloseStep d = Close_step E d"
| "daemon_step E OuterCancel d = (if dmOuter d then None else Some (d\<lparr>dmOuter := True\<rparr>))"
| "daemon_step E WorkerTick d = worker_tick d"
| "daemon_step E WorkerDone d = worker_done d"
| "daemon_step E WorkerExit d = worker_exit d"
| "daemon_step E IpcListen d = ipc_listens E d"
| "daemon_step E IpcWatch d = ipc_watches d"
| "daemon_step E (IpcStop failing) d = ipc_stops failing d"
| "daemon_step E HttpEnd d = http_ends d"
| "daemon_step E (HttpFail e) d = http_fails e d"

fun steps :: "run_env \<Rightarrow> label list \<Rightarrow> daemon \<Rightarrow> daemon option" where
  "steps E [] d = Some d"
| "steps E (l # ls) d = (case daemon_step E l d of None \<Rightarrow> None | Some d' \<Rightarrow> steps E ls d')"

end
