(* ===== verification/LifecycleProps.thy ===== *)
theory LifecycleProps
  imports Lifecycle
begin

text \<open>
  What holds in every state the daemon can reach when Close is called by Run only, as in the program: the order of the
  shutdown, that nothing is left behind when Run returns, and that it does return.
\<close>

section \<open>Rule inversion\<close>

lemmas step_defs = Run_step_def Run_start_def Run_whois_def Run_listen_def Run_select_done_def Run_select_error_def
  Close_step_def close_begin_def returns_def fails_def worker_tick_def worker_done_def worker_exit_def ipc_listens_def
  ipc_watches_def ipc_stops_def http_ends_def http_fails_def cancelled_def

lemma Run_key_cases:
  assumes "Run_step E d = Some d'" and "dmRun d = RunKey"
  shows "(\<exists>e. d' = returns e d) \<or> d' = d\<lparr>dmRun := RunOpen\<rparr>"
proof -
  obtain result key_left where "d' = (case result of Inl e \<Rightarrow> returns (Some e) d | Inr outboxKey \<Rightarrow> d\<lparr>dmRun := RunOpen\<rparr>)"
    "loadOrCreateOutboxKey (reHost E) (reKeys E) 0 (reKeyFile E) = Some (result, key_left)"
    using assms by (auto simp: Run_step_def)
  then show ?thesis by (cases result) auto
qed

section \<open>The invariant\<close>

definition idle :: "daemon \<Rightarrow> bool" where
  "idle d = (dmWorker d = NoWorker \<and> \<not> dmIpcServer d \<and> dmIpcServe d = IpcNone \<and> dmIpcListener d = Absent \<and> \<not> dmIpcWatcher d \<and>
     dmHttp d = HttpNone \<and> \<not> dmGateway d \<and> dmListener d = Absent \<and> \<not> dsListening (dmStatus d) \<and> dmClose d = None)"

definition quiet :: "daemon \<Rightarrow> bool" where
  \<comment> \<open>the worker does not run\<close>
  "quiet d = (dmWorker d = NoWorker \<or> dmWorker d = Stopped)"

fun closing :: "close_pc \<Rightarrow> daemon \<Rightarrow> bool" where
  "closing CloseCancel d = (dmDatabase d = Open)"
| "closing CloseWait d = (dmDatabase d = Open \<and> dmCancelled d)"
| "closing CloseGateway d = (dmDatabase d = Open \<and> dmCancelled d \<and> quiet d)"
| "closing CloseIpc d = (dmDatabase d = Open \<and> dmCancelled d \<and> quiet d \<and> dmListener d \<noteq> Open)"
| "closing CloseDatabase d = (dmDatabase d = Open \<and> dmCancelled d \<and> quiet d \<and> dmListener d \<noteq> Open)"
| "closing CloseDone d = (dmDatabase d = Closed \<and> dmCancelled d \<and> quiet d \<and> dmListener d \<noteq> Open)"

definition close_inv :: "close_pc \<Rightarrow> daemon \<Rightarrow> bool" where
  "close_inv p d = (closing p d \<and> \<not> dsListening (dmStatus d) \<and> cvCancel (dmView d) \<and> cvDatabase (dmView d) \<and>
     cvGateway (dmView d) = dmGateway d)"

fun run_inv :: "run_pc \<Rightarrow> daemon \<Rightarrow> bool" where
  "run_inv RunStart d = (dmDatabase d = Absent \<and> idle d)"
| "run_inv RunWhoIs d = (dmDatabase d = Absent \<and> idle d \<and> dmCancelSet d)"
| "run_inv RunKey d = (dmDatabase d = Absent \<and> idle d \<and> dmCancelSet d)"
| "run_inv RunOpen d = (dmDatabase d = Absent \<and> idle d \<and> dmCancelSet d)"
| "run_inv RunIdentities d = (dmDatabase d = Open \<and> idle d \<and> dmCancelSet d)"
| "run_inv RunAttachments d = (dmDatabase d = Open \<and> idle d \<and> dmCancelSet d)"
| "run_inv RunWorker d = (dmDatabase d = Open \<and> idle d \<and> dmCancelSet d)"
| "run_inv RunServing d = (dmDatabase d = Open \<and> dmCancelSet d \<and> dmClose d = None \<and> dmGateway d \<and> dmListener d = Open \<and>
     dsListening (dmStatus d) \<and> dmHttp d \<noteq> HttpNone \<and> dmHttp d \<noteq> HttpClosed)"
| "run_inv (RunClosing e) d =
     (case dmClose d of None \<Rightarrow> dmDatabase d = Open \<and> dmCancelSet d | Some p \<Rightarrow> close_inv p d)"
| "run_inv (RunReturned e) d = (case dmClose d of None \<Rightarrow> dmDatabase d = Absent \<and> idle d | Some p \<Rightarrow> p = CloseDone \<and> close_inv p d)"
| "run_inv _ d = (dmDatabase d = Open \<and> dmCancelSet d \<and> dmClose d = None \<and> \<not> dmGateway d \<and> dmListener d = Absent \<and>
     dmHttp d = HttpNone \<and> \<not> dsListening (dmStatus d))"

definition daemon_inv :: "daemon \<Rightarrow> bool" where
  "daemon_inv d = (run_inv (dmRun d) d \<and> (dmListener d \<noteq> Absent \<longrightarrow> dmGateway d) \<and> (dsListening (dmStatus d) \<longrightarrow> dmListener d = Open \<and> dmDatabase d = Open) \<and>
     (\<forall>p\<in>set (dmPasses d). p = Open) \<and> (dmIpcListener d = Open \<longrightarrow> dmIpcWatcher d))"

lemma idle_update [simp]:
  "idle (d\<lparr>dmRun := p\<rparr>) = idle d" "idle (d\<lparr>dmCancelled := c\<rparr>) = idle d" "idle (d\<lparr>dmCancelSet := c\<rparr>) = idle d"
  "idle (d\<lparr>dmOuter := c\<rparr>) = idle d" "idle (d\<lparr>dmDatabase := r\<rparr>) = idle d"
  "dsListening x = dsListening (dmStatus d) \<Longrightarrow> idle (d\<lparr>dmStatus := x\<rparr>) = idle d"
  by (simp_all add: idle_def)

lemma idleD: "idle d \<Longrightarrow> dmClose d = None \<and> \<not> dsListening (dmStatus d) \<and> dmListener d = Absent \<and> dmHttp d = HttpNone \<and>
    \<not> dmGateway d \<and> dmIpcListener d = Absent \<and> dmWorker d = NoWorker"
  by (simp add: idle_def)

lemma inv_returns_early: "daemon_inv d \<Longrightarrow> dmDatabase d = Absent \<Longrightarrow> idle d \<Longrightarrow> daemon_inv (returns e d)"
  by (simp add: daemon_inv_def returns_def idleD)

lemma inv_fails: "daemon_inv d \<Longrightarrow> dmDatabase d = Open \<Longrightarrow> dmClose d = None \<Longrightarrow> dmCancelSet d \<Longrightarrow> daemon_inv (fails e d)"
  by (simp add: daemon_inv_def fails_def)

lemma inv_close_begin:
  "daemon_inv d \<Longrightarrow> dmRun d = RunClosing e \<Longrightarrow> dmClose d = None \<Longrightarrow> daemon_inv (close_begin d)"
  by (simp add: daemon_inv_def close_begin_def close_inv_def)

lemma inv_returns_closed:
  "daemon_inv d \<Longrightarrow> dmRun d = RunClosing e \<Longrightarrow> dmClose d = Some CloseDone \<Longrightarrow> daemon_inv (returns e d)"
  by (simp add: daemon_inv_def returns_def close_inv_def quiet_def)

lemma inv_RunStep:
  assumes "daemon_inv d" and "Run_step E d = Some d'"
  shows "daemon_inv d'"
proof (cases "dmRun d")
  case RunStart
  with assms have "d' = Run_start E d" "dmDatabase d = Absent" "idle d" by (simp_all add: Run_step_def daemon_inv_def)
  then show ?thesis using assms(1) by (simp add: Run_start_def daemon_inv_def idleD split: prod.split sum.split)
next
  case RunWhoIs
  with assms have d: "d' = Run_whois E d" "dmDatabase d = Absent" "idle d" "dmCancelSet d" by (simp_all add: Run_step_def daemon_inv_def)
  then show ?thesis using assms(1) inv_returns_early[OF assms(1) d(2,3)] by (simp add: Run_whois_def daemon_inv_def idleD split: sum.split)
next
  case RunKey
  with assms(1) have d: "dmDatabase d = Absent" "idle d" "dmCancelSet d" by (simp_all add: daemon_inv_def)
  have "(\<exists>e. d' = returns e d) \<or> d' = d\<lparr>dmRun := RunOpen\<rparr>" by (rule Run_key_cases[OF assms(2) RunKey])
  moreover have "daemon_inv (d\<lparr>dmRun := RunOpen\<rparr>)" using d assms(1) by (simp add: daemon_inv_def)
  ultimately show ?thesis using inv_returns_early[OF assms(1) d(1,2)] by metis
next
  case RunOpen
  with assms have d: "dmDatabase d = Absent" "idle d" "dmCancelSet d" "(\<exists>e. d' = returns e d) \<or> d' = d\<lparr>dmDatabase := Open, dmRun := RunIdentities\<rparr>"
    by (auto simp: Run_step_def daemon_inv_def split: option.splits)
  then show ?thesis using assms(1) inv_returns_early[OF assms(1) d(1,2)] by (auto simp: daemon_inv_def idleD)
next
  case RunIdentities
  with assms have d: "dmDatabase d = Open" "idle d" "dmCancelSet d" "(\<exists>e. d' = fails e d) \<or> d' = d\<lparr>dmRun := RunAttachments\<rparr>"
    by (auto simp: Run_step_def daemon_inv_def split: option.splits)
  then show ?thesis using assms(1) inv_fails[OF assms(1) d(1)] by (auto simp: daemon_inv_def idleD)
next
  case RunAttachments
  with assms have d: "dmDatabase d = Open" "idle d" "dmCancelSet d" "(\<exists>e. d' = fails e d) \<or> d' = d\<lparr>dmRun := RunWorker\<rparr>"
    by (auto simp: Run_step_def daemon_inv_def split: option.splits)
  then show ?thesis using assms(1) inv_fails[OF assms(1) d(1)] by (auto simp: daemon_inv_def idleD)
next
  case RunWorker
  with assms have "dmDatabase d = Open" "idle d" "dmCancelSet d" "d' = d\<lparr>dmWorker := Waiting, dmRun := RunIpc\<rparr>"
    by (simp_all add: Run_step_def daemon_inv_def)
  then show ?thesis using assms(1) by (simp add: daemon_inv_def idleD)
next
  case RunIpc
  with assms have "d' = d\<lparr>dmIpcServer := True, dmIpcServe := IpcStarting, dmRun := RunRouter\<rparr>" by (simp add: Run_step_def)
  then show ?thesis using assms(1) RunIpc by (simp add: daemon_inv_def)
next
  case RunRouter
  with assms have "dmDatabase d = Open" "dmCancelSet d" "dmClose d = None" "(\<exists>e. d' = fails e d) \<or> d' = d\<lparr>dmRun := RunListen\<rparr>"
    by (auto simp: Run_step_def daemon_inv_def split: option.splits)
  then show ?thesis using assms(1) inv_fails[OF assms(1)] RunRouter by (auto simp: daemon_inv_def)
next
  case RunListen
  with assms have d: "d' = Run_listen E d" "dmDatabase d = Open" "dmCancelSet d" "dmClose d = None" by (simp_all add: Run_step_def daemon_inv_def)
  then show ?thesis using assms(1) inv_fails[OF assms(1) d(2,4,3)] by (simp add: Run_listen_def daemon_inv_def split: sum.split option.split)
next
  case (RunClosing e)
  with assms have "(dmClose d = None \<and> d' = close_begin d) \<or> (dmClose d = Some CloseDone \<and> d' = returns e d)"
    by (simp add: Run_step_def split: if_splits)
  then show ?thesis using inv_close_begin[OF assms(1) RunClosing] inv_returns_closed[OF assms(1) RunClosing] by auto
qed (use assms(2) in \<open>simp_all add: Run_step_def\<close>)

lemma close_running:
  assumes "daemon_inv d" and "dmClose d = Some p"
  shows "close_inv p d" "(\<exists>e. dmRun d = RunClosing e) \<or> ((\<exists>e. dmRun d = RunReturned e) \<and> p = CloseDone)"
  using assms by (cases "dmRun d"; simp add: daemon_inv_def idleD)+

lemma working_database:
  assumes "daemon_inv d" and "dmWorker d = Waiting \<or> dmWorker d = Working"
  shows "dmDatabase d = Open"
proof (cases "dmClose d")
  case None
  then show ?thesis using assms by (cases "dmRun d") (auto simp: daemon_inv_def dest: idleD)
next
  case (Some p)
  then show ?thesis using close_running(1)[OF assms(1) Some] assms(2) by (cases p) (auto simp: close_inv_def quiet_def)
qed

lemma inv_CloseStep:
  assumes "daemon_inv d" and "Close_step E d = Some d'"
  shows "daemon_inv d'"
proof -
  obtain p where p: "dmClose d = Some p" "p \<noteq> CloseDone" using assms(2) by (cases "dmClose d"; force simp: Close_step_def)
  then obtain e where c: "close_inv p d" "dmRun d = RunClosing e" using close_running[OF assms(1) p(1)] by auto
  show ?thesis
  proof (cases p)
    case CloseCancel
    with p assms(2) c have "d' = d\<lparr>dmCancelled := True, dmClose := Some CloseWait\<rparr>" by (simp add: Close_step_def close_inv_def)
    then show ?thesis using c CloseCancel assms(1) by (simp add: daemon_inv_def close_inv_def)
  next
    case CloseWait
    with p assms(2) have "d' = d\<lparr>dmClose := Some CloseGateway\<rparr> \<and> quiet d"
      by (cases "dmWorker d") (simp_all add: Close_step_def quiet_def)
    with c CloseWait assms(1) show ?thesis by (simp add: daemon_inv_def close_inv_def quiet_def)
  next
    case CloseGateway
    with p assms(2) c have "d' = d\<lparr>dmClose := Some CloseIpc\<rparr> \<and> \<not> dmGateway d \<or> (\<exists>r. d' = d\<lparr>dmListener := Closed, dmCloseResult := r, dmClose := Some CloseIpc\<rparr>) \<and> dmGateway d"
      by (auto simp: Close_step_def close_inv_def split: if_splits)
    then show ?thesis using c CloseGateway assms(1) by (elim disjE conjE exE) (simp_all add: daemon_inv_def close_inv_def quiet_def)
  next
    case CloseIpc
    with p assms(2) c have "d' = d\<lparr>dmClose := Some CloseDatabase\<rparr> \<or> (\<exists>r. d' = d\<lparr>dmIpcListener := Closed, dmCloseResult := r, dmClose := Some CloseDatabase\<rparr>)"
      by (auto simp: Close_step_def split: if_splits)
    then show ?thesis using c CloseIpc assms(1) by (elim disjE conjE exE) (simp_all add: daemon_inv_def close_inv_def quiet_def)
  next
    case CloseDatabase
    with p assms(2) c have "\<exists>r. d' = d\<lparr>dmDatabase := Closed, dmCloseResult := r, dmClose := Some CloseDone\<rparr>"
      by (auto simp: Close_step_def close_inv_def split: if_splits)
    then show ?thesis using c CloseDatabase assms(1) by (elim disjE conjE exE) (simp_all add: daemon_inv_def close_inv_def quiet_def)
  qed (use p in simp)
qed

text \<open>The other goroutines change nothing that the phases of Run and Close speak of.\<close>

lemma run_inv_keeps:
  assumes "run_inv p d" and "dmDatabase d' = dmDatabase d" and "dmCancelSet d' = dmCancelSet d" and "dmClose d' = dmClose d"
    and "dmGateway d' = dmGateway d" and "dmListener d' = dmListener d" and "dmStatus d' = dmStatus d" and "dmCancelled d' = dmCancelled d"
    and "dmView d' = dmView d" and "idle d \<Longrightarrow> idle d'" and "quiet d \<Longrightarrow> quiet d'"
    and "dmHttp d' = dmHttp d \<or> dmHttp d \<noteq> HttpNone \<and> dmHttp d' \<noteq> HttpNone \<and> (dmListener d = Open \<longrightarrow> dmHttp d' \<noteq> HttpClosed)"
  shows "run_inv p d'"
proof -
  have "close_inv q d \<Longrightarrow> close_inv q d'" for q using assms(2-11) by (cases q) (simp_all add: close_inv_def)
  then show ?thesis using assms by (cases p) (auto split: option.splits)
qed

lemma inv_keeps:
  assumes "daemon_inv d" and "dmRun d' = dmRun d" and "dmDatabase d' = dmDatabase d" and "dmCancelSet d' = dmCancelSet d" and "dmClose d' = dmClose d"
    and "dmGateway d' = dmGateway d" and "dmListener d' = dmListener d" and "dmStatus d' = dmStatus d" and "dmCancelled d' = dmCancelled d"
    and "dmView d' = dmView d" and "idle d \<Longrightarrow> idle d'" and "quiet d \<Longrightarrow> quiet d'"
    and "dmHttp d' = dmHttp d \<or> dmHttp d \<noteq> HttpNone \<and> dmHttp d' \<noteq> HttpNone \<and> (dmListener d = Open \<longrightarrow> dmHttp d' \<noteq> HttpClosed)"
    and "\<forall>p\<in>set (dmPasses d'). p = Open" and "dmIpcListener d' = Open \<longrightarrow> dmIpcWatcher d'"
  shows "daemon_inv d'"
  using assms run_inv_keeps[of "dmRun d" d d'] by (simp add: daemon_inv_def)

lemma inv_worker:
  assumes "daemon_inv d" and "w = Waiting \<or> w = Working \<or> w = Stopped" and "dmWorker d = Waiting \<or> dmWorker d = Working"
  shows "daemon_inv (d\<lparr>dmWorker := w\<rparr>)" "daemon_inv (d\<lparr>dmWorker := w, dmPasses := dmPasses d @ [dmDatabase d]\<rparr>)"
proof -
  have n: "\<not> quiet d" "\<not> idle d" using assms(3) by (auto simp: quiet_def idle_def)
  have p: "\<forall>p\<in>set (dmPasses d). p = Open" "dmIpcListener d = Open \<longrightarrow> dmIpcWatcher d" using assms(1) by (simp_all add: daemon_inv_def)
  show "daemon_inv (d\<lparr>dmWorker := w\<rparr>)" by (rule inv_keeps[OF assms(1)]) (use n p in simp_all)
  show "daemon_inv (d\<lparr>dmWorker := w, dmPasses := dmPasses d @ [dmDatabase d]\<rparr>)"
    by (rule inv_keeps[OF assms(1)]) (use n p working_database[OF assms(1,3)] in simp_all)
qed

lemma inv_ipc:
  assumes "daemon_inv d" and "\<not> idle d" and "listener = Open \<longrightarrow> watcher"
  shows "daemon_inv (d\<lparr>dmIpcListener := listener, dmIpcWatcher := watcher, dmIpcServe := serve\<rparr>)"
proof -
  have "\<forall>p\<in>set (dmPasses d). p = Open" using assms(1) by (simp add: daemon_inv_def)
  then show ?thesis by (intro inv_keeps[OF assms(1)]) (use assms(2,3) in \<open>simp_all add: quiet_def\<close>)
qed

lemma inv_http:
  assumes "daemon_inv d" and "dmHttp d = HttpServing" and "h \<noteq> HttpNone" and "dmListener d = Open \<longrightarrow> h \<noteq> HttpClosed"
  shows "daemon_inv (d\<lparr>dmHttp := h\<rparr>)"
proof -
  have "\<forall>p\<in>set (dmPasses d). p = Open" "dmIpcListener d = Open \<longrightarrow> dmIpcWatcher d" using assms(1) by (simp_all add: daemon_inv_def)
  then show ?thesis by (intro inv_keeps[OF assms(1)]) (use assms(2-4) in \<open>simp_all add: quiet_def idle_def\<close>)
qed

lemma inv_select:
  "daemon_inv d \<Longrightarrow> Run_select_done d = Some d' \<Longrightarrow> daemon_inv d'"
  "daemon_inv d \<Longrightarrow> Run_select_error d = Some d' \<Longrightarrow> daemon_inv d'"
  by (auto simp: Run_select_done_def Run_select_error_def daemon_inv_def split: if_splits http_serve.splits)

lemma daemon_inv_step:
  assumes "daemon_inv d" and "l \<noteq> CloseCalled" and "daemon_step E l d = Some d'"
  shows "daemon_inv d'"
proof (cases l)
  case OuterCancel
  have "daemon_inv (d\<lparr>dmOuter := True\<rparr>)"
    by (rule inv_keeps[OF assms(1)]) (use assms(1) in \<open>simp_all add: daemon_inv_def quiet_def\<close>)
  with OuterCancel assms(3) show ?thesis by (simp split: if_splits)
next
  case WorkerTick
  with assms(3) inv_worker(2)[OF assms(1), of Working] show ?thesis by (simp add: worker_tick_def split: if_splits)
next
  case WorkerDone
  with assms(3) inv_worker(2)[OF assms(1), of Waiting] show ?thesis by (simp add: worker_done_def split: if_splits)
next
  case WorkerExit
  with assms(3) inv_worker(1)[OF assms(1), of Stopped] show ?thesis by (simp add: worker_exit_def split: if_splits)
next
  case IpcListen
  with assms(3) have i: "dmIpcServe d = IpcStarting" by (simp add: ipc_listens_def split: if_splits)
  then have "\<not> idle d" by (simp add: idle_def)
  note updates = inv_ipc[OF assms(1) this, of Open True IpcServing] inv_ipc[OF assms(1) this, of "dmIpcListener d" "dmIpcWatcher d" IpcEnded]
  show ?thesis
  proof (cases "reIpcListen E")
    case None
    with i IpcListen assms(3) have "d' = d\<lparr>dmIpcListener := Open, dmIpcWatcher := True, dmIpcServe := IpcServing\<rparr>" by (simp add: ipc_listens_def)
    with updates(1) show ?thesis by simp
  next
    case (Some e)
    with i IpcListen assms(3) have "d' = d\<lparr>dmIpcServe := IpcEnded\<rparr>" by (simp add: ipc_listens_def)
    with updates(2) assms(1) show ?thesis by (simp add: daemon_inv_def)
  qed
next
  case IpcWatch
  with assms(3) have w: "dmIpcWatcher d" "d' = d\<lparr>dmIpcWatcher := False, dmIpcListener := (if dmIpcListener d = Open then Closed else dmIpcListener d)\<rparr>"
    by (simp_all add: ipc_watches_def split: if_splits)
  then have "\<not> idle d" by (simp add: idle_def)
  have "d' = d\<lparr>dmIpcListener := (if dmIpcListener d = Open then Closed else dmIpcListener d), dmIpcWatcher := False, dmIpcServe := dmIpcServe d\<rparr>"
    unfolding w(2) by simp
  moreover note inv_ipc[OF assms(1) \<open>\<not> idle d\<close>, of "if dmIpcListener d = Open then Closed else dmIpcListener d" False "dmIpcServe d"]
  ultimately show ?thesis by (cases "dmIpcListener d") simp_all
next
  case (IpcStop failing)
  with assms(3) have w: "dmIpcServe d = IpcServing" "d' = d\<lparr>dmIpcServe := IpcEnded\<rparr>" by (simp_all add: ipc_stops_def split: if_splits)
  then have "\<not> idle d" by (simp add: idle_def)
  from inv_ipc[OF assms(1) this, of "dmIpcListener d" "dmIpcWatcher d" IpcEnded] w assms(1) show ?thesis by (simp add: daemon_inv_def)
next
  case HttpEnd
  with assms(3) inv_http[OF assms(1), of HttpClosed] show ?thesis by (simp add: http_ends_def split: if_splits)
next
  case (HttpFail e)
  with assms(3) inv_http[OF assms(1), of "HttpFailed e"] show ?thesis by (simp add: http_fails_def split: if_splits)
next
  case RunStep
  then show ?thesis using assms(3) inv_RunStep[OF assms(1)] by simp
next
  case RunDone
  then show ?thesis using assms(3) inv_select(1)[OF assms(1)] by simp
next
  case RunError
  then show ?thesis using assms(3) inv_select(2)[OF assms(1)] by simp
next
  case CloseStep
  then show ?thesis using assms(3) inv_CloseStep[OF assms(1)] by simp
qed (use assms(2) in simp)

text \<open>A step of the program, in which Close is called by Run alone; a step that is not possible changes nothing.\<close>

definition own_step :: "run_env \<Rightarrow> label \<Rightarrow> daemon \<Rightarrow> daemon" where
  "own_step E l d = (case (if l = CloseCalled then None else daemon_step E l d) of None \<Rightarrow> d | Some d' \<Rightarrow> d')"

interpretation life: invariant_steps "own_step E" daemon_inv for E
  by unfold_locales (use daemon_inv_step in \<open>auto simp: own_step_def split: option.split\<close>)

lemma steps_run: "CloseCalled \<notin> set ls \<Longrightarrow> steps E ls d = Some d' \<Longrightarrow> d' = run (own_step E) ls d"
  by (induction ls arbitrary: d) (auto simp: own_step_def split: option.splits)

lemma daemon_inv_steps: "daemon_inv d \<Longrightarrow> CloseCalled \<notin> set ls \<Longrightarrow> steps E ls d = Some d' \<Longrightarrow> daemon_inv d'"
  using life.inv_run steps_run by blast

lemma inv_New: "New W h config = Inr (validated, d) \<Longrightarrow> daemon_inv d \<and> \<not> dmOuter d"
  by (auto simp: New_def daemon_inv_def idle_def split: sum.splits)

section \<open>The shutdown\<close>

text \<open>
  C22. In every state that the daemon can reach while Close is called by Run alone: when the database is closed, no delivery pass
  runs and none can begin, the gateway does not listen and the run was cancelled; every delivery pass began and ended with an open database; the
  status says that the gateway listens only while it does, with the database open; and once Run has returned, no worker, gateway listener
  or open database is left, and a local socket that is still open is about to be closed by its watcher.
\<close>

theorem shutdown_ordered:
  assumes "New W h config = Inr (validated, start)" and "CloseCalled \<notin> set ls" and "steps E ls start = Some d"
  shows "(dmDatabase d = Closed \<longrightarrow> quiet d \<and> worker_tick d = None \<and> dmListener d \<noteq> Open \<and> cancelled d) \<and>
    (\<forall>p\<in>set (dmPasses d). p = Open) \<and>
    (dsListening (dmStatus d) \<longrightarrow> dmListener d = Open \<and> dmDatabase d = Open) \<and>
    (dmRun d = RunReturned e \<longrightarrow> dmDatabase d \<noteq> Open \<and> quiet d \<and> dmListener d \<noteq> Open \<and>
       (dmIpcListener d = Open \<longrightarrow> ipc_watches d \<noteq> None))"
proof -
  have inv: "daemon_inv d" using daemon_inv_steps[OF _ assms(2,3)] inv_New[OF assms(1)] by blast
  have closed: "dmClose d = Some CloseDone" if "dmDatabase d = Closed"
  proof (cases "dmClose d")
    case None
    with inv that show ?thesis by (cases "dmRun d") (simp_all add: daemon_inv_def)
  next
    case (Some p)
    with close_running(1)[OF inv Some] that show ?thesis by (cases p) (simp_all add: close_inv_def)
  qed
  have finished: "quiet d \<and> dmListener d \<noteq> Open \<and> dmCancelled d \<and> dmDatabase d = Closed" if "dmClose d = Some CloseDone"
    using close_running(1)[OF inv that] by (simp add: close_inv_def)
  have "dmDatabase d \<noteq> Open \<and> quiet d \<and> dmListener d \<noteq> Open \<and> (dmIpcListener d = Open \<longrightarrow> ipc_watches d \<noteq> None)"
    if r: "dmRun d = RunReturned e"
  proof (cases "dmClose d")
    case None
    with inv r have "dmDatabase d = Absent" "idle d" by (simp_all add: daemon_inv_def)
    then show ?thesis using idleD by (simp add: quiet_def)
  next
    case (Some p)
    with inv r have "p = CloseDone" by (simp add: daemon_inv_def)
    then show ?thesis using finished[unfolded Some] inv by (simp add: ipc_watches_def cancelled_def daemon_inv_def)
  qed
  then show ?thesis using closed finished inv by (auto simp: daemon_inv_def cancelled_def worker_tick_def quiet_def)
qed

section \<open>Run returns\<close>

fun run_left :: "run_pc \<Rightarrow> nat" where
  "run_left RunStart = 60" | "run_left RunWhoIs = 55" | "run_left RunKey = 50" | "run_left RunOpen = 45" | "run_left RunIdentities = 40"
| "run_left RunAttachments = 35" | "run_left RunWorker = 30" | "run_left RunIpc = 25" | "run_left RunRouter = 20" | "run_left RunListen = 15"
| "run_left RunServing = 10" | "run_left (RunClosing _) = 5" | "run_left (RunReturned _) = 0"

fun close_left :: "close_pc option \<Rightarrow> nat" where
  "close_left None = 6" | "close_left (Some CloseCancel) = 5" | "close_left (Some CloseWait) = 4" | "close_left (Some CloseGateway) = 3"
| "close_left (Some CloseIpc) = 2" | "close_left (Some CloseDatabase) = 1" | "close_left (Some CloseDone) = 0"

fun ipc_left :: "ipc_serve \<Rightarrow> nat" where
  "ipc_left IpcNone = 3" | "ipc_left IpcStarting = 3" | "ipc_left IpcServing = 1" | "ipc_left IpcEnded = 0"

definition rank :: "daemon \<Rightarrow> nat" where
  \<comment> \<open>a bound for the steps that are left, the delivery passes apart\<close>
  "rank d = run_left (dmRun d) + close_left (dmClose d) + ipc_left (dmIpcServe d) + of_bool (dmIpcWatcher d) +
     of_bool (dmWorker d \<noteq> Stopped) + of_bool (dmHttp d = HttpServing) + of_bool (\<not> dmOuter d)"

definition pass_label :: "label \<Rightarrow> bool" where "pass_label l = (l = WorkerTick \<or> l = WorkerDone)"

lemma rank_less:
  "run_left p < run_left (dmRun d) \<Longrightarrow> rank (d\<lparr>dmRun := p\<rparr>) < rank d" "close_left c < close_left (dmClose d) \<Longrightarrow> rank (d\<lparr>dmClose := c\<rparr>) < rank d"
  "0 < run_left (dmRun d) \<Longrightarrow> rank (returns e d) < rank d" "5 < run_left (dmRun d) \<Longrightarrow> rank (fails e' d) < rank d"
  by (simp_all add: rank_def returns_def fails_def)

lemma rank_Run:
  assumes "Run_step E d = Some d'"
  shows "rank d' < rank d"
proof (cases "dmRun d")
  case RunStart
  with assms have "d' = Run_start E d" by (simp add: Run_step_def)
  with RunStart show ?thesis by (simp add: Run_start_def rank_def split: prod.split sum.split)
next
  case RunWhoIs
  with assms have "d' = Run_whois E d" by (simp add: Run_step_def)
  with RunWhoIs show ?thesis by (simp add: Run_whois_def rank_less(3) split: sum.split) (simp add: rank_def)
next
  case RunKey
  with Run_key_cases[OF assms] show ?thesis by (auto simp: rank_less)
next
  case RunOpen
  with assms have "d' = (case reOpen E of Some e \<Rightarrow> returns (Some e) d | None \<Rightarrow> d\<lparr>dmDatabase := Open, dmRun := RunIdentities\<rparr>)" by (simp add: Run_step_def)
  with RunOpen show ?thesis by (cases "reOpen E") (simp_all add: rank_less, simp add: rank_def)
next
  case RunIdentities
  with assms have "d' = (case reIdentities E of Some e \<Rightarrow> fails e d | None \<Rightarrow> d\<lparr>dmRun := RunAttachments\<rparr>)" by (simp add: Run_step_def)
  with RunIdentities show ?thesis by (cases "reIdentities E") (simp_all add: rank_less)
next
  case RunAttachments
  with assms have "d' = (case reAttachments E of Some e \<Rightarrow> fails e d | None \<Rightarrow> d\<lparr>dmRun := RunWorker\<rparr>)" by (simp add: Run_step_def)
  with RunAttachments show ?thesis by (cases "reAttachments E") (simp_all add: rank_less)
next
  case RunWorker
  with assms have "d' = d\<lparr>dmWorker := Waiting, dmRun := RunIpc\<rparr>" by (simp add: Run_step_def)
  with RunWorker show ?thesis by (simp add: rank_def)
next
  case RunIpc
  with assms have "d' = d\<lparr>dmIpcServer := True, dmIpcServe := IpcStarting, dmRun := RunRouter\<rparr>" by (simp add: Run_step_def)
  with RunIpc show ?thesis by (simp add: rank_def)
next
  case RunRouter
  with assms have "d' = (case reRouter E of Some e \<Rightarrow> fails e d | None \<Rightarrow> d\<lparr>dmRun := RunListen\<rparr>)" by (simp add: Run_step_def)
  with RunRouter show ?thesis by (cases "reRouter E") (simp_all add: rank_less)
next
  case RunListen
  with assms have "d' = Run_listen E d" by (simp add: Run_step_def)
  moreover have "rank (d\<lparr>dmGateway := True, dmListener := Open, dmStatus := v, dmHttp := HttpServing, dmRun := RunServing\<rparr>) < rank d" for v
    using RunListen by (simp add: rank_def)
  ultimately show ?thesis using RunListen rank_less(4)[of d] by (simp add: Run_listen_def split: sum.split option.split)
next
  case (RunClosing e)
  with assms have "(dmClose d = None \<and> d' = close_begin d) \<or> d' = returns e d" by (simp add: Run_step_def split: if_splits)
  moreover have "rank (close_begin d) < rank d" if "dmClose d = None" using that by (simp add: close_begin_def rank_def)
  ultimately show ?thesis using RunClosing rank_less(3)[of d e] by auto
qed (use assms in \<open>simp_all add: Run_step_def\<close>)

lemma rank_Close: "Close_step E d \<noteq> None \<Longrightarrow> rank (the (Close_step E d)) < rank d"
proof (cases "dmClose d")
  case (Some p)
  then show "Close_step E d \<noteq> None \<Longrightarrow> rank (the (Close_step E d)) < rank d"
    by (cases p) (simp_all add: Close_step_def rank_def split: if_split_asm)
qed (simp add: Close_step_def)

lemma rank_goroutines:
  "Run_select_done d \<noteq> None \<Longrightarrow> rank (the (Run_select_done d)) < rank d"
  "worker_exit d \<noteq> None \<Longrightarrow> rank (the (worker_exit d)) < rank d"
  "ipc_watches d \<noteq> None \<Longrightarrow> rank (the (ipc_watches d)) < rank d"
  "http_ends d \<noteq> None \<Longrightarrow> rank (the (http_ends d)) < rank d" "http_fails e d \<noteq> None \<Longrightarrow> rank (the (http_fails e d)) < rank d"
  "worker_tick d \<noteq> None \<Longrightarrow> rank (the (worker_tick d)) = rank d" "worker_done d \<noteq> None \<Longrightarrow> rank (the (worker_done d)) = rank d"
  by (simp_all add: rank_def Run_select_done_def worker_tick_def worker_done_def worker_exit_def ipc_watches_def
      http_ends_def http_fails_def split: if_split_asm)

lemma rank_ipc_stops: "ipc_stops failing d \<noteq> None \<Longrightarrow> rank (the (ipc_stops failing d)) < rank d"
  by (cases "failing \<or> dmIpcListener d = Closed") (simp_all add: ipc_stops_def rank_def split: if_split_asm)

lemma rank_select_error: "Run_select_error d \<noteq> None \<Longrightarrow> rank (the (Run_select_error d)) < rank d"
  by (cases "dmHttp d") (simp_all add: Run_select_error_def returns_def rank_def split: if_split_asm)

lemma rank_ipc_listens: "ipc_listens E d \<noteq> None \<Longrightarrow> rank (the (ipc_listens E d)) < rank d"
  by (cases "reIpcListen E") (simp_all add: ipc_listens_def rank_def split: if_split_asm)

lemma rank_step:
  assumes "daemon_step E l d = Some d'"
  shows "rank d' \<le> rank d \<and> (\<not> pass_label l \<longrightarrow> rank d' < rank d)"
proof -
  have d: "d' = the (daemon_step E l d)" "daemon_step E l d \<noteq> None" using assms by simp_all
  show ?thesis
  proof (cases l)
    case CloseCalled
    with d show ?thesis by (simp add: close_begin_def rank_def split: if_split_asm)
  next
    case OuterCancel
    with d show ?thesis by (simp add: rank_def split: if_split_asm)
  next
    case RunStep
    with assms rank_Run[of E d d'] show ?thesis by simp
  next
    case CloseStep
    with d rank_Close[of E d] show ?thesis by simp
  next
    case RunError
    with d rank_select_error[of d] show ?thesis by simp
  next
    case IpcListen
    with d rank_ipc_listens[of E d] show ?thesis by simp
  qed (use d in \<open>simp_all add: pass_label_def rank_goroutines rank_ipc_stops less_imp_le\<close>)
qed

lemma rank_steps: "steps E ls d = Some d' \<Longrightarrow> rank d' + length (filter (\<lambda>l. \<not> pass_label l) ls) \<le> rank d"
proof (induction ls arbitrary: d)
  case (Cons l ls)
  then obtain d1 where "daemon_step E l d = Some d1" "steps E ls d1 = Some d'" by (auto split: option.splits)
  with Cons.IH rank_step[of E l d d1] show ?case by fastforce
qed simp

text \<open>Progress: with the context done, some goroutine can go on until Run has returned.\<close>

definition left :: "daemon \<Rightarrow> nat" where "left d = 2 * rank d + of_bool (dmWorker d = Working)"

lemma left_step:
  assumes "daemon_step E l d = Some d'" and "l \<noteq> WorkerTick"
  shows "left d' < left d"
proof (cases "l = WorkerDone")
  case True
  with assms(1) have "dmWorker d = Working" "dmWorker d' = Waiting" "rank d' \<le> rank d"
    using rank_step[OF assms(1)] by (auto simp: worker_done_def split: if_splits)
  then show ?thesis by (simp add: left_def)
next
  case False
  then have "rank d' < rank d" using rank_step[OF assms(1)] assms(2) by (simp add: pass_label_def)
  then show ?thesis by (simp add: left_def of_bool_def)
qed

lemma outer_kept: "daemon_step E l d = Some d' \<Longrightarrow> dmOuter d \<Longrightarrow> dmOuter d'"
proof -
  assume d: "daemon_step E l d = Some d'" "dmOuter d"
  have "dmOuter d'" if r: "Run_step E d = Some d'"
  proof (cases "dmRun d = RunKey")
    case True
    then show ?thesis using Run_key_cases[OF r True] d(2) by (auto simp: returns_def)
  next
    case False
    then show ?thesis
      using r d(2) by (cases "dmRun d") (auto simp: Run_step_def Run_start_def Run_whois_def Run_listen_def returns_def fails_def close_begin_def
        split: if_splits option.splits sum.splits prod.splits)
  qed
  moreover have "Close_step E d = Some d' \<Longrightarrow> dmOuter d'"
    using d(2) by (cases "dmClose d"; cases "the (dmClose d)") (auto simp: Close_step_def split: if_splits)
  ultimately show ?thesis using d
    by (cases l) (auto simp: Run_select_done_def Run_select_error_def returns_def close_begin_def worker_tick_def worker_done_def worker_exit_def
        ipc_listens_def ipc_watches_def ipc_stops_def http_ends_def http_fails_def split: if_splits option.splits http_serve.splits)
qed

lemma outbox_key_returns: "loadOrCreateOutboxKey h K n key \<noteq> None"
proof -
  have found: "loadOrCreateOutboxKey h K n (Some f) \<noteq> None" for n f
    by (subst loadOrCreateOutboxKey.simps) (simp split: option.split)
  show ?thesis
  proof (cases key)
    case None
    then show ?thesis using found by (subst loadOrCreateOutboxKey.simps) (simp add: Let_def split: option.split prod.split)
  qed (use found in simp)
qed

lemma shutdown_progress:
  assumes "daemon_inv d" and "dmOuter d" and "\<nexists>e. dmRun d = RunReturned e"
  shows "\<exists>l d'. l \<noteq> CloseCalled \<and> l \<noteq> WorkerTick \<and> daemon_step E l d = Some d'"
proof (cases "\<exists>e. dmRun d = RunClosing e")
  case True
  then obtain e where r: "dmRun d = RunClosing e" by blast
  show ?thesis
  proof (cases "dmClose d = None \<or> dmClose d = Some CloseDone")
    case True
    with r have "Run_step E d \<noteq> None" by (auto simp: Run_step_def)
    then show ?thesis by (intro exI[of _ RunStep]) auto
  next
    case False
    then obtain p where p: "dmClose d = Some p" "p \<noteq> CloseDone" by auto
    show ?thesis
    proof (cases "p = CloseWait \<and> (dmWorker d = Waiting \<or> dmWorker d = Working)")
      case True
      then show ?thesis using assms(2)
        by (cases "dmWorker d")
          (auto simp: worker_done_def worker_exit_def cancelled_def intro: exI[of _ WorkerDone] exI[of _ WorkerExit])
    next
      case False
      then have "Close_step E d \<noteq> None" using p by (cases p) (auto simp: Close_step_def)
      then show ?thesis by (intro exI[of _ CloseStep]) auto
    qed
  qed
next
  case False
  show ?thesis
  proof (cases "dmRun d = RunServing")
    case True
    with assms(2) have "Run_select_done d \<noteq> None" by (simp add: Run_select_done_def)
    then show ?thesis by (intro exI[of _ RunDone]) auto
  next
    case other: False
    have "Run_step E d \<noteq> None" using False other assms(3) outbox_key_returns by (cases "dmRun d") (auto simp: Run_step_def)
    then show ?thesis by (intro exI[of _ RunStep]) auto
  qed
qed

lemma shutdown_reaches:
  "daemon_inv d \<Longrightarrow> dmOuter d \<Longrightarrow>
     \<exists>ls d' e. CloseCalled \<notin> set ls \<and> steps E ls d = Some d' \<and> dmRun d' = RunReturned e"
proof (induction "left d" arbitrary: d rule: less_induct)
  case less
  show ?case
  proof (cases "\<exists>e. dmRun d = RunReturned e")
    case True
    then show ?thesis by (intro exI[of _ "[]"]) auto
  next
    case False
    then obtain l d1 where l: "l \<noteq> CloseCalled" "l \<noteq> WorkerTick" "daemon_step E l d = Some d1"
      using shutdown_progress[OF less.prems] by blast
    then obtain ls d' e where "CloseCalled \<notin> set ls" "steps E ls d1 = Some d'" "dmRun d' = RunReturned e"
      using less.hyps[OF left_step[OF l(3,2)] daemon_inv_step[OF less.prems(1) l(1,3)] outer_kept[OF l(3) less.prems(2)]] by blast
    with l show ?thesis by (intro exI[of _ "l # ls"]) auto
  qed
qed

text \<open>
  C23. Once its context is done, Run returns: from every state that the daemon can reach the goroutines can go on until Run has
  returned, whatever fails on the way, so no wait of the shutdown can block for good; and no run has more than 80 steps, the delivery passes
  apart.
\<close>

theorem run_returns:
  assumes "New W h config = Inr (validated, start)" and "CloseCalled \<notin> set ls" and "steps E ls start = Some d"
    and "dmOuter d"
  shows "(\<exists>ls' d' e. CloseCalled \<notin> set ls' \<and> steps E ls' d = Some d' \<and> dmRun d' = RunReturned e) \<and>
    length (filter (\<lambda>l. \<not> pass_label l) ls) \<le> 80"
proof -
  have inv: "daemon_inv d" using daemon_inv_steps[OF _ assms(2,3)] inv_New[OF assms(1)] by blast
  have "rank start \<le> 80" using assms(1) by (auto simp: New_def rank_def split: sum.splits)
  then show ?thesis using shutdown_reaches[OF inv assms(4)] rank_steps[OF assms(3)] by simp
qed

section \<open>Concrete runs\<close>

definition demo_weblib :: weblib where
  "demo_weblib = \<lparr>url_Parse = (\<lambda>_. None), LookupIP = (\<lambda>_. None), netip_ParseAddr = (\<lambda>_. Some ([100, 64, 0, 7], [])), netip_ParsePrefix = (\<lambda>_. None)\<rparr>"

definition demo_config :: Config where
  "demo_config = (DefaultConfig demo_host ''/d'')\<lparr>cfgTailscaleBindIP := ''100.64.0.7''\<rparr>"

definition demo_run_env :: run_env where
  "demo_run_env = \<lparr>reNilContext = False, reWeb = demo_weblib, reHost = demo_host, reConfig = demo_config,
     reMkdir = (\<lambda>_. None), reChmod = (\<lambda>_. None), reDirs = (\<lambda>_. None),
     reWhoIs = (\<lambda>_. Inr \<lparr>niNodeID = ''n'', niStableNodeID = ''s'', niNodeName = [], niUserID = [], niLoginName = [], niAddresses = []\<rparr>),
     reKeys = \<lparr>ky_lstat = (\<lambda>_. None), ky_read = (\<lambda>_. None), ky_random = (\<lambda>_. replicate 32 (CHR ''k'')), ky_meanwhile = (\<lambda>_. None),
       ky_create = (\<lambda>_. None), ky_write = (\<lambda>_. None), ky_close = (\<lambda>_. None)\<rparr>,
     reKeyFile = None, reOpen = None, reIdentities = None, reAttachments = None, reRouter = None, reListen = (\<lambda>_. None), reIpcListen = None,
     reCloseErrors = (\<lambda>_. [])\<rparr>"

lemma demo_trim: "TrimSpace ''/d'' = ''/d''" "TrimSpace ''100.64.0.7'' = ''100.64.0.7''" "TrimSpace ''dev'' = ''dev''" "TrimSpace ''n'' = ''n''"
  "TrimSpace ''/var/run/tailscale/tailscaled.sock'' = ''/var/run/tailscale/tailscaled.sock''"
  by (rule TrimSpace_visible; simp add: visible_def byte_def)+

lemma demo_bind: "ValidateBindAddress demo_weblib DefaultAddressPolicy ''100.64.0.7'' = Inr ([100, 64, 0, 7], [])"
proof -
  have "ok (ValidateBindAddress demo_weblib DefaultAddressPolicy ''100.64.0.7'')"
    by (subst bind_address_accepted[of _ _ "[100, 64, 0, 7]" "[]"]) (simp_all add: demo_weblib_def Unmap_def To4_def)
  then show ?thesis by (auto simp: ValidateBindAddress_def demo_weblib_def Unmap_def To4_def Let_def split: if_splits)
qed

lemma demo_New: "\<exists>validated. New demo_weblib demo_host demo_config = Inr (validated, snd (projr (New demo_weblib demo_host demo_config)))"
proof -
  have "\<exists>v. Config_Validate demo_weblib demo_host demo_config = Inr v"
    by (simp add: Config_Validate_def config_paths_def demo_config_def DefaultConfig_def demo_trim demo_bind demo_host_def
        defaultTailscaleLocalAPISocket_def validTailscaleLocalAPIEndpoint_def DefaultGatewayPort_def Let_def)
  then show ?thesis by (auto simp: New_def)
qed

definition demo_start :: daemon where
  "demo_start = snd (projr (New demo_weblib demo_host demo_config))"

lemma demo_directories:
  "EnsureDirectories demo_host (\<lambda>_. None) (\<lambda>_. None) ds dirs = (Inr (), snd (EnsureDirectories demo_host (\<lambda>_. None) (\<lambda>_. None) ds dirs))"
  by (induction ds arbitrary: dirs) (auto simp: Let_def)

lemma demo_address: "\<exists>a. GatewayAddress demo_weblib demo_host demo_config = Inr a"
  by (simp add: GatewayAddress_def BindAddress_def demo_config_def demo_bind)

lemma demo_key: "\<exists>file'. loadOrCreateOutboxKey demo_host (reKeys demo_run_env) 0 None = Some (Inr (replicate 32 (CHR ''k'')), file')"
  by (subst loadOrCreateOutboxKey.simps) (simp add: demo_run_env_def Let_def)

lemma demo_env_simps:
  "reNilContext demo_run_env = False" "reWeb demo_run_env = demo_weblib" "reHost demo_run_env = demo_host" "reConfig demo_run_env = demo_config"
  "reMkdir demo_run_env = (\<lambda>_. None)" "reChmod demo_run_env = (\<lambda>_. None)" "reKeyFile demo_run_env = None" "reOpen demo_run_env = None"
  "reIdentities demo_run_env = None" "reAttachments demo_run_env = None" "reRouter demo_run_env = None" "reListen demo_run_env a = None"
  "reIpcListen demo_run_env = None" "reCloseErrors demo_run_env p = []"
  "reWhoIs demo_run_env a = Inr \<lparr>niNodeID = ''n'', niStableNodeID = ''s'', niNodeName = [], niUserID = [], niLoginName = [], niAddresses = []\<rparr>"
  by (simp_all add: demo_run_env_def)

lemma demo_Run_start: "Run_start demo_run_env d =
    d\<lparr>dmCancelSet := True, dmStatus := (dmStatus d)\<lparr>dsProvider := Some (reWhoIs demo_run_env)\<rparr>, dmRun := RunWhoIs\<rparr>"
  using demo_directories[of "daemon_directories demo_host demo_config" "reDirs demo_run_env"]
  by (cases "EnsureDirectories demo_host (\<lambda>_. None) (\<lambda>_. None) (daemon_directories demo_host demo_config) (reDirs demo_run_env)")
    (simp add: Run_start_def demo_env_simps)

lemma demo_Run_key: "dmRun d = RunKey \<Longrightarrow> Run_step demo_run_env d = Some (d\<lparr>dmRun := RunOpen\<rparr>)"
  using demo_key by (auto simp: Run_step_def demo_env_simps)

lemma demo_Run_whois: "Run_whois demo_run_env d = d\<lparr>dmStatus := (dmStatus d)\<lparr>dsNodeID := ''n'', dsStableNodeID := ''s'',
    dsLocalAPIReady := True, dsWhoIsReady := True\<rparr>, dmRun := RunKey\<rparr>"
  using demo_address by (auto simp: Run_whois_def demo_env_simps demo_trim)

lemma demo_Run_listen: "Run_listen demo_run_env d = d\<lparr>dmGateway := True, dmListener := Open, dmStatus := (dmStatus d)\<lparr>dsListening := True\<rparr>,
    dmHttp := HttpServing, dmRun := RunServing\<rparr>"
  using demo_address by (auto simp: Run_listen_def demo_env_simps)

text \<open>The startup up to the opening of the database, and the rest of it.\<close>

definition startup_labels :: "label list" where "startup_labels = replicate 4 RunStep"
definition service_labels :: "label list" where "service_labels = replicate 6 RunStep"

lemma demo_opened:
  "\<exists>v. steps demo_run_env startup_labels demo_start = Some (demo_start\<lparr>dmCancelSet := True, dmStatus := v, dmDatabase := Open, dmRun := RunIdentities\<rparr>) \<and> \<not> dsListening v"
proof -
  have start: "dmRun demo_start = RunStart" "\<not> dsListening (dmStatus demo_start)" using demo_New by (auto simp: demo_start_def New_def split: sum.splits)
  have one: "Run_step demo_run_env demo_start = Some (Run_start demo_run_env demo_start)" by (simp add: Run_step_def start)
  have two: "dmRun d = RunWhoIs \<Longrightarrow> Run_step demo_run_env d = Some (Run_whois demo_run_env d)" for d by (simp add: Run_step_def)
  have four: "dmRun d = RunOpen \<Longrightarrow> Run_step demo_run_env d = Some (d\<lparr>dmDatabase := Open, dmRun := RunIdentities\<rparr>)" for d
    by (simp add: Run_step_def demo_env_simps)
  show ?thesis
    by (simp add: startup_labels_def numeral_eq_Suc one two demo_Run_key four demo_Run_start demo_Run_whois start)
      (rule exI, rule conjI, rule refl, simp add: start)
qed

lemma demo_serves:
  assumes "dmRun d = RunIdentities"
  shows "\<exists>v. steps demo_run_env service_labels d = Some (d\<lparr>dmWorker := Waiting, dmIpcServer := True, dmIpcServe := IpcStarting,
      dmGateway := True, dmListener := Open, dmStatus := v, dmHttp := HttpServing, dmRun := RunServing\<rparr>) \<and> dsListening v"
  using assms by (simp add: service_labels_def numeral_eq_Suc Run_step_def demo_env_simps demo_Run_listen)
    (rule exI, rule conjI, rule refl, simp)

lemma steps_append: "steps E (xs @ ys) d = (case steps E xs d of None \<Rightarrow> None | Some d' \<Rightarrow> steps E ys d')"
  by (induction xs arbitrary: d) (auto split: option.splits)

definition shutdown_labels :: "label list" where
  "shutdown_labels = [WorkerTick, WorkerDone, OuterCancel, RunDone, RunStep, CloseStep, WorkerExit, CloseStep, CloseStep, CloseStep, CloseStep, RunStep]"

lemma demo_run:
  "\<exists>d. steps demo_run_env (startup_labels @ service_labels @ shutdown_labels) demo_start = Some d \<and> dmRun d = RunReturned None \<and>
     dmPasses d = [Open, Open] \<and> dmOuter d"
proof -
  have start: "dmPasses demo_start = []" "dmClose demo_start = None" "\<not> dmOuter demo_start" "dmIpcListener demo_start = Absent"
    using demo_New by (auto simp: demo_start_def New_def split: sum.splits)
  obtain v where v: "steps demo_run_env startup_labels demo_start =
      Some (demo_start\<lparr>dmCancelSet := True, dmStatus := v, dmDatabase := Open, dmRun := RunIdentities\<rparr>)"
    using demo_opened by blast
  obtain w where "steps demo_run_env service_labels (demo_start\<lparr>dmCancelSet := True, dmStatus := v, dmDatabase := Open, dmRun := RunIdentities\<rparr>) =
      Some (demo_start\<lparr>dmCancelSet := True, dmDatabase := Open, dmWorker := Waiting, dmIpcServer := True, dmIpcServe := IpcStarting,
        dmGateway := True, dmListener := Open, dmStatus := w, dmHttp := HttpServing, dmRun := RunServing\<rparr>)"
    using demo_serves[of "demo_start\<lparr>dmCancelSet := True, dmStatus := v, dmDatabase := Open, dmRun := RunIdentities\<rparr>"] by auto
  with v show ?thesis
    by (simp add: steps_append shutdown_labels_def worker_tick_def worker_done_def worker_exit_def Run_select_done_def Run_step_def
        close_begin_def Close_step_def cancelled_def returns_def demo_env_simps start)
qed

lemma demo_labels: "CloseCalled \<notin> set (startup_labels @ service_labels @ shutdown_labels)"
  by (simp add: startup_labels_def service_labels_def shutdown_labels_def)

theorem shutdown_ordered_witness:
  "\<exists>d. steps demo_run_env (startup_labels @ service_labels @ shutdown_labels) demo_start = Some d \<and> dmRun d = RunReturned None \<and>
     dmPasses d \<noteq> [] \<and> (\<forall>p\<in>set (dmPasses d). p = Open) \<and> dmDatabase d \<noteq> Open \<and> dmListener d \<noteq> Open \<and> quiet d"
proof -
  obtain validated where new: "New demo_weblib demo_host demo_config = Inr (validated, demo_start)" using demo_New by (auto simp: demo_start_def)
  from demo_run obtain d where "steps demo_run_env (startup_labels @ service_labels @ shutdown_labels) demo_start = Some d"
    "dmRun d = RunReturned None" "dmPasses d = [Open, Open]" by blast
  with shutdown_ordered[OF new demo_labels this(1), of None] show ?thesis by auto
qed

theorem run_returns_witness:
  "\<exists>d. steps demo_run_env (startup_labels @ service_labels @ shutdown_labels) demo_start = Some d \<and>
     (\<exists>ls d' e. CloseCalled \<notin> set ls \<and> steps demo_run_env ls d = Some d' \<and> dmRun d' = RunReturned e) \<and>
     length (filter (\<lambda>l. \<not> pass_label l) (startup_labels @ service_labels @ shutdown_labels)) \<le> 80"
proof -
  obtain validated where new: "New demo_weblib demo_host demo_config = Inr (validated, demo_start)" using demo_New by (auto simp: demo_start_def)
  from demo_run obtain d where d: "steps demo_run_env (startup_labels @ service_labels @ shutdown_labels) demo_start = Some d" "dmOuter d" by blast
  from run_returns[OF new demo_labels d] d show ?thesis by blast
qed

text \<open>
  When somebody else calls Close while Run still starts, for example from the opening of the database on, the call uses up
  \<^verbatim>\<open>closeOnce\<close>: Run goes on, listens and serves with a closed database, and when its context is done it returns with the
  gateway still listening.
\<close>

lemma early_close_leaks:
  "\<exists>d d'. steps demo_run_env (startup_labels @ CloseCalled # replicate 5 CloseStep @ service_labels) demo_start = Some d \<and>
     dmRun d = RunServing \<and> dmDatabase d = Closed \<and> dsListening (dmStatus d) \<and>
     steps demo_run_env [OuterCancel, RunDone, RunStep] d = Some d' \<and> dmRun d' = RunReturned None \<and> dmListener d' = Open"
proof -
  have start: "dmClose demo_start = None" "\<not> dmOuter demo_start" "\<not> dmGateway demo_start" "\<not> dmIpcServer demo_start" "dmWorker demo_start = NoWorker"
    using demo_New by (auto simp: demo_start_def New_def split: sum.splits)
  obtain v where v: "steps demo_run_env startup_labels demo_start =
      Some (demo_start\<lparr>dmCancelSet := True, dmStatus := v, dmDatabase := Open, dmRun := RunIdentities\<rparr>)"
    using demo_opened by blast
  obtain d where d: "steps demo_run_env (CloseCalled # replicate 5 CloseStep) (demo_start\<lparr>dmCancelSet := True, dmStatus := v, dmDatabase := Open, dmRun := RunIdentities\<rparr>) = Some d"
    "dmRun d = RunIdentities" "dmDatabase d = Closed" "dmClose d = Some CloseDone" "\<not> dmOuter d"
    by (simp add: numeral_eq_Suc close_begin_def Close_step_def demo_env_simps start)
  obtain w where w: "steps demo_run_env service_labels d = Some (d\<lparr>dmWorker := Waiting, dmIpcServer := True, dmIpcServe := IpcStarting,
      dmGateway := True, dmListener := Open, dmStatus := w, dmHttp := HttpServing, dmRun := RunServing\<rparr>)" "dsListening w"
    using demo_serves[OF d(2)] by blast
  have "steps demo_run_env (startup_labels @ (CloseCalled # replicate 5 CloseStep) @ service_labels) demo_start =
      Some (d\<lparr>dmWorker := Waiting, dmIpcServer := True, dmIpcServe := IpcStarting,
      dmGateway := True, dmListener := Open, dmStatus := w, dmHttp := HttpServing, dmRun := RunServing\<rparr>)"
    using v d(1) w(1) by (simp only: steps_append option.case)
  then show ?thesis using w(2) d(3-5) by (simp add: Run_select_done_def Run_step_def returns_def)
qed

end
