(* ===== verification/Schema.thy ===== *)
theory Schema
  imports Model
begin

text \<open>
  Opening the database (\<^verbatim>\<open>Open\<close>, \<^verbatim>\<open>OpenWithKey\<close>, \<^verbatim>\<open>migrate\<close> and \<^verbatim>\<open>ensureColumn\<close> of
  \<^verbatim>\<open>internal/store/store.go\<close>): the tables as the code declares them, and what the migration makes of a database of an
  older version. Of SQLite this needs that a statement for an existing table or index does nothing, and that a column is
  added at the end. The order of an index (descending) is left out.
\<close>

section \<open>Databases and statements\<close>

text \<open>A table is its columns with their declarations, and the columns of its primary key where that is declared apart.\<close>

type_synonym table = "(string \<times> string) list \<times> string list"

record database =
  dbTables :: "string \<rightharpoonup> table"
  dbIndexes :: "string \<rightharpoonup> string \<times> string list"

datatype statement = Pragma string | CreateTable string table | CreateIndex string string "string list"

fun exec_statement :: "statement \<Rightarrow> database \<Rightarrow> go_error + database" where
  "exec_statement (Pragma p) db = Inr db"
| "exec_statement (CreateTable name t) db =
     Inr (if dbTables db name = None then db\<lparr>dbTables := (dbTables db)(name \<mapsto> t)\<rparr> else db)"
| "exec_statement (CreateIndex name on columns) db =
     (if dbIndexes db name \<noteq> None then Inr db
      else case dbTables db on of
        None \<Rightarrow> Inl (ErrMsg ''no such table'')
      | Some (cols, pk) \<Rightarrow>
          if list_all (\<lambda>c. c \<in> fst ` set cols) columns then Inr (db\<lparr>dbIndexes := (dbIndexes db)(name \<mapsto> (on, columns))\<rparr>)
          else Inl (ErrMsg ''no such column''))"

section \<open>The schema\<close>

definition quotes :: string where "quotes = [CHR 0x27, CHR 0x27]"

definition contacts_table :: table where
  "contacts_table = ([(''local_agent_id'', ''TEXT NOT NULL''),
     (''remote_agent_id'', ''TEXT NOT NULL''),
     (''remote_node_id'', ''TEXT NOT NULL DEFAULT '' @ quotes),
     (''remote_endpoint'', ''TEXT NOT NULL DEFAULT '' @ quotes),
     (''remote_binding'', ''TEXT NOT NULL DEFAULT '' @ quotes),
     (''remote_host_fingerprint'', ''TEXT NOT NULL''),
     (''remote_agent_fingerprint'', ''TEXT NOT NULL''),
     (''state'', ''TEXT NOT NULL''),
     (''created_at'', ''INTEGER NOT NULL''),
     (''updated_at'', ''INTEGER NOT NULL'')], [''local_agent_id'', ''remote_agent_id''])"

definition agent_registrations_table :: table where
  "agent_registrations_table = ([(''agent_id'', ''TEXT PRIMARY KEY''),
     (''display_name'', ''TEXT NOT NULL''),
     (''local_endpoint'', ''TEXT NOT NULL''),
     (''agent_card_json'', ''BLOB NOT NULL''),
     (''identity_public_key'', ''BLOB NOT NULL''),
     (''capability_public_key'', ''BLOB NOT NULL DEFAULT X'' @ quotes),
     (''capability_generation'', ''INTEGER NOT NULL DEFAULT 0''),
     (''registration_token_hash'', ''BLOB NOT NULL''),
     (''created_at'', ''INTEGER NOT NULL''),
     (''updated_at'', ''INTEGER NOT NULL'')], [])"

definition pairing_requests_table :: table where
  "pairing_requests_table = ([(''id'', ''TEXT NOT NULL''),
     (''local_agent_id'', ''TEXT NOT NULL''),
     (''remote_agent_id'', ''TEXT NOT NULL''),
     (''remote_host_fingerprint'', ''TEXT NOT NULL''),
     (''remote_agent_fingerprint'', ''TEXT NOT NULL''),
     (''secret_hash'', ''BLOB NOT NULL''),
     (''expires_at'', ''INTEGER NOT NULL''),
     (''consumed_at'', ''INTEGER''),
     (''created_at'', ''INTEGER NOT NULL'')], [''id'', ''local_agent_id''])"

definition pairing_sessions_table :: table where
  "pairing_sessions_table = ([(''invite_id'', ''TEXT NOT NULL''),
     (''local_agent_id'', ''TEXT NOT NULL''),
     (''remote_agent_id'', ''TEXT NOT NULL''),
     (''role'', ''TEXT NOT NULL''),
     (''local_host_fingerprint'', ''TEXT NOT NULL''),
     (''remote_host_fingerprint'', ''TEXT NOT NULL''),
     (''remote_agent_public_key'', ''BLOB''),
     (''invite_digest'', ''TEXT NOT NULL''),
     (''acceptance_digest'', ''TEXT NOT NULL''),
     (''confirmation_digest'', ''TEXT NOT NULL''),
     (''expires_at'', ''INTEGER NOT NULL''),
     (''created_at'', ''INTEGER NOT NULL''),
     (''updated_at'', ''INTEGER NOT NULL'')], [''invite_id'', ''local_agent_id''])"

definition outbox_messages_table :: table where
  "outbox_messages_table = ([(''message_id'', ''TEXT PRIMARY KEY''),
     (''idempotency_key'', ''TEXT NOT NULL UNIQUE''),
     (''source_agent_id'', ''TEXT NOT NULL''),
     (''target_agent_id'', ''TEXT NOT NULL''),
     (''context_id'', ''TEXT NOT NULL''),
     (''payload'', ''BLOB NOT NULL''),
     (''state'', ''TEXT NOT NULL''),
     (''attempt_count'', ''INTEGER NOT NULL''),
     (''next_attempt_at'', ''INTEGER NOT NULL''),
     (''created_at'', ''INTEGER NOT NULL''),
     (''updated_at'', ''INTEGER NOT NULL'')], [])"

definition deduplication_records_table :: table where
  "deduplication_records_table = ([(''target_agent_id'', ''TEXT NOT NULL''),
     (''message_id'', ''TEXT NOT NULL''),
     (''task_id'', ''TEXT NOT NULL''),
     (''created_at'', ''INTEGER NOT NULL'')], [''target_agent_id'', ''message_id''])"

definition scoped_deduplication_records_table :: table where
  "scoped_deduplication_records_table = ([(''source_agent_id'', ''TEXT NOT NULL''),
     (''target_agent_id'', ''TEXT NOT NULL''),
     (''agent_key_epoch'', ''INTEGER NOT NULL''),
     (''message_id'', ''TEXT NOT NULL''),
     (''task_id'', ''TEXT NOT NULL''),
     (''response_status'', ''INTEGER NOT NULL DEFAULT 0''),
     (''response_type'', ''TEXT NOT NULL DEFAULT '' @ quotes),
     (''response_body'', ''BLOB NOT NULL DEFAULT X'' @ quotes),
     (''created_at'', ''INTEGER NOT NULL'')], [''source_agent_id'', ''target_agent_id'', ''agent_key_epoch'', ''message_id''])"

definition delivery_receipts_table :: table where
  "delivery_receipts_table = ([(''message_id'', ''TEXT NOT NULL''),
     (''target_agent_id'', ''TEXT NOT NULL''),
     (''remote_receipt_id'', ''TEXT NOT NULL''),
     (''delivered_at'', ''INTEGER NOT NULL'')], [''message_id'', ''target_agent_id''])"

definition task_index_table :: table where
  "task_index_table = ([(''task_id'', ''TEXT PRIMARY KEY''),
     (''context_id'', ''TEXT NOT NULL''),
     (''local_agent_id'', ''TEXT NOT NULL''),
     (''remote_agent_id'', ''TEXT NOT NULL''),
     (''state'', ''TEXT NOT NULL''),
     (''cursor'', ''TEXT NOT NULL''),
     (''updated_at'', ''INTEGER NOT NULL'')], [])"

definition inbox_messages_table :: table where
  "inbox_messages_table = ([(''target_agent_id'', ''TEXT NOT NULL''),
     (''source_agent_id'', ''TEXT NOT NULL''),
     (''message_id'', ''TEXT NOT NULL''),
     (''context_id'', ''TEXT NOT NULL''),
     (''body'', ''BLOB NOT NULL''),
     (''state'', ''TEXT NOT NULL''),
     (''received_at'', ''INTEGER NOT NULL''),
     (''read_at'', ''INTEGER'')], [''target_agent_id'', ''source_agent_id'', ''message_id''])"

definition audit_entries_table :: table where
  "audit_entries_table = ([(''id'', ''TEXT PRIMARY KEY''),
     (''actor_agent_id'', ''TEXT NOT NULL''),
     (''remote_agent_id'', ''TEXT NOT NULL''),
     (''action'', ''TEXT NOT NULL''),
     (''outcome'', ''TEXT NOT NULL''),
     (''request_id'', ''TEXT NOT NULL''),
     (''created_at'', ''INTEGER NOT NULL'')], [])"

definition replay_nonces_table :: table where
  "replay_nonces_table = ([(''local_agent_id'', ''TEXT NOT NULL''),
     (''remote_agent_id'', ''TEXT NOT NULL''),
     (''nonce'', ''TEXT NOT NULL''),
     (''expires_at'', ''INTEGER NOT NULL''),
     (''created_at'', ''INTEGER NOT NULL'')], [''local_agent_id'', ''remote_agent_id'', ''nonce''])"

definition attachment_grants_table :: table where
  "attachment_grants_table = ([(''grant_id'', ''TEXT PRIMARY KEY''),
     (''blob_id'', ''TEXT NOT NULL''),
     (''owner_agent_id'', ''TEXT NOT NULL''),
     (''target_agent_id'', ''TEXT NOT NULL''),
     (''context_id'', ''TEXT NOT NULL''),
     (''digest'', ''TEXT NOT NULL''),
     (''size'', ''INTEGER NOT NULL''),
     (''expires_at'', ''INTEGER NOT NULL''),
     (''revoked_at'', ''INTEGER''),
     (''created_at'', ''INTEGER NOT NULL''),
     (''updated_at'', ''INTEGER NOT NULL'')], [])"

definition statements :: "statement list" where
  "statements =
    [Pragma ''journal_mode = WAL'',
     Pragma ''foreign_keys = ON'',
     CreateTable ''contacts'' contacts_table,
     CreateTable ''agent_registrations'' agent_registrations_table,
     CreateTable ''pairing_requests'' pairing_requests_table,
     CreateTable ''pairing_sessions'' pairing_sessions_table,
     CreateTable ''outbox_messages'' outbox_messages_table,
     CreateTable ''deduplication_records'' deduplication_records_table,
     CreateTable ''scoped_deduplication_records'' scoped_deduplication_records_table,
     CreateTable ''delivery_receipts'' delivery_receipts_table,
     CreateTable ''task_index'' task_index_table,
     CreateTable ''inbox_messages'' inbox_messages_table,
     CreateIndex ''inbox_messages_unread_idx'' ''inbox_messages'' [''target_agent_id'', ''state'', ''received_at''],
     CreateTable ''audit_entries'' audit_entries_table,
     CreateTable ''replay_nonces'' replay_nonces_table,
     CreateTable ''attachment_grants'' attachment_grants_table,
     CreateIndex ''attachment_grants_contact_idx'' ''attachment_grants'' [''owner_agent_id'', ''target_agent_id'', ''revoked_at'', ''expires_at'']]"

definition contact_columns :: "(string \<times> string) list" where
  "contact_columns =
    [(''remote_node_id'', ''TEXT NOT NULL DEFAULT '' @ quotes),
     (''remote_endpoint'', ''TEXT NOT NULL DEFAULT '' @ quotes),
     (''remote_binding'', ''TEXT NOT NULL DEFAULT '' @ quotes),
     (''capability_public_key'', ''BLOB NOT NULL DEFAULT X'' @ quotes),
     (''capability_generation'', ''INTEGER NOT NULL DEFAULT 0'')]"

definition response_columns :: "(string \<times> string) list" where
  "response_columns =
    [(''response_status'', ''INTEGER NOT NULL DEFAULT 0''),
     (''response_type'', ''TEXT NOT NULL DEFAULT '' @ quotes),
     (''response_body'', ''BLOB NOT NULL DEFAULT X'' @ quotes)]"

section \<open>Migration\<close>

text \<open>Errors of the database besides those of the statements themselves: opening it, a statement, reading the columns of a table, adding a column.\<close>

record migration_env =
  mg_open :: "go_error option"
  mg_exec :: "statement \<Rightarrow> go_error option"
  mg_inspect :: "string \<times> string \<Rightarrow> go_error option"
  mg_add :: "string \<times> string \<Rightarrow> go_error option"

fun exec_statements :: "migration_env \<Rightarrow> statement list \<Rightarrow> database \<Rightarrow> (go_error, unit, database) outcome" where
  "exec_statements E [] db = (Inr (), db)"
| "exec_statements E (statement # rest) db =
     (case mg_exec E statement of
        Some e \<Rightarrow> (Inl e, db)
      | None \<Rightarrow> (case exec_statement statement db of Inl e \<Rightarrow> (Inl e, db) | Inr db \<Rightarrow> exec_statements E rest db))"

definition columns_of :: "string \<Rightarrow> database \<Rightarrow> string list" where
  \<comment> \<open>\<^verbatim>\<open>PRAGMA table_info\<close>: no rows for a table that does not exist\<close>
  "columns_of name db = (case dbTables db name of None \<Rightarrow> [] | Some (cols, pk) \<Rightarrow> map fst cols)"

definition ensureColumn :: "migration_env \<Rightarrow> string \<Rightarrow> string \<times> string \<Rightarrow> database \<Rightarrow> (go_error, unit, database) outcome" where
  "ensureColumn E name column db =
     (case mg_inspect E (name, fst column) of
        Some e \<Rightarrow> (Inl e, db)
      | None \<Rightarrow>
          if fst column \<in> set (columns_of name db) then (Inr (), db)
          else (case (mg_add E (name, fst column), dbTables db name) of
                  (Some e, _) \<Rightarrow> (Inl e, db)
                | (None, None) \<Rightarrow> (Inl (ErrMsg ''no such table''), db)
                | (None, Some (cols, pk)) \<Rightarrow> (Inr (), db\<lparr>dbTables := (dbTables db)(name \<mapsto> (cols @ [column], pk))\<rparr>)))"

fun ensure_columns :: "migration_env \<Rightarrow> string \<Rightarrow> (string \<times> string) list \<Rightarrow> database \<Rightarrow> (go_error, unit, database) outcome" where
  "ensure_columns E name [] db = (Inr (), db)"
| "ensure_columns E name (column # rest) db = and_then (ensureColumn E name column db) (\<lambda>_. ensure_columns E name rest)"

definition migrate :: "migration_env \<Rightarrow> database \<Rightarrow> (go_error, unit, database) outcome" where
  "migrate E db =
     and_then (exec_statements E statements db) (\<lambda>_ db.
       and_then (ensure_columns E ''contacts'' contact_columns db) (\<lambda>_.
         ensure_columns E ''scoped_deduplication_records'' response_columns))"

record opened_store =
  stPath :: string
  stKey :: "bytes option"  \<comment> \<open>the static key of the provider\<close>

definition open_store :: "migration_env \<Rightarrow> string \<Rightarrow> bytes option \<Rightarrow> database \<Rightarrow> (go_error, opened_store, database) outcome" where
  "open_store E file_path key db =
     (case mg_open E of
        Some e \<Rightarrow> (Inl e, db)
      | None \<Rightarrow> and_then (migrate E db) (\<lambda>_ db. (Inr \<lparr>stPath = file_path, stKey = key\<rparr>, db)))"

definition Open_store :: "migration_env \<Rightarrow> string \<Rightarrow> database \<Rightarrow> (go_error, opened_store, database) outcome" where
  "Open_store E file_path db = open_store E file_path None db"

definition OpenWithKey :: "migration_env \<Rightarrow> string \<Rightarrow> bytes option \<Rightarrow> database \<Rightarrow> (go_error, opened_store, database) outcome" where
  "OpenWithKey E file_path provider db =
     (case provider of
        None \<Rightarrow> (Inl (ErrMsg ''outbox key provider is required''), db)
      | Some key \<Rightarrow> open_store E file_path (Some key) db)"

section \<open>What a migration leaves\<close>

fun created :: "statement list \<Rightarrow> (string \<times> table) list" where
  "created [] = []"
| "created (CreateTable name t # rest) = (name, t) # created rest"
| "created (_ # rest) = created rest"

lemma exec_statements_tables:
  "exec_statements E ss db = (Inr (), db') \<Longrightarrow>
     dbTables db' name = (case dbTables db name of Some t \<Rightarrow> Some t | None \<Rightarrow> map_of (created ss) name)"
proof (induction ss arbitrary: db)
  case (Cons s ss)
  then obtain db1 where "exec_statement s db = Inr db1" "exec_statements E ss db1 = (Inr (), db')"
    by (auto split: option.splits sum.splits)
  then show ?case using Cons.IH[of db1] by (cases s) (auto split: option.splits if_splits prod.splits)
qed (simp split: option.split)

fun present :: "database \<Rightarrow> statement \<Rightarrow> bool" where
  "present db (Pragma p) = True"
| "present db (CreateTable name t) = (dbTables db name \<noteq> None)"
| "present db (CreateIndex name on columns) = (dbIndexes db name \<noteq> None)"

lemma exec_present: "exec_statement s db = Inr db' \<Longrightarrow> present db' s \<and> (\<forall>s'. present db s' \<longrightarrow> present db' s')"
proof -
  assume s: "exec_statement s db = Inr db'"
  have "present db' s'" if "s' = s \<or> present db s'" for s'
    using s that by (cases s; cases s') (auto split: if_splits option.splits prod.splits)
  then show ?thesis by blast
qed

lemma exec_statements_present: "exec_statements E ss db = (Inr (), db') \<Longrightarrow> list_all (present db') ss \<and> (\<forall>s. present db s \<longrightarrow> present db' s)"
proof (induction ss arbitrary: db)
  case (Cons s ss)
  then obtain db1 where "exec_statement s db = Inr db1" "exec_statements E ss db1 = (Inr (), db')"
    by (auto split: option.splits sum.splits)
  then show ?case using Cons.IH[of db1] exec_present[of s db db1] by auto
qed simp

lemma exec_statements_again: "list_all (present db) ss \<Longrightarrow> \<forall>s. mg_exec E s = None \<Longrightarrow> exec_statements E ss db = (Inr (), db)"
proof (induction ss)
  case (Cons s ss)
  then show ?case by (cases s) auto
qed simp

lemma ensureColumn_spec:
  assumes "ensureColumn E name c db = (Inr (), db')"
  shows "\<exists>cols added pk. dbTables db name = Some (cols, pk) \<and> db' = db\<lparr>dbTables := (dbTables db)(name \<mapsto> (cols @ added, pk))\<rparr> \<and>
    set added \<subseteq> {c} \<and> fst c \<in> fst ` set (cols @ added)"
proof (cases "fst c \<in> set (columns_of name db)")
  case True
  then obtain cols pk where t: "dbTables db name = Some (cols, pk)" "fst c \<in> fst ` set cols"
    by (cases "dbTables db name") (auto simp: columns_of_def)
  then have "(dbTables db)(name \<mapsto> (cols @ [], pk)) = dbTables db" by auto
  moreover have "db' = db" using assms True by (simp add: ensureColumn_def split: option.splits)
  ultimately show ?thesis using t by (intro exI[of _ cols] exI[of _ "[]"] exI[of _ pk]) simp
next
  case False
  with assms obtain cols pk where "dbTables db name = Some (cols, pk)" "db' = db\<lparr>dbTables := (dbTables db)(name \<mapsto> (cols @ [c], pk))\<rparr>"
    by (auto simp: ensureColumn_def split: option.splits)
  then show ?thesis by (intro exI[of _ cols] exI[of _ "[c]"] exI[of _ pk]) simp
qed

lemma ensure_columns_spec:
  assumes "ensure_columns E name cs db = (Inr (), db')" and "dbTables db name = Some (cols, pk)"
  shows "\<exists>added. db' = db\<lparr>dbTables := (dbTables db)(name \<mapsto> (cols @ added, pk))\<rparr> \<and> set added \<subseteq> set cs \<and>
    fst ` set cs \<subseteq> fst ` set (cols @ added)"
  using assms
proof (induction cs arbitrary: db cols)
  case Nil
  then have "(dbTables db)(name \<mapsto> (cols, pk)) = dbTables db" "db' = db" by auto
  then show ?case by (intro exI[of _ "[]"]) simp
next
  case (Cons c cs)
  then obtain db1 where e: "ensureColumn E name c db = (Inr (), db1)" "ensure_columns E name cs db1 = (Inr (), db')"
    by (auto simp: and_then_returns)
  then obtain new where n: "db1 = db\<lparr>dbTables := (dbTables db)(name \<mapsto> (cols @ new, pk))\<rparr>" "set new \<subseteq> {c}" "fst c \<in> fst ` set (cols @ new)"
    using ensureColumn_spec[OF e(1)] Cons.prems(2) by auto
  have there: "dbTables db1 name = Some (cols @ new, pk)" by (simp add: n(1))
  obtain added where "db' = db1\<lparr>dbTables := (dbTables db1)(name \<mapsto> ((cols @ new) @ added, pk))\<rparr>" "set added \<subseteq> set cs"
    "fst ` set cs \<subseteq> fst ` set ((cols @ new) @ added)"
    using Cons.IH[OF e(2) there] by blast
  then have a: "db' = db\<lparr>dbTables := (dbTables db)(name \<mapsto> (cols @ (new @ added), pk))\<rparr>" "set added \<subseteq> set cs"
    "fst ` set cs \<subseteq> fst ` set (cols @ (new @ added))"
    by (simp_all add: n(1) fun_upd_def cong: if_cong)
  moreover have "set (new @ added) \<subseteq> set (c # cs)" using a(2) n(2) by auto
  moreover have "fst ` set (c # cs) \<subseteq> fst ` set (cols @ (new @ added))" using a(3) n(3) by auto
  ultimately show ?case by blast
qed

lemma ensure_columns_again:
  "\<forall>c. mg_inspect E c = None \<Longrightarrow> fst ` set cs \<subseteq> set (columns_of name db) \<Longrightarrow> ensure_columns E name cs db = (Inr (), db)"
  by (induction cs) (auto simp: ensureColumn_def)

lemma created_statements:
  "map_of (created statements) ''contacts'' = Some contacts_table"
  "map_of (created statements) ''scoped_deduplication_records'' = Some scoped_deduplication_records_table"
  by (simp_all add: statements_def)

definition no_errors :: "migration_env \<Rightarrow> bool" where
  "no_errors E = (mg_open E = None \<and> (\<forall>s. mg_exec E s = None) \<and> (\<forall>c. mg_inspect E c = None) \<and> (\<forall>c. mg_add E c = None))"

definition table_before :: "database \<Rightarrow> string \<Rightarrow> table option" where
  \<comment> \<open>the table as the database has it, or as the code declares it\<close>
  "table_before db name = (case dbTables db name of Some t \<Rightarrow> Some t | None \<Rightarrow> map_of (created statements) name)"

lemma migrate_spec:
  assumes "migrate E db = (Inr (), db')"
  obtains cols pk added cols' pk' added' where
    "table_before db ''contacts'' = Some (cols, pk)" "set added \<subseteq> set contact_columns" "fst ` set contact_columns \<subseteq> fst ` set (cols @ added)"
    "table_before db ''scoped_deduplication_records'' = Some (cols', pk')" "set added' \<subseteq> set response_columns"
    "fst ` set response_columns \<subseteq> fst ` set (cols' @ added')"
    "dbTables db' = (table_before db)(''contacts'' \<mapsto> (cols @ added, pk), ''scoped_deduplication_records'' \<mapsto> (cols' @ added', pk'))"
    "list_all (present db') statements"
proof -
  obtain db1 db2 where m: "exec_statements E statements db = (Inr (), db1)" "ensure_columns E ''contacts'' contact_columns db1 = (Inr (), db2)"
    "ensure_columns E ''scoped_deduplication_records'' response_columns db2 = (Inr (), db')"
    using assms by (auto simp: migrate_def and_then_returns)
  have tables: "dbTables db1 = table_before db" using exec_statements_tables[OF m(1)] by (simp add: table_before_def fun_eq_iff)
  obtain cols pk where c: "table_before db ''contacts'' = Some (cols, pk)"
    using created_statements(1) by (cases "dbTables db ''contacts''"; cases "contacts_table") (auto simp: table_before_def)
  obtain cols' pk' where c': "table_before db ''scoped_deduplication_records'' = Some (cols', pk')"
    using created_statements(2) by (cases "dbTables db ''scoped_deduplication_records''"; cases "scoped_deduplication_records_table") (auto simp: table_before_def)
  obtain added where a: "db2 = db1\<lparr>dbTables := (dbTables db1)(''contacts'' \<mapsto> (cols @ added, pk))\<rparr>" "set added \<subseteq> set contact_columns"
    "fst ` set contact_columns \<subseteq> fst ` set (cols @ added)"
    using ensure_columns_spec[OF m(2)] c tables by auto
  obtain added' where a': "db' = db2\<lparr>dbTables := (dbTables db2)(''scoped_deduplication_records'' \<mapsto> (cols' @ added', pk'))\<rparr>" "set added' \<subseteq> set response_columns"
    "fst ` set response_columns \<subseteq> fst ` set (cols' @ added')"
    using ensure_columns_spec[OF m(3), of cols' pk'] c' tables a(1) by auto
  have "present db1 s \<Longrightarrow> present db' s" for s by (cases s) (auto simp: a(1) a'(1))
  then have "list_all (present db') statements" using exec_statements_present[OF m(1)] by (simp add: list_all_iff)
  moreover have "dbTables db' = (table_before db)(''contacts'' \<mapsto> (cols @ added, pk), ''scoped_deduplication_records'' \<mapsto> (cols' @ added', pk'))"
    by (simp add: a(1) a'(1) tables)
  ultimately show thesis using that[OF c a(2,3) c' a'(2,3)] by blast
qed


definition quiet_env :: migration_env where
  "quiet_env = \<lparr>mg_open = None, mg_exec = (\<lambda>_. None), mg_inspect = (\<lambda>_. None), mg_add = (\<lambda>_. None)\<rparr>"

definition old_database :: database where
  "old_database = \<lparr>dbTables = [''agent_registrations'' \<mapsto> ([(''agent_id'', ''TEXT PRIMARY KEY'')], [])], dbIndexes = (\<lambda>_. None)\<rparr>"


end
