(* ===== verification/Management.thy ===== *)
theory Management
  imports ManagementTypes
begin

text \<open>
  \<^verbatim>\<open>internal/management/handler.go\<close>: the methods the daemon serves over its local socket. Each handler runs on
  the state of all services; every early return is a branch, and an error wrapped around
  \<^verbatim>\<open>ipc.ErrInvalidRequest\<close> is \<^const>\<open>ErrInvalidRequest\<close>.
\<close>

section \<open>Authentication\<close>

definition authenticateMethod ::
  "ipc_env \<Rightarrow> string \<Rightarrow> string \<Rightarrow> string \<Rightarrow> string \<Rightarrow> mstate \<Rightarrow> go_error + unit" where
  "authenticateMethod E agentID registrationToken sessionToken method st =
     (if sessionToken = []
      then (case Authenticate (ieP E) agentID registrationToken (mStore st) of Inl e \<Rightarrow> Inl e | Inr _ \<Rightarrow> Inr ())
      else case mSessions st sessionToken of
             None \<Rightarrow> Inl ErrExpired
           | Some session \<Rightarrow>
               (case GetAgentRegistration agentID (mStore st) of
                  Inl e \<Rightarrow> Inl e
                | Inr registration \<Rightarrow> Validate session agentID (arCapabilityGeneration registration) method (ieClk E 0)))"

section \<open>Messages\<close>

definition zero_message :: OutboxMessage where
  "zero_message = \<lparr>omMessageID = [], omIdempotencyKey = [], omSourceAgentID = [], omTargetAgentID = [], omContextID = [],
     omPayload = [], omState = OutboxStatePending, omAttemptCount = 0, omNextAttemptAt = zero_time,
     omCreatedAt = zero_time, omUpdatedAt = zero_time\<rparr>"

definition task_message :: "OutboxState \<Rightarrow> gotime \<Rightarrow> TaskIndex \<Rightarrow> OutboxMessage" where
  \<comment> \<open>a task shown as a message\<close>
  "task_message state updatedAt task = zero_message\<lparr>omMessageID := tiTaskID task, omContextID := tiContextID task,
     omSourceAgentID := tiLocalAgentID task, omTargetAgentID := tiRemoteAgentID task, omState := state,
     omUpdatedAt := updatedAt\<rparr>"

definition sendMessage :: "ipc_env \<Rightarrow> MessageSendParams \<Rightarrow> OutboxMessage mop" where
  "sendMessage E params st =
     (if smSourceAgentID params = [] \<or> smTargetAgentID params = [] \<or> smPayload params = [] \<or>
         (smRegistrationToken params = [] \<and> smCapabilitySession params = [])
      then (Inl ErrInvalidRequest, st)
      else
      and_then (as_invalid (authenticateMethod E (smSourceAgentID params) (smRegistrationToken params)
          (smCapabilitySession params) ''message.send'' st), st) (\<lambda>_ st.
      case GetContact (smSourceAgentID params) (smTargetAgentID params) (mStore st) of
        Inl _ \<Rightarrow> (Inl ErrInvalidRequest, st)
      | Inr contact \<Rightarrow>
      if cState contact \<noteq> ContactStateActive then (Inl ErrInvalidRequest, st)
      else
      let messageID = (if smMessageID params = [] then ieUuid E 0 else smMessageID params);
          contextID = (if smContextID params = [] then ieUuid E 1 else smContextID params);
          message = zero_message\<lparr>omMessageID := messageID,
            omIdempotencyKey := smSourceAgentID params @ '':'' @ smTargetAgentID params @ '':'' @ messageID,
            omSourceAgentID := smSourceAgentID params, omTargetAgentID := smTargetAgentID params,
            omContextID := contextID, omPayload := smPayload params, omState := OutboxStatePending,
            omNextAttemptAt := ieClk E 1\<rparr>
      in case GetOutbox (ieP E) messageID (mStore st) of
           Inr existing \<Rightarrow>
             if omSourceAgentID existing \<noteq> smSourceAgentID params \<or> omTargetAgentID existing \<noteq> smTargetAgentID params
             then (Inl ErrInvalidRequest, st) else (Inr existing, st)
         | Inl _ \<Rightarrow>
             and_then (on_store (EnqueueOutbox (ieP E) (ieClk E 2) (ieRnd E 0) message) st) (\<lambda>_ st.
             (GetOutbox (ieP E) messageID (mStore st), st))))"

definition messageStatus :: "ipc_env \<Rightarrow> MessageStatusParams \<Rightarrow> OutboxMessage mop" where
  "messageStatus E params st =
     and_then (as_invalid (authenticateMethod E (msSourceAgentID params) (msRegistrationToken params)
         (msCapabilitySession params) ''message.status'' st), st) (\<lambda>_ st.
     case GetOutbox (ieP E) (msMessageID params) (mStore st) of
       Inl err \<Rightarrow>
         if err = ErrNotFound
         then (case GetTaskIndex (msMessageID params) (mStore st) of
                 Inl _ \<Rightarrow> (Inl err, st)
               | Inr task \<Rightarrow> (Inr (task_message OutboxStateDelivered (tiUpdatedAt task) task), st))
         else (Inl err, st)
     | Inr message \<Rightarrow>
         if omSourceAgentID message \<noteq> msSourceAgentID params then (Inl ErrInvalidRequest, st) else (Inr message, st))"

definition request_cancel :: "gotime \<Rightarrow> TaskIndex \<Rightarrow> unit mop" where
  "request_cancel now task = on_store (UpsertTaskIndex now (task\<lparr>tiState := ''cancel_requested''\<rparr>))"

definition cancelMessage :: "ipc_env \<Rightarrow> MessageCancelParams \<Rightarrow> OutboxMessage mop" where
  "cancelMessage E params st =
     and_then (messageStatus E params st) (\<lambda>message st.
     case on_store (CancelOutbox (ieClk E 1) (omMessageID message)) st of
       (Inr _, st) \<Rightarrow> (GetOutbox (ieP E) (omMessageID message) (mStore st), st)
     | (Inl err, st) \<Rightarrow>
         (case (err = ErrNotFound \<or> err = ErrInvalidState, GetTaskIndex (omMessageID message) (mStore st)) of
            (True, Inr task) \<Rightarrow>
              and_then (request_cancel (ieClk E 2) task st) (\<lambda>_ st.
              (Inr (task_message OutboxStateCancelled
                 (if err = ErrNotFound then ieClk E 3 else tiUpdatedAt task) task), st))
          | _ \<Rightarrow> (Inl err, st)))"

section \<open>Status and agents\<close>

definition handleStatus :: "ipc_env \<Rightarrow> RuntimeStatus" where
  "handleStatus E = (case ieStatus E of
     Some status \<Rightarrow> status
   | None \<Rightarrow> \<lparr>rtVersion = ''dev'', rtTailscaleAddress = [], rtTailscaleNodeID = [], rtTailscaleStableNodeID = [],
       rtTailscaleLoggedIn = False, rtTailscaleLocalAPIReady = False, rtTailscaleWhoIsReady = False,
       rtHostFingerprint = [], rtGatewayListening = False\<rparr>)"

definition registerAgent :: "ipc_env \<Rightarrow> AgentRegisterParams \<Rightarrow> AgentRegisterResult mop" where
  "registerAgent E params st =
     (let agentIdentity = Generate (ieP E) (ieRnd E 0) (rpAgentID params);
          capabilityKey = GenerateKey (ieRnd E 1)
      in and_then (on_store (Register (ieP E) (ieWeb E) (ieClk E 0) (ieRnd E 2)
           \<lparr>riAgentID = idAgentID agentIdentity, riDisplayName = rpDisplayName params,
            riLocalEndpoint = rpLocalEndpoint params, riAgentCardJSON = rpAgentCard params,
            riIdentityPublicKey = idPublicKey agentIdentity, riCapabilityPublicKey = kPublic capabilityKey,
            riCapabilityGeneration = 1\<rparr>) st) (\<lambda>(registrationValue, token) st.
         and_then (on_files (PutIdentity (ieIdJson E) (ieIO E 0) (Some agentIdentity)) st) (\<lambda>_ st.
         and_then (on_files (PutCapabilityKey (ieIdJson E) (ieIO E 1) (idAgentID agentIdentity) capabilityKey) st) (\<lambda>_ st.
         (Inr \<lparr>rrRegistration = registrationValue, rrRegistrationToken = token\<rparr>, st)))))"

definition sameJSON :: "ipc_env \<Rightarrow> bytes \<Rightarrow> bytes \<Rightarrow> bool" where
  "sameJSON E left right =
     (case (dec_value (ieParams E) left, dec_value (ieParams E) right) of
        (Some leftValue, Some rightValue) \<Rightarrow> leftValue = rightValue
      | _ \<Rightarrow> left = right)"

definition ensure_existing :: "ipc_env \<Rightarrow> AgentEnsureParams \<Rightarrow> AgentRegistration \<Rightarrow> mstate \<Rightarrow> go_error + AgentEnsureResult" where
  \<comment> \<open>the branch for an agent that is registered already\<close>
  "ensure_existing E params existing st =
     (if arDisplayName existing \<noteq> epDisplayName params \<or> arLocalEndpoint existing \<noteq> epLocalEndpoint params \<or>
         \<not> sameJSON E (arAgentCardJSON existing) (epAgentCard params)
      then Inl ErrInvalidRequest
      else case FileStore_GetIdentity (ieIdJson E) (ieIO E 0) (arAgentID existing) (mFiles st) of
        Inl _ \<Rightarrow> Inl ErrInvalidRequest
      | Inr storedIdentity \<Rightarrow>
      if idPublicKey storedIdentity \<noteq> arIdentityPublicKey existing then Inl ErrInvalidRequest
      else if arCapabilityPublicKey existing \<noteq> [] \<and>
        (case GetCapabilityKey (ieIdJson E) (ieIO E 1) (arAgentID existing) (mFiles st) of
           Inl _ \<Rightarrow> True
         | Inr storedCapability \<Rightarrow> kPublic storedCapability \<noteq> arCapabilityPublicKey existing)
      then Inl ErrInvalidRequest
      else if TrimSpace (epRegistrationToken params) = [] then Inl ErrInvalidRequest
      else case Authenticate (ieP E) (arAgentID existing) (epRegistrationToken params) (mStore st) of
        Inl _ \<Rightarrow> Inl ErrInvalidRequest
      | Inr _ \<Rightarrow> Inr \<lparr>erRegistration = existing, erRegistrationToken = epRegistrationToken params, erCreated = False\<rparr>)"

definition ensure_new :: "ipc_env \<Rightarrow> AgentEnsureParams \<Rightarrow> AgentEnsureResult mop" where
  "ensure_new E params st =
     and_then (registerAgent E \<lparr>rpAgentID = epAgentID params, rpDisplayName = epDisplayName params,
         rpLocalEndpoint = epLocalEndpoint params, rpAgentCard = epAgentCard params\<rparr> st) (\<lambda>created st.
     (Inr \<lparr>erRegistration = rrRegistration created, erRegistrationToken = rrRegistrationToken created, erCreated = True\<rparr>, st))"

definition ensureAgent :: "ipc_env \<Rightarrow> AgentEnsureParams \<Rightarrow> AgentEnsureResult mop" where
  "ensureAgent E params st =
     (if TrimSpace (epDisplayName params) = [] \<or> TrimSpace (epLocalEndpoint params) = [] \<or> epAgentCard params = []
      then (Inl ErrInvalidRequest, st)
      else if TrimSpace (epAgentID params) = [] \<and> TrimSpace (epRegistrationToken params) \<noteq> []
      then (Inl ErrInvalidRequest, st)
      else if TrimSpace (epAgentID params) \<noteq> []
      then (case GetAgentRegistration (epAgentID params) (mStore st) of
              Inr existing \<Rightarrow> (ensure_existing E params existing st, st)
            | Inl err \<Rightarrow>
                if err \<noteq> ErrNotFound then (Inl err, st)
                else (case FileStore_GetIdentity (ieIdJson E) (ieIO E 2) (epAgentID params) (mFiles st) of
                        Inr _ \<Rightarrow> (Inl ErrInvalidRequest, st)
                      | Inl identityErr \<Rightarrow>
                          if identityErr \<noteq> ErrIdentityNotFound \<and> identityErr \<noteq> ErrNotFound then (Inl ErrInvalidRequest, st)
                          else if TrimSpace (epRegistrationToken params) \<noteq> [] then (Inl ErrInvalidRequest, st)
                          else ensure_new E params st))
      else ensure_new E params st)"

section \<open>Capability challenges and sessions\<close>

definition default_methods :: "string list" where
  "default_methods = [''message.cancel'', ''message.send'', ''message.status'', ''mailbox.list'', ''mailbox.read'',
     ''attachment.init'', ''attachment.chunk'', ''attachment.complete'', ''attachment.status'', ''attachment.cancel'',
     ''attachment.grant'']"

definition challenge_key :: "string \<Rightarrow> string \<Rightarrow> string" where
  "challenge_key agentID nonce = agentID @ [CHR 0x00] @ nonce"

definition capabilityChallenge :: "handler \<Rightarrow> ipc_env \<Rightarrow> CapabilityChallengeParams \<Rightarrow> Challenge mop" where
  "capabilityChallenge H E params st =
     and_then (as_invalid (Authenticate (ieP E) (cpAgentID params) (cpRegistrationToken params) (mStore st)), st)
       (\<lambda>registrationValue st.
     if arCapabilityPublicKey registrationValue = [] \<or> arCapabilityGeneration registrationValue = 0
     then (Inl ErrInvalidRequest, st)
     else
     let challenge = \<lparr>chBootID = hBootID H, chNonce = ieUuid E 0, chAgentID = cpAgentID params,
           chEndpointDigest = (if cpEndpointDigest params = [] then arLocalEndpoint registrationValue else cpEndpointDigest params),
           chMethods = (if cpMethods params = [] then default_methods else cpMethods params),
           chExpiresAt = ieClk E 0 + 2 * Minute\<rparr>
     in (Inr challenge, st\<lparr>mChallenges := (mChallenges st)(challenge_key (cpAgentID params) (chNonce challenge) \<mapsto> challenge)\<rparr>))"

definition capabilityExchange :: "ipc_env \<Rightarrow> CapabilityExchangeParams \<Rightarrow> cap_session mop" where
  "capabilityExchange E params st =
     and_then (GetAgentRegistration (xpAgentID params) (mStore st), st) (\<lambda>registrationValue st.
     let key = challenge_key (xpAgentID params) (chNonce (xpChallenge params)) in
     case mChallenges st key of
       None \<Rightarrow> (Inl ErrInvalidRequest, st)
     | Some challenge \<Rightarrow>
     let st = st\<lparr>mChallenges := (mChallenges st)(key := None)\<rparr> in
     if chBootID challenge \<noteq> chBootID (xpChallenge params) \<or> chAgentID challenge \<noteq> xpAgentID params \<or>
        chExpiresAt challenge \<noteq> chExpiresAt (xpChallenge params) \<or> \<not> ieClk E 0 < chExpiresAt challenge
     then (Inl ErrInvalidRequest, st)
     else
     and_then (as_invalid (Capability_Verify (ieP E) (ieChallenge E) (arCapabilityPublicKey registrationValue) challenge
         (xpSignature params)), st) (\<lambda>_ st.
     let session = IssueSession (ieRnd E 0) (xpAgentID params) (arCapabilityGeneration registrationValue) (chMethods challenge)
           (ieClk E 1) (15 * Minute)
     in (Inr session, st\<lparr>mSessions := (mSessions st)(seToken session \<mapsto> session)\<rparr>)))"

definition next_generation :: "AgentRegistration \<Rightarrow> int" where
  \<comment> \<open>on uint64\<close>
  "next_generation current =
     (let generation = (arCapabilityGeneration current + 1) mod 2 ^ 64
      in if generation = 1 \<and> arCapabilityPublicKey current \<noteq> [] then 2 else generation)"

definition drop_sessions :: "string \<Rightarrow> (string \<rightharpoonup> cap_session) \<Rightarrow> (string \<rightharpoonup> cap_session)" where
  "drop_sessions agentID sessions =
     (\<lambda>token. case sessions token of
        Some session \<Rightarrow> if sesAgentID session = agentID then None else Some session
      | None \<Rightarrow> None)"

definition rotateCapability :: "ipc_env \<Rightarrow> CapabilityRotateParams \<Rightarrow> CapabilityRotateResult mop" where
  "rotateCapability E params st =
     and_then (as_invalid (Authenticate (ieP E) (roAgentID params) (roRegistrationToken params) (mStore st)), st) (\<lambda>_ st.
     and_then (GetAgentRegistration (roAgentID params) (mStore st), st) (\<lambda>current st.
     let key = GenerateKey (ieRnd E 0); generation = next_generation current
     in and_then (on_store (UpdateAgentCapability (ieClk E 0) (roAgentID params) (kPublic key) generation) st) (\<lambda>_ st.
        and_then (on_files (PutCapabilityKey (ieIdJson E) (ieIO E 0) (roAgentID params) key) st) (\<lambda>_ st.
        (Inr \<lparr>rorAgentID = roAgentID params, rorPublicKey = kPublic key, rorGeneration = generation\<rparr>,
         st\<lparr>mSessions := drop_sessions (roAgentID params) (mSessions st)\<rparr>)))))"

section \<open>Attachments\<close>

definition with_attachments ::
  "handler \<Rightarrow> ipc_env \<Rightarrow> string \<Rightarrow> string \<Rightarrow> string \<Rightarrow> string \<Rightarrow> (attachment_service \<Rightarrow> 'a mop) \<Rightarrow> 'a mop" where
  \<comment> \<open>the first steps every attachment method but the grant has\<close>
  "with_attachments H E agentID registrationToken capabilitySession method f st =
     (case hAttachments H of
        None \<Rightarrow> (Inl ErrInvalidRequest, st)
      | Some attachments \<Rightarrow>
          and_then (as_invalid (authenticateMethod E agentID registrationToken capabilitySession method st), st) (\<lambda>_ st.
          f attachments st))"

definition initAttachment :: "handler \<Rightarrow> ipc_env \<Rightarrow> AttachmentInitParams \<Rightarrow> Metadata mop" where
  "initAttachment H E params =
     with_attachments H E (inAgentID params) (inRegistrationToken params) (inCapabilitySession params) ''attachment.init'' (\<lambda>A.
     on_blobs (Init A (ieFile E) (ieUuid E 0) (inAgentID params) (inName params) (inMediaType params) (inSHA256 params) (inSize params)))"

definition chunkAttachment :: "handler \<Rightarrow> ipc_env \<Rightarrow> AttachmentChunkParams \<Rightarrow> Metadata mop" where
  "chunkAttachment H E params =
     with_attachments H E (ckAgentID params) (ckRegistrationToken params) (ckCapabilitySession params) ''attachment.chunk'' (\<lambda>A.
     on_blobs (PutChunk A (ieFile E) (ckAgentID params) (ckBlobID params) (ckOffset params) (ckData params)))"

definition completeAttachment :: "handler \<Rightarrow> ipc_env \<Rightarrow> AttachmentBlobParams \<Rightarrow> Metadata mop" where
  "completeAttachment H E params =
     with_attachments H E (blAgentID params) (blRegistrationToken params) (blCapabilitySession params) ''attachment.complete'' (\<lambda>_.
     on_blobs (Complete (ieP E) (ieFile E) (blAgentID params) (blBlobID params)))"

definition statusAttachment :: "handler \<Rightarrow> ipc_env \<Rightarrow> AttachmentBlobParams \<Rightarrow> Metadata mop" where
  "statusAttachment H E params =
     with_attachments H E (blAgentID params) (blRegistrationToken params) (blCapabilitySession params) ''attachment.status'' (\<lambda>_ st.
     (Status (ieFile E) (blAgentID params) (blBlobID params) (mBlobs st), st))"

definition cancelAttachment :: "handler \<Rightarrow> ipc_env \<Rightarrow> AttachmentBlobParams \<Rightarrow> Metadata mop" where
  "cancelAttachment H E params =
     with_attachments H E (blAgentID params) (blRegistrationToken params) (blCapabilitySession params) ''attachment.cancel'' (\<lambda>_.
     on_blobs (Cancel (ieFile E) (blAgentID params) (blBlobID params)))"

definition url_escape :: "(char \<Rightarrow> bool) \<Rightarrow> string \<Rightarrow> string" where
  "url_escape plain s = concat (map (\<lambda>c. if plain c then [c]
     else [CHR 0x25, hex_upper ! (byte c div 16), hex_upper ! (byte c mod 16)]) s)"

definition unreserved :: "char \<Rightarrow> bool" where
  "unreserved c = (is_digit c \<or> (65 \<le> byte c \<and> byte c \<le> 90) \<or> (97 \<le> byte c \<and> byte c \<le> 122) \<or> c \<in> set ''-_.~'')"

definition url_String :: "string \<Rightarrow> string \<Rightarrow> string" where
  \<comment> \<open>\<^verbatim>\<open>(&url.URL{Scheme: "http", Host: host, Path: path}).String()\<close> for a path that starts with a slash\<close>
  "url_String host urlpath = ''http://'' @
     url_escape (\<lambda>c. unreserved c \<or> c \<in> set ''!$&()*+,;=:[]<>'' \<or> c = CHR 0x27 \<or> c = CHR 0x22) host @
     url_escape (\<lambda>c. unreserved c \<or> c \<in> set ''$&+,/:;=@'') urlpath"

definition blobURI :: "string \<Rightarrow> AttachmentGrant \<Rightarrow> string" where
  "blobURI address grant =
     (let address = TrimSpace address in
      if address = [] \<or> agOwnerAgentID grant = [] \<or> agBlobID grant = [] then []
      else
        let address = (case SplitHostPort address of
              Some _ \<Rightarrow> address
            | None \<Rightarrow> if CHR '':'' \<in> set address then ''['' @ address @ '']:7443'' else address @ '':7443'')
        in url_String address (''/agents/'' @ PathEscape (agOwnerAgentID grant) @ ''/blobs/'' @ PathEscape (agBlobID grant)))"

definition wrap64 :: "int \<Rightarrow> int" where
  "wrap64 x = (x + 2 ^ 63) mod 2 ^ 64 - 2 ^ 63"

definition grantAttachment :: "handler \<Rightarrow> ipc_env \<Rightarrow> AttachmentGrantParams \<Rightarrow> AttachmentGrant mop" where
  "grantAttachment H E params st =
     (if hAttachments H = None \<or> gpTargetAgentID params = [] \<or> gpContextID params = [] then (Inl ErrInvalidRequest, st)
      else case GetContact (gpAgentID params) (gpTargetAgentID params) (mStore st) of
        Inl _ \<Rightarrow> (Inl ErrInvalidRequest, st)
      | Inr contact \<Rightarrow>
      if cState contact \<noteq> ContactStateActive then (Inl ErrInvalidRequest, st)
      else
      and_then (as_invalid (authenticateMethod E (gpAgentID params) (gpRegistrationToken params) (gpCapabilitySession params)
          ''attachment.grant'' st), st) (\<lambda>_ st.
      and_then (Grant (ieFile E) (ieUuid E 0) (gpAgentID params) (gpBlobID params) (gpTargetAgentID params) (gpContextID params)
          (wrap64 (gpTTLSeconds params * Second)) (mBlobs st), st) (\<lambda>grant st.
      let grant = (case ieStatus E of
            Some status \<Rightarrow> grant\<lparr>agBlobURI := blobURI (rtTailscaleAddress status) grant\<rparr>
          | None \<Rightarrow> grant)
      in and_then (on_store (CreateAttachmentGrant (ieClk E 1) grant) st) (\<lambda>_ st. (Inr grant, st)))))"

section \<open>Mailbox\<close>

definition listMailbox :: "ipc_env \<Rightarrow> MailboxListParams \<Rightarrow> InboxMessage list mop" where
  "listMailbox E params st =
     (let agentID = (if mlAgentID params = [] then mlSourceAgentID params else mlAgentID params) in
      if agentID = [] then (Inl ErrInvalidRequest, st)
      else
      and_then (as_invalid (authenticateMethod E agentID (mlRegistrationToken params) (mlCapabilitySession params) ''mailbox.list'' st), st)
        (\<lambda>_ st.
      (ListInboxMessages (ieP E) agentID (mlContextID params) (mlUnreadOnly params) (mlLimit params) (mStore st), st)))"

definition readMailbox :: "ipc_env \<Rightarrow> MailboxReadParams \<Rightarrow> InboxMessage mop" where
  "readMailbox E params st =
     (let agentID = (if mrAgentID params = [] then mrSourceAgentID params else mrAgentID params) in
      if agentID = [] \<or> mrMessageID params = [] then (Inl ErrInvalidRequest, st)
      else
      and_then (as_invalid (authenticateMethod E agentID (mrRegistrationToken params) (mrCapabilitySession params) ''mailbox.read'' st), st)
        (\<lambda>_ st.
      and_then (ListInboxMessages (ieP E) agentID [] False 500 (mStore st), st) (\<lambda>items st.
      case find (\<lambda>item. imMessageID item = mrMessageID params) items of
        None \<Rightarrow> (Inl ErrNotFound, st)
      | Some item \<Rightarrow>
          (Inr (item\<lparr>imState := ''read''\<rparr>),
           snd (on_store (MarkInboxMessageRead (ieClk E 1) (imTargetAgentID item) (imSourceAgentID item) (imMessageID item)) st)))))"

section \<open>Pairing and contacts\<close>

definition with_identity :: "ipc_env \<Rightarrow> string \<Rightarrow> (Identity \<Rightarrow> 'a mop) \<Rightarrow> 'a mop" where
  "with_identity E localAgentID f st =
     and_then (FileStore_GetIdentity (ieIdJson E) (ieIO E 0) localAgentID (mFiles st), st) f"

definition createInvite :: "ipc_env \<Rightarrow> PairInviteParams \<Rightarrow> PairingInvite mop" where
  "createInvite E params =
     with_identity E (ivLocalAgentID params) (\<lambda>localIdentity.
     on_store (CreateInvite (ieLib E) (iePair E 0) (Some localIdentity)
       \<lparr>ciRemoteAgentID = ivRemoteAgentID params, ciLocalHostFingerprint = ivLocalHostFingerprint params,
        ciLocalTailscaleAddress = ivTailscaleAddress params, ciLocalNodeID = ivTailscaleNodeID params, ciTTL = ivTTL params\<rparr>))"

definition acceptInvite :: "ipc_env \<Rightarrow> PairAcceptParams \<Rightarrow> PairingAcceptance mop" where
  "acceptInvite E params =
     with_identity E (acLocalAgentID params) (\<lambda>localIdentity st.
     and_then (on_store (ImportInvite (ieLib E) (iePair E 0) (Some localIdentity) (acInvite params)) st) (\<lambda>_.
     if acInviteID params \<noteq> [] then
       (if acTailscaleNodeID params \<noteq> []
        then on_store (AcceptImportedInviteByIDAndAddressAndNode (ieLib E) (iePair E 1) (Some localIdentity) (acInviteID params)
               (acLocalHostFingerprint params) (acTailscaleAddress params) (acTailscaleNodeID params))
        else on_store (AcceptImportedInviteByIDAndAddress (ieLib E) (iePair E 1) (Some localIdentity) (acInviteID params)
               (acLocalHostFingerprint params) (acTailscaleAddress params)))
     else if acTailscaleAddress params \<noteq> [] then
       (if acTailscaleNodeID params \<noteq> []
        then on_store (AcceptImportedInviteAndAddressAndNode (ieLib E) (iePair E 1) (Some localIdentity)
               (acLocalHostFingerprint params) (acTailscaleAddress params) (acTailscaleNodeID params))
        else on_store (AcceptImportedInviteAndAddress (ieLib E) (iePair E 1) (Some localIdentity)
               (acLocalHostFingerprint params) (acTailscaleAddress params)))
     else on_store (AcceptImportedInvite (ieLib E) (iePair E 1) (Some localIdentity) (acLocalHostFingerprint params))))"

definition approveAcceptance :: "ipc_env \<Rightarrow> PairApproveParams \<Rightarrow> PairingConfirmation mop" where
  "approveAcceptance E params =
     with_identity E (apLocalAgentID params) (\<lambda>localIdentity.
     on_store (ApproveAcceptance (ieLib E) (iePair E 0) (Some localIdentity) (apAcceptance params)
       \<lparr>aaExpectedHostFingerprint = apExpectedHostFingerprint params, aaExpectedAgentFingerprint = apExpectedAgentFingerprint params\<rparr>))"

definition applyConfirmation :: "ipc_env \<Rightarrow> PairConfirmParams \<Rightarrow> PairingActivationReceipt mop" where
  "applyConfirmation E params =
     with_identity E (cfLocalAgentID params) (\<lambda>localIdentity.
     on_store (ApplyConfirmation (ieLib E) (iePair E 0) (Some localIdentity) (cfConfirmation params)))"

definition discard :: "(go_error, 'a, mstate) outcome \<Rightarrow> (go_error, unit, mstate) outcome" where
  "discard r = and_then r (\<lambda>_ st. (Inr (), st))"

definition applyActivation :: "ipc_env \<Rightarrow> PairActivateParams \<Rightarrow> unit mop" where
  "applyActivation E params =
     with_identity E (avLocalAgentID params) (\<lambda>localIdentity st.
     discard (on_store (ApplyActivationReceipt (ieLib E) (iePair E 0) (Some localIdentity) (avReceipt params)) st))"

definition listContacts :: "ContactParams \<Rightarrow> Contact list mop" where
  "listContacts params st =
     (if coLocalAgentID params = [] then (Inl ErrInvalidRequest, st)
      else (ListContacts (coLocalAgentID params) (mStore st), st))"

definition revokeContact :: "ipc_env \<Rightarrow> ContactParams \<Rightarrow> RevocationNotice mop" where
  "revokeContact E params =
     with_identity E (coLocalAgentID params) (\<lambda>localIdentity st.
     and_then (on_store (RevokeWithNotice (ieLib E) (iePair E 0) (Some localIdentity) (coRemoteAgentID params) (coReason params)) st)
       (\<lambda>(notice, _) st. (Inr notice, st)))"

definition applyRevocation :: "ipc_env \<Rightarrow> ApplyRevocationParams \<Rightarrow> unit mop" where
  "applyRevocation E params =
     with_identity E (arvLocalAgentID params) (\<lambda>localIdentity st.
     discard (on_store (ApplyRevocation (ieLib E) (iePair E 0) (Some localIdentity) (arvNotice params)) st))"

definition blockContact :: "ipc_env \<Rightarrow> ContactParams \<Rightarrow> unit mop" where
  "blockContact E params st =
     (if coLocalAgentID params = [] \<or> coRemoteAgentID params = [] then (Inl ErrInvalidRequest, st)
      else discard (on_store (Block (ieClk E) (coLocalAgentID params) (coRemoteAgentID params)) st))"

section \<open>Diagnosis\<close>

fun doctor_keys :: "ipc_env \<Rightarrow> nat \<Rightarrow> AgentRegistration list \<Rightarrow> files \<Rightarrow> bool \<times> string" where
  \<comment> \<open>the loop over the registrations, which stops at the first error; n counts the file reads\<close>
  "doctor_keys E n [] fs = (True, [])"
| "doctor_keys E n (r # rs) fs =
     (case FileStore_GetIdentity (ieIdJson E) (ieIO E n) (arAgentID r) fs of
        Inl err \<Rightarrow> (False, ieText E err)
      | Inr _ \<Rightarrow>
          if arCapabilityPublicKey r \<noteq> []
          then (case GetCapabilityKey (ieIdJson E) (ieIO E (n + 1)) (arAgentID r) fs of
                  Inl err \<Rightarrow> (False, ieText E err)
                | Inr _ \<Rightarrow> doctor_keys E (n + 2) rs fs)
          else doctor_keys E (n + 1) rs fs)"

definition boolFailureMessage :: "bool \<Rightarrow> string \<Rightarrow> string" where
  "boolFailureMessage good message = (if good then [] else message)"

definition missingMessage :: "string \<Rightarrow> string \<Rightarrow> string" where
  "missingMessage val message = (if val = [] then message else [])"

definition doctor :: "ipc_env \<Rightarrow> mstate \<Rightarrow> DoctorResult" where
  "doctor E st =
     (let check = (\<lambda>name good message. \<lparr>dcName = name, dcOK = good, dcMessage = message\<rparr>);
          database = (case ListAgentRegistrations (mStore st) of
            Inl err \<Rightarrow> check ''database'' False (ieText E err) | Inr _ \<Rightarrow> check ''database'' True []);
          (identityOK, identityMessage) = (case ListAgentRegistrations (mStore st) of
            Inl err \<Rightarrow> (False, []) | Inr registrations \<Rightarrow> doctor_keys E 0 registrations (mFiles st));
          status = handleStatus E;
          checks = [database,
            check ''agent_keys'' identityOK identityMessage,
            check ''tailscale_address'' (rtTailscaleAddress status \<noteq> [])
              (missingMessage (rtTailscaleAddress status) ''Tailscale address is not configured''),
            check ''tailscale_login'' (rtTailscaleLoggedIn status)
              (boolFailureMessage (rtTailscaleLoggedIn status) ''Tailscale is not logged in''),
            check ''tailscale_local_api'' (rtTailscaleLocalAPIReady status)
              (boolFailureMessage (rtTailscaleLocalAPIReady status) ''Tailscale Local API is unavailable''),
            check ''tailscale_whois'' (rtTailscaleWhoIsReady status)
              (boolFailureMessage (rtTailscaleWhoIsReady status) ''Tailscale WhoIs is unavailable'')]
      in \<lparr>doOK = list_all dcOK checks, doChecks = checks\<rparr>)"

section \<open>Dispatch\<close>

definition decodeAndCall :: "(bytes \<Rightarrow> 'p option) \<Rightarrow> bytes \<Rightarrow> ('p \<Rightarrow> 'a mop) \<Rightarrow> 'a mop" where
  "decodeAndCall decode raw function st =
     (if raw = [] \<or> raw = ''null'' then (Inl ErrInvalidRequest, st)
      else case decode raw of
        None \<Rightarrow> (Inl ErrInvalidRequest, st)
      | Some params \<Rightarrow> function params st)"

definition returning :: "('a \<Rightarrow> ipc_result) \<Rightarrow> (go_error, 'a, mstate) outcome \<Rightarrow> (go_error, ipc_result, mstate) outcome" where
  "returning wrap r = and_then r (\<lambda>x st. (Inr (wrap x), st))"

definition HandleIPC :: "handler \<Rightarrow> ipc_env \<Rightarrow> Request \<Rightarrow> ipc_result mop" where
  "HandleIPC H E request st =
     (let J = ieParams E; raw = iqParams request; m = iqMethod request in
      if \<not> hReady H then (Inl (ErrMsg ''management handler dependencies are required''), st)
      else if m = ''status'' then (Inr (RStatus (handleStatus E)), st)
      else if m = ''agent.register'' then returning RRegister (decodeAndCall (dec_register J) raw (registerAgent E) st)
      else if m = ''agent.ensure'' then returning REnsure (decodeAndCall (dec_ensure J) raw (ensureAgent E) st)
      else if m = ''agent.capability.challenge'' then returning RChallenge (decodeAndCall (dec_challenge J) raw (capabilityChallenge H E) st)
      else if m = ''agent.capability.exchange'' then returning RSession (decodeAndCall (dec_exchange J) raw (capabilityExchange E) st)
      else if m = ''agent.capability.rotate'' \<or> m = ''agent.capability.recover''
      then returning RRotate (decodeAndCall (dec_rotate J) raw (rotateCapability E) st)
      else if m = ''attachment.init'' then returning RAttachment (decodeAndCall (dec_init J) raw (initAttachment H E) st)
      else if m = ''attachment.chunk'' then returning RAttachment (decodeAndCall (dec_chunk J) raw (chunkAttachment H E) st)
      else if m = ''attachment.complete'' then returning RAttachment (decodeAndCall (dec_blob J) raw (completeAttachment H E) st)
      else if m = ''attachment.grant'' then returning RGrant (decodeAndCall (dec_grant J) raw (grantAttachment H E) st)
      else if m = ''attachment.status'' then returning RAttachment (decodeAndCall (dec_blob J) raw (statusAttachment H E) st)
      else if m = ''attachment.cancel'' then returning RAttachment (decodeAndCall (dec_blob J) raw (cancelAttachment H E) st)
      else if m = ''mailbox.list'' then returning RInboxItems (decodeAndCall (dec_list J) raw (listMailbox E) st)
      else if m = ''mailbox.read'' then returning RInbox (decodeAndCall (dec_read J) raw (readMailbox E) st)
      else if m = ''agent.list'' then returning RAgents (ListAgentRegistrations (mStore st), st)
      else if m = ''pair.invite'' then returning RInvite (decodeAndCall (dec_invite J) raw (createInvite E) st)
      else if m = ''pair.accept'' then returning RAcceptance (decodeAndCall (dec_accept J) raw (acceptInvite E) st)
      else if m = ''pair.approve'' then returning RConfirmation (decodeAndCall (dec_approve J) raw (approveAcceptance E) st)
      else if m = ''pair.confirm'' then returning RActivation (decodeAndCall (dec_confirm J) raw (applyConfirmation E) st)
      else if m = ''pair.activate'' then returning (\<lambda>_. REmpty) (decodeAndCall (dec_activate J) raw (applyActivation E) st)
      else if m = ''contact.list'' then returning RContacts (decodeAndCall (dec_contact J) raw listContacts st)
      else if m = ''contact.revoke'' then returning RNotice (decodeAndCall (dec_contact J) raw (revokeContact E) st)
      else if m = ''contact.revoke.apply'' then returning (\<lambda>_. REmpty) (decodeAndCall (dec_revocation J) raw (applyRevocation E) st)
      else if m = ''contact.block'' then returning (\<lambda>_. REmpty) (decodeAndCall (dec_contact J) raw (blockContact E) st)
      else if m = ''message.send'' then returning RMessage (decodeAndCall (dec_send J) raw (sendMessage E) st)
      else if m = ''message.status'' then returning RMessage (decodeAndCall (dec_status J) raw (messageStatus E) st)
      else if m = ''message.cancel'' then returning RMessage (decodeAndCall (dec_status J) raw (cancelMessage E) st)
      else if m = ''doctor'' then (Inr (RDoctor (doctor E st)), st)
      else (Inl ErrMethodNotFound, st))"

definition NewHandler :: "bool \<Rightarrow> string \<Rightarrow> attachment_service list \<Rightarrow> store \<Rightarrow> files \<Rightarrow> blob_files \<Rightarrow> handler \<times> mstate" where
  \<comment> \<open>dependencies says whether all services are given; bootID is the fresh identifier\<close>
  "NewHandler dependencies bootID attachmentServices s fs bs =
     (\<lparr>hReady = dependencies, hBootID = bootID,
       hAttachments = (case attachmentServices of [] \<Rightarrow> None | a # _ \<Rightarrow> Some a)\<rparr>,
      \<lparr>mStore = s, mFiles = fs, mBlobs = bs, mChallenges = Map.empty, mSessions = Map.empty\<rparr>)"

end
