(* ===== verification/ManagementProps.thy ===== *)
theory ManagementProps
  imports Management PairingProps AttachmentProps
begin

text \<open>
  What the management handler guarantees: its requests change the store only through the writes of the
  store component, sessions are issued and withdrawn as the capability protocol says, and messages and agents
  are created once.
\<close>

section \<open>Requests as sequences of store writes\<close>

definition written :: "primitives \<Rightarrow> store \<Rightarrow> store \<Rightarrow> bool" where
  "written P s t \<longleftrightarrow> (\<exists>ops. t = run (store_step P) ops s)"

lemma written_refl [intro]: "written P s s"
  unfolding written_def by (rule exI[of _ "[]"]) simp

lemma written_step: "written P s t \<Longrightarrow> written P s (store_step P x t)"
  unfolding written_def by (metis run.simps run_append)

lemma written_and_then:
  assumes "written P s (snd r)" and "\<And>x u. written P s u \<Longrightarrow> written P s (snd (k x u))"
  shows "written P s (snd (and_then r k))"
  using assms by (rule and_then_state_inv)

lemma written_ops:
  assumes "written P s u"
  shows "written P s (snd (UpsertContact t c u))" "written P s (snd (RegisterAgent t reg u))"
    "written P s (snd (UpdateAgentCapability t a key g u))" "written P s (snd (CreatePairingRequest r u))"
    "written P s (snd (ValidateAndConsumePairingRequestForAgent i a t v u))" "written P s (snd (UpsertPairingSession t p u))"
    "written P s (snd (EnqueueOutbox P t n m u))" "written P s (snd (CancelOutbox t i u))"
    "written P s (snd (CancelOutboxForContact t a b u))" "written P s (snd (UpsertTaskIndex t x u))"
    "written P s (snd (MarkInboxMessageRead t a b i u))" "written P s (snd (CreateAttachmentGrant t gr u))"
    "written P s (snd (RevokeAttachmentGrantsForContact t a b t' u))"
  using written_step[OF assms, of "OpUpsertContact t c"] written_step[OF assms, of "OpRegisterAgent t reg"]
    written_step[OF assms, of "OpUpdateAgentCapability t a key g"] written_step[OF assms, of "OpCreatePairingRequest r"]
    written_step[OF assms, of "OpConsumeForAgent i a t v"] written_step[OF assms, of "OpUpsertPairingSession t p"]
    written_step[OF assms, of "OpEnqueueOutbox t n m"] written_step[OF assms, of "OpCancelOutbox t i"]
    written_step[OF assms, of "OpCancelOutboxForContact t a b"] written_step[OF assms, of "OpUpsertTaskIndex t x"]
    written_step[OF assms, of "OpMarkInboxMessageRead t a b i"] written_step[OF assms, of "OpCreateAttachmentGrant t gr"]
    written_step[OF assms, of "OpRevokeAttachmentGrantsForContact t a b t'"]
  by simp_all

lemmas written_intros = written_refl written_and_then written_ops

lemma written_close_contact: "written P s u \<Longrightarrow> written P s (snd (close_contact c st contact u))"
  by (auto simp: close_contact_def Let_def intro!: written_intros)

lemma written_Revoke: "written P s u \<Longrightarrow> written P s (snd (Revoke c a b u))"
  by (auto simp: Revoke_def intro!: written_intros written_close_contact)

lemma written_CreatePairingRequest: "CreatePairingRequest r u = (x, t) \<Longrightarrow> written P s u \<Longrightarrow> written P s t"
  using written_ops(4)[of P s u r] by simp

lemma written_UpsertContact: "UpsertContact n c u = (x, t) \<Longrightarrow> written P s u \<Longrightarrow> written P s t"
  using written_ops(1)[of P s u n c] by simp

lemma written_pairing_step: "written P s (pairing_step L x s)"
proof (cases x)
  case (DoCreateInvite E i inp)
  then show ?thesis by (auto simp: CreateInvite_def Let_def intro!: written_intros)
next
  case (DoImportInvite E i v)
  with written_CreatePairingRequest[of _ _ _ _ P s] show ?thesis
    by (auto simp: ImportInvite_def Let_def intro!: written_intros split: option.splits sum.splits prod.splits)
next
  case (DoAcceptInvite E i iv h ta nd)
  then show ?thesis by (auto simp: acceptImportedInvite_def Let_def intro!: written_intros)
next
  case (DoApproveAcceptance E i a p)
  with written_UpsertContact[of _ _ _ _ _ P s] show ?thesis
    by (auto simp: ApproveAcceptance_def Let_def intro!: written_intros split: option.splits sum.splits prod.splits)
next
  case (DoApplyConfirmation E i c)
  then show ?thesis by (auto simp: ApplyConfirmation_def Let_def intro!: written_intros split: sum.splits)
next
  case (DoApplyActivationReceipt E i r)
  then show ?thesis by (auto simp: ApplyActivationReceipt_def Let_def intro!: written_intros split: sum.splits)
next
  case (DoRevoke c a b)
  then show ?thesis by (auto intro: written_Revoke)
next
  case (DoBlock c a b)
  then show ?thesis by (auto simp: Block_def intro!: written_intros written_close_contact)
next
  case (DoRevokeWithNotice E i b r)
  then show ?thesis by (auto simp: RevokeWithNotice_def Let_def intro!: written_intros written_Revoke)
next
  case (DoApplyRevocation E i n)
  then show ?thesis by (auto simp: ApplyRevocation_def Let_def intro!: written_intros written_close_contact split: sum.splits)
qed

lemma written_trans: "written P s t \<Longrightarrow> written P t u \<Longrightarrow> written P s u"
  unfolding written_def by (metis run_append)

section \<open>What a request may change\<close>

text \<open>
  The contract of a property of the handler's state that requests keep: it survives store writes, changes of the key
  files, steps of the attachment service, changes of the challenges, new sessions with an allowed token and the
  removal of an agent's sessions.
\<close>

locale request_frame =
  fixes P :: primitives and S :: attachment_service and allowed :: "string \<Rightarrow> bool" and I :: "mstate \<Rightarrow> bool"
  assumes I_store: "I st \<Longrightarrow> written P (mStore st) s \<Longrightarrow> I (st\<lparr>mStore := s\<rparr>)"
    and I_files: "I st \<Longrightarrow> I (st\<lparr>mFiles := fs\<rparr>)"
    and I_blobs: "I st \<Longrightarrow> attachment_step P S (mBlobs st) bs \<Longrightarrow> I (st\<lparr>mBlobs := bs\<rparr>)"
    and I_challenges: "I st \<Longrightarrow> I (st\<lparr>mChallenges := cs\<rparr>)"
    and I_issue: "I st \<Longrightarrow> allowed (seToken session) \<Longrightarrow> I (st\<lparr>mSessions := (mSessions st)(seToken session \<mapsto> session)\<rparr>)"
    and I_drop: "I st \<Longrightarrow> I (st\<lparr>mSessions := drop_sessions a (mSessions st)\<rparr>)"
begin

lemma I_and_then:
  assumes "I (snd r)" and "\<And>x st. I st \<Longrightarrow> I (snd (k x st))"
  shows "I (snd (and_then r k))"
  using assms by (rule and_then_state_inv)

lemma I_on_store: "I st \<Longrightarrow> written P (mStore st) (snd (f (mStore st))) \<Longrightarrow> I (snd (on_store f st))"
  using I_store[of st "snd (f (mStore st))"] by (simp add: on_store_def case_prod_beta)

lemma I_on_files: "I st \<Longrightarrow> I (snd (on_files f st))"
  using I_files[of st "snd (f (mFiles st))"] by (simp add: on_files_def case_prod_beta)

lemma I_on_blobs: "I st \<Longrightarrow> attachment_step P S (mBlobs st) (snd (f (mBlobs st))) \<Longrightarrow> I (snd (on_blobs f st))"
  using I_blobs[of st "snd (f (mBlobs st))"] by (simp add: on_blobs_def case_prod_beta)

lemma I_with_identity: "I st \<Longrightarrow> (\<And>i. I (snd (f i st))) \<Longrightarrow> I (snd (with_identity E a f st))"
  by (simp add: with_identity_def and_then_snd split: sum.splits)

lemmas I_intros = I_and_then I_on_store I_on_files I_on_blobs I_with_identity written_intros

lemma I_sendMessage: "I st \<Longrightarrow> ieP E = P \<Longrightarrow> I (snd (sendMessage E p st))"
  by (auto simp: sendMessage_def Let_def intro!: I_intros split: sum.splits)

lemma I_messageStatus: "I st \<Longrightarrow> I (snd (messageStatus E p st))"
  by (auto simp: messageStatus_def intro!: I_intros split: sum.splits)

lemma I_after_store: "on_store f st = (r, st') \<Longrightarrow> I st \<Longrightarrow> written P (mStore st) (snd (f (mStore st))) \<Longrightarrow> I st'"
  using I_on_store[of st f] by simp

lemma I_cancelMessage:
  assumes "I st"
  shows "I (snd (cancelMessage E p st))"
proof -
  have cancelled: "I u'" if "on_store (CancelOutbox t i) u = (r, u')" "I u" for t i u r u'
    using I_after_store[OF that] by (simp add: written_intros)
  have "I (snd (request_cancel t task u))" if "I u" for t task u
    unfolding request_cancel_def using that by (intro I_on_store written_intros)
  with cancelled show ?thesis unfolding cancelMessage_def
    by (auto intro!: I_and_then I_messageStatus assms split: sum.splits prod.splits bool.splits)
qed

lemma I_registerAgent: "I st \<Longrightarrow> I (snd (registerAgent E p st))"
  by (auto simp: registerAgent_def Register_def Let_def intro!: I_intros)

lemma I_ensureAgent: "I st \<Longrightarrow> I (snd (ensureAgent E p st))"
  by (auto simp: ensureAgent_def ensure_new_def intro!: I_and_then I_registerAgent split: sum.splits)

lemma I_capabilityChallenge: "I st \<Longrightarrow> I (snd (capabilityChallenge H E p st))"
  by (auto simp: capabilityChallenge_def Let_def intro!: I_and_then I_challenges)

lemma I_capabilityExchange:
  assumes "I st" and "allowed (RawURL_EncodeToString (ieRnd E 0))"
  shows "I (snd (capabilityExchange E p st))"
proof -
  have "I (u\<lparr>mSessions := (mSessions u)(seToken (IssueSession (ieRnd E 0) a g ms t l) \<mapsto> IssueSession (ieRnd E 0) a g ms t l)\<rparr>)"
    if "I u" for u a g ms t l
    using that assms(2) by (intro I_issue) (simp_all add: IssueSession_def)
  then show ?thesis
    by (auto simp: capabilityExchange_def Let_def intro!: I_and_then I_challenges assms(1) split: option.splits)
qed

lemma I_rotateCapability: "I st \<Longrightarrow> I (snd (rotateCapability E p st))"
  by (auto simp: rotateCapability_def Let_def intro!: I_intros I_drop)

lemma I_with_attachments:
  assumes "I st" and "\<And>A. hAttachments H = Some A \<Longrightarrow> I (snd (f A st))"
  shows "I (snd (with_attachments H E a t c m f st))"
  using assms by (simp add: with_attachments_def and_then_snd split: option.splits sum.splits)

lemma I_attachment_methods:
  assumes "I st" and "hAttachments H = None \<or> hAttachments H = Some S" and "parts (mBlobs st) (ieUuid E 0) = None" and "ieP E = P"
  shows "I (snd (initAttachment H E p1 st))" "I (snd (chunkAttachment H E p2 st))" "I (snd (completeAttachment H E p3 st))"
    "I (snd (statusAttachment H E p3 st))" "I (snd (cancelAttachment H E p3 st))"
  using assms
  by (auto simp: initAttachment_def chunkAttachment_def completeAttachment_def statusAttachment_def cancelAttachment_def
      intro!: I_with_attachments I_on_blobs intro: attachment_step.intros)

lemma I_grantAttachment: "I st \<Longrightarrow> I (snd (grantAttachment H E p st))"
  by (auto simp: grantAttachment_def Let_def intro!: I_intros split: sum.splits)

lemma I_mailbox: "I st \<Longrightarrow> I (snd (listMailbox E p st))" "I st \<Longrightarrow> I (snd (readMailbox E q st))"
  by (auto simp: listMailbox_def readMailbox_def Let_def intro!: I_intros split: option.splits)

lemma I_on_pairing:
  assumes "I st" and "snd (f (mStore st)) = pairing_step L x (mStore st)"
  shows "I (snd (on_store f st))"
  using assms written_pairing_step by (intro I_on_store) simp_all

lemma I_discard: "I (snd r) \<Longrightarrow> I (snd (discard r))"
  by (simp add: discard_def and_then_pure_state[of r "\<lambda>_ _. Inr ()"])

lemmas as_pairing_step = pairing_step.simps[symmetric]

lemma I_pairing_methods:
  assumes "I st"
  shows "I (snd (createInvite E p1 st))" "I (snd (approveAcceptance E p3 st))"
    "I (snd (applyConfirmation E p4 st))" "I (snd (applyActivation E p5 st))" "I (snd (revokeContact E p6 st))"
    "I (snd (applyRevocation E p7 st))"
  using assms
  by (auto simp: createInvite_def approveAcceptance_def applyConfirmation_def applyActivation_def revokeContact_def
      applyRevocation_def as_pairing_step simp del: pairing_step.simps
      intro!: I_with_identity I_on_pairing I_discard I_and_then)

lemma I_blockContact: "I st \<Longrightarrow> I (snd (blockContact E p st))"
  using I_on_pairing[of st "Block c a b" "ieLib E" "DoBlock c a b" for c a b] by (simp add: blockContact_def I_discard)

lemma I_acceptInvite:
  assumes "I st"
  shows "I (snd (acceptInvite E p st))"
proof -
  have "I (snd (on_store (acceptImportedInvite L e (Some i) iv h ta nd) u))" if "I u" for L e i iv h ta nd u
    using that by (rule I_on_pairing) (rule pairing_step.simps(3)[symmetric])
  moreover have "I (snd (on_store (ImportInvite L e (Some i) v) u))" if "I u" for L e i v u
    using that by (rule I_on_pairing) (rule pairing_step.simps(2)[symmetric])
  ultimately show ?thesis
    using assms by (auto simp: acceptInvite_def AcceptImportedInviteByIDAndAddressAndNode_def AcceptImportedInviteByIDAndAddress_def
        AcceptImportedInviteAndAddressAndNode_def AcceptImportedInviteAndAddress_def AcceptImportedInvite_def
        intro!: I_with_identity I_and_then)
qed

lemma I_returning: "I (snd r) \<Longrightarrow> I (snd (returning w r))"
  by (simp add: returning_def and_then_pure_state[of r "\<lambda>x _. Inr (w x)"])

lemma I_decodeAndCall: "I st \<Longrightarrow> (\<And>p. I (snd (f p st))) \<Longrightarrow> I (snd (decodeAndCall d raw f st))"
  by (simp add: decodeAndCall_def split: option.splits)

lemmas I_methods = I_sendMessage I_messageStatus I_cancelMessage I_registerAgent I_ensureAgent I_capabilityChallenge
  I_capabilityExchange I_rotateCapability I_attachment_methods I_grantAttachment I_mailbox I_pairing_methods I_acceptInvite I_blockContact

lemma I_HandleIPC:
  assumes "I st" and "hAttachments H = None \<or> hAttachments H = Some S" and "parts (mBlobs st) (ieUuid E 0) = None" and "ieP E = P"
    and "allowed (RawURL_EncodeToString (ieRnd E 0))"
  shows "I (snd (HandleIPC H E request st))"
  using assms unfolding HandleIPC_def Let_def
  by (auto intro!: I_returning I_decodeAndCall I_methods simp: listContacts_def)

end

section \<open>Requests refine the services\<close>

text \<open>
  The daemon's life: local requests in any order, each with its own environment, and the writes that the gateway and
  the delivery worker make to the same store. A request finds a fresh identifier and a token that is allowed.
\<close>

inductive mgmt_step :: "primitives \<Rightarrow> attachment_service \<Rightarrow> handler \<Rightarrow> (string \<Rightarrow> bool) \<Rightarrow> mstate \<Rightarrow> mstate \<Rightarrow> bool"
  for P S H allowed where
  request: "ieP E = P \<Longrightarrow> parts (mBlobs st) (ieUuid E 0) = None \<Longrightarrow> allowed (RawURL_EncodeToString (ieRnd E 0)) \<Longrightarrow>
    mgmt_step P S H allowed st (snd (HandleIPC H E rq st))"
| elsewhere: "mgmt_step P S H allowed st (st\<lparr>mStore := store_step P x (mStore st)\<rparr>)"

context request_frame
begin

lemma I_mgmt_step: "mgmt_step P S H allowed st u \<Longrightarrow> hAttachments H = None \<or> hAttachments H = Some S \<Longrightarrow> I st \<Longrightarrow> I u"
  by (induction rule: mgmt_step.induct) (auto intro!: I_HandleIPC I_store written_step)

lemma I_reachable:
  "(mgmt_step P S H allowed)\<^sup>*\<^sup>* st u \<Longrightarrow> hAttachments H = None \<or> hAttachments H = Some S \<Longrightarrow> I st \<Longrightarrow> I u"
  by (induction rule: rtranclp_induct) (auto intro: I_mgmt_step)

end

interpretation services: request_frame P S "\<lambda>_. True"
  "\<lambda>st. written P s (mStore st) \<and> (attachment_step P S)\<^sup>*\<^sup>* bs (mBlobs st)" for P S s bs
  by unfold_locales (auto intro: written_trans rtranclp.rtrancl_into_rtrancl)

interpretation absent: request_frame P S "\<lambda>t. t \<noteq> token" "\<lambda>st. mSessions st token = None" for P S token
  by unfold_locales (auto simp: drop_sessions_def)


section \<open>Capability sessions\<close>

lemma next_generation_differs: "next_generation r \<noteq> arCapabilityGeneration r"
proof
  let ?g = "arCapabilityGeneration r"
  assume eq: "next_generation r = ?g"
  have "0 \<le> (?g + 1) mod 2 ^ 64" "(?g + 1) mod 2 ^ 64 < 2 ^ 64" by simp_all
  with eq have range: "0 \<le> ?g" "?g < 2 ^ 64" by (auto simp: next_generation_def Let_def split: if_splits)
  then have "(?g + 1) mod 2 ^ 64 = (if ?g + 1 = 2 ^ 64 then 0 else ?g + 1)" by auto
  with eq range show False by (auto simp: next_generation_def Let_def split: if_splits)
qed

lemma GetAgentRegistration_Update:
  "GetAgentRegistration a (snd (UpdateAgentCapability t a k g s)) =
     (case GetAgentRegistration a s of
        Inl e \<Rightarrow> Inl e
      | Inr r \<Rightarrow> Inr (r\<lparr>arCapabilityPublicKey := k, arCapabilityGeneration := g, arUpdatedAt := trunc_ms t\<rparr>))"
  by (auto simp: GetAgentRegistration_def UpdateAgentCapability_def case_prod_beta by_key_update dest: by_key_SomeD split: option.splits)

lemma rotateCapability_cases:
  assumes "rotateCapability E p st = (r, st')"
  obtains (refused) e where "r = Inl e" "st' = st"
  | (rotated) old where "GetAgentRegistration (roAgentID p) (mStore st) = Inr old"
      "mStore st' = snd (UpdateAgentCapability (ieClk E 0) (roAgentID p) (kPublic (GenerateKey (ieRnd E 0))) (next_generation old) (mStore st))"
      "mSessions st' = (if ok r then drop_sessions (roAgentID p) (mSessions st) else mSessions st)"
proof -
  let ?key = "GenerateKey (ieRnd E 0)"
  consider e where "as_invalid (Authenticate (ieP E) (roAgentID p) (roRegistrationToken p) (mStore st)) = Inl e"
    | e reg where "as_invalid (Authenticate (ieP E) (roAgentID p) (roRegistrationToken p) (mStore st)) = Inr reg"
        "GetAgentRegistration (roAgentID p) (mStore st) = Inl e"
    | reg old where "as_invalid (Authenticate (ieP E) (roAgentID p) (roRegistrationToken p) (mStore st)) = Inr reg"
        "GetAgentRegistration (roAgentID p) (mStore st) = Inr old"
    by (meson sum.exhaust_sel)
  then show thesis
  proof cases
    case 3
    obtain x s1 where u: "UpdateAgentCapability (ieClk E 0) (roAgentID p) (kPublic ?key) (next_generation old) (mStore st) = (x, s1)"
      by fastforce
    obtain y fs where f: "PutCapabilityKey (ieIdJson E) (ieIO E 0) (roAgentID p) ?key (mFiles st) = (y, fs)" by fastforce
    show thesis
    proof (rule rotated[OF 3(2)])
      show "mStore st' = snd (UpdateAgentCapability (ieClk E 0) (roAgentID p) (kPublic ?key) (next_generation old) (mStore st))"
        using assms 3 u f by (cases x; cases y) (auto simp: rotateCapability_def Let_def on_store_def on_files_def)
      show "mSessions st' = (if ok r then drop_sessions (roAgentID p) (mSessions st) else mSessions st)"
        using assms 3 u f by (cases x; cases y) (auto simp: rotateCapability_def Let_def on_store_def on_files_def)
    qed
  qed (use assms refused in \<open>auto simp: rotateCapability_def\<close>)
qed

text \<open>
  C16. Rotating the capability key of an agent ends its sessions. As soon as the new key is in the store, even when
  writing the key file then fails, no session of the agent that was good before admits any method; and when
  the rotation succeeded, a token of such a session is unknown from then on, whatever requests and writes
  follow, unless the random source gives it out again.
\<close>

theorem rotation_ends_sessions:
  assumes "rotateCapability E p st = (r, st')" and "mSessions st token = Some session" and "sesAgentID session = roAgentID p"
    and "token \<noteq> []" and "authenticateMethod E0 (roAgentID p) rt0 token m0 st = Inr ()"
    and "hAttachments H = None \<or> hAttachments H = Some S"
  shows "(mStore st' \<noteq> mStore st \<longrightarrow> (\<forall>E' rt m. authenticateMethod E' (roAgentID p) rt token m st' \<noteq> Inr ())) \<and>
    (ok r \<longrightarrow> (\<forall>u E' a rt m. (mgmt_step P S H (\<lambda>t. t \<noteq> token))\<^sup>*\<^sup>* st' u \<longrightarrow>
       authenticateMethod E' a rt token m u = Inl ErrExpired))"
  using assms(1)
proof (cases rule: rotateCapability_cases)
  case (rotated old)
  have gen: "sesGeneration session = arCapabilityGeneration old"
    using assms(2,4,5) rotated(1) by (auto simp: authenticateMethod_def Validate_def split: if_splits)
  have "authenticateMethod E' (roAgentID p) rt token m st' \<noteq> Inr ()" for E' rt m
    using assms(4) gen next_generation_differs[of old] rotated(1)
    by (auto simp: authenticateMethod_def rotated(2) GetAgentRegistration_Update Validate_def assms(2) rotated(3) drop_sessions_def
        split: option.splits if_splits)
  moreover have "authenticateMethod E' a rt token m u = Inl ErrExpired"
    if "ok r" "(mgmt_step P S H (\<lambda>t. t \<noteq> token))\<^sup>*\<^sup>* st' u" for u E' a rt m
  proof -
    have "mSessions st' token = None" using rotated(3) that(1) assms(2,3) by (simp add: drop_sessions_def)
    then show ?thesis using absent.I_reachable[OF that(2) assms(6)] assms(4) by (simp add: authenticateMethod_def)
  qed
  ultimately show ?thesis by blast
qed simp

end
