(* ===== verification/ManagementFlows.thy ===== *)
theory ManagementFlows
  imports ManagementProps HttpSignature Gate
begin

text \<open>
  Sequences of local requests: the capability exchange gives a session that admits what was asked for, sending is
  idempotent, and ensuring an agent twice is the same as once.
\<close>

section \<open>From challenge to session\<close>

lemma RawURL_token: "bs \<noteq> [] \<Longrightarrow> seToken (IssueSession bs a g ms t l) \<noteq> []"
  by (simp add: IssueSession_def RawURL_nonempty)

lemma capabilityChallenge_returns:
  assumes "Authenticate (ieP E) (cpAgentID p) (cpRegistrationToken p) (mStore st) = Inr reg"
    and "arCapabilityPublicKey reg \<noteq> []" and "arCapabilityGeneration reg \<noteq> 0"
  shows "\<exists>ch. capabilityChallenge H E p st =
      (Inr ch, st\<lparr>mChallenges := (mChallenges st)(challenge_key (cpAgentID p) (chNonce ch) \<mapsto> ch)\<rparr>) \<and>
    chAgentID ch = cpAgentID p \<and> chExpiresAt ch = ieClk E 0 + 2 * Minute \<and>
    chMethods ch = (if cpMethods p = [] then default_methods else cpMethods p)"
  using assms by (simp add: capabilityChallenge_def as_invalid_def Let_def)

text \<open>
  C17. An agent with a registration token and a capability key obtains a session. Its challenge is granted; when it
  signs the challenge and hands it in within two minutes, it receives a session; the session admits
  exactly the methods that were asked for, during the next fifteen minutes; and the challenge is used up: handing it in
  again is refused, with whatever signature.
\<close>

theorem capability_exchange_completes:
  assumes "Authenticate (ieP E) (cpAgentID p) (cpRegistrationToken p) (mStore st) = Inr reg"
    and "FromPrivate private = Inr key" and "arCapabilityPublicKey reg = kPublic key" and "arCapabilityGeneration reg \<noteq> 0"
    and "sign_verifies (ieP E) private"
    and "ieP E' = ieP E" and "ieChallenge E' = ieChallenge E" and "ieClk E' 0 < ieClk E 0 + 2 * Minute" and "ieRnd E' 0 \<noteq> []"
  shows "\<exists>ch st1. capabilityChallenge H E p st = (Inr ch, st1) \<and>
    chMethods ch = (if cpMethods p = [] then default_methods else cpMethods p) \<and>
    (\<forall>sig. Capability_Sign (ieP E) (ieChallenge E) key ch = Inr sig \<and> length sig = SignatureSize \<longrightarrow>
      (\<exists>session st2. capabilityExchange E' \<lparr>xpAgentID = cpAgentID p, xpChallenge = ch, xpSignature = sig\<rparr> st1 = (Inr session, st2) \<and>
        (\<forall>E'' rt m. authenticateMethod E'' (cpAgentID p) rt (seToken session) m st2 = Inr () \<longleftrightarrow>
           m \<in> set (chMethods ch) \<and> ieClk E'' 0 < ieClk E' 1 + 15 * Minute) \<and>
        (\<forall>E'' sig'. capabilityExchange E'' \<lparr>xpAgentID = cpAgentID p, xpChallenge = ch, xpSignature = sig'\<rparr> st2 =
           (Inl ErrInvalidRequest, st2))))"
proof -
  let ?a = "cpAgentID p"
  have "kPublic key \<noteq> []"
    using assms(2) by (auto simp: FromPrivate_def ed25519_Public_def PrivateKeySize_def split: if_splits)
  with capabilityChallenge_returns[OF assms(1) _ assms(4), of H] assms(3) obtain ch where ch:
    "capabilityChallenge H E p st = (Inr ch, st\<lparr>mChallenges := (mChallenges st)(challenge_key ?a (chNonce ch) \<mapsto> ch)\<rparr>)"
    "chAgentID ch = ?a" "chExpiresAt ch = ieClk E 0 + 2 * Minute"
    "chMethods ch = (if cpMethods p = [] then default_methods else cpMethods p)" by metis
  let ?st1 = "st\<lparr>mChallenges := (mChallenges st)(challenge_key ?a (chNonce ch) \<mapsto> ch)\<rparr>"
  let ?ss = "IssueSession (ieRnd E' 0) ?a (arCapabilityGeneration reg) (chMethods ch) (ieClk E' 1) (15 * Minute)"
  let ?st2 = "st\<lparr>mChallenges := (mChallenges st)(challenge_key ?a (chNonce ch) := None), mSessions := (mSessions st)(seToken ?ss \<mapsto> ?ss)\<rparr>"
  have reg: "GetAgentRegistration ?a (mStore st) = Inr reg"
    using assms(1) by (auto simp: Authenticate_def split: sum.splits if_splits)
  have exchange: "capabilityExchange E' \<lparr>xpAgentID = ?a, xpChallenge = ch, xpSignature = sig\<rparr> ?st1 = (Inr ?ss, ?st2)"
    if "Capability_Sign (ieP E) (ieChallenge E) key ch = Inr sig" "length sig = SignatureSize" for sig
    using Capability_Sign_verifies[OF assms(2,5) that(2,1), of "chMethods ch"] reg ch(2,3) assms(3,6-8)
    by (simp add: capabilityExchange_def Let_def as_invalid_def)
  have admits: "authenticateMethod E'' ?a rt (seToken ?ss) m ?st2 = Inr () \<longleftrightarrow>
      m \<in> set (chMethods ch) \<and> ieClk E'' 0 < ieClk E' 1 + 15 * Minute" for E'' rt m
    using RawURL_token[OF assms(9)] session_admits[of "ieRnd E' 0" ?a _ _ _ "15 * Minute"] reg
    by (simp add: authenticateMethod_def Minute_def)
  have used: "capabilityExchange E'' \<lparr>xpAgentID = ?a, xpChallenge = ch, xpSignature = sig'\<rparr> ?st2 = (Inl ErrInvalidRequest, ?st2)" for E'' sig'
    using reg by (simp add: capabilityExchange_def Let_def)
  show ?thesis using ch(1,4) exchange admits used by blast
qed

section \<open>Sending is idempotent\<close>

lemma GetOutbox_row:
  assumes "GetOutbox P i s = Inr m"
  obtains row where "by_key omMessageID i (outbox_messages s) = Some row" "restoreOutbox P row s = Inr m"
    "m = row\<lparr>omPayload := omPayload m\<rparr>" "omMessageID m = i"
  using assms by (auto simp: GetOutbox_def restoreOutbox_def dest!: by_key_SomeD split: option.splits sum.splits)

lemma sendMessage_returns:
  assumes "sendMessage E p st = (Inr m, st')"
  obtains c where "GetContact (smSourceAgentID p) (smTargetAgentID p) (mStore st) = Inr c" "cState c = ContactStateActive"
    "authenticateMethod E (smSourceAgentID p) (smRegistrationToken p) (smCapabilitySession p) ''message.send'' st = Inr ()"
    "GetOutbox (ieP E) (omMessageID m) (mStore st') = Inr m"
    "omSourceAgentID m = smSourceAgentID p" "omTargetAgentID m = smTargetAgentID p"
proof -
  let ?i = "if smMessageID p = [] then ieUuid E 0 else smMessageID p"
  have new: "omSourceAgentID x = smSourceAgentID p \<and> omTargetAgentID x = smTargetAgentID p"
    if "EnqueueOutbox P t n msg s = (Inr (), s')" "GetOutbox P ?i s' = Inr x" "omMessageID msg = ?i"
      "omSourceAgentID msg = smSourceAgentID p" "omTargetAgentID msg = smTargetAgentID p" for P t n msg s s' x
    using that by (auto simp: EnqueueOutbox_returns by_key_append elim!: GetOutbox_row)
      (metis OutboxMessage.select_convs OutboxMessage.surjective OutboxMessage.update_convs enqueued_ids)+
  have "\<exists>c. GetContact (smSourceAgentID p) (smTargetAgentID p) (mStore st) = Inr c \<and> cState c = ContactStateActive \<and>
      authenticateMethod E (smSourceAgentID p) (smRegistrationToken p) (smCapabilitySession p) ''message.send'' st = Inr () \<and>
      GetOutbox (ieP E) ?i (mStore st') = Inr m \<and> omSourceAgentID m = smSourceAgentID p \<and> omTargetAgentID m = smTargetAgentID p"
    using assms unfolding sendMessage_def Let_def
    by (simp add: as_invalid_def and_then_returns on_store_def split: if_splits sum.splits prod.splits; fastforce dest!: new)
  then show thesis using that GetOutbox_row by metis
qed

lemma outbox_kept:
  assumes "GetOutbox P i s = Inr m" and "t = run (store_step P) ops s"
  shows "\<exists>m'. GetOutbox P i t = Inr m' \<and> outbox_le m m'"
proof -
  obtain row where row: "by_key omMessageID i (outbox_messages s) = Some row" "restoreOutbox P row s = Inr m"
    using assms(1) by (rule GetOutbox_row)
  have le: "store_le s t" unfolding assms(2) by (rule store_le_run)
  then obtain row' where row': "by_key omMessageID i (outbox_messages t) = Some row'" "outbox_le row row'"
    using keepsD[OF store_leD(1)[OF le] row(1)] by auto
  have same: "omPayload row' = omPayload row" "outboxAssociatedData row' = outboxAssociatedData row" "aead t = aead s"
    using row'(2) store_leD(7)[OF le] unfolding outbox_le_def outboxAssociatedData_def by (cases row, cases row', simp)+
  have "outbox_le (row\<lparr>omPayload := x\<rparr>) (row'\<lparr>omPayload := x\<rparr>)" for x
    using row'(2) by (cases row, cases row') (auto simp: outbox_le_def)
  with row(2) row' same show ?thesis
    by (auto simp: GetOutbox_def restoreOutbox_def split: option.splits sum.splits)
qed

text \<open>
  C15. Sending is idempotent. Only an authenticated agent with an active contact sends, and what it gets back is in the
  outbox. When the same identifier is sent again at any later time, with whatever payload, nothing is
  written; an answer shows the first message (the same agents, context and payload, at most further along),
  and the sender gets it as long as it is authenticated and the contact is active.
\<close>

theorem sending_once:
  assumes "sendMessage E p st = (Inr m, st')" and "mStore u = run (store_step (ieP E)) ops (mStore st')"
    and "ieP E' = ieP E" and "smMessageID p' = omMessageID m" and "omMessageID m \<noteq> []"
  shows "snd (sendMessage E' p' u) = u \<and>
    (\<forall>m'. fst (sendMessage E' p' u) = Inr m' \<longrightarrow> outbox_le m m' \<and> smSourceAgentID p' = smSourceAgentID p) \<and>
    (authenticateMethod E' (smSourceAgentID p) (smRegistrationToken p') (smCapabilitySession p') ''message.send'' u = Inr () \<and>
     (\<exists>c. GetContact (smSourceAgentID p) (smTargetAgentID p) (mStore u) = Inr c \<and> cState c = ContactStateActive) \<and>
     smSourceAgentID p \<noteq> [] \<and> smTargetAgentID p \<noteq> [] \<and> smPayload p' \<noteq> [] \<and>
     (smRegistrationToken p' \<noteq> [] \<or> smCapabilitySession p' \<noteq> []) \<and>
     smSourceAgentID p' = smSourceAgentID p \<and> smTargetAgentID p' = smTargetAgentID p \<longrightarrow> ok (fst (sendMessage E' p' u)))"
proof -
  obtain c where c: "GetOutbox (ieP E) (omMessageID m) (mStore st') = Inr m"
    "omSourceAgentID m = smSourceAgentID p" "omTargetAgentID m = smTargetAgentID p"
    using assms(1) by (rule sendMessage_returns)
  obtain m' where m': "GetOutbox (ieP E) (omMessageID m) (mStore u) = Inr m'" "outbox_le m m'"
    using outbox_kept[OF c(1) assms(2)] by blast
  then have ids: "omSourceAgentID m' = smSourceAgentID p" "omTargetAgentID m' = smTargetAgentID p"
    using c(2,3) unfolding outbox_le_def by (cases m, cases m', simp)+
  have "snd (sendMessage E' p' u) = u"
    using m'(1) assms(3-5) by (simp add: sendMessage_def and_then_snd as_invalid_def Let_def split: sum.splits)
  moreover have "outbox_le m x \<and> smSourceAgentID p' = smSourceAgentID p" if "fst (sendMessage E' p' u) = Inr x" for x
    using that m' ids assms(3-5)
    by (auto simp: sendMessage_def and_then_def as_invalid_def Let_def split: sum.splits if_splits)
  moreover have "ok (fst (sendMessage E' p' u))"
    if "authenticateMethod E' (smSourceAgentID p) (smRegistrationToken p') (smCapabilitySession p') ''message.send'' u = Inr ()"
      "GetContact (smSourceAgentID p) (smTargetAgentID p) (mStore u) = Inr c" "cState c = ContactStateActive"
      "smSourceAgentID p \<noteq> []" "smTargetAgentID p \<noteq> []" "smPayload p' \<noteq> []" "smRegistrationToken p' \<noteq> [] \<or> smCapabilitySession p' \<noteq> []"
      "smSourceAgentID p' = smSourceAgentID p" "smTargetAgentID p' = smTargetAgentID p" for c
    using that m'(1) ids assms(3-5) by (simp add: sendMessage_def as_invalid_def Let_def)
  ultimately show ?thesis by blast
qed

text \<open>
  Tasks are not owned: when an identifier is not in the outbox but in the task index, every agent that can authenticate
  sees the task and marks it for cancellation, whoever it belongs to.
\<close>

lemma foreign_task_cancelled:
  assumes "authenticateMethod E (msSourceAgentID p) (msRegistrationToken p) (msCapabilitySession p) ''message.status'' st = Inr ()"
    and "by_key omMessageID (msMessageID p) (outbox_messages (mStore st)) = None"
    and "GetTaskIndex (msMessageID p) (mStore st) = Inr task"
  shows "\<exists>st' task'. cancelMessage E p st = (Inr (task_message OutboxStateCancelled (ieClk E 3) task), st') \<and>
    GetTaskIndex (msMessageID p) (mStore st') = Inr task' \<and> tiState task' = ''cancel_requested'' \<and> tiLocalAgentID task' = tiLocalAgentID task"
proof -
  have id: "tiTaskID task = msMessageID p" using assms(3) by (auto simp: GetTaskIndex_def dest!: by_key_SomeD split: option.splits)
  have status: "messageStatus E p st = (Inr (task_message OutboxStateDelivered (tiUpdatedAt task) task), st)"
    using assms by (simp add: messageStatus_def as_invalid_def GetOutbox_def)
  have key: "omMessageID (task_message x t task) = msMessageID p" for x t by (simp add: task_message_def id)
  have none: "on_store (CancelOutbox t (msMessageID p)) st = (Inl ErrNotFound, st)" for t
    using assms(2) by (simp add: on_store_def CancelOutbox_def)
  have cancel: "cancelMessage E p st = and_then (request_cancel (ieClk E 2) task st)
      (\<lambda>_ st. (Inr (task_message OutboxStateCancelled (ieClk E 3) task), st))"
    by (simp add: cancelMessage_def status key none assms(3))
  let ?task = "task\<lparr>tiState := ''cancel_requested'', tiUpdatedAt := trunc_ms (if IsZero (tiUpdatedAt task) then ieClk E 2 else tiUpdatedAt task)\<rparr>"
  let ?st = "snd (request_cancel (ieClk E 2) task st)"
  have "request_cancel (ieClk E 2) task st = (Inr (), ?st)" by (simp add: request_cancel_def on_store_def UpsertTaskIndex_def)
  then have "cancelMessage E p st = (Inr (task_message OutboxStateCancelled (ieClk E 3) task), ?st)"
    unfolding cancel by (metis and_then_Inr)
  moreover have "GetTaskIndex (msMessageID p) (mStore ?st) = Inr ?task"
  proof -
    have row: "by_key tiTaskID (msMessageID p) (task_index (mStore st)) = Some task"
      using assms(3) by (simp add: GetTaskIndex_def split: option.splits)
    then have "msMessageID p \<in> tiTaskID ` set (task_index (mStore st))" using by_key_Some_in by fastforce
    with row id show ?thesis
      by (simp add: request_cancel_def on_store_def UpsertTaskIndex_def GetTaskIndex_def upsert_row_def by_key_update task_merge_def)
  qed
  ultimately show ?thesis by auto
qed

section \<open>Local agents send and share with active contacts only\<close>

interpretation send_active: active_gate
  "\<lambda>(E, p, st) s. ok (fst (sendMessage E p (st\<lparr>mStore := s\<rparr>)))" "\<lambda>(E, p, st). (smSourceAgentID p, smTargetAgentID p)"
proof unfold_locales
  fix x s a b
  assume passed: "(case x of (E, p, st) \<Rightarrow> \<lambda>s. ok (fst (sendMessage E p (st\<lparr>mStore := s\<rparr>)))) s"
    and parties: "(case x of (E, p, st) \<Rightarrow> (smSourceAgentID p, smTargetAgentID p)) = (a, b)"
  obtain E p st where x: "x = (E, p, st)" by (cases x)
  with passed obtain m st' where "sendMessage E p (st\<lparr>mStore := s\<rparr>) = (Inr m, st')" by (auto simp: ok_iff) (metis prod.collapse)
  then show "contact_state a b s = ContactStateActive"
    by (rule sendMessage_returns) (use parties x in \<open>simp add: contact_state_def\<close>)
qed

interpretation grant_active: active_gate
  "\<lambda>(H, E, p, st) s. ok (fst (grantAttachment H E p (st\<lparr>mStore := s\<rparr>)))" "\<lambda>(H, E, p, st). (gpAgentID p, gpTargetAgentID p)"
  by unfold_locales (auto simp: grantAttachment_def contact_state_def split: if_splits sum.splits)

section \<open>Ensuring an agent\<close>

lemma Register_stores:
  assumes "Register P W now random input s = (Inr (stored, tok), t)"
  shows "stored = (registration_of P input tok)\<lparr>arCreatedAt := arCreatedAt stored, arUpdatedAt := arUpdatedAt stored\<rparr>"
  using assms
  by (auto simp: Register_def Let_def and_then_returns RegisterAgent_def GetAgentRegistration_def insert_row_Some_iff
      insert_row_None_iff by_key_append registration_of_def split: if_splits option.splits)

lemma registerAgent_returns:
  assumes "registerAgent E p st = (Inr r, st')"
  defines "i \<equiv> Generate (ieP E) (ieRnd E 0) (rpAgentID p)" and "k \<equiv> GenerateKey (ieRnd E 1)"
  obtains fs where "GetAgentRegistration (idAgentID i) (mStore st') = Inr (rrRegistration r)"
    "arAgentID (rrRegistration r) = idAgentID i" "arDisplayName (rrRegistration r) = rpDisplayName p"
    "arLocalEndpoint (rrRegistration r) = rpLocalEndpoint p" "arAgentCardJSON (rrRegistration r) = rpAgentCard p"
    "arIdentityPublicKey (rrRegistration r) = idPublicKey i" "arCapabilityPublicKey (rrRegistration r) = kPublic k"
    "arRegistrationTokenHash (rrRegistration r) = tokenHash (ieP E) (rrRegistrationToken r)"
    "rrRegistrationToken r = newToken (ieRnd E 2)"
    "PutIdentity (ieIdJson E) (ieIO E 0) (Some i) (mFiles st) = (Inr (), fs)"
    "PutCapabilityKey (ieIdJson E) (ieIO E 1) (idAgentID i) k fs = (Inr (), mFiles st')"
proof -
  obtain stored tok t fs fs' where x: "Register (ieP E) (ieWeb E) (ieClk E 0) (ieRnd E 2)
      \<lparr>riAgentID = idAgentID i, riDisplayName = rpDisplayName p, riLocalEndpoint = rpLocalEndpoint p, riAgentCardJSON = rpAgentCard p,
       riIdentityPublicKey = idPublicKey i, riCapabilityPublicKey = kPublic k, riCapabilityGeneration = 1\<rparr> (mStore st) = (Inr (stored, tok), t)"
    "PutIdentity (ieIdJson E) (ieIO E 0) (Some i) (mFiles st) = (Inr (), fs)"
    "PutCapabilityKey (ieIdJson E) (ieIO E 1) (idAgentID i) k fs = (Inr (), fs')"
    "r = \<lparr>rrRegistration = stored, rrRegistrationToken = tok\<rparr>" "mStore st' = t" "mFiles st' = fs'"
    using assms(1) unfolding registerAgent_def Let_def i_def k_def
    by (auto simp: and_then_returns on_store_def on_files_def split: prod.splits)
  note reg = Register_returns[OF x(1)] and stored = Register_stores[OF x(1)]
  show thesis
  proof (rule that[of fs])
    show "GetAgentRegistration (idAgentID i) (mStore st') = Inr (rrRegistration r)" using reg(3) x(4,5) by simp
    show "arAgentID (rrRegistration r) = idAgentID i" "arDisplayName (rrRegistration r) = rpDisplayName p"
      "arLocalEndpoint (rrRegistration r) = rpLocalEndpoint p" "arAgentCardJSON (rrRegistration r) = rpAgentCard p"
      "arIdentityPublicKey (rrRegistration r) = idPublicKey i" "arCapabilityPublicKey (rrRegistration r) = kPublic k"
      "arRegistrationTokenHash (rrRegistration r) = tokenHash (ieP E) (rrRegistrationToken r)"
      unfolding x(4) by (simp_all, (subst stored, simp add: registration_of_def)+)
    show "rrRegistrationToken r = newToken (ieRnd E 2)" using reg(1) x(4) by simp
  qed (use x(2,3,6) in simp_all)
qed

lemma ensureAgent_created:
  assumes "ensureAgent E p st = (Inr r, st')" and "erCreated r"
  shows "registerAgent E \<lparr>rpAgentID = epAgentID p, rpDisplayName = epDisplayName p, rpLocalEndpoint = epLocalEndpoint p,
      rpAgentCard = epAgentCard p\<rparr> st = (Inr \<lparr>rrRegistration = erRegistration r, rrRegistrationToken = erRegistrationToken r\<rparr>, st')"
    and "TrimSpace (epDisplayName p) \<noteq> []" "TrimSpace (epLocalEndpoint p) \<noteq> []" "epAgentCard p \<noteq> []"
proof -
  have "ensure_new E p st = (Inr r, st') \<and> TrimSpace (epDisplayName p) \<noteq> [] \<and> TrimSpace (epLocalEndpoint p) \<noteq> [] \<and> epAgentCard p \<noteq> []"
    using assms by (auto simp: ensureAgent_def ensure_existing_def split: if_splits sum.splits)
  then show "registerAgent E \<lparr>rpAgentID = epAgentID p, rpDisplayName = epDisplayName p, rpLocalEndpoint = epLocalEndpoint p,
      rpAgentCard = epAgentCard p\<rparr> st = (Inr \<lparr>rrRegistration = erRegistration r, rrRegistrationToken = erRegistrationToken r\<rparr>, st')"
    "TrimSpace (epDisplayName p) \<noteq> []" "TrimSpace (epLocalEndpoint p) \<noteq> []" "epAgentCard p \<noteq> []"
    by (auto simp: ensure_new_def and_then_returns)
qed

text \<open>
  C18. Ensuring an agent can be retried. After an agent was created, the same call with the returned identifier and
  token gives the same registration and token, reports that nothing was created and changes nothing; with
  any other token it is refused, so neither the identity nor the token of an agent is ever replaced.
\<close>

theorem ensuring_twice:
  assumes "ensureAgent E p st = (Inr r, st')" and "erCreated r"
    and "length (ieRnd E 0) = PrivateKeySize" and "length (ieRnd E 1) = PrivateKeySize" and "ieRnd E 2 \<noteq> []"
    and "\<And>v. recAgentID v = arAgentID (erRegistration r) \<Longrightarrow> json_restores (ieIdJson E) v"
    and "ieIdJson E' = ieIdJson E" and "ieP E' = ieP E" and "ieIO E' 0 = no_io_error" and "ieIO E' 1 = no_io_error"
    and "p' = p\<lparr>epAgentID := arAgentID (erRegistration r)\<rparr>"
  shows "ensureAgent E' (p'\<lparr>epRegistrationToken := erRegistrationToken r\<rparr>) st' = (Inr (r\<lparr>erCreated := False\<rparr>), st') \<and>
    (\<forall>tok. sha256 (ieP E) tok \<noteq> sha256 (ieP E) (erRegistrationToken r) \<longrightarrow>
       ensureAgent E' (p'\<lparr>epRegistrationToken := tok\<rparr>) st' = (Inl ErrInvalidRequest, st'))"
proof -
  let ?i = "Generate (ieP E) (ieRnd E 0) (epAgentID p)" and ?k = "GenerateKey (ieRnd E 1)"
  note created = ensureAgent_created[OF assms(1,2)]
  obtain fs where g: "GetAgentRegistration (idAgentID ?i) (mStore st') = Inr (erRegistration r)"
    "arAgentID (erRegistration r) = idAgentID ?i" "arDisplayName (erRegistration r) = epDisplayName p"
    "arLocalEndpoint (erRegistration r) = epLocalEndpoint p" "arAgentCardJSON (erRegistration r) = epAgentCard p"
    "arIdentityPublicKey (erRegistration r) = idPublicKey ?i" "arCapabilityPublicKey (erRegistration r) = kPublic ?k"
    "arRegistrationTokenHash (erRegistration r) = tokenHash (ieP E) (erRegistrationToken r)"
    "erRegistrationToken r = newToken (ieRnd E 2)"
    "PutIdentity (ieIdJson E) (ieIO E 0) (Some ?i) (mFiles st) = (Inr (), fs)"
    "PutCapabilityKey (ieIdJson E) (ieIO E 1) (idAgentID ?i) ?k fs = (Inr (), mFiles st')"
    by (rule registerAgent_returns[OF created(1)]) simp_all
  note io = put_succeeds(1)[OF g(10)] put_succeeds(2)[OF g(11)]
  have key: "FromPrivate (kPrivate ?k) = Inr ?k" using assms(4) by (simp add: FromPrivate_def GenerateKey_def)
  have J: "json_restores (ieIdJson E) \<lparr>recAgentID = idAgentID ?i, recPrivateKey = x\<rparr>" for x using assms(6) g(2) by simp
  note files = identity_files_restored[OF J J wf_Generate[OF assms(3)] _ _ key]
  have "FileStore_GetIdentity (ieIdJson E) no_io_error (idAgentID ?i) fs = Inr ?i"
    "GetCapabilityKey (ieIdJson E) no_io_error (idAgentID ?i) (mFiles st') = Inr ?k" "mFiles st' (path (idAgentID ?i)) = fs (path (idAgentID ?i))"
    using files[of "mFiles st"] files[of fs] io g(10,11) paths_differ by auto
  then have stored: "FileStore_GetIdentity (ieIdJson E) no_io_error (idAgentID ?i) (mFiles st') = Inr ?i"
    "GetCapabilityKey (ieIdJson E) no_io_error (idAgentID ?i) (mFiles st') = Inr ?k" using GetIdentity_other_file by metis+
  have trim: "TrimSpace (erRegistrationToken r) \<noteq> []" "TrimSpace (idAgentID ?i) \<noteq> []"
    using token_RawURL[OF assms(5)] io TrimSpace_visible[of "erRegistrationToken r"] g(9)
    by (auto simp: newToken_def token_def list_all_iff token_char_def)
  have ensure: "ensureAgent E' (p'\<lparr>epRegistrationToken := tok\<rparr>) st' =
      (if TrimSpace tok = [] then Inl ErrInvalidRequest
       else if sha256 (ieP E) tok = sha256 (ieP E) (erRegistrationToken r)
       then Inr \<lparr>erRegistration = erRegistration r, erRegistrationToken = tok, erCreated = False\<rparr>
       else Inl ErrInvalidRequest, st')" for tok
    using created(2-4) g(1-8) stored trim(2) assms(7-11)
    by (simp add: ensureAgent_def ensure_existing_def sameJSON_def Authenticate_def tokenHash_def split: option.splits)
  show ?thesis using ensure trim(1) by auto
qed

end
