(* ===== verification/ManagementDemo.thy ===== *)
theory ManagementDemo
  imports ManagementFlows
begin

text \<open>
  A concrete daemon: one registered agent with a capability key, a session and an active contact, on which the theorems
  about the local socket and the management handler are instantiated.
\<close>

definition demo_params :: params_json where
  "demo_params = \<lparr>dec_value = (\<lambda>_. None), dec_register = (\<lambda>_. None), dec_ensure = (\<lambda>_. None), dec_challenge = (\<lambda>_. None),
     dec_exchange = (\<lambda>_. None), dec_rotate = (\<lambda>_. None), dec_init = (\<lambda>_. None), dec_chunk = (\<lambda>_. None), dec_blob = (\<lambda>_. None),
     dec_grant = (\<lambda>_. None), dec_list = (\<lambda>_. None), dec_read = (\<lambda>_. None), dec_invite = (\<lambda>_. None), dec_accept = (\<lambda>_. None),
     dec_approve = (\<lambda>_. None), dec_confirm = (\<lambda>_. None), dec_activate = (\<lambda>_. None),
     dec_contact = (\<lambda>raw. Some \<lparr>coLocalAgentID = ''alice'', coRemoteAgentID = raw, coReason = []\<rparr>),
     dec_revocation = (\<lambda>_. None), dec_send = (\<lambda>_. None), dec_status = (\<lambda>_. None)\<rparr>"

definition demo_ipc :: ipc_env where
  "demo_ipc = \<lparr>ieLib = demo_lib\<lparr>prim := sized_primitives\<rparr>, ieWeb = demo_web, ieIdJson = demo_idjson,
     ieChallenge = (\<lambda>c. Some (concat (chMethods c))), ieParams = demo_params, ieText = (\<lambda>_. ''error''), ieClk = (\<lambda>n. int n),
     ieUuid = (\<lambda>n. ''uuid''), ieRnd = (\<lambda>n. demo_key (CHR ''k'')), iePair = (\<lambda>_. demo_env), ieIO = (\<lambda>_. no_io_error),
     ieFile = no_failure 1, ieStatus = None\<rparr>"

lemma demo_ipc_simps [simp]:
  "prim (ieLib demo_ipc) = sized_primitives" "ieWeb demo_ipc = demo_web" "ieIdJson demo_ipc = demo_idjson" "ieClk demo_ipc n = int n"
  "ieParams demo_ipc = demo_params" "ieRnd demo_ipc n = demo_key (CHR ''k'')" "ieIO demo_ipc n = no_io_error" "ieUuid demo_ipc n = ''uuid''"
  by (simp_all add: demo_ipc_def)

definition demo_agent :: AgentRegistration where
  "demo_agent = (registration_of sized_primitives demo_registration ''reg'')\<lparr>
     arCapabilityPublicKey := ed25519_Public (demo_key (CHR ''k'')), arCapabilityGeneration := 1\<rparr>"

definition demo_handler :: handler where
  "demo_handler = \<lparr>hReady = True, hBootID = ''boot'', hAttachments = Some demo_service\<rparr>"

definition demo_session :: cap_session where
  "demo_session = \<lparr>seToken = ''tok'', sesAgentID = ''alice'', sesGeneration = 1, sesMethods = [''message.send''], sesExpiresAt = 10\<rparr>"

definition demo_daemon :: mstate where
  "demo_daemon = \<lparr>mStore = (demo_store ContactStateActive)\<lparr>agent_registrations := [demo_agent]\<rparr>, mFiles = Map.empty, mBlobs = no_files,
     mChallenges = Map.empty, mSessions = [''tok'' \<mapsto> demo_session]\<rparr>"

lemma demo_daemon_simps [simp]:
  "GetAgentRegistration ''alice'' (mStore demo_daemon) = Inr demo_agent" "arCapabilityGeneration demo_agent = 1"
  "arCapabilityPublicKey demo_agent = ed25519_Public (demo_key (CHR ''k''))"
  "Authenticate sized_primitives ''alice'' ''reg'' (mStore demo_daemon) = Inr demo_agent"
  "mSessions demo_daemon = [''tok'' \<mapsto> demo_session]" "mBlobs demo_daemon = no_files"
  by (simp_all add: demo_daemon_def demo_agent_def registration_of_def demo_registration_def GetAgentRegistration_def Authenticate_def)

lemma demo_contact_active: "GetContact ''alice'' ''bob'' (mStore demo_daemon) = Inr (demo_contact ContactStateActive)"
  by (simp add: demo_daemon_def GetContact_def demo_store_def demo_contact_def contact_key_def)


lemma demo_rotation: "\<exists>r st'. rotateCapability demo_ipc \<lparr>roAgentID = ''alice'', roRegistrationToken = ''reg''\<rparr> demo_daemon = (Inr r, st')"
  by (simp add: rotateCapability_def as_invalid_def Let_def on_store_def on_files_def UpdateAgentCapability_def demo_daemon_def
      GetAgentRegistration_def Authenticate_def demo_agent_def registration_of_def demo_registration_def update_rows_def requireOneRow_def
      PutCapabilityKey_def trim_alice no_io_error_def writeSecret_def)

theorem rotation_ends_sessions_witness:
  "\<exists>r st'. rotateCapability demo_ipc \<lparr>roAgentID = ''alice'', roRegistrationToken = ''reg''\<rparr> demo_daemon = (Inr r, st') \<and>
     authenticateMethod demo_ipc ''alice'' [] ''tok'' ''message.send'' demo_daemon = Inr () \<and>
     authenticateMethod demo_ipc ''alice'' [] ''tok'' ''message.send'' st' = Inl ErrExpired"
proof -
  obtain r st' where rot: "rotateCapability demo_ipc \<lparr>roAgentID = ''alice'', roRegistrationToken = ''reg''\<rparr> demo_daemon = (Inr r, st')"
    using demo_rotation by blast
  have good: "authenticateMethod demo_ipc ''alice'' [] ''tok'' ''message.send'' demo_daemon = Inr ()"
    by (simp add: authenticateMethod_def Validate_def demo_session_def)
  from rotation_ends_sessions[OF rot, of "''tok''" demo_session demo_ipc "[]" "''message.send''" demo_handler demo_service sized_primitives]
  show ?thesis using rot good by (auto simp: demo_handler_def demo_session_def)
qed

theorem capability_exchange_completes_witness:
  "\<exists>ch st1 sig session st2.
     capabilityChallenge demo_handler demo_ipc \<lparr>cpAgentID = ''alice'', cpRegistrationToken = ''reg'', cpEndpointDigest = [],
       cpMethods = [''mailbox.list'']\<rparr> demo_daemon = (Inr ch, st1) \<and>
     capabilityExchange demo_ipc \<lparr>xpAgentID = ''alice'', xpChallenge = ch, xpSignature = sig\<rparr> st1 = (Inr session, st2) \<and>
     authenticateMethod demo_ipc ''alice'' [] (seToken session) ''mailbox.list'' st2 = Inr () \<and>
     authenticateMethod demo_ipc ''alice'' [] (seToken session) ''message.send'' st2 \<noteq> Inr ()"
proof -
  let ?p = "\<lparr>cpAgentID = ''alice'', cpRegistrationToken = ''reg'', cpEndpointDigest = [], cpMethods = [''mailbox.list'']\<rparr>"
  let ?k = "demo_key (CHR ''k'')" and ?key = "\<lparr>kPublic = ed25519_Public (demo_key (CHR ''k'')), kPrivate = demo_key (CHR ''k'')\<rparr>"
  have key: "FromPrivate ?k = Inr ?key" by (simp add: FromPrivate_def demo_key_def PrivateKeySize_def)
  have law: "sign_verifies sized_primitives ?k" by (simp add: sign_verifies_def sized_primitives_def)
  have sign: "\<exists>sig. Capability_Sign sized_primitives (ieChallenge demo_ipc) ?key ch = Inr sig \<and> length sig = SignatureSize" for ch
    by (simp add: Capability_Sign_def canonical_def sized_primitives_def SignatureSize_def demo_key_def PrivateKeySize_def demo_ipc_def)
  have "demo_key (CHR ''k'') \<noteq> []" by (simp add: demo_key_def)
  with capability_exchange_completes[of demo_ipc ?p demo_daemon demo_agent ?k ?key demo_ipc demo_handler] key law obtain ch st1 where
    ch: "capabilityChallenge demo_handler demo_ipc ?p demo_daemon = (Inr ch, st1)" "chMethods ch = [''mailbox.list'']"
      "\<forall>sig. Capability_Sign sized_primitives (ieChallenge demo_ipc) ?key ch = Inr sig \<and> length sig = SignatureSize \<longrightarrow>
        (\<exists>session st2. capabilityExchange demo_ipc \<lparr>xpAgentID = ''alice'', xpChallenge = ch, xpSignature = sig\<rparr> st1 = (Inr session, st2) \<and>
          (\<forall>E'' rt m. authenticateMethod E'' ''alice'' rt (seToken session) m st2 = Inr () \<longleftrightarrow>
             m \<in> set (chMethods ch) \<and> ieClk E'' 0 < ieClk demo_ipc 1 + 15 * Minute))"
    by (fastforce simp: Minute_def)
  obtain sig where "Capability_Sign sized_primitives (ieChallenge demo_ipc) ?key ch = Inr sig" "length sig = SignatureSize" using sign by blast
  with ch(3) obtain session st2 where ex: "capabilityExchange demo_ipc \<lparr>xpAgentID = ''alice'', xpChallenge = ch, xpSignature = sig\<rparr> st1 = (Inr session, st2)"
    "\<forall>E'' rt m. authenticateMethod E'' ''alice'' rt (seToken session) m st2 = Inr () \<longleftrightarrow>
      m \<in> set (chMethods ch) \<and> ieClk E'' 0 < ieClk demo_ipc 1 + 15 * Minute" by blast
  have "authenticateMethod demo_ipc ''alice'' [] (seToken session) ''mailbox.list'' st2 = Inr ()"
    "authenticateMethod demo_ipc ''alice'' [] (seToken session) ''message.send'' st2 \<noteq> Inr ()"
    using ex(2) ch(2) by (auto simp: Minute_def)
  with ch(1) ex(1) show ?thesis by blast
qed

definition demo_send :: MessageSendParams where
  "demo_send = \<lparr>smSourceAgentID = ''alice'', smTargetAgentID = ''bob'', smRegistrationToken = ''reg'', smCapabilitySession = [],
     smContextID = ''ctx'', smMessageID = ''m1'', smPayload = ''{}''\<rparr>"

lemma demo_sent: "\<exists>m st'. sendMessage demo_ipc demo_send demo_daemon = (Inr m, st') \<and> omMessageID m = ''m1'' \<and> omPayload m = ''{}''"
  using demo_contact_active
  by (simp add: sendMessage_def demo_send_def as_invalid_def authenticateMethod_def Let_def demo_contact_def GetOutbox_def on_store_def
      EnqueueOutbox_def demo_daemon_def demo_store_def empty_store_def insert_row_def zero_message_def restoreOutbox_def
      Authenticate_def GetAgentRegistration_def demo_agent_def registration_of_def demo_registration_def)

theorem sending_once_witness:
  "\<exists>m st'. sendMessage demo_ipc demo_send demo_daemon = (Inr m, st') \<and>
     (\<forall>m' u. sendMessage demo_ipc (demo_send\<lparr>smPayload := ''[]''\<rparr>) st' = (Inr m', u) \<longrightarrow> u = st' \<and> omPayload m' = ''{}'')"
proof -
  obtain m st' where sent: "sendMessage demo_ipc demo_send demo_daemon = (Inr m, st')" "omMessageID m = ''m1''" "omPayload m = ''{}''"
    using demo_sent by blast
  have "u = st' \<and> omPayload m' = ''{}''" if "sendMessage demo_ipc (demo_send\<lparr>smPayload := ''[]''\<rparr>) st' = (Inr m', u)" for m' u
  proof -
    have "u = st'" "outbox_le m m'"
      using sending_once[OF sent(1), of st' "[]" demo_ipc "demo_send\<lparr>smPayload := ''[]''\<rparr>"] that sent(2) by (auto simp: demo_send_def)
    moreover have "omPayload m' = omPayload m" using \<open>outbox_le m m'\<close> unfolding outbox_le_def by (cases m, cases m', simp)
    ultimately show ?thesis using sent(3) by simp
  qed
  with sent(1) show ?thesis by blast
qed

text \<open>Alice asks to cancel a task of another local agent.\<close>

lemma foreign_task_cancelled_example:
  "\<exists>msg st'. cancelMessage demo_ipc \<lparr>msSourceAgentID = ''alice'', msRegistrationToken = ''reg'', msCapabilitySession = [], msMessageID = ''t1''\<rparr>
       (demo_daemon\<lparr>mStore := (mStore demo_daemon)\<lparr>task_index := [\<lparr>tiTaskID = ''t1'', tiContextID = ''c'', tiLocalAgentID = ''carol'',
          tiRemoteAgentID = ''bob'', tiState = ''working'', tiCursor = [], tiUpdatedAt = 0\<rparr>]\<rparr>\<rparr>) = (Inr msg, st') \<and>
     omSourceAgentID msg = ''carol''"
proof -
  let ?p = "\<lparr>msSourceAgentID = ''alice'', msRegistrationToken = ''reg'', msCapabilitySession = [], msMessageID = ''t1''\<rparr>"
  let ?task = "\<lparr>tiTaskID = ''t1'', tiContextID = ''c'', tiLocalAgentID = ''carol'', tiRemoteAgentID = ''bob'', tiState = ''working'',
    tiCursor = [], tiUpdatedAt = 0\<rparr>"
  let ?st = "demo_daemon\<lparr>mStore := (mStore demo_daemon)\<lparr>task_index := [?task]\<rparr>\<rparr>"
  have "authenticateMethod demo_ipc ''alice'' ''reg'' [] ''message.status'' ?st = Inr ()"
    by (simp add: authenticateMethod_def Authenticate_def GetAgentRegistration_def demo_daemon_def demo_agent_def registration_of_def demo_registration_def)
  with foreign_task_cancelled[of demo_ipc ?p ?st ?task] show ?thesis
    by (auto simp: GetTaskIndex_def demo_daemon_def demo_store_def empty_store_def task_message_def)
qed

definition demo_ensure :: AgentEnsureParams where
  "demo_ensure = \<lparr>epAgentID = ''alice'', epDisplayName = ''Alice'', epLocalEndpoint = ''localhost'', epAgentCard = ''{}'', epRegistrationToken = []\<rparr>"

definition demo_fresh :: mstate where
  "demo_fresh = snd (NewHandler True ''boot'' [demo_service] (empty_store None) Map.empty no_files)"

lemma trim_demo: "TrimSpace ''Alice'' = ''Alice''" "TrimSpace ''localhost'' = ''localhost''" "TrimSpace ''alice'' = ''alice''"
  by (rule TrimSpace_visible; simp add: visible_def byte_def)+

lemma demo_ensured: "\<exists>r st'. ensureAgent demo_ipc demo_ensure demo_fresh = (Inr r, st') \<and> erCreated r \<and> arAgentID (erRegistration r) = ''alice''"
  by (simp add: ensureAgent_def demo_ensure_def trim_demo demo_fresh_def NewHandler_def GetAgentRegistration_def empty_store_def
      FileStore_GetIdentity_def no_io_error_def ensure_new_def registerAgent_def Let_def Generate_def on_store_def Register_def
      validateLocalEndpoint_def demo_web_def IsLoopback_def To4_def RegisterAgent_def insert_row_def registration_of_def
      on_files_def PutIdentity_def writeSecret_def PutCapabilityKey_def ed25519_Public_def demo_key_def)

theorem ensuring_twice_witness:
  "\<exists>r st'. ensureAgent demo_ipc demo_ensure demo_fresh = (Inr r, st') \<and> erCreated r \<and>
     ensureAgent demo_ipc (demo_ensure\<lparr>epRegistrationToken := erRegistrationToken r\<rparr>) st' = (Inr (r\<lparr>erCreated := False\<rparr>), st')"
proof -
  obtain r st' where e: "ensureAgent demo_ipc demo_ensure demo_fresh = (Inr r, st')" "erCreated r" "arAgentID (erRegistration r) = ''alice''"
    using demo_ensured by blast
  have J: "json_restores (ieIdJson demo_ipc) v" if "recAgentID v = arAgentID (erRegistration r)" for v
    using demo_idjson_restores[of "recAgentID v" "recPrivateKey v"] that e(3) by (cases v) simp
  have "demo_ensure = demo_ensure\<lparr>epAgentID := arAgentID (erRegistration r)\<rparr>" using e(3) by (simp add: demo_ensure_def)
  with ensuring_twice[OF e(1,2) _ _ _ J, of demo_ipc demo_ensure] e(1,2) show ?thesis
    by (auto simp: demo_key_def PrivateKeySize_def)
qed

definition demo_ipcjson :: ipcjson where
  \<comment> \<open>carries what varies in the example: the method of the request, and the result of the response\<close>
  "demo_ipcjson = \<lparr>Request_Encode = iqMethod,
     Request_Decode = (\<lambda>b. (\<lparr>iqVersion = ProtocolVersion, iqRequestID = ''1'', iqMethod = b, iqParams = ''null''\<rparr>, False)),
     Response_Encode = rsResult,
     Response_Decode = (\<lambda>b. Some \<lparr>rsVersion = ProtocolVersion, rsRequestID = ''1'', rsResult = b, rsError = None\<rparr>),
     Error_text = (\<lambda>_. ''error'')\<rparr>"

lemma demo_status:
  "HandleIPC demo_handler demo_ipc \<lparr>iqVersion = ProtocolVersion, iqRequestID = ''1'', iqMethod = ''status'', iqParams = params\<rparr> demo_daemon =
     (Inr (RStatus (handleStatus demo_ipc)), demo_daemon)"
  by (simp add: HandleIPC_def demo_handler_def)

end
