(* ===== verification/Commands.thy ===== *)
theory Commands
  imports ManagementDemo Lifecycle
begin

text \<open>
  The two programs: the command line client (\<^verbatim>\<open>cmd/snw-agent-link\<close>) with its path to the handler of the daemon, the
  main function of the daemon (\<^verbatim>\<open>cmd/snw-agent-linkd\<close>) and its Windows service; and the local socket of
  \<^verbatim>\<open>internal/ipc/listener_unix.go\<close>. Parsing of flags and JSON are parameters, as are the operating system's answers.
\<close>

section \<open>The client\<close>

record cli_flags =
  clDataDir :: string
  clIPC :: string
  clParams :: string
  clArgs :: "string list"  \<comment> \<open>the arguments after the flags\<close>

record cli_env =
  ceHost :: host_env
  ceStdinDevice :: bool    \<comment> \<open>standard input can be inspected and is a character device\<close>
  ceStdin :: "go_error + bytes"
  ceOpen :: "string \<Rightarrow> go_error + (go_error + bytes)"
  ceValid :: "bytes \<Rightarrow> bool"
  ceCompact :: "bytes \<Rightarrow> bytes option"  \<comment> \<open>json.Marshal of a raw message\<close>
  ceIndent :: "bytes \<Rightarrow> bytes option"   \<comment> \<open>json.Unmarshal into a value and json.MarshalIndent of it\<close>
  ceUUID :: string

definition normalizeMethod :: "string list \<Rightarrow> string" where
  "normalizeMethod args =
     (case args of
        [] \<Rightarrow> []
      | [a] \<Rightarrow> a
      | a # rest \<Rightarrow> a @ ''.'' @ Join ''.'' rest)"

definition paramsLimit :: nat where "paramsLimit = 8 * 2 ^ 20"

definition readJSON :: "cli_env \<Rightarrow> go_error + bytes \<Rightarrow> go_error + bytes" where
  "readJSON E reader =
     (case reader of
        Inl e \<Rightarrow> Inl (ErrMsg ''read params'')
      | Inr content \<Rightarrow>
          let data = take paramsLimit content in
          if TrimSpace data = [] then Inr ''{}''
          else if \<not> ceValid E data then Inl (ErrMsg ''params must be valid JSON'')
          else Inr data)"

definition readParams :: "cli_env \<Rightarrow> string \<Rightarrow> go_error + bytes" where
  "readParams E file_path =
     (if file_path = [] \<or> file_path = ''-'' then (if ceStdinDevice E then Inr ''{}'' else readJSON E (ceStdin E))
      else case ceOpen E file_path of
        Inl e \<Rightarrow> Inl (ErrMsg ''open params'')
      | Inr content \<Rightarrow> readJSON E content)"

datatype cli_result =
  Usage nat           \<comment> \<open>the usage text, with the exit code\<close>
| Fatal call_error    \<comment> \<open>the error, with exit code 1\<close>
| Printed bytes | Silent

definition client_main ::
  "ipcjson \<Rightarrow> cli_env \<Rightarrow> (string \<Rightarrow> bytes \<Rightarrow> 's \<Rightarrow> (go_error, bytes, 's) outcome) \<Rightarrow> cli_flags \<Rightarrow> 's \<Rightarrow> cli_result \<times> 's" where
  \<comment> \<open>exchange connects to an endpoint, sends the bytes and reads the answer within the timeout\<close>
  "client_main J E exchange flags s =
     (if clArgs flags = [] then (Usage 2, s)
      else
      let config = DefaultConfig (ceHost E) (clDataDir flags);
          config = (if clIPC flags \<noteq> [] then config\<lparr>cfgIPCEndpoint := clIPC flags\<rparr> else config);
          m = normalizeMethod (clArgs flags) in
      if m = ''help'' \<or> m = ''--help'' then (Usage 0, s)
      else case readParams E (clParams flags) of
        Inl e \<Rightarrow> (Fatal (CallFailed e), s)
      | Inr params \<Rightarrow>
          (case Call J (ceCompact E params) (exchange (cfgIPCEndpoint config)) (Some Some) (ceUUID E) m s of
             (Inl e, s) \<Rightarrow> (Fatal e, s)
           | (Inr result, s) \<Rightarrow>
               let raw = (case result of None \<Rightarrow> [] | Some r \<Rightarrow> r) in
               if raw = [] \<or> raw = ''null'' then (Silent, s)
               else (case ceIndent E raw of
                       None \<Rightarrow> (Fatal (CallFailed (ErrMsg ''decode result'')), s)
                     | Some encoded \<Rightarrow> (Printed (encoded @ newline), s))))"

section \<open>The main function of the daemon\<close>

record linkd_flags =
  lfDataDir :: string
  lfBindIP :: string
  lfLocalAPISocket :: string
  lfGatewayPort :: int
  lfVersion :: string

definition linkd_defaults :: "host_env \<Rightarrow> linkd_flags" where
  "linkd_defaults h = (let defaults = DefaultConfig h [] in
     \<lparr>lfDataDir = cfgDataDir defaults, lfBindIP = [], lfLocalAPISocket = cfgTailscaleLocalAPISocket defaults,
      lfGatewayPort = cfgGatewayPort defaults, lfVersion = cfgVersion defaults\<rparr>)"

definition linkd_config :: "linkd_flags \<Rightarrow> Config" where
  "linkd_config flags =
     \<lparr>cfgDataDir = lfDataDir flags, cfgDatabasePath = [], cfgIdentityDir = [], cfgIPCEndpoint = [], cfgTailscaleBindIP = lfBindIP flags,
      cfgTailscaleLocalAPISocket = lfLocalAPISocket flags, cfgGatewayPort = lfGatewayPort flags, cfgHostFingerprint = [],
      cfgVersion = lfVersion flags\<rparr>"

definition linkd_main ::
  "weblib \<Rightarrow> host_env \<Rightarrow> (Config \<times> daemon \<Rightarrow> go_error + bool) \<Rightarrow> (Config \<times> daemon \<Rightarrow> go_error option) \<Rightarrow> linkd_flags \<Rightarrow>
   go_error option" where
  \<comment> \<open>the error that ends the program with exit code 1, if any; the functions are \<^verbatim>\<open>runPlatformService\<close> (false outside
      Windows) and Run under the signal context, of the new daemon\<close>
  "linkd_main W h runPlatformService Run flags =
     (case Config_Validate W h (linkd_config flags) of
        Inl e \<Rightarrow> Some e
      | Inr validated \<Rightarrow>
          (case New W h validated of
             Inl e \<Rightarrow> Some e
           | Inr service \<Rightarrow>
               (case runPlatformService service of
                  Inl e \<Rightarrow> Some e
                | Inr handled \<Rightarrow> if handled then None else Run service)))"

section \<open>The Windows service\<close>

datatype svc_cmd = Interrogate | StopCmd | Shutdown | OtherCmd nat
datatype svc_state = StartPending | Running | StopPending
datatype svc_event = RunEnds "go_error option" | ServiceRequest svc_cmd

definition runPlatformService :: "go_error + bool \<Rightarrow> (unit \<Rightarrow> go_error option) \<Rightarrow> go_error + bool" where
  \<comment> \<open>whether the process is a service, and \<^verbatim>\<open>svc.Run\<close>; an error is an error whether handled or not\<close>
  "runPlatformService isService svc_Run =
     (case isService of
        Inl e \<Rightarrow> Inl e
      | Inr False \<Rightarrow> Inr False
      | Inr True \<Rightarrow> (case svc_Run () of Some e \<Rightarrow> Inl e | None \<Rightarrow> Inr True))"

definition exit_of :: "go_error option \<Rightarrow> bool \<times> nat" where
  "exit_of result = (if result \<noteq> None then (True, 1) else (False, 0))"

fun await_run :: "svc_event list \<Rightarrow> (bool \<times> nat) option" where
  \<comment> \<open>after the cancellation only the end of Run is waited for\<close>
  "await_run [] = None"
| "await_run (RunEnds result # es) = Some (exit_of result)"
| "await_run (ServiceRequest r # es) = await_run es"

fun service_loop :: "svc_event list \<Rightarrow> svc_state list \<times> (bool \<times> nat) option" where
  \<comment> \<open>the reported states, and the exit once there is one\<close>
  "service_loop [] = ([], None)"
| "service_loop (RunEnds result # es) = ([], Some (exit_of result))"
| "service_loop (ServiceRequest Interrogate # es) = (case service_loop es of (states, r) \<Rightarrow> (Running # states, r))"
| "service_loop (ServiceRequest StopCmd # es) = ([StopPending], await_run es)"
| "service_loop (ServiceRequest Shutdown # es) = ([StopPending], await_run es)"
| "service_loop (ServiceRequest (OtherCmd n) # es) = service_loop es"

definition Execute :: "go_error option option \<Rightarrow> svc_event list \<Rightarrow> svc_state list \<times> (bool \<times> nat) option" where
  \<comment> \<open>the first argument is the result of Run when it has ended before the first select\<close>
  "Execute ended events =
     (case ended of
        Some result \<Rightarrow> ([StartPending], Some (exit_of result))
      | None \<Rightarrow> (case service_loop events of (states, r) \<Rightarrow> (StartPending # Running # states, r)))"

section \<open>The local socket\<close>

datatype node = Directory nat | Socket nat | OtherNode

record socket_env =
  so_mkdir :: "go_error option"
  so_chmod :: "string \<Rightarrow> go_error option"
  so_lstat :: "go_error option"    \<comment> \<open>an error other than that the file does not exist\<close>
  so_remove :: "go_error option"
  so_bind :: "go_error option"
  so_close :: "go_error option"

definition socketMode :: nat where "socketMode = 6 * 64"

definition removeStaleSocket :: "socket_env \<Rightarrow> string \<Rightarrow> (string \<rightharpoonup> node) \<Rightarrow> (go_error, unit, string \<rightharpoonup> node) outcome" where
  "removeStaleSocket E endpoint fs =
     (case (so_lstat E, fs endpoint) of
        (Some e, _) \<Rightarrow> (Inl (ErrMsg ''inspect IPC socket''), fs)
      | (None, None) \<Rightarrow> (Inr (), fs)
      | (None, Some (Socket m)) \<Rightarrow>
          (case so_remove E of Some e \<Rightarrow> (Inl (ErrMsg ''remove stale IPC socket''), fs) | None \<Rightarrow> (Inr (), fs(endpoint := None)))
      | (None, Some _) \<Rightarrow> (Inl (ErrMsg ''IPC endpoint exists and is not a socket''), fs))"

definition listen :: "socket_env \<Rightarrow> string \<Rightarrow> (string \<rightharpoonup> node) \<Rightarrow> (go_error, unit, string \<rightharpoonup> node) outcome" where
  \<comment> \<open>a listener whose mode cannot be set is closed, and closing it removes the socket; a directory that exists keeps
      its mode when it is created\<close>
  "listen E endpoint fs =
     (if endpoint = [] then (Inl (ErrMsg ''IPC endpoint is required''), fs)
      else
      let dir = filepath_Dir endpoint in
      case so_mkdir E of
        Some e \<Rightarrow> (Inl (ErrMsg ''create IPC directory''), fs)
      | None \<Rightarrow>
          let fs = (if fs dir = None then fs(dir \<mapsto> Directory dirMode) else fs) in
          (case so_chmod E dir of
             Some e \<Rightarrow> (Inl (ErrMsg ''secure IPC directory''), fs)
           | None \<Rightarrow>
               and_then (removeStaleSocket E endpoint (fs(dir \<mapsto> Directory dirMode))) (\<lambda>_ fs.
                 case so_bind E of
                   Some e \<Rightarrow> (Inl (ErrMsg ''listen on IPC socket''), fs)
                 | None \<Rightarrow>
                     (case so_chmod E endpoint of
                        Some e \<Rightarrow> (Inl (ErrMsg ''secure IPC socket''), fs(endpoint := None))
                      | None \<Rightarrow> (Inr (), fs(endpoint \<mapsto> Socket socketMode))))))"

definition cleanup_Close :: "socket_env \<Rightarrow> string \<Rightarrow> (string \<rightharpoonup> node) \<Rightarrow> go_error option \<times> (string \<rightharpoonup> node)" where
  \<comment> \<open>closing the listener removes its socket, when nothing fails; removing it again is no error\<close>
  "cleanup_Close E endpoint fs =
     (let fs = (if so_close E = None then fs(endpoint := None) else fs) in
      if fs endpoint = None then (so_close E, fs)
      else case so_remove E of
        Some e \<Rightarrow> (Some (case so_close E of None \<Rightarrow> e | Some err \<Rightarrow> err), fs)
      | None \<Rightarrow> (so_close E, fs(endpoint := None)))"

definition dial :: "go_error + 'c \<Rightarrow> go_error + 'c" where
  \<comment> \<open>the answer of the operating system for the endpoint\<close>
  "dial connection = (case connection of Inl e \<Rightarrow> Inl (ErrMsg ''connect to IPC socket'') | Inr c \<Rightarrow> Inr c)"

text \<open>The listener on Windows (\<^verbatim>\<open>listener_windows.go\<close>); creating the pipe for system and administrators is a parameter.\<close>

definition listen_windows :: "(string \<Rightarrow> go_error + 'l) \<Rightarrow> string \<Rightarrow> go_error + 'l" where
  "listen_windows ListenPipe endpoint =
     (if \<not> HasPrefix endpoint pipe_prefix then Inl (ErrMsg ''Windows IPC endpoint must be a named pipe'')
      else case ListenPipe endpoint of Inl e \<Rightarrow> Inl (ErrMsg ''listen on IPC named pipe'') | Inr l \<Rightarrow> Inr l)"

section \<open>What the usage text names\<close>

text \<open>
  The usage text offers commands that the handler does not know, and flags after the method: the first have other names in
  the handler, the second become part of the method.
\<close>

lemma usage_commands_unknown:
  assumes "hReady H"
    and "args \<in> {[''send''], [''wait''], [''reply''], [''cancel''], [''pair'', ''status'']}"
    and "iqMethod request = normalizeMethod args"
  shows "HandleIPC H I request s = (Inl ErrMethodNotFound, s)"
  using assms(2) unfolding insert_iff empty_iff
  by (elim disjE FalseE) (use assms(1,3) in \<open>simp_all add: HandleIPC_def Let_def normalizeMethod_def Join_def\<close>)

lemma flags_after_method_unknown:
  assumes "hReady H" and "iqMethod request = normalizeMethod [''status'', ''-data-dir'', dir]"
  shows "HandleIPC H I request s = (Inl ErrMethodNotFound, s)"
  using assms by (simp add: HandleIPC_def Let_def normalizeMethod_def Join_def)

section \<open>The service and the socket\<close>

lemma await_run_decides: "await_run events = (case [r. RunEnds r \<leftarrow> events] of [] \<Rightarrow> None | r # _ \<Rightarrow> Some (exit_of r))"
  by (induction events rule: await_run.induct) simp_all

text \<open>The service exits with the outcome of Run, whatever is requested of it, and reports nothing after it said that it stops.\<close>

lemma service_exit:
  "snd (service_loop events) = (case [r. RunEnds r \<leftarrow> events] of [] \<Rightarrow> None | r # _ \<Rightarrow> Some (exit_of r))"
  by (induction events rule: service_loop.induct) (auto simp: await_run_decides split: prod.splits)

lemma service_reports:
  "\<exists>n. fst (service_loop events) = replicate n Running \<or> fst (service_loop events) = replicate n Running @ [StopPending]"
proof (induction events rule: service_loop.induct)
  case (3 es)
  obtain states r where loop: "service_loop es = (states, r)" by fastforce
  from 3 loop obtain n where "states = replicate n Running \<or> states = replicate n Running @ [StopPending]" by auto
  with loop show ?case by (auto intro: exI[of _ "Suc n"])
qed (auto intro: exI[of _ 0])

text \<open>
  Listening removes nothing but a socket and creates nothing but the socket and its directory. When it succeeds the socket is
  for the user alone, and closing the listener without errors leaves no socket behind.
\<close>

lemma removeStaleSocket_keeps:
  "removeStaleSocket E endpoint fs = (r, fs') \<Longrightarrow>
     fs' = fs \<or> (\<exists>m. fs endpoint = Some (Socket m) \<and> fs' = fs(endpoint := None))"
  by (auto simp: removeStaleSocket_def split: option.splits node.splits)

lemma listen_keeps:
  assumes "listen E endpoint fs = (r, fs')" and "p \<noteq> endpoint" and "p \<noteq> filepath_Dir endpoint"
  shows "fs' p = fs p"
  using assms
  by (auto simp: listen_def Let_def and_then_def dest!: removeStaleSocket_keeps split: if_splits option.splits sum.splits prod.splits)

lemma listen_spares:
  assumes "listen E endpoint fs = (r, fs')" and "fs endpoint = Some OtherNode" and "filepath_Dir endpoint \<noteq> endpoint"
  shows "\<not> ok r \<and> fs' endpoint = Some OtherNode"
  using assms
  by (auto simp: listen_def Let_def and_then_def removeStaleSocket_def ok_def split: if_splits option.splits sum.splits prod.splits)

lemma listen_private:
  assumes "listen E endpoint fs = (Inr (), fs')" and "filepath_Dir endpoint \<noteq> endpoint"
  shows "fs' endpoint = Some (Socket socketMode) \<and> fs' (filepath_Dir endpoint) = Some (Directory dirMode)"
  using assms
  by (auto simp: listen_def Let_def and_then_def dest!: removeStaleSocket_keeps split: if_splits option.splits sum.splits prod.splits)

lemma cleanup_removes: "so_close E = None \<Longrightarrow> cleanup_Close E endpoint fs = (None, fs(endpoint := None))"
  by (simp add: cleanup_Close_def)

section \<open>From the command line to the handler\<close>

lemma validated_endpoint:
  assumes "Config_Validate W h c = Inr v"
  shows "cfgIPCEndpoint c \<noteq> [] \<Longrightarrow> cfgIPCEndpoint v = cfgIPCEndpoint c"
    "\<lbrakk>cfgIPCEndpoint c = []; IsAbs (TrimSpace (cfgDataDir c))\<rbrakk> \<Longrightarrow> cfgIPCEndpoint v = defaultIPCEndpoint h (TrimSpace (cfgDataDir c))"
proof -
  obtain c1 where "config_paths h c = Inr c1" "cfgIPCEndpoint v = cfgIPCEndpoint c1"
    using assms by (auto simp: Config_Validate_def Let_def split: if_splits sum.splits)
  then show "cfgIPCEndpoint c \<noteq> [] \<Longrightarrow> cfgIPCEndpoint v = cfgIPCEndpoint c"
    "\<lbrakk>cfgIPCEndpoint c = []; IsAbs (TrimSpace (cfgDataDir c))\<rbrakk> \<Longrightarrow> cfgIPCEndpoint v = defaultIPCEndpoint h (TrimSpace (cfgDataDir c))"
    by (auto simp: config_paths_def Let_def split: if_splits option.splits)
qed

lemma Join_Cons: "Join sep [] = []" "Join sep [a] = a" "Join sep (a # b # ws) = a @ sep @ Join sep (b # ws)"
  by (simp_all add: Join_def)

lemma normalizeMethod_Join: "normalizeMethod args = Join ''.'' args"
  by (simp add: normalizeMethod_def Join_Cons split: list.split)

lemma defaultIPCEndpoint_nonempty: "defaultIPCEndpoint h dir \<noteq> []"
  by (auto simp: defaultIPCEndpoint_def pipe_prefix_def filepath_Join_def Clean_def Let_def)

text \<open>The daemon listens where the client looks for it, when both are given the same absolute data directory.\<close>

lemma endpoints_agree:
  assumes "Config_Validate W h (linkd_config lf) = Inr v" and "New W h v = Inr (served, d)"
    and "IsAbs (TrimSpace (lfDataDir lf))"
  shows "cfgIPCEndpoint served = cfgIPCEndpoint (DefaultConfig h (lfDataDir lf))"
proof -
  have v: "cfgIPCEndpoint v = defaultIPCEndpoint h (TrimSpace (lfDataDir lf))"
    using validated_endpoint(2)[OF assms(1)] assms(3) by (simp add: linkd_config_def)
  have "Config_Validate W h v = Inr served" using assms(2) by (auto simp: New_def split: sum.splits)
  then have "cfgIPCEndpoint served = cfgIPCEndpoint v"
    by (rule validated_endpoint(1)) (simp add: v defaultIPCEndpoint_nonempty)
  moreover have "TrimSpace (lfDataDir lf) \<noteq> []" using assms(3) by (auto simp: IsAbs_def HasPrefix_def)
  ultimately show ?thesis using v by (simp add: DefaultConfig_def Let_def)
qed

text \<open>
  C20. A command given to the client runs once in the daemon that was started with the same absolute data directory, and
  its result comes back: the client looks for the socket where the daemon listens, the request that arrives has the words of the
  command joined by dots as its method and the given parameters, the handler runs on it once, the client prints the result it
  gave (nothing when it is null) or fails with the code and text of its error, and the state is the one the handler left.
\<close>

theorem command_runs_handler:
  assumes "Config_Validate W (ceHost E) (linkd_config lf) = Inr v" and "New W (ceHost E) v = Inr (served, d)"
    and "lfDataDir lf = clDataDir flags" and "IsAbs (TrimSpace (clDataDir flags))" and "clIPC flags = []"
    and "exchange (cfgIPCEndpoint served) = over_connection J marshal (HandleIPC H I) limit"
    and "clArgs flags \<noteq> []" and "m = Join ''.'' (clArgs flags)" and "m \<notin> {[], ''help'', ''--help''}"
    and "readParams E (clParams flags) = Inr params" and "ceCompact E params = Some payload" and "ceUUID E \<noteq> []"
    and "request = \<lparr>iqVersion = ProtocolVersion, iqRequestID = ceUUID E, iqMethod = m, iqParams = payload\<rparr>"
    and "int (length (Request_Encode J request)) \<le> limit"
    and "HandleIPC H I request s = (outcome, t)" and "ipc_restores J request (answer_of J marshal (ceUUID E) outcome)"
    and "\<And>result. outcome = Inr result \<Longrightarrow> marshal result \<noteq> None \<and> marshal result \<noteq> Some []"
  shows "client_main J E exchange flags s =
    ((case outcome of
        Inl err \<Rightarrow> Fatal (RemoteError \<lparr>reCode = errorCode err, reMessage = Error_text J err\<rparr>)
      | Inr result \<Rightarrow>
          if marshal result = Some ''null'' then Silent
          else (case ceIndent E (the (marshal result)) of
                  None \<Rightarrow> Fatal (CallFailed (ErrMsg ''decode result''))
                | Some text \<Rightarrow> Printed (text @ newline))), t)"
proof -
  let ?view = "\<lambda>r. the (marshal r)"
  have "normalizeMethod (clArgs flags) = m" using assms(8) by (simp add: normalizeMethod_Join)
  moreover have "cfgIPCEndpoint (DefaultConfig (ceHost E) (clDataDir flags)) = cfgIPCEndpoint served"
    using endpoints_agree[OF assms(1,2)] assms(3,4) by simp
  moreover have "Call J (Some payload) (over_connection J marshal (HandleIPC H I) limit) (Some Some) (ceUUID E) m s =
      (case outcome of
         Inl err \<Rightarrow> Inl (RemoteError \<lparr>reCode = errorCode err, reMessage = Error_text J err\<rparr>)
       | Inr result \<Rightarrow> Inr (Some (?view result)), t)"
    using assms(9,17) by (intro ipc_call_returns[where H = "HandleIPC H I" and view = ?view, OF assms(13,15,12) _ assms(14,16)]) auto
  ultimately show ?thesis
    using assms(5-7,9-12,17)
    by (auto simp: client_main_def Let_def split: sum.splits option.splits)
qed

theorem command_runs_handler_witness:
  "client_main demo_ipcjson
     \<lparr>ceHost = demo_host, ceStdinDevice = True, ceStdin = Inr [], ceOpen = (\<lambda>_. Inr (Inr [])), ceValid = (\<lambda>_. True),
      ceCompact = (\<lambda>_. Some ''null''), ceIndent = Some, ceUUID = ''1''\<rparr>
     (\<lambda>_. over_connection demo_ipcjson (\<lambda>r. Some ''status'') (HandleIPC demo_handler demo_ipc) 1024)
     \<lparr>clDataDir = ''/d'', clIPC = [], clParams = [], clArgs = [''status'']\<rparr> demo_daemon = (Printed (''status'' @ newline), demo_daemon)"
proof -
  let ?W = "\<lparr>url_Parse = (\<lambda>_. None), LookupIP = (\<lambda>_. None), netip_ParseAddr = (\<lambda>_. Some ([100, 64, 0, 7], [])), netip_ParsePrefix = (\<lambda>_. None)\<rparr>"
  let ?lf = "(linkd_defaults demo_host)\<lparr>lfDataDir := ''/d'', lfBindIP := ''100.64.0.7''\<rparr>"
  let ?E = "\<lparr>ceHost = demo_host, ceStdinDevice = True, ceStdin = Inr [], ceOpen = (\<lambda>_. Inr (Inr [])), ceValid = (\<lambda>_. True),
      ceCompact = (\<lambda>_. Some ''null''), ceIndent = Some, ceUUID = ''1''\<rparr>"
  have trim: "TrimSpace ''/d'' = ''/d''" "TrimSpace ''100.64.0.7'' = ''100.64.0.7''" "TrimSpace ''dev'' = ''dev''"
    "TrimSpace ''/var/run/tailscale/tailscaled.sock'' = ''/var/run/tailscale/tailscaled.sock''"
    by (rule TrimSpace_visible; simp add: visible_def byte_def)+
  have bind: "ok (ValidateBindAddress ?W DefaultAddressPolicy ''100.64.0.7'')"
    by (subst bind_address_accepted[of _ _ "[100, 64, 0, 7]" "[]"]) (simp_all add: Unmap_def To4_def)
  have abs: "IsAbs ''/d''" "IsAbs ''/var/run/tailscale/tailscaled.sock''" by (simp_all add: IsAbs_def HasPrefix_def)
  obtain v where v: "Config_Validate ?W demo_host (linkd_config ?lf) = Inr v" "TrimSpace (cfgDataDir v) = ''/d''"
    "cfgTailscaleLocalAPISocket v = ''/var/run/tailscale/tailscaled.sock''" "cfgTailscaleBindIP v = ''100.64.0.7''"
    "cfgGatewayPort v = 7443"
    using bind abs
    by (auto simp: Config_Validate_def config_paths_def linkd_config_def linkd_defaults_def DefaultConfig_def trim demo_host_def
        defaultTailscaleLocalAPISocket_def validTailscaleLocalAPIEndpoint_def DefaultGatewayPort_def Let_def ok_iff)
  obtain served d where new: "New ?W demo_host v = Inr (served, d)"
    using bind abs v(2-5)
    by (auto simp: New_def Config_Validate_def config_paths_def trim demo_host_def
        validTailscaleLocalAPIEndpoint_def DefaultGatewayPort_def Let_def ok_iff)
  show ?thesis
    using command_runs_handler[where E = ?E and lf = ?lf and flags = "\<lparr>clDataDir = ''/d'', clIPC = [], clParams = [], clArgs = [''status'']\<rparr>"
        and J = demo_ipcjson and limit = 1024 and s = demo_daemon and marshal = "\<lambda>r. Some ''status''" and H = demo_handler
        and I = demo_ipc and W = ?W and v = v and served = served and d = d and params = "''{}''" and payload = "''null''"
        and m = "''status''"
        and exchange = "\<lambda>_. over_connection demo_ipcjson (\<lambda>r. Some ''status'') (HandleIPC demo_handler demo_ipc) 1024"]
      v(1) new abs trim
    by (simp add: demo_status demo_ipcjson_def ipc_restores_def answer_of_def readParams_def Join_def)
qed

end
