(* ===== verification/Tls.thy ===== *)
theory Tls
  imports Attachment GoText
begin

text \<open>
  \<^verbatim>\<open>internal/transport/tls.go\<close>: TLS configurations and the pinning of the peer's certificate. Parsing of
  certificates is a parameter; the handshake itself belongs to the standard library.
\<close>

section \<open>Configurations\<close>

record certificate =
  cert_Raw :: bytes

record tls_config =
  tlsMinVersion :: string
  tlsMaxVersion :: string
  tlsCertificate :: bytes
  tlsClientCAs :: "bytes list"
  tlsRequireClientCert :: bool
  tlsRootCAs :: "bytes list"
  tlsServerName :: string
  tlsPin :: "string option" \<comment> \<open>the fingerprint that VerifyPeerCertificate was made with\<close>

definition CertificateFingerprint :: "primitives \<Rightarrow> certificate option \<Rightarrow> string" where
  "CertificateFingerprint P cert =
     (case cert of None \<Rightarrow> [] | Some c \<Rightarrow> hex_EncodeToString (sha256 P (cert_Raw c)))"

definition ServerTLSConfig :: "bytes \<Rightarrow> bytes list \<Rightarrow> tls_config" where
  "ServerTLSConfig cert clientCAs =
     \<lparr>tlsMinVersion = ''TLS1.3'', tlsMaxVersion = ''TLS1.3'', tlsCertificate = cert, tlsClientCAs = clientCAs,
      tlsRequireClientCert = True, tlsRootCAs = [], tlsServerName = [], tlsPin = None\<rparr>"

definition ClientTLSConfig :: "bytes \<Rightarrow> bytes list \<Rightarrow> string \<Rightarrow> string \<Rightarrow> go_error + tls_config" where
  "ClientTLSConfig cert roots serverName expectedFingerprint =
     (if TrimSpace expectedFingerprint = [] then Inl (ErrMsg ''expected certificate fingerprint is required'')
      else Inr \<lparr>tlsMinVersion = ''TLS1.3'', tlsMaxVersion = ''TLS1.3'', tlsCertificate = cert, tlsClientCAs = [],
        tlsRequireClientCert = False, tlsRootCAs = roots, tlsServerName = serverName, tlsPin = Some expectedFingerprint\<rparr>)"

definition normalizeFingerprint :: "string \<Rightarrow> string" where
  "normalizeFingerprint v = ToLower (filter (\<lambda>c. c \<noteq> CHR '':'') (TrimSpace v))"

definition VerifyPinnedPeer :: "primitives \<Rightarrow> (bytes \<Rightarrow> certificate option) \<Rightarrow> string \<Rightarrow> bytes list \<Rightarrow> go_error + unit" where
  \<comment> \<open>the second argument is \<^verbatim>\<open>x509.ParseCertificate\<close>\<close>
  "VerifyPinnedPeer P x509_Parse expectedFingerprint rawCertificates =
     (case rawCertificates of
        [] \<Rightarrow> Inl (ErrMsg ''peer certificate fingerprint mismatch'')
      | leaf # _ \<Rightarrow>
          (case x509_Parse leaf of
             None \<Rightarrow> Inl (ErrMsg ''parse peer certificate'')
           | Some cert \<Rightarrow>
               if normalizeFingerprint (CertificateFingerprint P (Some cert)) \<noteq> normalizeFingerprint expectedFingerprint
               then Inl (ErrMsg ''peer certificate fingerprint mismatch'') else Inr ()))"

section \<open>A pin admits one certificate\<close>

lemma hex_char: "c \<in> set (hex_EncodeToString bs) \<Longrightarrow> c \<in> set hex_digits"
proof -
  assume "c \<in> set (hex_EncodeToString bs)"
  then obtain d where "c = hex_digits ! (byte d div 16) \<or> c = hex_digits ! (byte d mod 16)"
    by (auto simp: hex_EncodeToString_def)
  moreover have "byte d div 16 < length hex_digits" "byte d mod 16 < length hex_digits"
    using byte_less[of d] by (simp_all add: hex_digits_def less_mult_imp_div_less)
  ultimately show ?thesis by (metis nth_mem)
qed

lemma hex_normal: "normalizeFingerprint (hex_EncodeToString bs) = hex_EncodeToString bs"
proof -
  let ?h = "hex_EncodeToString bs"
  have plain: "visible c \<and> c \<noteq> CHR '':'' \<and> byte_lower c = c" if "c \<in> set ?h" for c
    using hex_char[OF that] by (auto simp: hex_digits_def visible_def byte_def byte_lower_def)
  have trim: "TrimSpace ?h = ?h"
  proof (cases "?h = []")
    case False
    then show ?thesis using plain by (intro TrimSpace_visible) auto
  qed simp
  have "filter (\<lambda>c. c \<noteq> CHR '':'') ?h = ?h" using plain by (auto simp: filter_id_conv)
  moreover have "map byte_lower ?h = ?h" using plain by (auto intro: map_idI)
  ultimately show ?thesis by (simp add: normalizeFingerprint_def trim ToLower_def)
qed

text \<open>
  The pin of a certificate, in upper or lower case and with or without colons and surrounding space, admits exactly the
  chains whose first certificate has the pinned SHA-256 digest.
\<close>

lemma pinned_peer:
  assumes "normalizeFingerprint pin = CertificateFingerprint P (Some c)"
  shows "VerifyPinnedPeer P X pin chain = Inr () \<longleftrightarrow>
    (\<exists>leaf rest c'. chain = leaf # rest \<and> X leaf = Some c' \<and> sha256 P (cert_Raw c') = sha256 P (cert_Raw c))"
proof -
  have "hex_EncodeToString x = hex_EncodeToString y \<longleftrightarrow> x = y" for x y using hex_inject by blast
  then show ?thesis
    using assms by (auto simp: VerifyPinnedPeer_def CertificateFingerprint_def hex_normal split: list.splits option.splits)
qed

end
