(* ===== verification/Spec2Isabelle.thy ===== *)
theory Spec2Isabelle
  imports Handshake Admission Delivery RouterProps LifecycleProps Schema Commands Tls
begin

text \<open>
  \<^bold>\<open>The program.\<close> snw-agent-link is a daemon (\<^verbatim>\<open>cmd/snw-agent-linkd\<close>) that runs beside the agents of one host, with a command
  line client (\<^verbatim>\<open>cmd/snw-agent-link\<close>). Agents of different hosts are paired by a protocol of signed invites, acceptances,
  confirmations and receipts (\<^verbatim>\<open>internal/pairing\<close>); a pairing makes a contact on each side, and only an active contact may exchange
  traffic. Local programs register agents and send messages through a local socket (\<^verbatim>\<open>internal/ipc\<close>, \<^verbatim>\<open>internal/management\<close>); messages
  wait encrypted in the outbox (\<^verbatim>\<open>internal/store\<close>) until the delivery worker (\<^verbatim>\<open>internal/delivery\<close>) has sent them over the tailnet
  with signed requests (\<^verbatim>\<open>internal/transport\<close>). The daemon of the receiver takes them at its gateway (\<^verbatim>\<open>internal/gateway\<close>), checks
  node, contact, signature and nonce, forwards each message once to the local agent and signs the answer; blobs
  (\<^verbatim>\<open>internal/attachment\<close>) are served there under grants. \<^verbatim>\<open>internal/daemon\<close> starts all of this and stops it again.

  \<^bold>\<open>How code and model correspond.\<close> A struct is a record with one field per Go field, an enumeration a datatype; definitions keep
  the names of the functions, a prefix or suffix tells apart those of the same name (\<open>SSE_Sign\<close>,
  \<open>Capability_Sign\<close>, \<open>NewService_delivery\<close>). A Go string or byte slice is a list of bytes (\<open>char\<close>), an instant the number of nanoseconds since the epoch. An
  operation that writes takes the state and returns a pair of a result (\<open>Inl\<close> an error, \<open>Inr\<close> a value) and the state, which keeps what was
  written before an error. Clocks and random values are arguments: a clock gives the successive readings of one call. The database is the record
  \<open>store\<close> with one list of rows per table; rows hold times cut to milliseconds as the columns do. Files are maps from names to contents
  whose operations may fail as the environment says.

  \<^bold>\<open>Theories.\<close>
  \<^item> \<open>Prelude\<close> (results, sequencing, keyed tables, runs of operations, the locales \<open>invariant_steps\<close> and \<open>monotone_steps\<close>),
    \<open>GoBase\<close>, \<open>GoNet\<close> and \<open>GoText\<close> (what the source uses of \<^verbatim>\<open>time\<close>, \<^verbatim>\<open>strings\<close>, \<^verbatim>\<open>strconv\<close>,
    \<^verbatim>\<open>unicode/utf8\<close>, \<^verbatim>\<open>encoding\<close>, \<^verbatim>\<open>net\<close> and \<^verbatim>\<open>net/url\<close>).
  \<^item> \<open>Model\<close>: \<^verbatim>\<open>model/types.go\<close> and the sentinel errors. \<open>Secure\<close>: \<^verbatim>\<open>secure/aead.go\<close> and the record \<open>primitives\<close> of the
    cryptographic functions. \<open>Identity\<close>: \<^verbatim>\<open>identity/identity.go\<close>.
  \<^item> \<open>Schema\<close>, \<open>Store\<close>, \<open>StoreOutbox\<close>, \<open>StoreInbox\<close>: \<^verbatim>\<open>store/store.go\<close>, from opening the database to its last query.
    \<open>StoreOps\<close>: all writes as one datatype \<open>store_op\<close>, the invariant \<open>wf_store\<close> and what every sequence of writes keeps.
  \<^item> \<open>Pairing\<close>: every operation of \<^verbatim>\<open>pairing/service.go\<close>. \<open>PairingMoves\<close>: how each moves a contact, and the abstract machine of one
    contact. \<open>PairingProps\<close>: what the component promises. \<open>Handshake\<close>: the protocol between two stores.
  \<^item> \<open>Gate\<close>: the locale \<open>active_gate\<close>, interpreted for admission, delivery, gateway, blobs and the two local requests that let traffic through.
  \<^item> \<open>Admission\<close>: \<^verbatim>\<open>admission/service.go\<close>. \<open>Delivery\<close>: \<^verbatim>\<open>delivery/service.go\<close> and \<^verbatim>\<open>delivery/a2a.go\<close>.
  \<^item> \<open>HttpSignature\<close>, \<open>HttpSigned\<close>: \<^verbatim>\<open>transport/http_signature.go\<close> and what its signatures cover. \<open>SSE\<close>, \<open>SSEProps\<close>:
    \<^verbatim>\<open>transport/sse.go\<close>, \<^verbatim>\<open>response.go\<close> and \<^verbatim>\<open>signing.go\<close>. \<open>Tls\<close>: \<^verbatim>\<open>transport/tls.go\<close>.
  \<^item> \<open>Gateway\<close>: the handlers of \<^verbatim>\<open>gateway/\<close>. \<open>GatewayProps\<close>: admission and replay at the gateway. \<open>GatewayDedup\<close>: its handlers as
    interleaved database statements. \<open>Router\<close>, \<open>RouterProps\<close>: \<^verbatim>\<open>Router.Handler\<close> with the mux and the signing middleware, and the exchange
    between two daemons.
  \<^item> \<open>Attachment\<close>, \<open>AttachmentProps\<close>, \<open>BlobSignature\<close>, \<open>Receiver\<close>: \<^verbatim>\<open>attachment/service.go\<close>, \<^verbatim>\<open>http_signature.go\<close> and
    \<^verbatim>\<open>receiver.go\<close>. \<open>Tailscale\<close>: \<^verbatim>\<open>tailscale/address.go\<close> and the decisions of \<^verbatim>\<open>whois.go\<close>.
  \<^item> \<open>Capability\<close>: \<^verbatim>\<open>capability/capability.go\<close> and \<^verbatim>\<open>registration/service.go\<close>. \<open>IdentityStore\<close>: \<^verbatim>\<open>identitystore/file.go\<close>.
  \<^item> \<open>Ipc\<close>: protocol, one connection of the server and one call of the client of \<^verbatim>\<open>internal/ipc\<close>. \<open>ManagementTypes\<close>, \<open>Management\<close>:
    \<^verbatim>\<open>management/types.go\<close> and \<^verbatim>\<open>handler.go\<close> on the state \<open>mstate\<close> of all services. \<open>ManagementProps\<close>, \<open>ManagementFlows\<close>: what
    single requests and sequences of them do.
  \<^item> \<open>Daemon\<close>: \<^verbatim>\<open>daemon/config.go\<close>, \<^verbatim>\<open>keys.go\<close>, the runtime status and the choice of the response signer. \<open>Lifecycle\<close>,
    \<open>LifecycleProps\<close>: \<^verbatim>\<open>Run\<close>, \<^verbatim>\<open>Close\<close>, the delivery worker and the IPC server as steps of one state \<open>daemon\<close>.
  \<^item> \<open>Commands\<close>: the two \<^verbatim>\<open>main\<close> functions, the Windows service, and the listeners of \<^verbatim>\<open>internal/ipc\<close>.
  \<^item> \<open>Demo\<close>, \<open>ManagementDemo\<close>: concrete agents, stores and a daemon for the examples. This theory: what holds across components.
\<close>

text \<open>
  \<^bold>\<open>What is shown.\<close>
  \<^item> Pairing: the handshake completes and activates both sides; every operation refines the abstract machine of a contact; activation needs a
    message signed under the session's key; invites are used once; a block holds and stops pairing; closing a contact cancels its messages and
    revokes its grants. A refused import that leaves its session behind is shown to be exploitable.
  \<^item> Reachability: once blocked, an agent reaches none of the components, and none of them reaches it.
  \<^item> Store: keys stay unique; final states stay; receipts exist for delivered messages only; due messages are found in order; a database
    of an older version is brought up to date, with the exception that is shown there.
  \<^item> Traffic: an admitted envelope is not admitted again; a delivery pass settles every due message and its retry delay is the capped exponential
    one; the gateway forwards a message once under every interleaving of its handlers, answers a retry from the store and returns; a copied
    request is refused for five minutes, and for no longer.
  \<^item> Signatures: two requests that verify over the same bytes agree in all that matters; a signed event stream parses back and its hash chain
    binds it; a request signed by one daemon passes the mux, the checks and the forwarding of the other, and its signed answer is accepted.
  \<^item> Attachments: an upload reads back byte for byte; what is served has the announced size and digest; every download ends, and a completed one
    is verified.
  \<^item> Local interface: sending and ensuring are idempotent; a capability exchange gives a session for what was asked; rotation ends sessions; requests
    act on store and attachments only through their operations; a command typed on the command line runs its handler once and prints its result.
  \<^item> Process: a validated configuration binds to the tailnet only; delivery passes see an open database, and after Run has returned nothing is
    left open; Run does return once its context is done.

  \<^bold>\<open>Parameters and hypotheses.\<close> Ed25519, SHA-256 and AES-GCM (\<open>primitives\<close>), JSON encoders, parsing of URLs, addresses and certificates, the
  tailnet's WhoIs, the A2A library with the local agents behind it and the operating system are arguments. What a theorem needs of them is a
  named hypothesis that states documented behaviour: \<open>sign_verifies\<close>, \<open>seal_opens\<close>, \<open>signature_size\<close>, \<open>sha256_size\<close>, that a
  decoder undoes its encoder on the values of the theorem (\<open>json_restores\<close>, \<open>ipc_restores\<close>); where a result would need that SHA-256 has no
  collision, the statement says which inputs would collide. The examples use \<open>clear_primitives\<close>, on which the hypotheses hold.

  \<^bold>\<open>Recursion and bounds.\<close> No definition uses fuel. Loops that might not end (\<open>serveA2AWithDedup\<close>, \<open>receive_loop\<close>,
  \<open>loadOrCreateOutboxKey\<close>) are \<open>partial_function (option)\<close>, so that not returning is the value \<open>None\<close>, and it is shown when they return;
  everything else is total. Sizes and times that Go keeps in 64 bits are integers here where the code's own guards bound them, as the
  size of a download; where a product or sum is cut off (the retry delay, the port in an address) the model writes it out. The bound of 80 steps
  on a run of the process counts the steps left at each program point.

  \<^bold>\<open>Not modelled.\<close>
  \<^item> The two files \<^verbatim>\<open>tailscale/localapi_dial_*.go\<close>, one system call each, and connections themselves: bytes and timeouts on a socket, TLS
    handshakes, goroutines per connection (a handler is a function, and concurrent gateway handlers are the steps of \<open>GatewayDedup\<close>).
  \<^item> SQLite and its transactions: a store operation is one atomic step, and so is a local request; the steps of \<open>GatewayDedup\<close> are the single
    statements of the one handler whose interleaving matters. Disk errors of the database occur only when it is opened.
  \<^item> The A2A library behind \<^verbatim>\<open>gateway/forward.go\<close> and \<^verbatim>\<open>gateway/handler.go\<close>: the methods that hand a call on to it are the function
    \<open>sv_forward\<close>. The answer of \<^verbatim>\<open>http.RedirectHandler\<close> is a parameter.
  \<^item> Parsing of command line flags, signals, the Windows service manager and the Windows pipe. File paths are those of Unix.
\<close>

section \<open>A blocked agent is unreachable in both directions\<close>

text \<open>
  C9. Once a contact is blocked, and whatever pairing operations follow other than the approval of an acceptance and a
  revocation notice of the peer, no component carries traffic for it any more: admission refuses the peer's envelopes, the delivery
  transport sends nothing to the peer, the gateway forwards none of its requests to the local agent, no blob is served to it, and the daemon takes no message for it from local programs and
  grants it no attachment.
\<close>

theorem blocked_unreachable:
  assumes "wf_store s" and "Block t0 a b s = (Inr k, t)" and "\<not> list_ex unblocks xs" and "u = run (pairing_step L) xs t"
  shows "(inLocalAgentID input = a \<and> seAgentID (inEnvelope input) = b \<longrightarrow> fst (Authorize P skew c e input u) \<noteq> Inr ()) \<and>
    (omSourceAgentID m = a \<and> omTargetAgentID m = b \<longrightarrow> \<not> ok (fst (Dynamic_Deliver N client tr c m u))) \<and>
    (target_agent req = a \<and> Header_Get (rqHeader req) agentIDHeader = b \<longrightarrow>
       (\<forall>response forwarded v. a2a P isPrint W r c V remoteAddr req u = Some ((response, forwarded), v) \<longrightarrow> forwarded = [])) \<and>
    (Header_Get (rqHeader breq) agentIDHeader = b \<longrightarrow> rsStatus (fst (blob P isPrint r B files breq a i u)) \<noteq> 206) \<and>
    (smSourceAgentID sp = a \<and> smTargetAgentID sp = b \<longrightarrow> \<not> ok (fst (sendMessage E sp (st\<lparr>mStore := u\<rparr>)))) \<and>
    (gpAgentID gp = a \<and> gpTargetAgentID gp = b \<longrightarrow> \<not> ok (fst (grantAttachment H E gp (st\<lparr>mStore := u\<rparr>))))"
  using admit_active.refused_after_Block[OF assms(1,2) _ assms(3), where x="(skew, c, e, input)" and L=L and P=P]
    deliver_active.refused_after_Block[OF assms(1,2) _ assms(3), where x=m and L=L and N=N and client=client and tr=tr and ca=c]
    a2a_active.refused_after_Block[OF assms(1,2) _ assms(3), where x="(r, c, V, remoteAddr, req)" and L=L and P=P and isPrint=isPrint and W=W]
    blob_active.refused_after_Block[OF assms(1,2) _ assms(3), where x="(r, B, files, breq, a, i)" and L=L and P=P and isPrint=isPrint]
    send_active.refused_after_Block[OF assms(1,2) _ assms(3), where x="(E, sp, st)" and L=L]
    grant_active.refused_after_Block[OF assms(1,2) _ assms(3), where x="(H, E, gp, st)" and L=L]
  unfolding assms(4) by auto

theorem blocked_unreachable_witness:
  "\<exists>k t. Block (\<lambda>n. int n) ''alice'' ''bob'' demo_active = (Inr k, t) \<and>
     fst (Authorize clear_primitives (5 * Minute) (\<lambda>_. 0) ''e1'' demo_admission t) \<noteq> Inr ()"
proof -
  obtain k t where b: "Block (\<lambda>n. int n) ''alice'' ''bob'' demo_active = (Inr k, t)"
    using close_contact_closes[OF wf_demo_active GetContact_active, of "\<lambda>n. int n" ContactStateBlocked]
    by (auto simp: Block_def GetContact_active)
  have "inLocalAgentID demo_admission = ''alice''" "seAgentID (inEnvelope demo_admission) = ''bob''"
    by (simp_all add: demo_admission_def demo_envelope_def Sign_def)
  with b show ?thesis using blocked_unreachable[OF wf_demo_active b, of "[]", THEN conjunct1] by auto
qed

end
